(* ===== verification/Capsule_Prelude.thy ===== *)
theory Capsule_Prelude
  imports Main "HOL-Library.Word" "HOL-Library.Sublist"
begin

text \<open>
  The prelude of the development: fact collections, Rust's \<open>Result\<close> as a sum type with the
  \<open>?\<close> operator, and the generic facts on lists, words and bytes that the component theories
  share.  Nothing here models a file of the repository.
\<close>

named_theorems capsule_defs \<open>unfolding equations of the model's small operations\<close>
named_theorems result_elims \<open>eliminations of a successful fallible computation\<close>

subsection \<open>Types shared by all components\<close>

type_synonym u8 = "8 word"
type_synonym u16 = "16 word"
type_synonym u32 = "32 word"
type_synonym u64 = "64 word"
type_synonym bytes = "8 word list"

text \<open>\<open>Result<T, E>\<close>: \<open>Inl\<close> is \<open>Err\<close>, \<open>Inr\<close> is \<open>Ok\<close>.\<close>

type_synonym ('e, 'a) result = "'e + 'a"

subsection \<open>The question-mark operator\<close>

definition rbind :: "('e, 'a) result \<Rightarrow> ('a \<Rightarrow> ('e, 'b) result) \<Rightarrow> ('e, 'b) result" where
  "rbind r f = (case r of Inl e \<Rightarrow> Inl e | Inr x \<Rightarrow> f x)"

definition map_err :: "('e \<Rightarrow> 'f) \<Rightarrow> ('e, 'a) result \<Rightarrow> ('f, 'a) result" where
  "map_err g r = (case r of Inl e \<Rightarrow> Inl (g e) | Inr x \<Rightarrow> Inr x)"

definition ok_or :: "'e \<Rightarrow> 'a option \<Rightarrow> ('e, 'a) result" where
  "ok_or e o' = (case o' of None \<Rightarrow> Inl e | Some x \<Rightarrow> Inr x)"

definition bail_if :: "bool \<Rightarrow> 'e \<Rightarrow> ('e, unit) result" where
  "bail_if b e = (if b then Inl e else Inr ())"

definition is_ok :: "('e, 'a) result \<Rightarrow> bool" where
  "is_ok r = (case r of Inl _ \<Rightarrow> False | Inr _ \<Rightarrow> True)"

text \<open>\<open>iter().map(f).collect::<Result<Vec<_>>>()\<close>: stops at the first error.\<close>

fun collect_results :: "('a \<Rightarrow> ('e, 'b) result) \<Rightarrow> 'a list \<Rightarrow> ('e, 'b list) result" where
  "collect_results f [] = Inr []"
| "collect_results f (x # xs) = rbind (f x) (\<lambda>y. rbind (collect_results f xs) (\<lambda>ys. Inr (y # ys)))"

text \<open>The same for code that changes a state before it may fail: the state is kept either way.\<close>

definition sbind ::
  "'s \<times> ('e, 'a) result \<Rightarrow> ('s \<Rightarrow> 'a \<Rightarrow> 's \<times> ('e, 'b) result) \<Rightarrow> 's \<times> ('e, 'b) result" where
  "sbind r f = (case r of (s, Inl e) \<Rightarrow> (s, Inl e) | (s, Inr x) \<Rightarrow> f s x)"

text \<open>A fallible update: on failure the old state remains.\<close>

definition supd :: "'s \<Rightarrow> ('e, 's \<times> 'a) result \<Rightarrow> 's \<times> ('e, 'a) result" where
  "supd s r = (case r of Inl e \<Rightarrow> (s, Inl e) | Inr (s', x) \<Rightarrow> (s', Inr x))"

lemma sbind_simps [simp]:
  "sbind (s, Inl e) f = (s, Inl e)"
  "sbind (s, Inr x) f = f s x"
  by (simp_all add: sbind_def)

lemma supd_simps [simp]:
  "supd s (Inl e) = (s, Inl e)"
  "supd s (Inr (s', x)) = (s', Inr x)"
  by (simp_all add: supd_def)

lemma sbind_cases:
  assumes "sbind (s, r) f = (s', r')"
  obtains e where "r = Inl e" "s' = s" "r' = Inl e"
  | x where "r = Inr x" "f s x = (s', r')"
  using assms by (cases r) auto

lemma rbind_simps [simp]:
  "rbind (Inl e) f = Inl e"
  "rbind (Inr x) f = f x"
  by (simp_all add: rbind_def)

lemma rbind_eq_Inr [result_elims]:
  "rbind r f = Inr y \<longleftrightarrow> (\<exists>x. r = Inr x \<and> f x = Inr y)"
  by (cases r) auto

lemma rbind_eq_Inl:
  "rbind r f = Inl e \<longleftrightarrow> r = Inl e \<or> (\<exists>x. r = Inr x \<and> f x = Inl e)"
  by (cases r) auto

lemma map_err_simps [simp]:
  "map_err g (Inl e) = Inl (g e)"
  "map_err g (Inr x) = Inr x"
  by (simp_all add: map_err_def)

lemma map_err_eq_Inr [result_elims]: "map_err g r = Inr y \<longleftrightarrow> r = Inr y"
  by (cases r) auto

lemma ok_or_simps [simp]:
  "ok_or e None = Inl e"
  "ok_or e (Some x) = Inr x"
  by (simp_all add: ok_or_def)

lemma ok_or_eq_Inr [result_elims]: "ok_or e v = Inr y \<longleftrightarrow> v = Some y"
  by (cases v) auto

lemma bail_if_simps [simp]:
  "bail_if True e = Inl e"
  "bail_if False e = Inr ()"
  by (simp_all add: bail_if_def)

lemma bail_if_eq_Inr [result_elims]: "bail_if b e = Inr u \<longleftrightarrow> \<not> b"
  by (simp add: bail_if_def)

lemma is_ok_simps [simp]:
  "is_ok (Inl e) = False"
  "is_ok (Inr x) = True"
  by (simp_all add: is_ok_def)

lemma is_ok_iff: "is_ok r \<longleftrightarrow> (\<exists>x. r = Inr x)"
  by (cases r) auto

lemma collect_results_length:
  "collect_results f xs = Inr ys \<Longrightarrow> length ys = length xs"
  by (induction xs arbitrary: ys) (auto simp: result_elims)

lemma collect_results_eq_Inr:
  "collect_results f xs = Inr ys \<longleftrightarrow> list_all2 (\<lambda>x y. f x = Inr y) xs ys"
proof (induction xs arbitrary: ys)
  case Nil
  then show ?case by auto
next
  case (Cons x xs)
  then show ?case
    by (cases ys) (auto simp: result_elims list_all2_Cons1)
qed

subsection \<open>Lists\<close>

lemma list_all2_take_prefix:
  "list_all2 P xs (take (length xs) ys) \<Longrightarrow> length xs \<le> length ys"
  by (auto dest: list_all2_lengthD)

lemma prefix_iff_take: "prefix xs ys \<longleftrightarrow> take (length xs) ys = xs"
  by (auto simp: prefix_def) (metis append_take_drop_id)

lemma map_of_filter_key:
  "map_of (filter (\<lambda>(k, v). P k) xs) k = (if P k then map_of xs k else None)"
  by (induction xs) auto

lemma map_of_map_filter_keys:
  "k \<notin> fst ` set xs \<Longrightarrow> map_of xs k = None"
  by (simp add: map_of_eq_None_iff)

subsection \<open>Words as naturals\<close>

lemma unat_u32_less [simp]: "unat (w :: u32) < 4294967296"
  using unsigned_less [of w] by simp

lemma unat_u8_less [simp]: "unat (w :: u8) < 256"
  using unsigned_less [of w] by simp

lemma unat_of_nat_u32: "n < 4294967296 \<Longrightarrow> unat (of_nat n :: u32) = n"
  by (simp add: unat_of_nat take_bit_eq_mod)

lemma unat_of_nat_u8: "n < 256 \<Longrightarrow> unat (of_nat n :: u8) = n"
  by (simp add: unat_of_nat take_bit_eq_mod)

lemma of_nat_unat_u32 [simp]: "of_nat (unat (w :: u32)) = w"
  by (simp add: word_unat_eq_iff unat_of_nat_u32)

lemma of_nat_unat_u8 [simp]: "of_nat (unat (w :: u8)) = w"
  by (simp add: word_unat_eq_iff unat_of_nat_u8)

text \<open>Rust's checked arithmetic.\<close>

definition checked_add :: "'a::len word \<Rightarrow> 'a word \<Rightarrow> 'a word option" where
  "checked_add a b = (if unat a + unat b < 2 ^ LENGTH('a) then Some (a + b) else None)"

definition checked_mul :: "'a::len word \<Rightarrow> 'a word \<Rightarrow> 'a word option" where
  "checked_mul a b = (if unat a * unat b < 2 ^ LENGTH('a) then Some (a * b) else None)"

definition saturating_add :: "'a::len word \<Rightarrow> 'a word \<Rightarrow> 'a word" where
  "saturating_add a b = (if unat a + unat b < 2 ^ LENGTH('a) then a + b else - 1)"

lemma checked_add_Some:
  "checked_add a b = Some c \<Longrightarrow> unat c = unat a + unat b"
  by (auto simp: checked_add_def unat_word_ariths split: if_splits)

lemma checked_mul_Some:
  "checked_mul a b = Some c \<Longrightarrow> unat c = unat a * unat b"
  by (auto simp: checked_mul_def unat_word_ariths split: if_splits)

lemma saturating_add_ge:
  fixes a b :: "'a::len word"
  shows "a \<le> saturating_add a b"
proof (cases "unat a + unat b < 2 ^ LENGTH('a)")
  case True
  then show ?thesis by (simp add: saturating_add_def word_le_nat_alt unat_word_ariths)
next
  case False
  then show ?thesis by (simp add: saturating_add_def)
qed

end
