(* ===== verification/Rust_Std.thy ===== *)
theory Rust_Std
  imports Capsule_Prelude
begin

text \<open>
  What the repository uses of Rust's standard library on strings and paths.  A \<open>str\<close> is its
  UTF-8 byte sequence (a HOL \<open>string\<close>), so \<open>len()\<close> is \<open>length\<close>.  A \<open>Path\<close> is the list of its
  components: \<open>==\<close>, \<open>starts_with\<close>, \<open>parent\<close>, \<open>file_name\<close> and \<open>components\<close> of the standard
  library are all functions of that list (Unix rules).
\<close>

subsection \<open>Trimming\<close>

text \<open>The UTF-8 encodings of the characters with the Unicode property White_Space.\<close>

definition white_space :: "string list" where
  "white_space =
     [[CHR 0x20], [CHR 0x09], [CHR 0x0A], [CHR 0x0B], [CHR 0x0C], [CHR 0x0D],
      [CHR 0xC2, CHR 0x85], [CHR 0xC2, CHR 0xA0], [CHR 0xE1, CHR 0x9A, CHR 0x80],
      [CHR 0xE2, CHR 0x80, CHR 0x80], [CHR 0xE2, CHR 0x80, CHR 0x81],
      [CHR 0xE2, CHR 0x80, CHR 0x82], [CHR 0xE2, CHR 0x80, CHR 0x83],
      [CHR 0xE2, CHR 0x80, CHR 0x84], [CHR 0xE2, CHR 0x80, CHR 0x85],
      [CHR 0xE2, CHR 0x80, CHR 0x86], [CHR 0xE2, CHR 0x80, CHR 0x87],
      [CHR 0xE2, CHR 0x80, CHR 0x88], [CHR 0xE2, CHR 0x80, CHR 0x89],
      [CHR 0xE2, CHR 0x80, CHR 0x8A], [CHR 0xE2, CHR 0x80, CHR 0xA8],
      [CHR 0xE2, CHR 0x80, CHR 0xA9], [CHR 0xE2, CHR 0x80, CHR 0xAF],
      [CHR 0xE2, CHR 0x81, CHR 0x9F], [CHR 0xE3, CHR 0x80, CHR 0x80]]"

definition starts_with :: "string \<Rightarrow> string \<Rightarrow> bool" where
  "starts_with s p = (take (length p) s = p)"

definition ends_with :: "string \<Rightarrow> string \<Rightarrow> bool" where
  "ends_with s p = (length p \<le> length s \<and> drop (length s - length p) s = p)"

definition strip_prefix :: "string \<Rightarrow> string \<Rightarrow> string option" where
  "strip_prefix p s = (if starts_with s p then Some (drop (length p) s) else None)"

definition strip_suffix :: "string \<Rightarrow> string \<Rightarrow> string option" where
  "strip_suffix p s = (if ends_with s p then Some (take (length s - length p) s) else None)"

definition unwrap_or :: "'a \<Rightarrow> 'a option \<Rightarrow> 'a" where
  "unwrap_or d v = (case v of None \<Rightarrow> d | Some x \<Rightarrow> x)"

lemma unwrap_or_simps [simp]:
  "unwrap_or d None = d"
  "unwrap_or d (Some x) = x"
  by (simp_all add: unwrap_or_def)

lemma white_space_nonempty: "w \<in> set white_space \<Longrightarrow> w \<noteq> []"
  by (auto simp: white_space_def)

lemma find_white_space: "find P white_space = Some w \<Longrightarrow> w \<noteq> []"
  by (metis find_Some_iff nth_mem white_space_nonempty)

function trim_start :: "string \<Rightarrow> string" where
  "trim_start s =
     (case find (\<lambda>w. starts_with s w) white_space of
        None \<Rightarrow> s
      | Some w \<Rightarrow> if s = [] then [] else trim_start (drop (length w) s))"
  by pat_completeness auto
termination
  by (relation "measure length") (auto dest: find_white_space)

function trim_end :: "string \<Rightarrow> string" where
  "trim_end s =
     (case find (\<lambda>w. ends_with s w) white_space of
        None \<Rightarrow> s
      | Some w \<Rightarrow> if s = [] then [] else trim_end (take (length s - length w) s))"
  by pat_completeness auto
termination
  by (relation "measure length") (auto dest: find_white_space)

declare trim_start.simps [simp del] trim_end.simps [simp del]

definition trim :: "string \<Rightarrow> string" where
  "trim s = trim_end (trim_start s)"

text \<open>\<open>trim_start_matches\<close> with a non-empty string pattern removes the pattern repeatedly.\<close>

function trim_start_matches :: "string \<Rightarrow> string \<Rightarrow> string" where
  "trim_start_matches p s =
     (if p \<noteq> [] \<and> starts_with s p then trim_start_matches p (drop (length p) s) else s)"
  by pat_completeness auto
termination
proof (relation "measure (\<lambda>(p, s). length s)", goal_cases)
  case 1
  show ?case by simp
next
  case (2 p s)
  then show ?case by (cases s) (auto simp: starts_with_def)
qed

declare trim_start_matches.simps [simp del]

subsection \<open>Letter case, splitting, searching\<close>

definition ascii_lower :: "char \<Rightarrow> char" where
  "ascii_lower c =
     (if 65 \<le> (of_char c :: nat) \<and> (of_char c :: nat) \<le> 90
      then char_of ((of_char c :: nat) + 32) else c)"

definition to_ascii_lowercase :: "string \<Rightarrow> string" where
  "to_ascii_lowercase s = map ascii_lower s"

definition eq_ignore_ascii_case :: "string \<Rightarrow> string \<Rightarrow> bool" where
  "eq_ignore_ascii_case a b = (to_ascii_lowercase a = to_ascii_lowercase b)"

definition is_ascii :: "string \<Rightarrow> bool" where
  "is_ascii s = list_all (\<lambda>c. (of_char c :: nat) < 128) s"

definition is_ascii_alphanumeric :: "char \<Rightarrow> bool" where
  "is_ascii_alphanumeric c =
     (let n = (of_char c :: nat)
      in (48 \<le> n \<and> n \<le> 57) \<or> (65 \<le> n \<and> n \<le> 90) \<or> (97 \<le> n \<and> n \<le> 122))"

fun split_on :: "char \<Rightarrow> string \<Rightarrow> string list" where
  "split_on c [] = [[]]"
| "split_on c (x # xs) =
     (if x = c then [] # split_on c xs
      else (case split_on c xs of [] \<Rightarrow> [[x]] | y # ys \<Rightarrow> (x # y) # ys))"

text \<open>\<open>split_once\<close>: the text before and after the first occurrence of the character.\<close>

fun split_once :: "char \<Rightarrow> string \<Rightarrow> (string \<times> string) option" where
  "split_once c [] = None"
| "split_once c (x # xs) =
     (if x = c then Some ([], xs)
      else map_option (\<lambda>(a, b). (x # a, b)) (split_once c xs))"

fun contains_str :: "string \<Rightarrow> string \<Rightarrow> bool" where
  "contains_str [] p = (p = [])"
| "contains_str (x # xs) p = (starts_with (x # xs) p \<or> contains_str xs p)"

text \<open>Decimal formatting of an unsigned integer (\<open>format!("{}", n)\<close>).\<close>

fun show_nat :: "nat \<Rightarrow> string" where
  "show_nat n =
     (if n < 10 then [char_of (48 + n)] else show_nat (n div 10) @ [char_of (48 + n mod 10)])"

declare show_nat.simps [simp del]

definition show_int :: "int \<Rightarrow> string" where
  "show_int i = (if i < 0 then ''-'' @ show_nat (nat (- i)) else show_nat (nat i))"

subsection \<open>Paths\<close>

datatype component = RootDir | CurDir | ParentDir | Normal string

type_synonym path = "component list"

definition part_component :: "string \<Rightarrow> component" where
  "part_component p = (if p = ''..'' then ParentDir else Normal p)"

definition components :: "string \<Rightarrow> path" where
  "components s =
     (let parts = filter (\<lambda>p. p \<noteq> []) (split_on (CHR ''/'') s);
          norm = (\<lambda>ps. map part_component (filter (\<lambda>p. p \<noteq> ''.'') ps))
      in if starts_with s ''/'' then RootDir # norm parts
         else (case parts of
                 [] \<Rightarrow> []
               | p # ps \<Rightarrow> if p = ''.'' then CurDir # norm ps else norm parts))"

definition is_absolute :: "path \<Rightarrow> bool" where
  "is_absolute p = (case p of [] \<Rightarrow> False | c # _ \<Rightarrow> c = RootDir)"

definition path_starts_with :: "path \<Rightarrow> path \<Rightarrow> bool" where
  "path_starts_with p base = prefix base p"

text \<open>\<open>join\<close> and \<open>push\<close>: an absolute argument replaces the path.\<close>

definition path_join :: "path \<Rightarrow> path \<Rightarrow> path" where
  "path_join a b =
     (if is_absolute b then b
      else if a = [] then b
      else a @ filter (\<lambda>c. c \<noteq> CurDir) b)"

definition path_parent :: "path \<Rightarrow> path option" where
  "path_parent p =
     (if p = [] \<or> last p = RootDir then None else Some (butlast p))"

definition path_file_name :: "path \<Rightarrow> string option" where
  "path_file_name p =
     (if p = [] then None else (case last p of Normal n \<Rightarrow> Some n | _ \<Rightarrow> None))"

definition normal_path :: "string list \<Rightarrow> path" where
  "normal_path ns = map Normal ns"

subsection \<open>Facts\<close>

lemma starts_with_Nil [simp]: "starts_with s []"
  by (simp add: starts_with_def)

lemma starts_with_append [simp]: "starts_with (p @ s) p"
  by (simp add: starts_with_def)

lemma starts_with_iff: "starts_with s p \<longleftrightarrow> (\<exists>t. s = p @ t)"
  unfolding starts_with_def by (metis append_eq_conv_conj append_take_drop_id)

lemma strip_prefix_append [simp]: "strip_prefix p (p @ s) = Some s"
  by (simp add: strip_prefix_def)

lemma strip_prefix_eq_Some: "strip_prefix p s = Some t \<longleftrightarrow> s = p @ t"
  by (auto simp: strip_prefix_def starts_with_iff split: if_splits)

text \<open>A string of visible ASCII characters has nothing to trim.\<close>

definition visible_ascii :: "char \<Rightarrow> bool" where
  "visible_ascii c \<longleftrightarrow> 33 \<le> (of_char c :: nat) \<and> (of_char c :: nat) \<le> 126"

lemma white_space_not_visible: "w \<in> set white_space \<Longrightarrow> x \<in> set w \<Longrightarrow> \<not> visible_ascii x"
  by (auto simp: visible_ascii_def white_space_def)

lemma starts_with_subset: "starts_with s w \<Longrightarrow> set w \<subseteq> set s"
  by (auto simp: starts_with_def) (metis in_set_takeD)

lemma ends_with_subset: "ends_with s w \<Longrightarrow> set w \<subseteq> set s"
  by (auto simp: ends_with_def) (metis in_set_dropD)

lemma no_white_space_found:
  assumes "list_all visible_ascii s"
    and sub: "\<And>w. P w \<Longrightarrow> set w \<subseteq> set s"
  shows "find P white_space = None"
proof (rule ccontr)
  assume "find P white_space \<noteq> None"
  then obtain w where w: "w \<in> set white_space" "P w"
    by (auto simp: find_None_iff)
  then obtain x where "x \<in> set w" using white_space_nonempty by (metis list.set_sel(1))
  with w have "\<not> visible_ascii x" "x \<in> set s" using sub white_space_not_visible by blast+
  with assms(1) show False by (simp add: list_all_iff)
qed

lemma trim_visible: "list_all visible_ascii s \<Longrightarrow> trim s = s"
  by (simp add: trim_def trim_start.simps trim_end.simps no_white_space_found
      starts_with_subset ends_with_subset)

lemma ascii_lower_idem [simp]: "ascii_lower (ascii_lower c) = ascii_lower c"
proof (cases "65 \<le> (of_char c :: nat) \<and> (of_char c :: nat) \<le> 90")
  case True
  then have "(of_char (char_of ((of_char c :: nat) + 32)) :: nat) = of_char c + 32"
    by simp
  with True show ?thesis by (simp add: ascii_lower_def)
next
  case False
  then have "ascii_lower c = c" unfolding ascii_lower_def by argo
  then show ?thesis by simp
qed

lemma to_ascii_lowercase_idem [simp]:
  "to_ascii_lowercase (to_ascii_lowercase s) = to_ascii_lowercase s"
  by (simp add: to_ascii_lowercase_def)

lemma length_to_ascii_lowercase [simp]: "length (to_ascii_lowercase s) = length s"
  by (simp add: to_ascii_lowercase_def)

lemma ascii_lower_eq_iff:
  assumes "\<not> is_ascii_alphanumeric d"
  shows "ascii_lower c = d \<longleftrightarrow> c = d"
  using assms by (auto simp: ascii_lower_def is_ascii_alphanumeric_def Let_def split: if_splits)

lemma split_on_nonempty [simp]: "split_on c s \<noteq> []"
  by (induction s) (auto split: list.splits)

lemma split_on_no_sep: "part \<in> set (split_on c s) \<Longrightarrow> c \<notin> set part"
proof (induction s arbitrary: part)
  case Nil
  then show ?case by simp
next
  case (Cons x xs)
  show ?case
  proof (cases "split_on c xs")
    case Nil
    then show ?thesis by simp
  next
    case (Cons y ys)
    with Cons.prems Cons.IH show ?thesis by (auto split: if_splits)
  qed
qed

lemma split_on_map_lower:
  assumes "\<not> is_ascii_alphanumeric c"
  shows "split_on c (to_ascii_lowercase s) = map to_ascii_lowercase (split_on c s)"
proof (induction s)
  case Nil
  then show ?case by (simp add: to_ascii_lowercase_def)
next
  case (Cons x xs)
  have "ascii_lower x = c \<longleftrightarrow> x = c"
    using assms by (rule ascii_lower_eq_iff)
  with Cons show ?case
    by (cases "split_on c xs") (auto simp: to_ascii_lowercase_def)
qed

lemma split_once_Some:
  "split_once c s = Some (a, b) \<longleftrightarrow> s = a @ c # b \<and> c \<notin> set a"
proof (induction s arbitrary: a)
  case Nil
  then show ?case by simp
next
  case (Cons x xs)
  then show ?case by (cases a) auto
qed

lemma components_no_CurDir_absolute:
  assumes "is_absolute (components s)"
  shows "CurDir \<notin> set (components s)"
  using assms
  by (auto simp: components_def is_absolute_def Let_def part_component_def
      split: list.splits if_splits)

lemma path_join_normal [simp]:
  "a \<noteq> [] \<Longrightarrow> path_join a (normal_path ns) = a @ normal_path ns"
  by (cases ns) (auto simp: path_join_def is_absolute_def normal_path_def filter_id_conv)

end
