(* ===== verification/Rust_Net.thy ===== *)
theory Rust_Net
  imports Rust_Std
begin

text \<open>
  The textual form of \<open>std::net::IpAddr\<close>, as the standard library's recursive-descent parser
  reads it: four decimal octets without superfluous zeros, or up to eight hexadecimal groups with
  at most one \<open>::\<close> and an optional trailing embedded IPv4 address.  The policy and the proxies
  decide between "address" and "name" by whether this parser accepts the host.
\<close>

datatype ip_addr = V4 "nat list" | V6 "nat list"

subsection \<open>Reading numbers\<close>

definition digit_value :: "char \<Rightarrow> nat option" where
  "digit_value c =
     (let n = (of_char c :: nat)
      in if 48 \<le> n \<and> n \<le> 57 then Some (n - 48)
         else if 97 \<le> n \<and> n \<le> 102 then Some (n - 87)
         else if 65 \<le> n \<and> n \<le> 70 then Some (n - 55)
         else None)"

definition to_digit :: "nat \<Rightarrow> char \<Rightarrow> nat option" where
  "to_digit radix c =
     (case digit_value c of None \<Rightarrow> None | Some d \<Rightarrow> if d < radix then Some d else None)"

text \<open>The digits at the front of the input, and the rest.\<close>

fun read_digits :: "nat \<Rightarrow> string \<Rightarrow> nat list \<times> string" where
  "read_digits radix [] = ([], [])"
| "read_digits radix (c # cs) =
     (case to_digit radix c of
        None \<Rightarrow> ([], c # cs)
      | Some d \<Rightarrow> (case read_digits radix cs of (ds, r) \<Rightarrow> (d # ds, r)))"

definition digits_value :: "nat \<Rightarrow> nat list \<Rightarrow> nat" where
  "digits_value radix ds = foldl (\<lambda>acc d. acc * radix + d) 0 ds"

definition read_number ::
  "nat \<Rightarrow> nat \<Rightarrow> bool \<Rightarrow> nat \<Rightarrow> string \<Rightarrow> (nat \<times> string) option" where
  "read_number radix max_digits allow_zero_prefix bound s =
     (case read_digits radix s of
        (ds, r) \<Rightarrow>
          if ds = [] \<or> length ds > max_digits then None
          else if \<not> allow_zero_prefix \<and> hd ds = 0 \<and> length ds > 1 then None
          else if digits_value radix ds < bound then Some (digits_value radix ds, r)
          else None)"

text \<open>A separator is read before every item but the first; a failure consumes nothing.\<close>

definition read_separator ::
  "char \<Rightarrow> nat \<Rightarrow> (string \<Rightarrow> ('a \<times> string) option) \<Rightarrow> string \<Rightarrow> ('a \<times> string) option" where
  "read_separator sep i p s =
     (if i = 0 then p s
      else (case s of [] \<Rightarrow> None | c # cs \<Rightarrow> if c = sep then p cs else None))"

subsection \<open>Addresses\<close>

fun read_octets :: "nat \<Rightarrow> nat \<Rightarrow> string \<Rightarrow> (nat list \<times> string) option" where
  "read_octets i 0 s = Some ([], s)"
| "read_octets i (Suc n) s =
     (case read_separator (CHR ''.'') i (read_number 10 3 False 256) s of
        None \<Rightarrow> None
      | Some (x, r) \<Rightarrow>
          (case read_octets (Suc i) n r of None \<Rightarrow> None | Some (xs, r') \<Rightarrow> Some (x # xs, r')))"

definition read_ipv4_addr :: "string \<Rightarrow> (nat list \<times> string) option" where
  "read_ipv4_addr s = read_octets 0 4 s"

text \<open>
  \<open>read_groups i n s\<close> reads up to \<open>n\<close> more groups, \<open>i\<close> having been read; the flag tells that an
  embedded IPv4 address ended the reading.
\<close>

fun read_groups :: "nat \<Rightarrow> nat \<Rightarrow> string \<Rightarrow> nat list \<times> bool \<times> string" where
  "read_groups i 0 s = ([], False, s)"
| "read_groups i (Suc n) s =
     (case (if n > 0 then read_separator (CHR '':'') i read_ipv4_addr s else None) of
        Some (v4, r) \<Rightarrow> ([v4 ! 0 * 256 + v4 ! 1, v4 ! 2 * 256 + v4 ! 3], True, r)
      | None \<Rightarrow>
          (case read_separator (CHR '':'') i (read_number 16 4 True 65536) s of
             None \<Rightarrow> ([], False, s)
           | Some (g, r) \<Rightarrow>
               (case read_groups (Suc i) n r of (gs, v4, r') \<Rightarrow> (g # gs, v4, r'))))"

definition read_ipv6_addr :: "string \<Rightarrow> (nat list \<times> string) option" where
  "read_ipv6_addr s =
     (case read_groups 0 8 s of
        (head, head_v4, r) \<Rightarrow>
          if length head = 8 then Some (head, r)
          else if head_v4 then None
          else (case strip_prefix ''::'' r of
                  None \<Rightarrow> None
                | Some r' \<Rightarrow>
                    (case read_groups 0 (7 - length head) r' of
                       (tail, _, r'') \<Rightarrow>
                         Some (head @ replicate (8 - length head - length tail) 0 @ tail, r''))))"

definition parse_ip_addr :: "string \<Rightarrow> ip_addr option" where
  "parse_ip_addr s =
     (case read_ipv4_addr s of
        Some (xs, r) \<Rightarrow> if r = [] then Some (V4 xs) else None
      | None \<Rightarrow>
          (case read_ipv6_addr s of
             Some (xs, r) \<Rightarrow> if r = [] then Some (V6 xs) else None
           | None \<Rightarrow> None))"

subsection \<open>Facts\<close>

lemma read_number_bound: "read_number radix m z b s = Some (v, r) \<Longrightarrow> v < b"
  by (auto simp: read_number_def split: prod.splits if_splits)

lemma read_separator_read_number_bound:
  "read_separator c i (read_number radix m z b) s = Some (v, r) \<Longrightarrow> v < b"
  by (auto simp: read_separator_def dest: read_number_bound split: if_splits list.splits)

lemma read_octets_sound:
  "read_octets i n s = Some (xs, r) \<Longrightarrow> length xs = n \<and> (\<forall>x \<in> set xs. x < 256)"
  by (induction i n s arbitrary: xs r rule: read_octets.induct)
     (fastforce split: option.splits dest: read_separator_read_number_bound)+

lemma read_groups_length:
  "read_groups i n s = (gs, v4, r) \<Longrightarrow> length gs \<le> n"
  by (induction i n s arbitrary: gs v4 r rule: read_groups.induct)
     (auto split: option.splits prod.splits if_splits)

lemma parse_ip_addr_V4:
  "parse_ip_addr s = Some (V4 xs) \<Longrightarrow> length xs = 4 \<and> (\<forall>x \<in> set xs. x < 256)"
  by (auto simp: parse_ip_addr_def read_ipv4_addr_def dest: read_octets_sound
      split: option.splits if_splits prod.splits)

lemma read_ipv6_addr_length:
  assumes "read_ipv6_addr s = Some (xs, r)"
  shows "length xs = 8"
proof -
  obtain head v4 r0 where h: "read_groups 0 8 s = (head, v4, r0)"
    by (metis prod_cases3)
  have hl: "length head \<le> 8" using read_groups_length [OF h] .
  show ?thesis
  proof (cases "length head = 8")
    case True
    with assms h show ?thesis by (simp add: read_ipv6_addr_def)
  next
    case False
    with assms h obtain r1 tail v4' r2
      where t: "read_groups 0 (7 - length head) r1 = (tail, v4', r2)"
        and xs: "xs = head @ replicate (8 - length head - length tail) 0 @ tail"
      by (auto simp: read_ipv6_addr_def split: if_splits option.splits prod.splits)
    from read_groups_length [OF t] hl False xs show ?thesis by simp
  qed
qed

lemma parse_ip_addr_V6: "parse_ip_addr s = Some (V6 xs) \<Longrightarrow> length xs = 8"
  by (auto simp: parse_ip_addr_def dest: read_ipv6_addr_length
      split: option.splits if_splits prod.splits)

end
