(* ===== verification/Manifest.thy ===== *)
theory Manifest
  imports Rust_Net
begin

text \<open>
  The enclave manifest (\<open>capsule-cli/src/manifest.rs\<close>): the structs as records, every
  \<open>validate\<close> method with its \<open>bail!\<close>s as values of one error type, \<open>parse_manifest\<close> as the
  composition the code has.  \<open>serde_yaml::from_slice\<close>, \<open>hex::decode\<close> and the Unicode table
  behind \<open>str::to_lowercase\<close> are arguments (\<open>yaml\<close>, \<open>hexd\<close>, \<open>lc\<close>).  The main lemma characterises
  exactly the manifests \<open>parse_manifest\<close> accepts by a declarative predicate.
\<close>

subsection \<open>Constants\<close>

definition KMS_REGISTRY_HELIOS_PORT :: u16 where
  "KMS_REGISTRY_HELIOS_PORT = 18545"

definition HOSTFS_ALLOWED_ROOT :: string where
  "HOSTFS_ALLOWED_ROOT = ''/mnt''"

subsection \<open>Data\<close>

record sources =
  src_app :: string
  src_capsule_runtime :: "string option"
  src_capsule_shell :: "string option"

record signature_cfg =
  sig_certificate :: string
  sig_key :: string

record ingress_cfg =
  ing_listen_port :: u16

record egress_cfg =
  eg_proxy_port :: "u16 option"
  eg_allow :: "string list option"
  eg_deny :: "string list option"

record defaults_cfg =
  def_cpu_count :: "32 word option"
  def_memory_mb :: "32 word option"

record capsule_api_cfg =
  api_listen_port :: u16

record aux_api_cfg =
  aux_listen_port :: "u16 option"

record hostfs_mount_config =
  hm_name :: string
  hm_mount_path :: string
  hm_required :: bool
  hm_size_mb :: u64

datatype s3_encryption_mode = Plaintext | Kms
datatype s3_key_scope = ScopeApp | ScopeObject
datatype s3_aad_mode = AadNone | AadKey | AadKeyAndVersion

record s3_encryption_config =
  s3e_mode :: s3_encryption_mode
  s3e_key_scope :: s3_key_scope
  s3e_aad_mode :: s3_aad_mode
  s3e_key_version :: string
  s3e_accept_plaintext :: bool

record s3_storage_config =
  s3_enabled :: bool
  s3_bucket :: string
  s3_prefix :: string
  s3_region :: "string option"
  s3_encryption :: "s3_encryption_config option"

record storage_cfg =
  st_s3 :: "s3_storage_config option"
  st_mounts :: "hostfs_mount_config list option"

record kms_integration =
  kms_enabled :: bool
  kms_use_app_wallet :: bool
  kms_app_id :: "u64 option"
  kms_nova_app_registry :: "string option"

datatype helios_rpc_kind = Ethereum | Opstack

record helios_rpc_chain =
  hc_name :: string
  hc_network_id :: "string option"
  hc_kind :: helios_rpc_kind
  hc_network :: string
  hc_execution_rpc :: string
  hc_consensus_rpc :: "string option"
  hc_checkpoint :: "string option"
  hc_local_rpc_port :: u16

record helios_rpc =
  hr_enabled :: bool
  hr_chains :: "helios_rpc_chain list option"

record clock_sync_cfg =
  cs_enabled :: bool
  cs_interval_secs :: u64

record manifest =
  mf_version :: string
  mf_name :: string
  mf_target :: string
  mf_sources :: sources
  mf_signature :: "signature_cfg option"
  mf_ingress :: "ingress_cfg list option"
  mf_egress :: "egress_cfg option"
  mf_defaults :: "defaults_cfg option"
  mf_api :: "capsule_api_cfg option"
  mf_aux_api :: "aux_api_cfg option"
  mf_storage :: "storage_cfg option"
  mf_kms_integration :: "kms_integration option"
  mf_helios_rpc :: "helios_rpc option"
  mf_clock_sync :: "clock_sync_cfg option"

text \<open>Every \<open>bail!\<close> and \<open>anyhow!\<close> of the file; the number is the index in the error context.\<close>

datatype manifest_error =
    YamlError
  | MountNameRequired nat
  | MountNameCharacters nat
  | MountPathNotAbsolute nat
  | MountPathDots nat
  | MountPathOutsideRoot nat
  | MountSizeZero nat
  | DuplicateMountName string
  | DuplicateMountPath string
  | AppWalletRequiresEnabled
  | RegistryFieldsRequired
  | RegistryFieldsTogether
  | KmsAppIdRequired
  | KmsAppIdZero
  | RegistryRequired
  | RegistryNotAddress
  | NetworkRequired nat
  | NetworkUnsupported nat string
  | ChainNameRequired nat
  | ChainNetworkIdEmpty nat
  | ChainExecutionRpcRequired nat
  | HeliosChainsRequired
  | HeliosChainsEmpty
  | DuplicateChainName string
  | DuplicateChainPort u16
  | ClockIntervalZero
  | AuxRequiresApi
  | AuxPortOverflow u16
  | AuxPortEqualsApi
  | RegistryNeedsHelios
  | RegistryNeedsHeliosEnabled
  | RegistryNeedsChains
  | RegistryNeedsPort

subsection \<open>Accessors and defaults\<close>

definition default_s3_encryption_mode :: s3_encryption_mode where
  "default_s3_encryption_mode = Plaintext"

definition default_s3_key_scope :: s3_key_scope where
  "default_s3_key_scope = ScopeObject"

definition default_s3_aad_mode :: s3_aad_mode where
  "default_s3_aad_mode = AadKey"

definition default_s3_key_version :: string where
  "default_s3_key_version = ''v1''"

definition default_s3_accept_plaintext :: bool where
  "default_s3_accept_plaintext = True"

definition default_clock_sync :: clock_sync_cfg where
  "default_clock_sync = \<lparr>cs_enabled = True, cs_interval_secs = 300\<rparr>"

definition effective_clock_sync :: "manifest \<Rightarrow> clock_sync_cfg" where
  "effective_clock_sync m = unwrap_or default_clock_sync (mf_clock_sync m)"

definition hostfs_mounts :: "manifest \<Rightarrow> hostfs_mount_config list option" where
  "hostfs_mounts m = Option.bind (mf_storage m) st_mounts"

definition effective_aux_api_port :: "manifest \<Rightarrow> u16 option" where
  "effective_aux_api_port m =
     (case mf_api m of
        None \<Rightarrow> None
      | Some api \<Rightarrow>
          (case Option.bind (mf_aux_api m) aux_listen_port of
             Some p \<Rightarrow> Some p
           | None \<Rightarrow> checked_add (api_listen_port api) 1))"

definition egress_proxy_enabled :: "manifest \<Rightarrow> bool" where
  "egress_proxy_enabled m =
     (case Option.bind (mf_egress m) eg_allow of None \<Rightarrow> False | Some allow \<Rightarrow> allow \<noteq> [])"

subsection \<open>Storage mounts\<close>

definition mount_name_char :: "char \<Rightarrow> bool" where
  "mount_name_char c = (is_ascii_alphanumeric c \<or> c \<in> set ''-_.'')"

definition validate_mount :: "nat \<Rightarrow> hostfs_mount_config \<Rightarrow> (manifest_error, unit) result" where
  "validate_mount i m =
     (let p = components (hm_mount_path m); root = components HOSTFS_ALLOWED_ROOT in
      rbind (bail_if (trim (hm_name m) = []) (MountNameRequired i)) (\<lambda>_.
      rbind (bail_if (\<not> list_all mount_name_char (hm_name m)) (MountNameCharacters i)) (\<lambda>_.
      rbind (bail_if (\<not> is_absolute p) (MountPathNotAbsolute i)) (\<lambda>_.
      rbind (bail_if (list_ex (\<lambda>c. c = CurDir \<or> c = ParentDir) p) (MountPathDots i)) (\<lambda>_.
      rbind (bail_if (p = root \<or> \<not> path_starts_with p root) (MountPathOutsideRoot i)) (\<lambda>_.
      bail_if (hm_size_mb m = 0) (MountSizeZero i)))))))"

fun validate_mounts ::
  "nat \<Rightarrow> string list \<Rightarrow> path list \<Rightarrow> hostfs_mount_config list \<Rightarrow> (manifest_error, unit) result" where
  "validate_mounts i used_names used_paths [] = Inr ()"
| "validate_mounts i used_names used_paths (m # ms) =
     rbind (validate_mount i m) (\<lambda>_.
       let nm = to_ascii_lowercase (trim (hm_name m)); p = components (hm_mount_path m) in
       if nm \<in> set used_names then Inl (DuplicateMountName (trim (hm_name m)))
       else if p \<in> set used_paths then Inl (DuplicateMountPath (hm_mount_path m))
       else validate_mounts (Suc i) (nm # used_names) (p # used_paths) ms)"

definition validate_storage :: "storage_cfg \<Rightarrow> (manifest_error, unit) result" where
  "validate_storage s =
     (case st_mounts s of None \<Rightarrow> Inr () | Some ms \<Rightarrow> validate_mounts 0 [] [] ms)"

subsection \<open>KMS integration\<close>

definition registry_set :: "kms_integration \<Rightarrow> bool" where
  "registry_set k =
     (case kms_nova_app_registry k of None \<Rightarrow> False | Some v \<Rightarrow> trim v \<noteq> [])"

definition has_any_registry_field :: "kms_integration \<Rightarrow> bool" where
  "has_any_registry_field k = (kms_app_id k \<noteq> None \<or> registry_set k)"

definition registry_discovery_configured :: "kms_integration \<Rightarrow> bool" where
  "registry_discovery_configured k = (kms_app_id k \<noteq> None \<and> registry_set k)"

definition registry_text :: "kms_integration \<Rightarrow> string option" where
  "registry_text k =
     (case kms_nova_app_registry k of
        None \<Rightarrow> None
      | Some v \<Rightarrow> if trim v = [] then None else Some (trim v))"

definition registry_hex :: "string \<Rightarrow> string" where
  "registry_hex r = trim_start_matches ''0X'' (trim_start_matches ''0x'' r)"

definition validate_registry_fields ::
  "(string \<Rightarrow> bytes option) \<Rightarrow> kms_integration \<Rightarrow> (manifest_error, unit) result" where
  "validate_registry_fields hexd k =
     rbind (ok_or KmsAppIdRequired (kms_app_id k)) (\<lambda>app_id.
     rbind (bail_if (app_id = 0) KmsAppIdZero) (\<lambda>_.
     rbind (ok_or RegistryRequired (registry_text k)) (\<lambda>registry.
     rbind (bail_if (\<not> (starts_with registry ''0x'' \<or> starts_with registry ''0X'') \<or>
                     length registry \<noteq> 42) RegistryNotAddress) (\<lambda>_.
     bail_if (hexd (registry_hex registry) = None) RegistryNotAddress))))"

definition validate_kms ::
  "(string \<Rightarrow> bytes option) \<Rightarrow> kms_integration \<Rightarrow> (manifest_error, unit) result" where
  "validate_kms hexd k =
     (if kms_use_app_wallet k \<and> \<not> kms_enabled k then Inl AppWalletRequiresEnabled
      else if \<not> kms_enabled k then Inr ()
      else if \<not> kms_use_app_wallet k \<and> \<not> has_any_registry_field k then Inl RegistryFieldsRequired
      else if has_any_registry_field k \<and> \<not> registry_discovery_configured k
      then Inl RegistryFieldsTogether
      else if registry_discovery_configured k then validate_registry_fields hexd k
      else Inr ())"

subsection \<open>Helios RPC\<close>

definition ethereum_networks :: "string list" where
  "ethereum_networks = [''mainnet'', ''sepolia'', ''holesky'']"

definition opstack_networks :: "string list" where
  "opstack_networks =
     [''op-mainnet'', ''base'', ''base-sepolia'', ''worldchain'', ''zora'', ''unichain'']"

definition supported_networks :: "helios_rpc_kind \<Rightarrow> string list" where
  "supported_networks k = (case k of Ethereum \<Rightarrow> ethereum_networks | Opstack \<Rightarrow> opstack_networks)"

definition validate_helios_network ::
  "(string \<Rightarrow> string) \<Rightarrow> helios_rpc_kind \<Rightarrow> string \<Rightarrow> nat \<Rightarrow> (manifest_error, unit) result" where
  "validate_helios_network lc k network i =
     (let normalized = lc (trim network) in
      rbind (bail_if (normalized = []) (NetworkRequired i)) (\<lambda>_.
      bail_if (normalized \<notin> set (supported_networks k)) (NetworkUnsupported i normalized)))"

definition validate_chain ::
  "(string \<Rightarrow> string) \<Rightarrow> nat \<Rightarrow> helios_rpc_chain \<Rightarrow> (manifest_error, unit) result" where
  "validate_chain lc i c =
     rbind (bail_if (trim (hc_name c) = []) (ChainNameRequired i)) (\<lambda>_.
     rbind (bail_if (map_option trim (hc_network_id c) = Some []) (ChainNetworkIdEmpty i)) (\<lambda>_.
     rbind (bail_if (trim (hc_execution_rpc c) = []) (ChainExecutionRpcRequired i)) (\<lambda>_.
     validate_helios_network lc (hc_kind c) (hc_network c) i)))"

fun validate_chains ::
  "(string \<Rightarrow> string) \<Rightarrow> nat \<Rightarrow> u16 list \<Rightarrow> string list \<Rightarrow> helios_rpc_chain list
     \<Rightarrow> (manifest_error, unit) result" where
  "validate_chains lc i used_ports used_names [] = Inr ()"
| "validate_chains lc i used_ports used_names (c # cs) =
     rbind (validate_chain lc i c) (\<lambda>_.
       let nm = lc (trim (hc_name c)) in
       if nm \<in> set used_names then Inl (DuplicateChainName (trim (hc_name c)))
       else if hc_local_rpc_port c \<in> set used_ports
       then Inl (DuplicateChainPort (hc_local_rpc_port c))
       else validate_chains lc (Suc i) (hc_local_rpc_port c # used_ports) (nm # used_names) cs)"

definition validate_helios :: "(string \<Rightarrow> string) \<Rightarrow> helios_rpc \<Rightarrow> (manifest_error, unit) result" where
  "validate_helios lc h =
     (if \<not> hr_enabled h then Inr ()
      else rbind (ok_or HeliosChainsRequired (hr_chains h)) (\<lambda>chains.
           rbind (bail_if (chains = []) HeliosChainsEmpty) (\<lambda>_.
           validate_chains lc 0 [] [] chains)))"

definition validate_clock_sync :: "clock_sync_cfg \<Rightarrow> (manifest_error, unit) result" where
  "validate_clock_sync c = bail_if (cs_interval_secs c = 0) ClockIntervalZero"

subsection \<open>The whole manifest\<close>

definition validate_api_ports :: "manifest \<Rightarrow> (manifest_error, unit) result" where
  "validate_api_ports m =
     rbind (bail_if (mf_aux_api m \<noteq> None \<and> mf_api m = None) AuxRequiresApi) (\<lambda>_.
     case mf_api m of
       None \<Rightarrow> Inr ()
     | Some api \<Rightarrow>
         rbind (ok_or (AuxPortOverflow (api_listen_port api)) (effective_aux_api_port m)) (\<lambda>aux_port.
         bail_if (aux_port = api_listen_port api) AuxPortEqualsApi))"

definition validate_manifest_cross_constraints :: "manifest \<Rightarrow> (manifest_error, unit) result" where
  "validate_manifest_cross_constraints m =
     rbind (validate_api_ports m) (\<lambda>_.
     case mf_kms_integration m of
       None \<Rightarrow> Inr ()
     | Some k \<Rightarrow>
         if \<not> kms_enabled k \<or> \<not> registry_discovery_configured k then Inr ()
         else
           rbind (ok_or RegistryNeedsHelios (mf_helios_rpc m)) (\<lambda>helios.
           rbind (bail_if (\<not> hr_enabled helios) RegistryNeedsHeliosEnabled) (\<lambda>_.
           rbind (ok_or RegistryNeedsChains (hr_chains helios)) (\<lambda>chains.
           bail_if (\<not> list_ex (\<lambda>c. hc_local_rpc_port c = KMS_REGISTRY_HELIOS_PORT) chains)
             RegistryNeedsPort))))"

definition validate_opt ::
  "('a \<Rightarrow> (manifest_error, unit) result) \<Rightarrow> 'a option \<Rightarrow> (manifest_error, unit) result" where
  "validate_opt f v = (case v of None \<Rightarrow> Inr () | Some x \<Rightarrow> f x)"

definition parse_manifest ::
  "(bytes \<Rightarrow> manifest option) \<Rightarrow> (string \<Rightarrow> bytes option) \<Rightarrow> (string \<Rightarrow> string) \<Rightarrow> bytes
     \<Rightarrow> (manifest_error, manifest) result" where
  "parse_manifest yaml hexd lc buf =
     rbind (ok_or YamlError (yaml buf)) (\<lambda>m.
     rbind (validate_opt validate_storage (mf_storage m)) (\<lambda>_.
     rbind (validate_opt (validate_kms hexd) (mf_kms_integration m)) (\<lambda>_.
     rbind (validate_opt (validate_helios lc) (mf_helios_rpc m)) (\<lambda>_.
     rbind (validate_opt validate_clock_sync (mf_clock_sync m)) (\<lambda>_.
     rbind (validate_manifest_cross_constraints m) (\<lambda>_. Inr m))))))"

text \<open>
  Loading.  The operating system's side is two arguments: opening a file and reading it (or
  standard input) to its end.  Paths compare by component, so \<open>-/\<close> is standard input too.
\<close>

datatype load_error =
    OpenFailed string
  | ReadFailed
  | StdinUnsupported
  | InvalidConfiguration string manifest_error

definition load_manifest_raw ::
  "(bytes \<Rightarrow> (manifest_error, manifest) result) \<Rightarrow> (string \<Rightarrow> 'h option) \<Rightarrow> ('h \<Rightarrow> bytes option) \<Rightarrow> 'h
     \<Rightarrow> string \<Rightarrow> (load_error, bytes \<times> manifest) result" where
  "load_manifest_raw parse openf read_to_end stdin p =
     rbind (if components p = components ''-'' then Inr stdin else ok_or (OpenFailed p) (openf p)) (\<lambda>file.
     rbind (ok_or ReadFailed (read_to_end file)) (\<lambda>buf.
     rbind (map_err (InvalidConfiguration p) (parse buf)) (\<lambda>m.
     Inr (buf, m))))"

definition load_manifest ::
  "(bytes \<Rightarrow> (manifest_error, manifest) result) \<Rightarrow> (string \<Rightarrow> 'h option) \<Rightarrow> ('h \<Rightarrow> bytes option) \<Rightarrow> 'h
     \<Rightarrow> string \<Rightarrow> (load_error, manifest) result" where
  "load_manifest parse openf read_to_end stdin p =
     rbind (load_manifest_raw parse openf read_to_end stdin p) (\<lambda>(_, m). Inr m)"

definition load_manifest_sync ::
  "(bytes \<Rightarrow> (manifest_error, manifest) result) \<Rightarrow> (string \<Rightarrow> bytes option)
     \<Rightarrow> string \<Rightarrow> (load_error, manifest) result" where
  "load_manifest_sync parse readf p =
     (if components p = components ''-'' then Inl StdinUnsupported
      else rbind (ok_or (OpenFailed p) (readf p)) (\<lambda>buf.
           map_err (InvalidConfiguration p) (parse buf)))"

subsection \<open>What an accepted manifest satisfies\<close>

definition mount_ok :: "hostfs_mount_config \<Rightarrow> bool" where
  "mount_ok m \<longleftrightarrow>
     hm_name m \<noteq> [] \<and> list_all mount_name_char (hm_name m) \<and>
     (\<exists>ns. ns \<noteq> [] \<and> components (hm_mount_path m) = RootDir # Normal ''mnt'' # normal_path ns) \<and>
     hm_size_mb m \<noteq> 0"

definition mounts_ok :: "hostfs_mount_config list \<Rightarrow> bool" where
  "mounts_ok ms \<longleftrightarrow>
     list_all mount_ok ms \<and>
     distinct (map (\<lambda>m. to_ascii_lowercase (hm_name m)) ms) \<and>
     distinct (map (\<lambda>m. components (hm_mount_path m)) ms)"

definition registry_ok :: "(string \<Rightarrow> bytes option) \<Rightarrow> kms_integration \<Rightarrow> bool" where
  "registry_ok hexd k \<longleftrightarrow>
     (\<exists>i r. kms_app_id k = Some i \<and> i \<noteq> 0 \<and> kms_nova_app_registry k = Some r \<and>
            length (trim r) = 42 \<and> take 2 (trim r) \<in> {''0x'', ''0X''} \<and>
            hexd (registry_hex (trim r)) \<noteq> None)"

definition kms_ok :: "(string \<Rightarrow> bytes option) \<Rightarrow> kms_integration \<Rightarrow> bool" where
  "kms_ok hexd k \<longleftrightarrow>
     (if kms_enabled k
      then registry_ok hexd k \<or> kms_use_app_wallet k \<and> kms_app_id k = None \<and> \<not> registry_set k
      else \<not> kms_use_app_wallet k)"

definition chain_ok :: "(string \<Rightarrow> string) \<Rightarrow> helios_rpc_chain \<Rightarrow> bool" where
  "chain_ok lc c \<longleftrightarrow>
     trim (hc_name c) \<noteq> [] \<and> trim (hc_execution_rpc c) \<noteq> [] \<and>
     map_option trim (hc_network_id c) \<noteq> Some [] \<and>
     lc (trim (hc_network c)) \<in> set (supported_networks (hc_kind c))"

definition helios_ok :: "(string \<Rightarrow> string) \<Rightarrow> helios_rpc \<Rightarrow> bool" where
  "helios_ok lc h \<longleftrightarrow>
     (hr_enabled h \<longrightarrow>
        (\<exists>cs. hr_chains h = Some cs \<and> cs \<noteq> [] \<and> list_all (chain_ok lc) cs \<and>
              distinct (map (\<lambda>c. lc (trim (hc_name c))) cs) \<and> distinct (map hc_local_rpc_port cs)))"

definition api_ports_ok :: "manifest \<Rightarrow> bool" where
  "api_ports_ok m \<longleftrightarrow>
     (mf_api m = None \<and> mf_aux_api m = None) \<or>
     (\<exists>api aux. mf_api m = Some api \<and> effective_aux_api_port m = Some aux \<and>
                aux \<noteq> api_listen_port api)"

definition registry_reachable :: "manifest \<Rightarrow> bool" where
  "registry_reachable m \<longleftrightarrow>
     (\<forall>k. mf_kms_integration m = Some k \<and> kms_enabled k \<and> registry_discovery_configured k \<longrightarrow>
        (\<exists>h cs. mf_helios_rpc m = Some h \<and> hr_enabled h \<and> hr_chains h = Some cs \<and>
                KMS_REGISTRY_HELIOS_PORT \<in> hc_local_rpc_port ` set cs))"

definition manifest_ok ::
  "(string \<Rightarrow> bytes option) \<Rightarrow> (string \<Rightarrow> string) \<Rightarrow> manifest \<Rightarrow> bool" where
  "manifest_ok hexd lc m \<longleftrightarrow>
     (\<forall>ms. hostfs_mounts m = Some ms \<longrightarrow> mounts_ok ms) \<and>
     (\<forall>k. mf_kms_integration m = Some k \<longrightarrow> kms_ok hexd k) \<and>
     (\<forall>h. mf_helios_rpc m = Some h \<longrightarrow> helios_ok lc h) \<and>
     cs_interval_secs (effective_clock_sync m) \<noteq> 0 \<and>
     api_ports_ok m \<and> registry_reachable m"

subsection \<open>Each validator decides its predicate\<close>

text \<open>A string of mount-name characters contains no white space, so trimming it is the identity.\<close>

lemma mount_name_char_visible: "mount_name_char c \<Longrightarrow> visible_ascii c"
  by (auto simp: mount_name_char_def is_ascii_alphanumeric_def visible_ascii_def Let_def)

lemma trim_mount_name: "list_all mount_name_char s \<Longrightarrow> trim s = s"
  by (intro trim_visible) (auto simp: list_all_iff mount_name_char_visible)

lemma components_mnt: "components HOSTFS_ALLOWED_ROOT = [RootDir, Normal ''mnt'']"
  by (simp add: HOSTFS_ALLOWED_ROOT_def components_def starts_with_def part_component_def)

lemma component_list_cases:
  "RootDir \<notin> set cs \<Longrightarrow> CurDir \<notin> set cs \<Longrightarrow> ParentDir \<notin> set cs \<Longrightarrow> \<exists>ns. cs = normal_path ns"
proof (induction cs)
  case Nil
  then show ?case by (simp add: normal_path_def)
next
  case (Cons c cs)
  then obtain ns where "cs = normal_path ns" by auto
  with Cons.prems show ?case
    by (cases c) (auto simp: normal_path_def intro: exI [of _ "_ # ns"])
qed

lemma components_root_only_first: "RootDir \<notin> set (tl (components s))"
  by (auto simp: components_def Let_def part_component_def split: list.splits if_splits)

lemma mount_path_shape:
  "is_absolute (components s) \<and> \<not> list_ex (\<lambda>c. c = CurDir \<or> c = ParentDir) (components s) \<and>
     components s \<noteq> components HOSTFS_ALLOWED_ROOT \<and>
     path_starts_with (components s) (components HOSTFS_ALLOWED_ROOT) \<longleftrightarrow>
   (\<exists>ns. ns \<noteq> [] \<and> components s = RootDir # Normal ''mnt'' # normal_path ns)"
  (is "?L \<longleftrightarrow> ?R")
proof
  assume L: ?L
  then obtain rest where rest: "components s = RootDir # Normal ''mnt'' # rest"
    by (auto simp: components_mnt path_starts_with_def prefix_def)
  with L components_root_only_first [of s]
  have "RootDir \<notin> set rest" "CurDir \<notin> set rest" "ParentDir \<notin> set rest" "rest \<noteq> []"
    by (auto simp: components_mnt list_ex_iff)
  with component_list_cases [of rest] rest show ?R by (auto simp: normal_path_def)
next
  assume ?R
  then show ?L
    by (auto simp: components_mnt path_starts_with_def is_absolute_def normal_path_def list_ex_iff)
qed

lemma validate_mount_ok: "validate_mount i m = Inr () \<longleftrightarrow> mount_ok m"
proof (cases "list_all mount_name_char (hm_name m)")
  case True
  then show ?thesis
    using mount_path_shape [of "hm_mount_path m"]
    by (auto simp: validate_mount_def mount_ok_def result_elims Let_def trim_mount_name)
next
  case False
  then show ?thesis by (auto simp: validate_mount_def mount_ok_def result_elims Let_def)
qed

lemma validate_mounts_ok:
  "validate_mounts i ns ps ms = Inr () \<longleftrightarrow>
     mounts_ok ms \<and>
     (\<forall>m \<in> set ms. to_ascii_lowercase (hm_name m) \<notin> set ns \<and> components (hm_mount_path m) \<notin> set ps)"
proof (induction ms arbitrary: i ns ps)
  case Nil
  then show ?case by (simp add: mounts_ok_def)
next
  case (Cons m ms)
  show ?case
  proof (cases "mount_ok m")
    case True
    then have "validate_mount i m = Inr ()" "trim (hm_name m) = hm_name m"
      by (simp_all add: validate_mount_ok) (simp add: mount_ok_def trim_mount_name)
    with Cons.IH True show ?thesis
      by (auto simp: mounts_ok_def Let_def) (metis rev_image_eqI)+
  next
    case False
    then show ?thesis by (auto simp: result_elims validate_mount_ok mounts_ok_def)
  qed
qed

lemma validate_registry_fields_ok:
  "validate_registry_fields hexd k = Inr () \<longleftrightarrow> registry_ok hexd k"
  unfolding validate_registry_fields_def registry_ok_def registry_text_def
  by (auto simp: result_elims starts_with_def numeral_2_eq_2 split: option.splits if_splits)

lemma registry_ok_configured: "registry_ok hexd k \<Longrightarrow> registry_discovery_configured k"
  by (auto simp: registry_ok_def registry_discovery_configured_def registry_set_def)

lemma validate_kms_ok: "validate_kms hexd k = Inr () \<longleftrightarrow> kms_ok hexd k"
  unfolding validate_kms_def kms_ok_def
  using validate_registry_fields_ok [of hexd k] registry_ok_configured [of hexd k]
  by (auto simp: has_any_registry_field_def registry_discovery_configured_def)

lemma supported_networks_nonempty: "[] \<notin> set (supported_networks k)"
  by (cases k) (simp_all add: supported_networks_def ethereum_networks_def opstack_networks_def)

lemma validate_chain_ok: "validate_chain lc i c = Inr () \<longleftrightarrow> chain_ok lc c"
  using supported_networks_nonempty [of "hc_kind c"]
  by (auto simp: validate_chain_def validate_helios_network_def chain_ok_def result_elims Let_def)

lemma validate_chains_ok:
  "validate_chains lc i ps ns cs = Inr () \<longleftrightarrow>
     list_all (chain_ok lc) cs \<and>
     distinct (map (\<lambda>c. lc (trim (hc_name c))) cs) \<and> distinct (map hc_local_rpc_port cs) \<and>
     (\<forall>c \<in> set cs. hc_local_rpc_port c \<notin> set ps \<and> lc (trim (hc_name c)) \<notin> set ns)"
proof (induction cs arbitrary: i ps ns)
  case Nil
  then show ?case by simp
next
  case (Cons c cs)
  show ?case
  proof (cases "chain_ok lc c")
    case True
    then have "validate_chain lc i c = Inr ()" by (simp add: validate_chain_ok)
    with Cons.IH True show ?thesis
      by (auto simp: Let_def) (metis rev_image_eqI)+
  next
    case False
    then show ?thesis by (auto simp: result_elims validate_chain_ok)
  qed
qed

lemma validate_helios_ok: "validate_helios lc h = Inr () \<longleftrightarrow> helios_ok lc h"
  by (auto simp: validate_helios_def helios_ok_def result_elims validate_chains_ok)

lemma validate_opt_ok: "validate_opt f v = Inr () \<longleftrightarrow> (\<forall>x. v = Some x \<longrightarrow> f x = Inr ())"
  by (cases v) (simp_all add: validate_opt_def)

lemma validate_storage_opt_ok:
  "validate_opt validate_storage (mf_storage m) = Inr () \<longleftrightarrow>
     (\<forall>ms. hostfs_mounts m = Some ms \<longrightarrow> mounts_ok ms)"
  by (auto simp: validate_opt_ok validate_storage_def hostfs_mounts_def validate_mounts_ok
      split: option.splits bind_splits)

lemma validate_clock_opt_ok:
  "validate_opt validate_clock_sync (mf_clock_sync m) = Inr () \<longleftrightarrow>
     cs_interval_secs (effective_clock_sync m) \<noteq> 0"
  by (cases "mf_clock_sync m")
     (auto simp: validate_opt_def validate_clock_sync_def effective_clock_sync_def result_elims
       default_clock_sync_def)

lemma validate_api_ports_ok: "validate_api_ports m = Inr () \<longleftrightarrow> api_ports_ok m"
  by (cases "mf_api m") (auto simp: validate_api_ports_def api_ports_ok_def result_elims)

lemma list_ex_image: "list_ex (\<lambda>x. f x = p) xs \<longleftrightarrow> p \<in> f ` set xs"
  by (induction xs) auto

lemma validate_cross_ok:
  "validate_manifest_cross_constraints m = Inr () \<longleftrightarrow> api_ports_ok m \<and> registry_reachable m"
proof (cases "mf_kms_integration m")
  case None
  then show ?thesis
    by (simp add: validate_manifest_cross_constraints_def registry_reachable_def result_elims
        validate_api_ports_ok)
next
  case (Some k)
  then show ?thesis
    by (auto simp: validate_manifest_cross_constraints_def registry_reachable_def result_elims
        validate_api_ports_ok list_ex_image)
qed

lemmas validators_ok =
  validate_storage_opt_ok validate_clock_opt_ok validate_cross_ok validate_kms_ok validate_helios_ok

lemma parse_manifest_decides:
  "parse_manifest yaml hexd lc buf = Inr m \<longleftrightarrow> yaml buf = Some m \<and> manifest_ok hexd lc m"
  unfolding parse_manifest_def manifest_ok_def
  by (auto simp: result_elims validate_opt_ok [of "validate_kms hexd"]
      validate_opt_ok [of "validate_helios lc"] validators_ok)

subsection \<open>Main results\<close>

text \<open>
  C4. \<open>parse_manifest\<close> accepts exactly the manifests that satisfy the declarative predicate: mounts
  with distinct case-folded names and distinct paths properly under \<open>/mnt\<close> and a non-zero size; a
  KMS section that is disabled, or has a complete registry, or only the app wallet; enabled Helios
  chains with distinct names and ports on supported networks; a non-zero clock interval; an Aux API
  port that exists and differs from the Capsule API port; and a Helios chain on port 18545 whenever
  registry discovery is configured.
\<close>

theorem parse_manifest_iff:
  "parse_manifest yaml hexd lc buf = Inr m \<longleftrightarrow> yaml buf = Some m \<and> manifest_ok hexd lc m"
  by (rule parse_manifest_decides)

end
