(* ===== verification/Policy.thy ===== *)
theory Policy
  imports Manifest
begin

text \<open>
  The egress policy (\<open>capsule-cli/src/policy/\<close>): domain patterns, IP patterns and their combination.
  The \<open>ipnetwork\<close> crate is two arguments, the parser of a network (\<open>parse_net\<close>) and its membership
  test (\<open>contains\<close>).  The iterator loop of \<open>Pattern::matches\<close> is shown equivalent to a declarative
  specification on labels, and \<open>is_host_allowed\<close> to a specification on the manifest's pattern lists.
\<close>

subsection \<open>Domain filter\<close>

datatype pattern_part = Superwild | Wild | Named string

definition PatternPart_new :: "string \<Rightarrow> pattern_part" where
  "PatternPart_new part =
     (if part = ''**'' then Superwild
      else if part = ''*'' then Wild
      else Named (to_ascii_lowercase part))"

text \<open>Both the pattern and the queried domain are kept with their labels reversed.\<close>

type_synonym dpattern = "pattern_part list"
type_synonym domain = "string list"

definition Pattern_new :: "string \<Rightarrow> dpattern" where
  "Pattern_new pat = rev (map PatternPart_new (split_on (CHR ''.'') pat))"

definition Domain_new :: "string \<Rightarrow> domain" where
  "Domain_new dm = rev (map to_ascii_lowercase (split_on (CHR ''.'') dm))"

fun Pattern_matches :: "dpattern \<Rightarrow> domain \<Rightarrow> bool" where
  "Pattern_matches [] qs = (qs = [])"
| "Pattern_matches (pat # pats) [] = False"
| "Pattern_matches (pat # pats) (q # qs) =
     (case pat of
        Superwild \<Rightarrow> True
      | Wild \<Rightarrow> Pattern_matches pats qs
      | Named part \<Rightarrow> if part = q then Pattern_matches pats qs else False)"

record domain_filter =
  df_patterns :: "dpattern list"

definition DomainFilter_new :: domain_filter where
  "DomainFilter_new = \<lparr>df_patterns = []\<rparr>"

definition DomainFilter_allow_all :: domain_filter where
  "DomainFilter_allow_all = \<lparr>df_patterns = [Pattern_new ''**'']\<rparr>"

definition DomainFilter_add :: "domain_filter \<Rightarrow> string \<Rightarrow> domain_filter" where
  "DomainFilter_add f pattern = f\<lparr>df_patterns := df_patterns f @ [Pattern_new pattern]\<rparr>"

definition DomainFilter_matches :: "domain_filter \<Rightarrow> string \<Rightarrow> bool" where
  "DomainFilter_matches f dm = list_ex (\<lambda>pat. Pattern_matches pat (Domain_new dm)) (df_patterns f)"

subsection \<open>IP filter\<close>

record 'net ip_filter =
  if_patterns :: "'net list"

definition IpFilter_new :: "'net ip_filter" where
  "IpFilter_new = \<lparr>if_patterns = []\<rparr>"

text \<open>\<open>allow_all\<close> unwraps two parses; \<open>None\<close> is the panic.\<close>

definition IpFilter_allow_all :: "(string \<Rightarrow> 'net option) \<Rightarrow> 'net ip_filter option" where
  "IpFilter_allow_all parse_net =
     (case (parse_net ''0.0.0.0/0'', parse_net ''::/0'') of
        (Some a, Some b) \<Rightarrow> Some \<lparr>if_patterns = [a, b]\<rparr>
      | _ \<Rightarrow> None)"

definition IpFilter_add ::
  "(string \<Rightarrow> 'net option) \<Rightarrow> 'net ip_filter \<Rightarrow> string \<Rightarrow> (unit, 'net ip_filter) result" where
  "IpFilter_add parse_net f pattern =
     rbind (ok_or () (parse_net pattern)) (\<lambda>n. Inr (f\<lparr>if_patterns := if_patterns f @ [n]\<rparr>))"

definition IpFilter_matches ::
  "('net \<Rightarrow> ip_addr \<Rightarrow> bool) \<Rightarrow> 'net ip_filter \<Rightarrow> ip_addr \<Rightarrow> bool" where
  "IpFilter_matches contains f addr = list_ex (\<lambda>p. contains p addr) (if_patterns f)"

subsection \<open>The policy\<close>

record 'net egress_policy =
  domain_allow :: domain_filter
  domain_deny :: domain_filter
  ip_allow :: "'net ip_filter"
  ip_deny :: "'net ip_filter"

definition load_filter_step ::
  "(string \<Rightarrow> 'net option) \<Rightarrow> domain_filter \<times> 'net ip_filter \<Rightarrow> string \<Rightarrow> domain_filter \<times> 'net ip_filter" where
  "load_filter_step parse_net acc pattern =
     (case IpFilter_add parse_net (snd acc) pattern of
        Inr ips \<Rightarrow> (fst acc, ips)
      | Inl _ \<Rightarrow> (DomainFilter_add (fst acc) pattern, snd acc))"

definition load_filters ::
  "(string \<Rightarrow> 'net option) \<Rightarrow> string list option \<Rightarrow> domain_filter \<times> 'net ip_filter" where
  "load_filters parse_net opt_spec =
     (case opt_spec of
        None \<Rightarrow> (DomainFilter_new, IpFilter_new)
      | Some spec \<Rightarrow> foldl (load_filter_step parse_net) (DomainFilter_new, IpFilter_new) spec)"

definition EgressPolicy_new :: "(string \<Rightarrow> 'net option) \<Rightarrow> egress_cfg \<Rightarrow> 'net egress_policy" where
  "EgressPolicy_new parse_net spec =
     (let (da, ia) = load_filters parse_net (eg_allow spec);
          (dd, id) = load_filters parse_net (eg_deny spec)
      in \<lparr>domain_allow = da, domain_deny = dd, ip_allow = ia, ip_deny = id\<rparr>)"

definition EgressPolicy_allow_all :: "(string \<Rightarrow> 'net option) \<Rightarrow> 'net egress_policy option" where
  "EgressPolicy_allow_all parse_net =
     map_option (\<lambda>ia. \<lparr>domain_allow = DomainFilter_allow_all, domain_deny = DomainFilter_new,
                        ip_allow = ia, ip_deny = IpFilter_new\<rparr>)
       (IpFilter_allow_all parse_net)"

definition strip_brackets :: "string \<Rightarrow> string" where
  "strip_brackets host =
     (let h = unwrap_or host (strip_prefix ''['' host) in unwrap_or h (strip_suffix '']'' h))"

definition is_host_allowed ::
  "('net \<Rightarrow> ip_addr \<Rightarrow> bool) \<Rightarrow> 'net egress_policy \<Rightarrow> string \<Rightarrow> bool" where
  "is_host_allowed contains pol host =
     (let h = strip_brackets host in
      case parse_ip_addr h of
        Some addr \<Rightarrow> IpFilter_matches contains (ip_allow pol) addr \<and>
                     \<not> IpFilter_matches contains (ip_deny pol) addr
      | None \<Rightarrow> DomainFilter_matches (domain_allow pol) h \<and>
                \<not> DomainFilter_matches (domain_deny pol) h)"

subsection \<open>Specification of domain patterns\<close>

text \<open>
  On the labels in their written order: \<open>*\<close> stands for one label; the last \<open>**\<close> stands for one or
  more labels, and whatever is written to the left of it is ignored.
\<close>

definition label_match :: "string \<Rightarrow> string \<Rightarrow> bool" where
  "label_match p q \<longleftrightarrow> p = ''*'' \<or> p \<noteq> ''**'' \<and> eq_ignore_ascii_case p q"

definition labels_match :: "string list \<Rightarrow> string list \<Rightarrow> bool" where
  "labels_match ps qs \<longleftrightarrow>
     (if ''**'' \<in> set ps
      then (\<exists>pre post q1 q2. ps = pre @ ''**'' # post \<and> ''**'' \<notin> set post \<and>
              qs = q1 @ q2 \<and> q1 \<noteq> [] \<and> list_all2 label_match post q2)
      else list_all2 label_match ps qs)"

definition domain_match :: "string \<Rightarrow> string \<Rightarrow> bool" where
  "domain_match pat dm = labels_match (split_on (CHR ''.'') pat) (split_on (CHR ''.'') dm)"

text \<open>The loop on reversed labels, in terms of written labels.\<close>

lemma part_match_step:
  "Pattern_matches (PatternPart_new p # pats) (to_ascii_lowercase q # qs) \<longleftrightarrow>
     p = ''**'' \<or> label_match p q \<and> Pattern_matches pats qs"
  by (auto simp: PatternPart_new_def label_match_def eq_ignore_ascii_case_def)

lemma reversed_match_plain:
  assumes "''**'' \<notin> set ps"
  shows "Pattern_matches (map PatternPart_new ps) (map to_ascii_lowercase qs) \<longleftrightarrow>
           list_all2 label_match ps qs"
  using assms
proof (induction ps arbitrary: qs)
  case Nil
  then show ?case by simp
next
  case (Cons p ps)
  show ?case
  proof (cases qs)
    case Nil
    then show ?thesis by simp
  next
    case (Cons q qs')
    moreover have "p \<noteq> ''**''" using Cons.prems by auto
    ultimately show ?thesis
      using Cons.prems Cons.IH by (simp add: part_match_step del: Pattern_matches.simps)
  qed
qed

lemma reversed_match_superwild:
  assumes "''**'' \<notin> set post"
  shows "Pattern_matches (map PatternPart_new (post @ ''**'' # pre)) (map to_ascii_lowercase qs) \<longleftrightarrow>
           (\<exists>q1 q2. qs = q2 @ q1 \<and> q1 \<noteq> [] \<and> list_all2 label_match post q2)"
  using assms
proof (induction post arbitrary: qs)
  case Nil
  then show ?case by (cases qs) (simp_all add: part_match_step del: Pattern_matches.simps(3))
next
  case (Cons p post)
  show ?case
  proof (cases qs)
    case Nil
    then show ?thesis by simp
  next
    case q: (Cons q qs')
    have p: "p \<noteq> ''**''" using Cons.prems by auto
    have "?thesis \<longleftrightarrow>
        (label_match p q \<and> (\<exists>q1 q2. qs' = q2 @ q1 \<and> q1 \<noteq> [] \<and> list_all2 label_match post q2) \<longleftrightarrow>
        (\<exists>q1 q2. q # qs' = q2 @ q1 \<and> q1 \<noteq> [] \<and> list_all2 label_match (p # post) q2))"
      using Cons q p by (simp add: part_match_step del: Pattern_matches.simps(3))
    also have "\<dots>"
      by (auto simp: list_all2_Cons1 Cons_eq_append_conv)
    finally show ?thesis by simp
  qed
qed

lemma Pattern_matches_labels:
  "Pattern_matches (rev (map PatternPart_new ps)) (rev (map to_ascii_lowercase qs)) \<longleftrightarrow> labels_match ps qs"
proof (cases "''**'' \<in> set ps")
  case False
  then show ?thesis
    using reversed_match_plain [of "rev ps" "rev qs"]
    by (simp add: labels_match_def rev_map)
next
  case True
  then obtain pre post where ps: "ps = pre @ ''**'' # post" and nin: "''**'' \<notin> set post"
    by (metis split_list_last)
  have unique: "ps = pre' @ ''**'' # post' \<Longrightarrow> ''**'' \<notin> set post' \<Longrightarrow> post' = post" for pre' post'
    using ps nin by (auto simp: append_eq_append_conv2 append_eq_Cons_conv Cons_eq_append_conv)
  have "Pattern_matches (rev (map PatternPart_new ps)) (rev (map to_ascii_lowercase qs)) \<longleftrightarrow>
      (\<exists>q1 q2. rev qs = q2 @ q1 \<and> q1 \<noteq> [] \<and> list_all2 label_match (rev post) q2)"
    using reversed_match_superwild [of "rev post" "rev pre" "rev qs"] ps nin
    by (simp add: rev_map)
  also have "\<dots> \<longleftrightarrow> (\<exists>q1 q2. qs = q1 @ q2 \<and> q1 \<noteq> [] \<and> list_all2 label_match post q2)"
  proof -
    have "(\<exists>q1 q2. rev qs = q2 @ q1 \<and> q1 \<noteq> [] \<and> list_all2 label_match (rev post) q2) \<longleftrightarrow>
        (\<exists>q1 q2. rev qs = rev q2 @ rev q1 \<and> rev q1 \<noteq> [] \<and> list_all2 label_match (rev post) (rev q2))"
      by (metis rev_rev_ident)
    then show ?thesis by (simp add: rev_append [symmetric] del: rev_append)
  qed
  also have "\<dots> \<longleftrightarrow> (\<exists>pre post q1 q2. ps = pre @ ''**'' # post \<and> ''**'' \<notin> set post \<and>
              qs = q1 @ q2 \<and> q1 \<noteq> [] \<and> list_all2 label_match post q2)"
    using ps nin unique by blast
  finally show ?thesis by (simp add: labels_match_def True)
qed

lemma DomainFilter_pattern_spec:
  "Pattern_matches (Pattern_new pat) (Domain_new dm) \<longleftrightarrow> domain_match pat dm"
  by (simp add: Pattern_new_def Domain_new_def Pattern_matches_labels domain_match_def)

subsection \<open>Specification of the policy\<close>

definition pattern_list :: "string list option \<Rightarrow> string list" where
  "pattern_list v = unwrap_or [] v"

definition names_host ::
  "(string \<Rightarrow> 'net option) \<Rightarrow> ('net \<Rightarrow> ip_addr \<Rightarrow> bool) \<Rightarrow> string list \<Rightarrow> string \<Rightarrow> bool" where
  "names_host parse_net contains pats h \<longleftrightarrow>
     (\<exists>p \<in> set pats.
        case (parse_ip_addr h, parse_net p) of
          (Some addr, Some n) \<Rightarrow> contains n addr
        | (None, None) \<Rightarrow> domain_match p h
        | _ \<Rightarrow> False)"

lemma load_filters_fold:
  "foldl (load_filter_step parse_net) (d, i) spec =
     (d\<lparr>df_patterns := df_patterns d @ map Pattern_new (filter (\<lambda>p. parse_net p = None) spec)\<rparr>,
      i\<lparr>if_patterns := if_patterns i @ List.map_filter parse_net spec\<rparr>)"
proof (induction spec arbitrary: d i)
  case Nil
  then show ?case by simp
next
  case (Cons p spec)
  then show ?case
    by (cases "parse_net p") (simp_all add: load_filter_step_def IpFilter_add_def DomainFilter_add_def)
qed

lemma load_filters_eq:
  "load_filters parse_net v =
     (\<lparr>df_patterns = map Pattern_new (filter (\<lambda>p. parse_net p = None) (pattern_list v))\<rparr>,
      \<lparr>if_patterns = List.map_filter parse_net (pattern_list v)\<rparr>)"
  by (cases v) (simp_all add: load_filters_def pattern_list_def load_filters_fold
      DomainFilter_new_def IpFilter_new_def)

lemma set_map_filter: "set (List.map_filter f xs) = {y. \<exists>x \<in> set xs. f x = Some y}"
  by (induction xs) (auto split: option.splits)

lemma loaded_ip_matches:
  "IpFilter_matches contains (snd (load_filters parse_net v)) addr \<longleftrightarrow>
     (\<exists>p \<in> set (pattern_list v). \<exists>n. parse_net p = Some n \<and> contains n addr)"
  by (auto simp: load_filters_eq IpFilter_matches_def list_ex_iff set_map_filter)

lemma loaded_domain_matches:
  "DomainFilter_matches (fst (load_filters parse_net v)) h \<longleftrightarrow>
     (\<exists>p \<in> set (pattern_list v). parse_net p = None \<and> domain_match p h)"
  by (auto simp: load_filters_eq DomainFilter_matches_def list_ex_iff DomainFilter_pattern_spec)

lemma domain_match_superwild: "domain_match ''**'' h"
proof -
  have "split_on (CHR ''.'') ''**'' = [''**'']" by simp
  moreover have "labels_match [''**''] qs" if "qs \<noteq> []" for qs
    using Pattern_matches_labels [of "[''**'']" qs] that
    by (cases "rev qs") (auto simp: PatternPart_new_def rev_map [symmetric])
  ultimately show ?thesis by (simp add: domain_match_def)
qed

subsection \<open>Main results\<close>

text \<open>
  C19. The matching loop of the domain filter decides the declarative pattern language: labels are
  compared from the right without regard to ASCII case, \<open>*\<close> matches exactly one label and the last
  \<open>**\<close> one or more.
\<close>

theorem Pattern_matches_correct:
  "Pattern_matches (Pattern_new pat) (Domain_new d) \<longleftrightarrow> domain_match pat d"
  by (rule DomainFilter_pattern_spec)

text \<open>
  C3. A host (after removing IPv6 brackets) is allowed exactly when some pattern of the allow list
  names it and no pattern of the deny list does; a host that is an IP literal is named only by IP
  network patterns, any other host only by domain patterns; so an absent or empty allow list admits
  nothing and a deny pattern always wins.
\<close>

theorem is_host_allowed_iff:
  "is_host_allowed contains (EgressPolicy_new parse_net spec) host \<longleftrightarrow>
     names_host parse_net contains (pattern_list (eg_allow spec)) (strip_brackets host) \<and>
     \<not> names_host parse_net contains (pattern_list (eg_deny spec)) (strip_brackets host)"
proof -
  have pol: "EgressPolicy_new parse_net spec =
      \<lparr>domain_allow = fst (load_filters parse_net (eg_allow spec)),
       domain_deny = fst (load_filters parse_net (eg_deny spec)),
       ip_allow = snd (load_filters parse_net (eg_allow spec)),
       ip_deny = snd (load_filters parse_net (eg_deny spec))\<rparr>"
    by (simp add: EgressPolicy_new_def split: prod.splits)
  show ?thesis
  proof (cases "parse_ip_addr (strip_brackets host)")
    case None
    then show ?thesis
      by (auto simp: is_host_allowed_def pol loaded_domain_matches names_host_def Let_def split: option.splits)
  next
    case (Some addr)
    then show ?thesis
      by (fastforce simp: is_host_allowed_def pol loaded_ip_matches names_host_def Let_def split: option.splits)
  qed
qed

text \<open>
  The policy without restrictions admits every host name, every IPv4 and every IPv6 literal,
  given that the two catch-all networks parse and contain every address of their family.
\<close>

lemma allow_all_allows:
  assumes v4: "parse_net ''0.0.0.0/0'' = Some n4" "\<And>xs. contains n4 (V4 xs)"
    and v6: "parse_net ''::/0'' = Some n6" "\<And>xs. contains n6 (V6 xs)"
  shows "\<exists>pol. EgressPolicy_allow_all parse_net = Some pol \<and> is_host_allowed contains pol host"
proof -
  have match: "contains n4 addr \<or> contains n6 addr" for addr
    using v4(2) v6(2) by (cases addr) auto
  have "Pattern_matches (Pattern_new ''**'') (Domain_new h)" for h
    by (simp add: DomainFilter_pattern_spec domain_match_superwild)
  with v4(1) v6(1) match show ?thesis
    by (simp add: EgressPolicy_allow_all_def IpFilter_allow_all_def is_host_allowed_def
        DomainFilter_matches_def DomainFilter_allow_all_def DomainFilter_new_def IpFilter_matches_def
        IpFilter_new_def Let_def split: option.splits)
qed

text \<open>A concrete network type: the set of addresses of one family.\<close>

definition family_net :: "string \<Rightarrow> bool option" where
  "family_net s = (if s = ''0.0.0.0/0'' then Some True else if s = ''::/0'' then Some False else None)"

definition family_contains :: "bool \<Rightarrow> ip_addr \<Rightarrow> bool" where
  "family_contains n a = (case a of V4 _ \<Rightarrow> n | V6 _ \<Rightarrow> \<not> n)"

end
