(* ===== verification/Wire_Framing.thy ===== *)
theory Wire_Framing
  imports Rust_Std
begin

text \<open>
  Byte streams and length-prefixed frames.  Two components of the repository frame their JSON
  messages with a 32-bit little-endian length: the hostfs protocol (\<open>fs_protocol.rs\<close>) and the
  egress proxy's control messages (\<open>proxy/egress_http.rs\<close>).  This theory holds what both use of
  the standard library (\<open>to_le_bytes\<close>, \<open>read_exact\<close>, \<open>write_all\<close>), and the interface they both
  provide as a locale, with the facts on sequences of frames proved once.
\<close>

subsection \<open>Little-endian words\<close>

definition to_le_bytes :: "u32 \<Rightarrow> bytes" where
  "to_le_bytes w =
     [of_nat (unat w mod 256), of_nat (unat w div 256 mod 256),
      of_nat (unat w div 65536 mod 256), of_nat (unat w div 16777216)]"

definition from_le_bytes :: "bytes \<Rightarrow> u32" where
  "from_le_bytes bs =
     of_nat (unat (bs ! 0) + 256 * unat (bs ! 1) + 65536 * unat (bs ! 2) + 16777216 * unat (bs ! 3))"

lemma length_to_le_bytes [simp]: "length (to_le_bytes w) = 4"
  by (simp add: to_le_bytes_def)

lemma le_digits:
  "n mod 256 + 256 * (n div 256 mod 256) + 65536 * (n div 65536 mod 256) + 16777216 * (n div 16777216)
       = (n :: nat)"
proof -
  define m k where "m = n div 256" and "k = m div 256"
  have dk: "n div 65536 = k" "n div 16777216 = k div 256"
    by (simp_all add: m_def k_def div_mult2_eq [symmetric])
  have "n = n mod 256 + 256 * m" "m = m mod 256 + 256 * k" "k = k mod 256 + 256 * (k div 256)"
    by (simp_all add: m_def k_def)
  then show ?thesis unfolding m_def [symmetric] dk by linarith
qed

lemma from_to_le_bytes [simp]: "from_le_bytes (to_le_bytes w) = w"
proof -
  have "unat w div 16777216 < 256"
    using unat_u32_less [of w] by (intro less_mult_imp_div_less) simp
  then show ?thesis
    using le_digits [of "unat w"]
    by (simp add: from_le_bytes_def to_le_bytes_def unat_of_nat_u8)
qed

lemma to_from_le_bytes:
  assumes "length bs = 4"
  shows "to_le_bytes (from_le_bytes bs) = bs"
proof -
  from assms obtain a b c d where bs: "bs = [a, b, c, d]"
    by (auto simp: length_Suc_conv numeral_eq_Suc)
  let ?n = "unat a + 256 * unat b + 65536 * unat c + 16777216 * unat d"
  have lt: "unat a < 256" "unat b < 256" "unat c < 256" "unat d < 256" by simp_all
  then have n: "unat (of_nat ?n :: u32) = ?n" by (intro unat_of_nat_u32) linarith
  have digit: "(x + 256 * y) mod 256 = x" "(x + 256 * y) div 256 = y" if "x < 256" for x y :: nat
    using that by simp_all
  have split: "?n = unat a + 256 * (unat b + 256 * (unat c + 256 * unat d))" by simp
  have 0: "?n mod 256 = unat a" unfolding split by (rule digit) (rule lt)
  have 1: "?n div 256 = unat b + 256 * (unat c + 256 * unat d)"
    unfolding split by (rule digit) (rule lt)
  have "?n div 65536 = ?n div 256 div 256" "?n div 16777216 = ?n div 256 div 256 div 256"
    by (simp_all add: div_mult2_eq [symmetric])
  then have 2: "?n div 65536 = unat c + 256 * unat d" "?n div 16777216 = unat d"
    unfolding 1 using lt by (simp_all only: digit)
  have digits: "?n mod 256 = unat a" "?n div 256 mod 256 = unat b"
    "?n div 65536 mod 256 = unat c" "?n div 16777216 = unat d"
    using 0 lt unfolding 1 2 by (simp_all only: digit)
  have "to_le_bytes (of_nat ?n) = [a, b, c, d]"
    by (simp only: to_le_bytes_def n digits of_nat_unat_u8)
  moreover have "from_le_bytes bs = of_nat ?n" by (simp add: bs from_le_bytes_def)
  ultimately show ?thesis by (simp only: bs)
qed

subsection \<open>A duplex byte stream\<close>

text \<open>
  What one end of a connection sees: the bytes the peer sends before it closes (\<open>rx\<close>), the bytes
  written so far (\<open>tx\<close>), and the OS error every further write fails with, if any (\<open>tx_error\<close>).
\<close>

record duplex =
  rx :: bytes
  tx :: bytes
  tx_error :: "int option"

datatype transport_error =
    UnexpectedEof
  | MessageTooLarge nat
  | JsonEncodeError
  | JsonDecodeError
  | WriteFailed int

definition read_exact :: "nat \<Rightarrow> duplex \<Rightarrow> (transport_error, bytes \<times> duplex) result" where
  "read_exact n s =
     (if length (rx s) < n then Inl UnexpectedEof
      else Inr (take n (rx s), s\<lparr>rx := drop n (rx s)\<rparr>))"

definition write_all :: "bytes \<Rightarrow> duplex \<Rightarrow> (transport_error, duplex) result" where
  "write_all bs s =
     (case tx_error s of
        Some code \<Rightarrow> Inl (WriteFailed code)
      | None \<Rightarrow> Inr (s\<lparr>tx := tx s @ bs\<rparr>))"

lemma write_all_ok [simp]: "tx_error s = None \<Longrightarrow> write_all bs s = Inr (s\<lparr>tx := tx s @ bs\<rparr>)"
  by (simp add: write_all_def)

lemma read_exact_append [simp]:
  "rx s = p @ rest \<Longrightarrow> length p = n \<Longrightarrow> read_exact n s = Inr (p, s\<lparr>rx := rest\<rparr>)"
  by (simp add: read_exact_def)

lemma read_exact_Inr:
  "read_exact n s = Inr (p, s') \<longleftrightarrow> length p = n \<and> rx s = p @ rx s' \<and> s' = s\<lparr>rx := rx s'\<rparr>"
proof
  assume "read_exact n s = Inr (p, s')"
  then show "length p = n \<and> rx s = p @ rx s' \<and> s' = s\<lparr>rx := rx s'\<rparr>"
    by (auto simp: read_exact_def split: if_splits)
next
  assume "length p = n \<and> rx s = p @ rx s' \<and> s' = s\<lparr>rx := rx s'\<rparr>"
  then show "read_exact n s = Inr (p, s')" by (metis read_exact_append)
qed

subsection \<open>The frame interface\<close>

text \<open>
  A frame codec sends a payload by appending a frame to the output, and receives one from the front
  of the input.  The two laws say that receiving inverts sending, whatever follows on the stream,
  and that nothing but a sent frame is received.
\<close>

locale frame_codec =
  fixes put_frame :: "bytes \<Rightarrow> duplex \<Rightarrow> (transport_error, duplex) result"
    and get_frame :: "duplex \<Rightarrow> (transport_error, bytes \<times> duplex) result"
    and frame :: "bytes \<Rightarrow> bytes"
    and fits :: "bytes \<Rightarrow> bool"
  assumes put_ok: "fits p \<Longrightarrow> tx_error s = None \<Longrightarrow> put_frame p s = Inr (s\<lparr>tx := tx s @ frame p\<rparr>)"
    and put_fits: "put_frame p s = Inr s' \<Longrightarrow> fits p \<and> tx_error s = None"
    and get_ok: "fits p \<Longrightarrow> rx s = frame p @ rest \<Longrightarrow> get_frame s = Inr (p, s\<lparr>rx := rest\<rparr>)"
    and get_sound: "get_frame s = Inr (p, s') \<Longrightarrow> fits p \<and> rx s = frame p @ rx s' \<and> s' = s\<lparr>rx := rx s'\<rparr>"
begin

fun put_frames :: "bytes list \<Rightarrow> duplex \<Rightarrow> (transport_error, duplex) result" where
  "put_frames [] s = Inr s"
| "put_frames (p # ps) s = rbind (put_frame p s) (put_frames ps)"

fun get_frames :: "nat \<Rightarrow> duplex \<Rightarrow> (transport_error, bytes list \<times> duplex) result" where
  "get_frames 0 s = Inr ([], s)"
| "get_frames (Suc n) s =
     rbind (get_frame s) (\<lambda>(p, s1). rbind (get_frames n s1) (\<lambda>(ps, s2). Inr (p # ps, s2)))"

lemma put_frame_iff:
  "put_frame p s = Inr s' \<longleftrightarrow> fits p \<and> tx_error s = None \<and> s' = s\<lparr>tx := tx s @ frame p\<rparr>"
  using put_ok put_fits by (metis Inr_inject)

lemma put_frames_iff:
  "ps \<noteq> [] \<Longrightarrow> put_frames ps s = Inr s' \<longleftrightarrow>
     list_all fits ps \<and> tx_error s = None \<and> s' = s\<lparr>tx := tx s @ concat (map frame ps)\<rparr>"
proof (induction ps arbitrary: s)
  case Nil
  then show ?case by simp
next
  case (Cons p ps)
  show ?case
  proof (cases "ps = []")
    case True
    then show ?thesis by (auto simp: result_elims put_frame_iff)
  next
    case False
    with Cons.IH show ?thesis by (auto simp: result_elims put_frame_iff)
  qed
qed

text \<open>A sequence of sent messages is received unchanged, in order, and nothing more is consumed.\<close>

lemma frames_roundtrip:
  assumes "list_all fits ps" and "rx s = concat (map frame ps) @ rest"
  shows "get_frames (length ps) s = Inr (ps, s\<lparr>rx := rest\<rparr>)"
  using assms
proof (induction ps arbitrary: s)
  case Nil
  then show ?case by simp
next
  case (Cons p ps)
  then have "get_frame s = Inr (p, s\<lparr>rx := concat (map frame ps) @ rest\<rparr>)"
    by (intro get_ok) auto
  with Cons show ?case by simp
qed

lemma frames_unique:
  assumes "list_all fits ps" "list_all fits qs" "length ps = length qs"
    and "concat (map frame ps) @ r = concat (map frame qs) @ r'"
  shows "ps = qs \<and> r = r'"
proof -
  define s :: duplex where "s = \<lparr>rx = concat (map frame ps) @ r, tx = [], tx_error = None\<rparr>"
  have "get_frames (length ps) s = Inr (ps, s\<lparr>rx := r\<rparr>)"
    using assms(1) by (intro frames_roundtrip) (simp_all add: s_def)
  moreover have "get_frames (length qs) s = Inr (qs, s\<lparr>rx := r'\<rparr>)"
    using assms(2,4) by (intro frames_roundtrip) (simp_all add: s_def)
  ultimately show ?thesis using assms(3) by (auto simp: s_def)
qed

end

subsection \<open>The little-endian codec with a size limit\<close>

text \<open>Both components check the limit before writing and before allocating the receive buffer.\<close>

definition le_frame :: "bytes \<Rightarrow> bytes" where
  "le_frame payload = to_le_bytes (of_nat (length payload)) @ payload"

definition recv_le_frame :: "nat \<Rightarrow> duplex \<Rightarrow> (transport_error, bytes \<times> duplex) result" where
  "recv_le_frame limit s =
     rbind (read_exact 4 s) (\<lambda>(len_buf, s1).
     let len = unat (from_le_bytes len_buf) in
     rbind (bail_if (len > limit) (MessageTooLarge len)) (\<lambda>_.
     read_exact len s1))"

lemma recv_le_frame_ok:
  assumes "length p \<le> limit" "limit < 4294967296" "rx s = le_frame p @ rest"
  shows "recv_le_frame limit s = Inr (p, s\<lparr>rx := rest\<rparr>)"
  using assms by (simp add: recv_le_frame_def le_frame_def unat_of_nat_u32)

lemma recv_le_frame_sound:
  assumes "recv_le_frame limit s = Inr (p, s')" "limit < 4294967296"
  shows "length p \<le> limit \<and> rx s = le_frame p @ rx s' \<and> s' = s\<lparr>rx := rx s'\<rparr>"
proof -
  from assms(1) obtain lb s1 where 1: "read_exact 4 s = Inr (lb, s1)"
    and 2: "read_exact (unat (from_le_bytes lb)) s1 = Inr (p, s')"
    and 3: "unat (from_le_bytes lb) \<le> limit"
    by (auto simp: recv_le_frame_def result_elims Let_def)
  from 1 2 have len: "length lb = 4" "length p = unat (from_le_bytes lb)"
    and eq: "rx s = lb @ p @ rx s'" "s' = s\<lparr>rx := rx s'\<rparr>"
    by (auto simp: read_exact_Inr)
  have "to_le_bytes (of_nat (length p)) = lb"
    using len by (simp add: to_from_le_bytes)
  with len 3 eq show ?thesis by (simp add: le_frame_def)
qed

end
