(* ===== verification/Vsock_Ports.thy ===== *)
theory Vsock_Ports
  imports Rust_Std
begin

text \<open>
  The vsock address plan: \<open>constants.rs\<close>, \<open>runtime_vsock.rs\<close> and the listener search of
  \<open>vsock.rs\<close>.  Ports and CIDs are 32-bit words; the code's \<open>checked_add\<close>/\<open>checked_mul\<close> are kept.
  The host-side ports of different enclaves and services are shown pairwise different, and the
  managed CID range to be free of overflow.
\<close>

subsection \<open>Constants\<close>

definition STATUS_PORT :: u32 where "STATUS_PORT = 17000"
definition APP_LOG_PORT :: u32 where "APP_LOG_PORT = 17001"
definition CAPSULE_MANAGED_CID_START :: u32 where "CAPSULE_MANAGED_CID_START = 16"
definition CAPSULE_MANAGED_CID_END :: u32 where "CAPSULE_MANAGED_CID_END = 4096"
definition HOST_RUNTIME_VSOCK_PORT_BASE :: u32 where "HOST_RUNTIME_VSOCK_PORT_BASE = 20000"
definition HOST_RUNTIME_VSOCK_PORT_STRIDE :: u32 where "HOST_RUNTIME_VSOCK_PORT_STRIDE = 128"
definition HOST_RUNTIME_EGRESS_OFFSET :: u32 where "HOST_RUNTIME_EGRESS_OFFSET = 0"
definition HOST_RUNTIME_CLOCK_SYNC_OFFSET :: u32 where "HOST_RUNTIME_CLOCK_SYNC_OFFSET = 1"
definition HOST_RUNTIME_HOSTFS_OFFSET_BASE :: u32 where "HOST_RUNTIME_HOSTFS_OFFSET_BASE = 16"
definition HOST_RUNTIME_HOSTFS_CAPACITY :: u32 where
  "HOST_RUNTIME_HOSTFS_CAPACITY = HOST_RUNTIME_VSOCK_PORT_STRIDE - HOST_RUNTIME_HOSTFS_OFFSET_BASE"
definition HTTP_EGRESS_PROXY_PORT :: u16 where "HTTP_EGRESS_PROXY_PORT = 10000"
definition VMADDR_CID_ANY :: u32 where "VMADDR_CID_ANY = 0xFFFFFFFF"
definition VMADDR_CID_LOCAL :: u32 where "VMADDR_CID_LOCAL = 1"
definition VMADDR_CID_HOST :: u32 where "VMADDR_CID_HOST = 2"

lemmas vsock_constants =
  CAPSULE_MANAGED_CID_START_def CAPSULE_MANAGED_CID_END_def HOST_RUNTIME_VSOCK_PORT_BASE_def
  HOST_RUNTIME_VSOCK_PORT_STRIDE_def HOST_RUNTIME_EGRESS_OFFSET_def
  HOST_RUNTIME_CLOCK_SYNC_OFFSET_def HOST_RUNTIME_HOSTFS_OFFSET_BASE_def

subsection \<open>Host-side runtime ports\<close>

datatype vsock_error =
    ReservedCid u32
  | BlockOverflow
  | EgressOverflow
  | ClockSyncOverflow
  | HostfsBaseOverflow
  | HostfsPortOverflow
  | MountIndexTooLarge nat
  | MountIndexOverCapacity nat
  | LocalCidUnavailable
  | NoFreeManagedCid

record runtime_host_vsock_ports =
  vp_enclave_cid :: u32
  vp_egress_port :: u32
  vp_clock_sync_port :: u32
  vp_hostfs_base_port :: u32

definition runtime_block_base :: "u32 \<Rightarrow> (vsock_error, u32) result" where
  "runtime_block_base cid =
     rbind (ok_or BlockOverflow (checked_mul cid HOST_RUNTIME_VSOCK_PORT_STRIDE)) (\<lambda>off.
     ok_or BlockOverflow (checked_add HOST_RUNTIME_VSOCK_PORT_BASE off))"

definition validate_enclave_cid :: "u32 \<Rightarrow> (vsock_error, unit) result" where
  "validate_enclave_cid cid =
     rbind (bail_if (cid < 4) (ReservedCid cid)) (\<lambda>_.
     rbind (runtime_block_base cid) (\<lambda>_. Inr ()))"

definition for_cid :: "u32 \<Rightarrow> (vsock_error, runtime_host_vsock_ports) result" where
  "for_cid cid =
     rbind (validate_enclave_cid cid) (\<lambda>_.
     rbind (runtime_block_base cid) (\<lambda>block_base.
     rbind (ok_or EgressOverflow (checked_add block_base HOST_RUNTIME_EGRESS_OFFSET)) (\<lambda>egress.
     rbind (ok_or ClockSyncOverflow (checked_add block_base HOST_RUNTIME_CLOCK_SYNC_OFFSET)) (\<lambda>clock.
     rbind (ok_or HostfsBaseOverflow (checked_add block_base HOST_RUNTIME_HOSTFS_OFFSET_BASE)) (\<lambda>fs_base.
     Inr \<lparr>vp_enclave_cid = cid, vp_egress_port = egress, vp_clock_sync_port = clock,
          vp_hostfs_base_port = fs_base\<rparr>)))))"

definition hostfs_mount_port ::
  "runtime_host_vsock_ports \<Rightarrow> nat \<Rightarrow> (vsock_error, u32) result" where
  "hostfs_mount_port p index =
     rbind (bail_if (index \<ge> 2 ^ 32) (MountIndexTooLarge index)) (\<lambda>_.
     let index_u32 = (of_nat index :: u32) in
     rbind (bail_if (index_u32 \<ge> HOST_RUNTIME_HOSTFS_CAPACITY) (MountIndexOverCapacity index)) (\<lambda>_.
     ok_or HostfsPortOverflow (checked_add (vp_hostfs_base_port p) index_u32)))"

text \<open>The kernel's answer to \<open>get_local_cid\<close> is an argument.\<close>

definition for_local_enclave ::
  "u32 option \<Rightarrow> (vsock_error, runtime_host_vsock_ports) result" where
  "for_local_enclave local_cid = rbind (ok_or LocalCidUnavailable local_cid) for_cid"

definition allocate_managed_enclave_cid :: "u32 set \<Rightarrow> (vsock_error, u32) result" where
  "allocate_managed_enclave_cid used =
     ok_or NoFreeManagedCid
       (find (\<lambda>cid. cid \<notin> used)
         (map of_nat [unat CAPSULE_MANAGED_CID_START ..< Suc (unat CAPSULE_MANAGED_CID_END)]))"

subsection \<open>Listening\<close>

text \<open>
  \<open>serve_auto\<close> tries successive ports; only "address in use" makes it continue.  The last error
  is unwrapped after the loop, which panics when no attempt was made.  Port addition wraps, as in
  a release build.
\<close>

datatype bind_error = AddrInUse | OtherBindError nat

datatype 'l serve_result = Serving 'l u32 | ServeError bind_error | ServePanic

fun serve_attempts ::
  "(u32 \<Rightarrow> (bind_error, 'l) result) \<Rightarrow> u32 \<Rightarrow> nat \<Rightarrow> nat \<Rightarrow> bind_error option \<Rightarrow> 'l serve_result" where
  "serve_attempts bnd preferred_port attempt 0 last_error =
     (case last_error of None \<Rightarrow> ServePanic | Some e \<Rightarrow> ServeError e)"
| "serve_attempts bnd preferred_port attempt (Suc n) last_error =
     (let port = preferred_port + of_nat attempt in
      case bnd port of
        Inr l \<Rightarrow> Serving l port
      | Inl AddrInUse \<Rightarrow> serve_attempts bnd preferred_port (Suc attempt) n (Some AddrInUse)
      | Inl e \<Rightarrow> ServeError e)"

definition serve_auto ::
  "(u32 \<Rightarrow> (bind_error, 'l) result) \<Rightarrow> u32 \<Rightarrow> u32 \<Rightarrow> 'l serve_result" where
  "serve_auto bnd preferred_port max_attempts =
     serve_attempts bnd preferred_port 0 (unat max_attempts) None"

text \<open>\<open>serve\<close>: one attempt, every error returned.\<close>

definition serve :: "(u32 \<Rightarrow> (bind_error, 'l) result) \<Rightarrow> u32 \<Rightarrow> (bind_error, 'l) result" where
  "serve bnd port = bnd port"

text \<open>The accepted connections: accept errors are logged and dropped.\<close>

fun accepted :: "('e, 'c) result list \<Rightarrow> 'c list" where
  "accepted [] = []"
| "accepted (Inr c # rs) = c # accepted rs"
| "accepted (Inl _ # rs) = accepted rs"

subsection \<open>Arithmetic of the port blocks\<close>

lemma checked_add_iff:
  "checked_add a b = Some (c :: u32) \<longleftrightarrow> unat c = unat a + unat b"
proof
  assume "checked_add a b = Some c"
  then show "unat c = unat a + unat b" by (rule checked_add_Some)
next
  assume c: "unat c = unat a + unat b"
  then have "unat a + unat b < 4294967296" using unat_u32_less [of c] by simp
  moreover from c have "c = a + b"
    by (metis of_nat_unat_u32 of_nat_add)
  ultimately show "checked_add a b = Some c" by (simp add: checked_add_def)
qed

lemma checked_mul_iff:
  "checked_mul a b = Some (c :: u32) \<longleftrightarrow> unat c = unat a * unat b"
proof
  assume "checked_mul a b = Some c"
  then show "unat c = unat a * unat b" by (rule checked_mul_Some)
next
  assume c: "unat c = unat a * unat b"
  then have "unat a * unat b < 4294967296" using unat_u32_less [of c] by simp
  moreover from c have "c = a * b"
    by (metis of_nat_unat_u32 of_nat_mult)
  ultimately show "checked_mul a b = Some c" by (simp add: checked_mul_def)
qed

lemma runtime_block_base_iff:
  "runtime_block_base cid = Inr b \<longleftrightarrow> unat b = 20000 + 128 * unat cid"
proof -
  have "(\<exists>x :: u32. unat x = unat cid * 128 \<and> unat b = 20000 + unat x) \<longleftrightarrow>
        unat b = 20000 + 128 * unat cid"
  proof
    assume b: "unat b = 20000 + 128 * unat cid"
    then have "unat cid * 128 < 4294967296" using unat_u32_less [of b] by simp
    with b show "\<exists>x :: u32. unat x = unat cid * 128 \<and> unat b = 20000 + unat x"
      by (intro exI [of _ "of_nat (unat cid * 128)"]) (simp only: unat_of_nat_u32, simp)
  qed auto
  then show ?thesis
    by (simp add: runtime_block_base_def result_elims checked_add_iff checked_mul_iff vsock_constants)
qed

lemma for_cid_iff:
  "for_cid cid = Inr p \<longleftrightarrow>
     4 \<le> unat cid \<and> vp_enclave_cid p = cid \<and>
     unat (vp_egress_port p) = 20000 + 128 * unat cid \<and>
     unat (vp_clock_sync_port p) = 20001 + 128 * unat cid \<and>
     unat (vp_hostfs_base_port p) = 20016 + 128 * unat cid"
proof -
  have lt: "cid < 4 \<longleftrightarrow> unat cid < 4" by (simp add: word_less_nat_alt)
  show ?thesis
  proof (cases "runtime_block_base cid")
    case (Inr b)
    then have "unat b = 20000 + 128 * unat cid" by (simp add: runtime_block_base_iff)
    with Inr show ?thesis
      by (cases p)
         (auto simp: for_cid_def validate_enclave_cid_def result_elims checked_add_iff
            vsock_constants lt)
  next
    case (Inl e)
    then have "unat b \<noteq> 20000 + 128 * unat cid" for b :: u32
      using runtime_block_base_iff [of cid b] by simp
    with Inl show ?thesis by (simp add: for_cid_def validate_enclave_cid_def rbind_def bail_if_def)
  qed
qed

lemma hostfs_mount_port_iff:
  "hostfs_mount_port p i = Inr q \<longleftrightarrow> i < 112 \<and> unat q = unat (vp_hostfs_base_port p) + i"
proof (cases "i < 2 ^ 32")
  case True
  then have i: "unat (of_nat i :: u32) = i" by (simp add: unat_of_nat_u32)
  have "(112 :: u32) \<le> of_nat i \<longleftrightarrow> 112 \<le> i"
    by (simp add: word_le_nat_alt i)
  with True i show ?thesis
    by (auto simp: hostfs_mount_port_def HOST_RUNTIME_HOSTFS_CAPACITY_def vsock_constants
        result_elims checked_add_iff Let_def)
next
  case False
  then show ?thesis by (simp add: hostfs_mount_port_def)
qed

subsection \<open>The services of an enclave\<close>

datatype host_service = EgressService | ClockSyncService | HostfsService nat

definition service_port :: "u32 \<Rightarrow> host_service \<Rightarrow> (vsock_error, u32) result" where
  "service_port cid s =
     rbind (for_cid cid) (\<lambda>p.
       case s of
         EgressService \<Rightarrow> Inr (vp_egress_port p)
       | ClockSyncService \<Rightarrow> Inr (vp_clock_sync_port p)
       | HostfsService i \<Rightarrow> hostfs_mount_port p i)"

definition service_offset :: "host_service \<Rightarrow> nat" where
  "service_offset s =
     (case s of EgressService \<Rightarrow> 0 | ClockSyncService \<Rightarrow> 1 | HostfsService i \<Rightarrow> 16 + i)"

lemma service_port_value:
  assumes "service_port cid s = Inr port"
  shows "unat port = 20000 + 128 * unat cid + service_offset s" "service_offset s < 128"
  using assms
  by (auto simp: service_port_def service_offset_def result_elims for_cid_iff hostfs_mount_port_iff
      split: host_service.splits)

lemma service_offset_inj: "service_offset s = service_offset t \<Longrightarrow> s = t"
  by (cases s; cases t) (auto simp: service_offset_def)

lemma for_cid_ok:
  assumes "4 \<le> unat cid" "unat cid \<le> 33554272"
  shows "\<exists>p. for_cid cid = Inr p"
proof -
  let ?b = "20000 + 128 * unat cid"
  from assms have "unat (of_nat ?b :: u32) = ?b" "unat (of_nat (?b + 1) :: u32) = ?b + 1"
      "unat (of_nat (?b + 16) :: u32) = ?b + 16"
    by (simp_all only: unat_of_nat_u32)
  with assms(1) show ?thesis
    unfolding for_cid_iff
    by (intro exI [of _ "\<lparr>vp_enclave_cid = cid, vp_egress_port = of_nat ?b,
        vp_clock_sync_port = of_nat (?b + 1), vp_hostfs_base_port = of_nat (?b + 16)\<rparr>"])
       simp
qed

text \<open>Searching an inclusive range of words, as \<open>for cid in START..=END\<close> does.\<close>

lemma find_word_range_Some:
  assumes "b < 2 ^ 32"
  shows "find P (map of_nat [a..<Suc b]) = Some (x :: u32) \<longleftrightarrow>
           a \<le> unat x \<and> unat x \<le> b \<and> P x \<and> (\<forall>c. a \<le> unat c \<and> c < x \<longrightarrow> \<not> P c)"
proof (induction "Suc b - a" arbitrary: a)
  case 0
  then show ?case by simp
next
  case (Suc n)
  then have ab: "a \<le> b" and ua: "unat (of_nat a :: u32) = a"
    using assms by (simp_all add: unat_of_nat_u32)
  then have step: "find P (map of_nat [a..<Suc b]) =
      (if P (of_nat a) then Some (of_nat a) else find P (map of_nat [Suc a..<Suc b]))"
    by (simp add: upt_conv_Cons del: upt_Suc)
  have IH: "find P (map of_nat [Suc a..<Suc b]) = Some x \<longleftrightarrow>
      Suc a \<le> unat x \<and> unat x \<le> b \<and> P x \<and> (\<forall>c. Suc a \<le> unat c \<and> c < x \<longrightarrow> \<not> P c)"
    using Suc by (intro Suc.hyps(1)) simp
  have first: "x = of_nat a \<or> Suc a \<le> unat x" if "a \<le> unat x" for x :: u32
    using that ua by (auto simp: word_unat_eq_iff)
  show ?case
  proof (cases "P (of_nat a)")
    case True
    then show ?thesis
      using step ab ua first [of x] by (auto simp: word_less_nat_alt)
  next
    case False
    then show ?thesis
      using step IH first ua by (auto simp: word_less_nat_alt)
  qed
qed

lemma find_word_range_None:
  assumes "b < 2 ^ 32"
  shows "find P (map of_nat [a..<Suc b]) = None \<longleftrightarrow> (\<forall>x :: u32. a \<le> unat x \<and> unat x \<le> b \<longrightarrow> \<not> P x)"
proof -
  have "set (map of_nat [a..<Suc b]) = {x :: u32. a \<le> unat x \<and> unat x \<le> b}"
  proof (rule set_eqI)
    fix x :: u32
    have "x \<in> of_nat ` {a..b} \<longleftrightarrow> a \<le> unat x \<and> unat x \<le> b"
    proof
      assume "x \<in> of_nat ` {a..b}"
      then show "a \<le> unat x \<and> unat x \<le> b" using assms by (auto simp: unat_of_nat_u32)
    next
      assume "a \<le> unat x \<and> unat x \<le> b"
      then show "x \<in> of_nat ` {a..b}"
        using of_nat_unat_u32 [of x, symmetric] by (rule_tac rev_image_eqI [of "unat x"]) auto
    qed
    then show "x \<in> set (map of_nat [a..<Suc b]) \<longleftrightarrow> x \<in> {x. a \<le> unat x \<and> unat x \<le> b}"
      by (simp add: atLeastLessThanSuc_atLeastAtMost del: upt_Suc)
  qed
  then show ?thesis by (auto simp: find_None_iff simp del: upt_Suc)
qed

lemma managed_range:
  "allocate_managed_enclave_cid used =
     ok_or NoFreeManagedCid (find (\<lambda>cid. cid \<notin> used) (map of_nat [16..<Suc 4096]))"
  by (simp only: allocate_managed_enclave_cid_def vsock_constants) (simp del: upt_Suc upt_rec_numeral)

lemma managed_cid_iff:
  "allocate_managed_enclave_cid used = Inr cid \<longleftrightarrow>
     16 \<le> unat cid \<and> unat cid \<le> 4096 \<and> cid \<notin> used \<and> (\<forall>c. 16 \<le> unat c \<and> c < cid \<longrightarrow> c \<in> used)"
proof -
  define r where "r = find (\<lambda>cid. cid \<notin> used) (map of_nat [16..<Suc 4096])"
  have "allocate_managed_enclave_cid used = ok_or NoFreeManagedCid r"
    unfolding r_def by (rule managed_range)
  moreover have "r = Some cid \<longleftrightarrow> 16 \<le> unat cid \<and> unat cid \<le> 4096 \<and> cid \<notin> used \<and>
      (\<forall>c. 16 \<le> unat c \<and> c < cid \<longrightarrow> \<not> c \<notin> used)"
    unfolding r_def by (rule find_word_range_Some) simp
  ultimately show ?thesis by (simp add: result_elims)
qed

lemma managed_none_iff:
  "allocate_managed_enclave_cid used = Inl NoFreeManagedCid \<longleftrightarrow>
     (\<forall>c. 16 \<le> unat c \<and> unat c \<le> 4096 \<longrightarrow> c \<in> used)"
proof -
  define r where "r = find (\<lambda>cid. cid \<notin> used) (map of_nat [16..<Suc 4096])"
  have "allocate_managed_enclave_cid used = ok_or NoFreeManagedCid r"
    unfolding r_def by (rule managed_range)
  moreover have "r = None \<longleftrightarrow> (\<forall>x. 16 \<le> unat x \<and> unat x \<le> 4096 \<longrightarrow> \<not> x \<notin> used)"
    unfolding r_def by (rule find_word_range_None) simp
  ultimately show ?thesis by (cases r) auto
qed

subsection \<open>Main results\<close>

text \<open>
  C7. No two host-side services share a vsock port: if two enclave CIDs and two services (egress
  proxy, clock sync, the i-th hostfs mount) get the same port, they are the same service of the same
  enclave.
\<close>

theorem service_ports_disjoint:
  assumes "service_port cid s = Inr port" and "service_port cid' t = Inr port"
  shows "cid = cid' \<and> s = t"
proof -
  from assms have "128 * unat cid + service_offset s = 128 * unat cid' + service_offset t"
    and lt: "service_offset s < 128" "service_offset t < 128"
    using service_port_value [OF assms(1)] service_port_value [OF assms(2)] by simp_all
  then have eq: "unat cid * 128 + service_offset s = unat cid' * 128 + service_offset t" by simp
  from arg_cong [OF eq, of "\<lambda>n. n div 128"] arg_cong [OF eq, of "\<lambda>n. n mod 128"] lt
  have "unat cid = unat cid'" "service_offset s = service_offset t" by simp_all
  then show ?thesis by (simp add: word_unat_eq_iff service_offset_inj)
qed

theorem service_ports_disjoint_witness:
  "service_port 17 (HostfsService 2) = Inr 22194 \<and> (17 :: u32) = 17 \<and>
   HostfsService 2 = HostfsService 2"
proof -
  have "service_port 17 (HostfsService 2) = Inr 22194"
    by (simp add: service_port_def for_cid_def validate_enclave_cid_def runtime_block_base_def
        hostfs_mount_port_def checked_add_def checked_mul_def vsock_constants
        HOST_RUNTIME_HOSTFS_CAPACITY_def)
  with service_ports_disjoint [OF this this] show ?thesis by simp
qed

text \<open>
  The CID allocator returns the least CID of the managed range that is not in use, and fails
  exactly when the whole range is in use.
\<close>

lemma allocate_managed_enclave_cid_spec:
  fixes cid :: u32
  shows
  "(allocate_managed_enclave_cid used = Inr cid \<longleftrightarrow>
      16 \<le> cid \<and> cid \<le> 4096 \<and> cid \<notin> used \<and> (\<forall>c. 16 \<le> c \<and> c < cid \<longrightarrow> c \<in> used)) \<and>
   (allocate_managed_enclave_cid used = Inl NoFreeManagedCid \<longleftrightarrow> {16..4096} \<subseteq> used)"
  using managed_cid_iff [of used cid] managed_none_iff [of used]
  by (auto simp: word_le_nat_alt)

text \<open>
  A CID handed out by the allocator is fresh, is not reserved, and its port block never
  overflows: the block is built and exactly the mount indices below 112 get a port.
\<close>

lemma allocated_cid_has_ports:
  assumes "allocate_managed_enclave_cid used = Inr cid"
  shows "cid \<notin> used \<and>
    (\<exists>p. for_cid cid = Inr p \<and> (\<forall>i. (\<exists>q. hostfs_mount_port p i = Inr q) \<longleftrightarrow> i < 112))"
proof -
  have cid: "16 \<le> unat cid" "unat cid \<le> 4096" "cid \<notin> used"
    using assms managed_cid_iff by blast+
  then obtain p where p: "for_cid cid = Inr p" using for_cid_ok [of cid] by auto
  have "\<exists>q. hostfs_mount_port p i = Inr q" if "i < 112" for i
  proof -
    from p cid that have "unat (of_nat (unat (vp_hostfs_base_port p) + i) :: u32) =
        unat (vp_hostfs_base_port p) + i"
      by (intro unat_of_nat_u32) (simp add: for_cid_iff)
    with that show ?thesis unfolding hostfs_mount_port_iff by blast
  qed
  with p cid show ?thesis by (auto simp: hostfs_mount_port_iff)
qed

lemma serve_attempts_find:
  "serve_attempts bnd p k n e =
     (case find (\<lambda>j. bnd (p + of_nat j) \<noteq> Inl AddrInUse) [k..<k + n] of
        Some j \<Rightarrow> (case bnd (p + of_nat j) of
                     Inr l \<Rightarrow> Serving l (p + of_nat j) | Inl err \<Rightarrow> ServeError err)
      | None \<Rightarrow> if n = 0 then (case e of None \<Rightarrow> ServePanic | Some err \<Rightarrow> ServeError err)
                else ServeError AddrInUse)"
proof (induction n arbitrary: k e)
  case 0
  then show ?case by simp
next
  case (Suc n)
  have range: "[k..<k + Suc n] = k # [Suc k..<Suc k + n]" by (simp add: upt_conv_Cons)
  show ?case
  proof (cases "bnd (p + of_nat k)")
    case (Inr l)
    then show ?thesis by (simp add: range Let_def del: upt_Suc add_Suc_right)
  next
    case (Inl err)
    then show ?thesis
      using Suc [of "Suc k" "Some AddrInUse"]
      by (cases err) (simp_all add: range Let_def del: upt_Suc add_Suc_right split: option.splits)
  qed
qed

text \<open>
  \<open>serve_auto\<close> returns the outcome of the first port that is not reported in use; when every
  attempted port is in use it returns that error, and with zero attempts it panics.
\<close>

lemma serve_auto_spec:
  "serve_auto bnd preferred n =
     (case find (\<lambda>j. bnd (preferred + of_nat j) \<noteq> Inl AddrInUse) [0..<unat n] of
        Some j \<Rightarrow> (case bnd (preferred + of_nat j) of
                     Inr l \<Rightarrow> Serving l (preferred + of_nat j) | Inl err \<Rightarrow> ServeError err)
      | None \<Rightarrow> if n = 0 then ServePanic else ServeError AddrInUse)"
  by (simp add: serve_auto_def serve_attempts_find unat_eq_zero split: option.splits)

end
