(* ===== verification/Egress_Proxy.thy ===== *)
theory Egress_Proxy
  imports Policy Wire_Framing Vsock_Ports
begin

text \<open>
  The HTTP egress proxy (\<open>proxy/egress_http.rs\<close>): the enclave side checks every request against the
  egress policy and asks the host, over a vsock stream, to connect to the remote address; the host
  side connects and relays bytes.  The two sides exchange framed JSON messages; the JSON codec is an
  argument, as are the connections.  Handlers return the list of vsock streams they have opened, in
  the state they leave them, beside the response, so that a claim can speak of what reached the host.
\<close>

definition JSON_TRANSPORT_MAX_MSG_LEN :: nat where
  "JSON_TRANSPORT_MAX_MSG_LEN = 1024 * 1024"

definition OUTSIDE_HOST :: string where
  "OUTSIDE_HOST = ''host''"

subsection \<open>JSON transport\<close>

definition json_send_payload :: "bytes \<Rightarrow> duplex \<Rightarrow> (transport_error, duplex) result" where
  "json_send_payload msg s =
     rbind (bail_if (length msg > JSON_TRANSPORT_MAX_MSG_LEN) (MessageTooLarge (length msg))) (\<lambda>_.
     rbind (bail_if (length msg \<ge> 2 ^ 32) (MessageTooLarge (length msg))) (\<lambda>_.
     write_all (to_le_bytes (of_nat (length msg)) @ msg) s))"

definition json_send :: "('m \<Rightarrow> bytes option) \<Rightarrow> 'm \<Rightarrow> duplex \<Rightarrow> (transport_error, duplex) result" where
  "json_send enc m s = rbind (ok_or JsonEncodeError (enc m)) (\<lambda>msg. json_send_payload msg s)"

definition json_recv :: "(bytes \<Rightarrow> 'm option) \<Rightarrow> duplex \<Rightarrow> (transport_error, 'm \<times> duplex) result" where
  "json_recv dec s =
     rbind (recv_le_frame JSON_TRANSPORT_MAX_MSG_LEN s) (\<lambda>(msg, s1).
     rbind (ok_or JsonDecodeError (dec msg)) (\<lambda>m. Inr (m, s1)))"

record connect_request =
  crq_host :: string
  crq_port :: u16

datatype connect_response = ConnOk | ConnErr int string

text \<open>An \<open>std::io::Error\<close>: its OS code, if any, and its text.\<close>

record os_error =
  oe_raw :: "int option"
  oe_text :: string

definition ConnectResponse_failed :: "os_error \<Rightarrow> connect_response" where
  "ConnectResponse_failed err = ConnErr (unwrap_or 0 (oe_raw err)) (oe_text err)"

subsection \<open>The host side\<close>

definition outside_address :: "string \<Rightarrow> string" where
  "outside_address host = (if eq_ignore_ascii_case host OUTSIDE_HOST then ''127.0.0.1'' else host)"

text \<open>
  \<open>HostHttpProxy::service_conn\<close> up to the relaying of bytes: the address that was dialled, if any,
  the stream, and either an error or the TCP connection to relay to.
\<close>

definition host_service_conn ::
  "(bytes \<Rightarrow> connect_request option) \<Rightarrow> (connect_response \<Rightarrow> bytes option)
     \<Rightarrow> (string \<Rightarrow> u16 \<Rightarrow> (os_error, 'tcp) result) \<Rightarrow> duplex
     \<Rightarrow> (string \<times> u16) option \<times> (transport_error, duplex \<times> 'tcp option) result" where
  "host_service_conn decq encr tcp_connect vsock =
     (case json_recv decq vsock of
        Inl e \<Rightarrow> (None, Inl e)
      | Inr (conn_req, s1) \<Rightarrow>
          (let host = outside_address (crq_host conn_req)
           in (Some (host, crq_port conn_req),
               case tcp_connect host (crq_port conn_req) of
                 Inr tcp \<Rightarrow> rbind (json_send encr ConnOk s1) (\<lambda>s2. Inr (s2, Some tcp))
               | Inl err \<Rightarrow> rbind (json_send encr (ConnectResponse_failed err) s1) (\<lambda>s2. Inr (s2, None)))))"

subsection \<open>The enclave side\<close>

text \<open>
  Requests as the HTTP library parses them.  A port is kept with its text, which is what the \<open>Host\<close>
  header shows.
\<close>

record uri_authority =
  au_host :: string
  au_port :: "(string \<times> u16) option"

record path_and_query =
  pq_path :: string
  pq_query :: "string option"

record uri =
  ur_authority :: "uri_authority option"
  ur_path_and_query :: "path_and_query option"

record http_request =
  rq_method :: string
  rq_uri :: uri
  rq_headers :: "(string \<times> string) list"
  rq_body :: bytes

datatype remote_error = VsockConnectFailed int | RemoteTransport transport_error | RemoteRefused int string

text \<open>
  What \<open>remote_connect\<close> and the handlers need of the outside: connecting to the host, the JSON codec,
  the texts of errors and URIs, checking a header value, and the HTTP exchange with the remote server
  on an open stream (handshake and \<open>send_request\<close>).
\<close>

record egress_env =
  ee_vsock_connect :: "u32 \<Rightarrow> u32 \<Rightarrow> (int, duplex) result"
  ee_encode_request :: "connect_request \<Rightarrow> bytes option"
  ee_decode_response :: "bytes \<Rightarrow> connect_response option"
  ee_error_text :: "remote_error \<Rightarrow> string"
  ee_uri_debug :: "uri \<Rightarrow> string"
  ee_header_value :: "string \<Rightarrow> (string, string) result"
  ee_exchange :: "duplex \<Rightarrow> http_request \<Rightarrow> (string, nat \<times> bytes) result"

definition remote_connect ::
  "egress_env \<Rightarrow> u32 \<Rightarrow> string \<Rightarrow> u16 \<Rightarrow> duplex list \<times> (remote_error, duplex) result" where
  "remote_connect env egress_port host port =
     (case ee_vsock_connect env VMADDR_CID_HOST egress_port of
        Inl e \<Rightarrow> ([], Inl (VsockConnectFailed e))
      | Inr vsock \<Rightarrow>
          (case json_send (ee_encode_request env) \<lparr>crq_host = host, crq_port = port\<rparr> vsock of
             Inl e \<Rightarrow> ([vsock], Inl (RemoteTransport e))
           | Inr s1 \<Rightarrow>
               (case json_recv (ee_decode_response env) s1 of
                  Inl e \<Rightarrow> ([s1], Inl (RemoteTransport e))
                | Inr (ConnOk, s2) \<Rightarrow> ([s2], Inr s2)
                | Inr (ConnErr os_code message, s2) \<Rightarrow> ([s2], Inl (RemoteRefused os_code message)))))"

text \<open>
  Outcomes: a response of the proxy's own, an established tunnel (\<open>CONNECT\<close>), or a request forwarded
  on the stream with the remote server's response.
\<close>

datatype proxy_outcome =
    Respond nat string
  | Tunnel duplex
  | Forward duplex http_request "nat \<times> bytes"

definition err_resp :: "nat \<Rightarrow> string \<Rightarrow> proxy_outcome" where
  "err_resp status msg = Respond status msg"

definition bad_request :: "string \<Rightarrow> proxy_outcome" where
  "bad_request msg = err_resp 400 msg"

definition blocked :: proxy_outcome where
  "blocked = err_resp 401 ''blocked by egress security policy''"

definition is_empty_pq :: "path_and_query option \<Rightarrow> bool" where
  "is_empty_pq v =
     (case v of
        None \<Rightarrow> True
      | Some pq \<Rightarrow>
          if pq_path pq \<noteq> ''/'' then False
          else (case pq_query pq of Some q \<Rightarrow> q = [] | None \<Rightarrow> True))"

definition handle_connect ::
  "egress_env \<Rightarrow> (string \<Rightarrow> bool) \<Rightarrow> u32 \<Rightarrow> http_request \<Rightarrow> duplex list \<times> proxy_outcome" where
  "handle_connect env allowed egress_port req =
     (case ur_authority (rq_uri req) of
        None \<Rightarrow> ([], bad_request (''CONNECT host is not a socket addr: '' @ ee_uri_debug env (rq_uri req)))
      | Some authority \<Rightarrow>
          (case au_port authority of
             None \<Rightarrow> ([], bad_request ''CONNECT address is missing a port'')
           | Some (_, port) \<Rightarrow>
               if \<not> allowed (au_host authority) then ([], blocked)
               else (case remote_connect env egress_port (au_host authority) port of
                       (opened, Inl err) \<Rightarrow> (opened, err_resp 503 (ee_error_text env err))
                     | (opened, Inr remote) \<Rightarrow> (opened, Tunnel remote))))"

definition set_header :: "string \<Rightarrow> string \<Rightarrow> (string \<times> string) list \<Rightarrow> (string \<times> string) list" where
  "set_header name val hs = filter (\<lambda>(n, _). \<not> eq_ignore_ascii_case n name) hs @ [(name, val)]"

definition forwarded_target :: "http_request \<Rightarrow> path_and_query" where
  "forwarded_target req =
     (if rq_method req = ''OPTIONS'' \<and> is_empty_pq (ur_path_and_query (rq_uri req))
      then \<lparr>pq_path = ''*'', pq_query = None\<rparr>
      else (case ur_path_and_query (rq_uri req) of
              Some pq \<Rightarrow> pq
            | None \<Rightarrow> \<lparr>pq_path = ''/'', pq_query = None\<rparr>))"

definition handle_http_request ::
  "egress_env \<Rightarrow> (string \<Rightarrow> bool) \<Rightarrow> u32 \<Rightarrow> http_request
     \<Rightarrow> duplex list \<times> (string, proxy_outcome) result" where
  "handle_http_request env allowed egress_port req =
     (case ur_authority (rq_uri req) of
        None \<Rightarrow> ([], Inr (bad_request ''URI is missing a host''))
      | Some authority \<Rightarrow>
          (let host = au_host authority;
               port = (case au_port authority of Some (_, p) \<Rightarrow> p | None \<Rightarrow> 80)
           in if \<not> allowed host then ([], Inr blocked)
              else (case remote_connect env egress_port host port of
                      (opened, Inl err) \<Rightarrow> (opened, Inl (ee_error_text env err))
                    | (opened, Inr stream) \<Rightarrow>
                        (let host_hdr = (case au_port authority of
                                           Some (text, _) \<Rightarrow> host @ '':'' @ text
                                         | None \<Rightarrow> host)
                         in case ee_header_value env host_hdr of
                              Inl err \<Rightarrow> (opened, Inl err)
                            | Inr val \<Rightarrow>
                                (let req' = req\<lparr>
                                       rq_headers := set_header ''host'' val (rq_headers req),
                                       rq_uri := \<lparr>ur_authority = None,
                                                  ur_path_and_query = Some (forwarded_target req)\<rparr>\<rparr>
                                 in (opened, map_sum id (Forward stream req') (ee_exchange env stream req')))))))"

definition proxy ::
  "egress_env \<Rightarrow> (string \<Rightarrow> bool) \<Rightarrow> u32 \<Rightarrow> http_request
     \<Rightarrow> duplex list \<times> proxy_outcome" where
  "proxy env allowed egress_port req =
     (if rq_method req = ''CONNECT'' then handle_connect env allowed egress_port req
      else (case handle_http_request env allowed egress_port req of
              (opened, Inr resp) \<Rightarrow> (opened, resp)
            | (opened, Inl err) \<Rightarrow> (opened, err_resp 503 err)))"

subsection \<open>The transport provides the frame interface\<close>

definition json_fits :: "bytes \<Rightarrow> bool" where
  "json_fits p \<longleftrightarrow> length p \<le> JSON_TRANSPORT_MAX_MSG_LEN"

interpretation json: frame_codec json_send_payload "recv_le_frame JSON_TRANSPORT_MAX_MSG_LEN" le_frame json_fits
proof unfold_locales
  fix p and s :: duplex
  assume "json_fits p" "tx_error s = None"
  then show "json_send_payload p s = Inr (s\<lparr>tx := tx s @ le_frame p\<rparr>)"
    by (simp add: json_send_payload_def json_fits_def JSON_TRANSPORT_MAX_MSG_LEN_def le_frame_def)
next
  fix p and s s' :: duplex
  assume "json_send_payload p s = Inr s'"
  then show "json_fits p \<and> tx_error s = None"
    by (auto simp: json_send_payload_def json_fits_def result_elims write_all_def split: option.splits)
next
  fix p rest and s :: duplex
  assume "json_fits p" "rx s = le_frame p @ rest"
  then show "recv_le_frame JSON_TRANSPORT_MAX_MSG_LEN s = Inr (p, s\<lparr>rx := rest\<rparr>)"
    by (intro recv_le_frame_ok) (simp_all add: json_fits_def JSON_TRANSPORT_MAX_MSG_LEN_def)
next
  fix p and s s' :: duplex
  assume "recv_le_frame JSON_TRANSPORT_MAX_MSG_LEN s = Inr (p, s')"
  then show "json_fits p \<and> rx s = le_frame p @ rx s' \<and> s' = s\<lparr>rx := rx s'\<rparr>"
    unfolding json_fits_def by (rule recv_le_frame_sound) (simp add: JSON_TRANSPORT_MAX_MSG_LEN_def)
qed

lemma json_send_iff:
  "json_send enc m s = Inr s' \<longleftrightarrow>
     (\<exists>p. enc m = Some p \<and> json_fits p \<and> tx_error s = None \<and> s' = s\<lparr>tx := tx s @ le_frame p\<rparr>)"
  by (auto simp: json_send_def result_elims json.put_frame_iff)

lemma json_recv_iff:
  "json_recv dec s = Inr (m, s') \<longleftrightarrow>
     (\<exists>p. dec p = Some m \<and> json_fits p \<and> rx s = le_frame p @ rx s' \<and> s' = s\<lparr>rx := rx s'\<rparr>)"
  by (auto simp: json_recv_def result_elims dest: json.get_sound intro: json.get_ok)
     (metis json.get_ok)

lemma json_recv_sent:
  assumes "enc m = Some p" "json_fits p" "dec p = Some m" "rx s = le_frame p @ rest"
  shows "json_recv dec s = Inr (m, s\<lparr>rx := rest\<rparr>)"
  using assms json.get_ok [of p s rest] by (simp add: json_recv_def)


subsection \<open>What reaches the host\<close>

lemma remote_connect_opened:
  assumes "remote_connect env egress_port host port = (opened, r)" and "s \<in> set opened"
  shows "\<exists>v. ee_vsock_connect env VMADDR_CID_HOST egress_port = Inr v \<and> opened = [s] \<and>
    (s = v \<or> (\<exists>p. ee_encode_request env \<lparr>crq_host = host, crq_port = port\<rparr> = Some p \<and> json_fits p \<and>
              tx s = tx v @ le_frame p))"
proof -
  obtain v where v: "ee_vsock_connect env VMADDR_CID_HOST egress_port = Inr v"
    using assms by (cases "ee_vsock_connect env VMADDR_CID_HOST egress_port") (auto simp: remote_connect_def)
  show ?thesis
  proof (cases "json_send (ee_encode_request env) \<lparr>crq_host = host, crq_port = port\<rparr> v")
    case (Inl e)
    with assms v show ?thesis by (auto simp: remote_connect_def)
  next
    case (Inr s1)
    have "opened = [s] \<and> tx s = tx s1"
      using assms v Inr
      by (auto simp: remote_connect_def json_recv_iff split: sum.splits prod.splits connect_response.splits)
         (metis duplex.select_convs(2) duplex.surjective duplex.update_convs(1))+
    with Inr v show ?thesis by (auto simp: json_send_iff)
  qed
qed

definition target_port :: "uri_authority \<Rightarrow> u16" where
  "target_port au = (case au_port au of Some (_, p) \<Rightarrow> p | None \<Rightarrow> 80)"

lemma proxy_opened:
  assumes "proxy env allowed egress_port req = (opened, out)" and "s \<in> set opened"
  shows "\<exists>au r. ur_authority (rq_uri req) = Some au \<and> allowed (au_host au) \<and>
    remote_connect env egress_port (au_host au) (target_port au) = (opened, r)"
  using assms
  by (auto simp: proxy_def handle_connect_def handle_http_request_def target_port_def Let_def
      split: if_splits option.splits prod.splits sum.splits)


lemma host_service_conn_dials:
  assumes "host_service_conn decq encr tcp hs = (Some (addr, port), r)"
  shows "\<exists>q p rest. decq p = Some q \<and> json_fits p \<and> rx hs = le_frame p @ rest \<and>
    addr = outside_address (crq_host q) \<and> port = crq_port q"
proof -
  obtain q s1 where q: "json_recv decq hs = Inr (q, s1)"
    using assms by (cases "json_recv decq hs") (auto simp: host_service_conn_def)
  then have "addr = outside_address (crq_host q) \<and> port = crq_port q"
    using assms by (simp add: host_service_conn_def Let_def)
  with q show ?thesis unfolding json_recv_iff by blast
qed

lemma le_frame_inj:
  assumes "le_frame p @ r = le_frame q @ r'" and "json_fits p" "json_fits q"
  shows "p = q"
  using json.frames_unique [of "[p]" "[q]" r r'] assms by simp

subsection \<open>Main results\<close>

text \<open>
  A request for a host the egress policy does not admit is answered by the proxy itself with 401
  (or 400 when a \<open>CONNECT\<close> names no port), and no stream to the host is opened for it; without a host
  in the request the answer is 400, again with no stream.
\<close>

lemma denied_host_not_contacted:
  assumes "\<forall>au. ur_authority (rq_uri req) = Some au \<longrightarrow> \<not> is_host_allowed contains pol (au_host au)"
  shows "\<exists>status msg. proxy env (is_host_allowed contains pol) egress_port req = ([], Respond status msg) \<and>
    status = (if (\<exists>au. ur_authority (rq_uri req) = Some au \<and>
                     (rq_method req = ''CONNECT'' \<longrightarrow> au_port au \<noteq> None)) then 401 else 400)"
  using assms
  by (auto simp: proxy_def handle_connect_def handle_http_request_def bad_request_def blocked_def
      err_resp_def Let_def split: option.splits)

text \<open>
  Inputs for the witnesses: a policy without allow list, one that admits everything, an environment
  whose codec knows one request, and \<open>CONNECT\<close> requests.
\<close>

definition closed_policy :: "unit egress_policy" where
  "closed_policy = EgressPolicy_new (\<lambda>_. None) \<lparr>eg_proxy_port = None, eg_allow = None, eg_deny = None\<rparr>"

definition open_policy :: "unit egress_policy" where
  "open_policy = \<lparr>domain_allow = DomainFilter_allow_all, domain_deny = DomainFilter_new,
     ip_allow = \<lparr>if_patterns = [()]\<rparr>, ip_deny = IpFilter_new\<rparr>"

definition api_request :: connect_request where
  "api_request = \<lparr>crq_host = ''api.io'', crq_port = 443\<rparr>"

definition demo_egress :: egress_env where
  "demo_egress = \<lparr>ee_vsock_connect = (\<lambda>_ _. Inr \<lparr>rx = [], tx = [], tx_error = None\<rparr>),
     ee_encode_request = (\<lambda>q. if q = api_request then Some [1] else None),
     ee_decode_response = (\<lambda>_. None), ee_error_text = (\<lambda>_. ''closed''), ee_uri_debug = (\<lambda>_. []),
     ee_header_value = Inr, ee_exchange = (\<lambda>_ _. Inl [])\<rparr>"

definition connect_to :: "string \<Rightarrow> http_request" where
  "connect_to host = \<lparr>rq_method = ''CONNECT'',
     rq_uri = \<lparr>ur_authority = Some \<lparr>au_host = host, au_port = Some (''443'', 443)\<rparr>, ur_path_and_query = None\<rparr>,
     rq_headers = [], rq_body = []\<rparr>"

lemma closed_policy_denies: "\<not> is_host_allowed contains closed_policy h"
  by (simp add: is_host_allowed_def closed_policy_def EgressPolicy_new_def load_filters_def
      DomainFilter_matches_def DomainFilter_new_def IpFilter_matches_def IpFilter_new_def Let_def
      split: option.splits)

lemma open_policy_allows: "is_host_allowed (\<lambda>_ _. True) open_policy h"
  by (simp add: is_host_allowed_def open_policy_def DomainFilter_matches_def DomainFilter_allow_all_def
      DomainFilter_new_def IpFilter_matches_def IpFilter_new_def DomainFilter_pattern_spec
      domain_match_superwild Let_def split: option.splits)

text \<open>
  C2. End to end: whatever address the host proxy dials on behalf of the enclave proxy is the one the
  request named (with \<open>host\<close> standing for the host's loopback address) and the policy of the enclave
  admits it.  The JSON codec is assumed to read back the requests it writes, and a fresh vsock stream
  to carry nothing yet.
\<close>

theorem egress_dials_only_allowed:
  assumes proxy: "proxy env (is_host_allowed contains pol) egress_port req = (opened, out)"
    and s: "s \<in> set opened"
    and fresh: "\<And>cid p v. ee_vsock_connect env cid p = Inr v \<Longrightarrow> tx v = []"
    and json: "\<And>q p. ee_encode_request env q = Some p \<Longrightarrow> decq p = Some q"
    and host: "host_service_conn decq encr tcp hs = (Some (addr, port), r)" and pipe: "rx hs = tx s"
  shows "\<exists>au. ur_authority (rq_uri req) = Some au \<and> is_host_allowed contains pol (au_host au) \<and>
    addr = outside_address (au_host au) \<and> port = target_port au"
proof -
  obtain au rr where au: "ur_authority (rq_uri req) = Some au" "is_host_allowed contains pol (au_host au)"
    and rc: "remote_connect env egress_port (au_host au) (target_port au) = (opened, rr)"
    using proxy_opened [OF proxy s] by blast
  define q' where "q' = \<lparr>crq_host = au_host au, crq_port = target_port au\<rparr>"
  obtain q p rest where d: "decq p = Some q" "json_fits p" "rx hs = le_frame p @ rest"
    "addr = outside_address (crq_host q)" "port = crq_port q"
    using host_service_conn_dials [OF host] by blast
  have "le_frame p \<noteq> []" by (simp add: le_frame_def to_le_bytes_def)
  then have "tx s \<noteq> []" using d(3) pipe by simp
  then obtain p' where p': "ee_encode_request env q' = Some p'" "json_fits p'" "tx s = le_frame p'"
    using remote_connect_opened [OF rc s] fresh unfolding q'_def by auto
  have "p = p'" using le_frame_inj [of p rest p' "[]"] d(2,3) pipe p'(2,3) by simp
  with json [OF p'(1)] d(1) have "q = q'" by simp
  then show ?thesis using au d(4,5) by (simp add: q'_def)
qed


theorem egress_dials_only_allowed_witness:
  "\<exists>s. proxy demo_egress (is_host_allowed (\<lambda>_ _. True) open_policy) 20000 (connect_to ''api.io'') =
       ([s], Respond 503 ''closed'') \<and>
     is_host_allowed (\<lambda>_ _. True) open_policy ''api.io'' \<and>
     fst (host_service_conn (\<lambda>_. Some api_request) (\<lambda>_. Some []) (\<lambda>_ _. Inr ())
            \<lparr>rx = tx s, tx = [], tx_error = None\<rparr>) = Some (outside_address ''api.io'', 443)"
proof -
  let ?s = "\<lparr>rx = [], tx = [1, 0, 0, 0, 1], tx_error = None\<rparr> :: duplex"
  let ?hs = "\<lparr>rx = tx ?s, tx = [], tx_error = None\<rparr> :: duplex"
  have send: "json_send (ee_encode_request demo_egress) api_request \<lparr>rx = [], tx = [], tx_error = None\<rparr> = Inr ?s"
    by (simp add: json_send_def demo_egress_def json_send_payload_def JSON_TRANSPORT_MAX_MSG_LEN_def to_le_bytes_def)
  have recv: "json_recv (ee_decode_response demo_egress) ?s = Inl UnexpectedEof"
    by (simp add: json_recv_def recv_le_frame_def read_exact_def)
  have p: "proxy demo_egress (is_host_allowed (\<lambda>_ _. True) open_policy) 20000 (connect_to ''api.io'') =
      ([?s], Respond 503 ''closed'')"
    using send recv
    by (simp add: proxy_def connect_to_def handle_connect_def open_policy_allows remote_connect_def err_resp_def
        api_request_def) (simp add: demo_egress_def)
  obtain r where h: "host_service_conn (\<lambda>_. Some api_request) (\<lambda>_. Some []) (\<lambda>_ _. Inr ()) ?hs =
      (Some (''api.io'', 443), r)"
    by (simp add: host_service_conn_def json_recv_def recv_le_frame_def read_exact_def from_le_bytes_def
        JSON_TRANSPORT_MAX_MSG_LEN_def api_request_def outside_address_def OUTSIDE_HOST_def Let_def
        eq_ignore_ascii_case_def to_ascii_lowercase_def ascii_lower_def)
  have fresh: "tx v = []" if "ee_vsock_connect demo_egress cid port = Inr v" for cid port v
    using that by (auto simp: demo_egress_def)
  have json: "Some api_request = Some q" if "ee_encode_request demo_egress q = Some p" for q p
    using that by (simp add: demo_egress_def split: if_splits)
  have s: "?s \<in> set [?s]" by simp
  have "is_host_allowed (\<lambda>_ _. True) open_policy ''api.io'' \<and> ''api.io'' = outside_address ''api.io''"
    using egress_dials_only_allowed [OF p s fresh json h] by (simp add: connect_to_def)
  then show ?thesis using p h by (intro exI [of _ ?s]) simp
qed

end
