(* ===== verification/Runtime_Config.thy ===== *)
theory Runtime_Config
  imports Egress_Proxy Clock_Sync
begin

text \<open>
  The runtime's view of the manifest (\<open>bin/capsule-runtime/config.rs\<close>) and the start of the egress
  service (\<open>bin/capsule-runtime/egress.rs\<close>).  The URI parser is an argument.
\<close>

definition LOOPBACK_NO_PROXY :: string where
  "LOOPBACK_NO_PROXY = ''localhost,127.0.0.1''"

definition MANIFEST_FILE_NAME :: string where
  "MANIFEST_FILE_NAME = ''capsule.yaml''"

record helios_runtime_config =
  hrc_kind :: helios_rpc_kind
  hrc_network :: string
  hrc_execution_rpc :: string
  hrc_consensus_rpc :: "string option"
  hrc_checkpoint :: "string option"
  hrc_listen_port :: u16
  hrc_chain_name :: string

record configuration =
  cf_config_dir :: string
  cf_manifest :: manifest
  cf_listener_ports :: "u16 list"

definition from_manifest :: "string \<Rightarrow> manifest \<Rightarrow> configuration" where
  "from_manifest config_dir m =
     \<lparr>cf_config_dir = config_dir, cf_manifest = m,
      cf_listener_ports = unwrap_or [] (map_option (map ing_listen_port) (mf_ingress m))\<rparr>"

text \<open>\<open>PathBuf::push\<close> of a relative name on the text of a path.\<close>

definition push_name :: "string \<Rightarrow> string \<Rightarrow> string" where
  "push_name dir name =
     (if dir = [] \<or> last dir = CHR ''/'' then dir @ name else dir @ ''/'' @ name)"

definition load_config ::
  "(bytes \<Rightarrow> (manifest_error, manifest) result) \<Rightarrow> (string \<Rightarrow> 'h option) \<Rightarrow> ('h \<Rightarrow> bytes option) \<Rightarrow> 'h
     \<Rightarrow> string \<Rightarrow> (load_error, configuration) result" where
  "load_config parse openf read_to_end stdin config_dir =
     rbind (load_manifest parse openf read_to_end stdin (push_name config_dir MANIFEST_FILE_NAME)) (\<lambda>m.
     Inr (from_manifest config_dir m))"

definition load_blocking ::
  "(bytes \<Rightarrow> (manifest_error, manifest) result) \<Rightarrow> (string \<Rightarrow> bytes option) \<Rightarrow> string
     \<Rightarrow> (load_error, configuration) result" where
  "load_blocking parse readf config_dir =
     rbind (load_manifest_sync parse readf (push_name config_dir MANIFEST_FILE_NAME)) (\<lambda>m.
     Inr (from_manifest config_dir m))"

datatype config_error = BadProxyUri u16 | NoEgressSection | ProxyUriWithoutPort | ProxyBindFailed u16

definition egress_proxy_port :: "manifest \<Rightarrow> u16" where
  "egress_proxy_port m = unwrap_or HTTP_EGRESS_PROXY_PORT (Option.bind (mf_egress m) eg_proxy_port)"

definition egress_proxy_uri ::
  "(string \<Rightarrow> uri option) \<Rightarrow> configuration \<Rightarrow> (config_error, uri option) result" where
  "egress_proxy_uri parse_uri cfg =
     (if egress_proxy_enabled (cf_manifest cfg) then
        (let port = egress_proxy_port (cf_manifest cfg)
         in rbind (ok_or (BadProxyUri port) (parse_uri (''http://127.0.0.1:'' @ show_nat (unat port)))) (\<lambda>u.
            Inr (Some u)))
      else Inr None)"

definition egress_proxy_env_vars ::
  "(string \<Rightarrow> uri option) \<Rightarrow> (uri \<Rightarrow> string) \<Rightarrow> configuration
     \<Rightarrow> (config_error, (string \<times> string) list) result" where
  "egress_proxy_env_vars parse_uri uri_text cfg =
     rbind (egress_proxy_uri parse_uri cfg) (\<lambda>v.
     case v of
       None \<Rightarrow> Inr []
     | Some u \<Rightarrow>
         (let proxy = uri_text u
          in Inr [(''http_proxy'', proxy), (''https_proxy'', proxy), (''HTTP_PROXY'', proxy),
                  (''HTTPS_PROXY'', proxy), (''no_proxy'', LOOPBACK_NO_PROXY),
                  (''NO_PROXY'', LOOPBACK_NO_PROXY)]))"

definition api_port :: "configuration \<Rightarrow> u16 option" where
  "api_port cfg = map_option api_listen_port (mf_api (cf_manifest cfg))"

definition aux_api_port :: "configuration \<Rightarrow> u16 option" where
  "aux_api_port cfg = effective_aux_api_port (cf_manifest cfg)"

definition opt_filter :: "('a \<Rightarrow> bool) \<Rightarrow> 'a option \<Rightarrow> 'a option" where
  "opt_filter p v = (case v of Some x \<Rightarrow> if p x then Some x else None | None \<Rightarrow> None)"

definition s3_config :: "configuration \<Rightarrow> s3_storage_config option" where
  "s3_config cfg = opt_filter s3_enabled (Option.bind (mf_storage (cf_manifest cfg)) st_s3)"

definition kms_integration_config :: "configuration \<Rightarrow> kms_integration option" where
  "kms_integration_config cfg = opt_filter kms_enabled (mf_kms_integration (cf_manifest cfg))"

definition helios_runtime :: "helios_rpc_chain \<Rightarrow> helios_runtime_config" where
  "helios_runtime c =
     \<lparr>hrc_kind = hc_kind c, hrc_network = hc_network c, hrc_execution_rpc = hc_execution_rpc c,
      hrc_consensus_rpc = hc_consensus_rpc c, hrc_checkpoint = hc_checkpoint c,
      hrc_listen_port = hc_local_rpc_port c, hrc_chain_name = hc_name c\<rparr>"

definition helios_configs :: "configuration \<Rightarrow> helios_runtime_config list" where
  "helios_configs cfg =
     (case opt_filter hr_enabled (mf_helios_rpc (cf_manifest cfg)) of
        None \<Rightarrow> []
      | Some helios \<Rightarrow>
          (case hr_chains helios of
             None \<Rightarrow> []
           | Some cs \<Rightarrow> map helios_runtime cs))"

subsection \<open>Starting the egress service\<close>

record 'net egress_service =
  es_listen_port :: u16
  es_host_port :: u32
  es_policy :: "'net egress_policy"

definition uri_port :: "uri \<Rightarrow> u16 option" where
  "uri_port u = map_option snd (Option.bind (ur_authority u) au_port)"

definition EgressService_start ::
  "(string \<Rightarrow> uri option) \<Rightarrow> (string \<Rightarrow> 'net option) \<Rightarrow> (u16 \<Rightarrow> bool) \<Rightarrow> configuration
     \<Rightarrow> runtime_host_vsock_ports \<Rightarrow> (config_error, 'net egress_service option) result" where
  "EgressService_start parse_uri parse_net bind_ok cfg ports =
     rbind (egress_proxy_uri parse_uri cfg) (\<lambda>v.
     case v of
       None \<Rightarrow> Inr None
     | Some proxy_uri \<Rightarrow>
         rbind (ok_or NoEgressSection (mf_egress (cf_manifest cfg))) (\<lambda>egress.
         rbind (ok_or ProxyUriWithoutPort (uri_port proxy_uri)) (\<lambda>proxy_port.
         rbind (bail_if (\<not> bind_ok proxy_port) (ProxyBindFailed proxy_port)) (\<lambda>_.
         Inr (Some \<lparr>es_listen_port = proxy_port, es_host_port = vp_egress_port ports,
                    es_policy = EgressPolicy_new parse_net egress\<rparr>)))))"

subsection \<open>Main results\<close>

lemma load_config_cases:
  assumes "load_config (parse_manifest yaml hexd lc) openf rd stdin dir = Inr cfg"
  shows "manifest_ok hexd lc (cf_manifest cfg) \<and> cfg = from_manifest dir (cf_manifest cfg)"
  using assms
  by (auto simp: load_config_def load_manifest_def load_manifest_raw_def from_manifest_def
      result_elims parse_manifest_decides)

lemma load_blocking_cases:
  assumes "load_blocking (parse_manifest yaml hexd lc) readf dir = Inr cfg"
  shows "manifest_ok hexd lc (cf_manifest cfg) \<and> cfg = from_manifest dir (cf_manifest cfg)"
  using assms
  by (auto simp: load_blocking_def load_manifest_sync_def from_manifest_def result_elims
      parse_manifest_decides split: if_splits)

lemma helios_configs_ports:
  "helios_ok lc h \<Longrightarrow> mf_helios_rpc (cf_manifest cfg) = Some h \<Longrightarrow>
   distinct (map hrc_listen_port (helios_configs cfg))"
  by (auto simp: helios_configs_def helios_ok_def opt_filter_def helios_runtime_def comp_def
      split: option.splits)

lemma helios_configs_distinct:
  assumes "\<forall>h. mf_helios_rpc (cf_manifest cfg) = Some h \<longrightarrow> helios_ok lc h"
  shows "distinct (map hrc_listen_port (helios_configs cfg))"
proof (cases "mf_helios_rpc (cf_manifest cfg)")
  case None
  then show ?thesis by (simp add: helios_configs_def opt_filter_def)
next
  case (Some h)
  then show ?thesis using assms helios_configs_ports [of lc h cfg] by blast
qed

text \<open>
  What the services may rely on in a configuration that loads: the clock synchronisation interval
  is not zero (a zero interval would panic the timer); the Capsule API and the Aux API, when there is
  one, listen on different ports and the Aux API port exists whenever the Capsule API is served; the
  Helios clients listen on distinct ports; and an enabled KMS integration with a registry finds a
  Helios client on the port its registry lookups use.
\<close>

lemma loaded_configuration_sound:
  assumes "load_config (parse_manifest yaml hexd lc) openf rd stdin dir = Inr cfg \<or>
    load_blocking (parse_manifest yaml hexd lc) readf dir = Inr cfg"
  shows "(\<forall>cs. clock_sync_config (cf_manifest cfg) = Some cs \<longrightarrow> cs_interval_secs cs \<noteq> 0) \<and>
    (\<forall>p. api_port cfg = Some p \<longrightarrow> (\<exists>q. aux_api_port cfg = Some q \<and> q \<noteq> p)) \<and>
    distinct (map hrc_listen_port (helios_configs cfg)) \<and>
    (\<forall>k. kms_integration_config cfg = Some k \<and> registry_discovery_configured k \<longrightarrow>
       KMS_REGISTRY_HELIOS_PORT \<in> hrc_listen_port ` set (helios_configs cfg))"
proof -
  have ok: "manifest_ok hexd lc (cf_manifest cfg)"
    using assms by (auto dest: load_config_cases load_blocking_cases)
  have "\<forall>cs. clock_sync_config (cf_manifest cfg) = Some cs \<longrightarrow> cs_interval_secs cs \<noteq> 0"
    using ok by (auto simp: clock_sync_config_def manifest_ok_def Let_def split: if_splits)
  moreover have "\<forall>p. api_port cfg = Some p \<longrightarrow> (\<exists>q. aux_api_port cfg = Some q \<and> q \<noteq> p)"
    using ok by (auto simp: api_port_def aux_api_port_def manifest_ok_def api_ports_ok_def)
  moreover have "distinct (map hrc_listen_port (helios_configs cfg))"
    using ok by (intro helios_configs_distinct [of cfg lc]) (simp add: manifest_ok_def)
  moreover have "KMS_REGISTRY_HELIOS_PORT \<in> hrc_listen_port ` set (helios_configs cfg)"
    if "kms_integration_config cfg = Some k" "registry_discovery_configured k" for k
  proof -
    have "mf_kms_integration (cf_manifest cfg) = Some k" "kms_enabled k"
      using that(1) by (auto simp: kms_integration_config_def opt_filter_def split: option.splits if_splits)
    with ok that(2) obtain h cs where "mf_helios_rpc (cf_manifest cfg) = Some h" "hr_enabled h"
      "hr_chains h = Some cs" "KMS_REGISTRY_HELIOS_PORT \<in> hc_local_rpc_port ` set cs"
      by (auto simp: manifest_ok_def registry_reachable_def)
    then show ?thesis by (auto simp: helios_configs_def opt_filter_def helios_runtime_def image_iff)
  qed
  ultimately show ?thesis by blast
qed

definition demo_config_manifest :: manifest where
  "demo_config_manifest = \<lparr>mf_version = ''v1'', mf_name = ''n'', mf_target = ''t'',
     mf_sources = \<lparr>src_app = ''a'', src_capsule_runtime = None, src_capsule_shell = None\<rparr>,
     mf_signature = None, mf_ingress = None, mf_egress = None, mf_defaults = None,
     mf_api = Some \<lparr>api_listen_port = 9000\<rparr>, mf_aux_api = None, mf_storage = None,
     mf_kms_integration = None, mf_helios_rpc = None, mf_clock_sync = None\<rparr>"

text \<open>
  The application is pointed at the proxy that really runs: when the egress service starts, the
  proxy variables are set exactly if a proxy was started, the proxy listens on the port of the URI
  they name, and it enforces the policy of the manifest.  The URI parser is assumed to read back the
  port of a loopback URI.
\<close>

lemma egress_environment_agrees:
  assumes uri: "\<exists>u. parse_uri (''http://127.0.0.1:'' @ show_nat (unat (egress_proxy_port (cf_manifest cfg)))) = Some u \<and>
      uri_port u = Some (egress_proxy_port (cf_manifest cfg))"
    and start: "EgressService_start parse_uri parse_net bind_ok cfg ports = Inr svc"
  shows "\<exists>vars. egress_proxy_env_vars parse_uri uri_text cfg = Inr vars \<and>
    (case svc of
       None \<Rightarrow> vars = [] \<and> \<not> egress_proxy_enabled (cf_manifest cfg)
     | Some s \<Rightarrow> (\<exists>u eg. parse_uri (''http://127.0.0.1:'' @ show_nat (unat (es_listen_port s))) = Some u \<and>
          map_of vars ''http_proxy'' = Some (uri_text u) \<and> map_of vars ''https_proxy'' = Some (uri_text u) \<and>
          mf_egress (cf_manifest cfg) = Some eg \<and> es_policy s = EgressPolicy_new parse_net eg \<and>
          es_host_port s = vp_egress_port ports))"
proof (cases "egress_proxy_enabled (cf_manifest cfg)")
  case False
  then show ?thesis using start
    by (auto simp: EgressService_start_def egress_proxy_env_vars_def egress_proxy_uri_def)
next
  case True
  define p where "p = egress_proxy_port (cf_manifest cfg)"
  obtain u where u: "parse_uri (''http://127.0.0.1:'' @ show_nat (unat p)) = Some u" "uri_port u = Some p"
    using uri by (auto simp: p_def)
  have e: "egress_proxy_uri parse_uri cfg = Inr (Some u)"
    using True u(1) by (simp add: egress_proxy_uri_def p_def)
  obtain eg where eg: "mf_egress (cf_manifest cfg) = Some eg"
    using True by (cases "mf_egress (cf_manifest cfg)") (auto simp: egress_proxy_enabled_def)
  show ?thesis using start u eg
    by (auto simp: EgressService_start_def egress_proxy_env_vars_def e result_elims Let_def)
qed


definition demo_egress_config :: configuration where
  "demo_egress_config = from_manifest ''/etc'' (demo_config_manifest\<lparr>mf_egress :=
     Some \<lparr>eg_proxy_port = Some 8, eg_allow = Some [''api.io''], eg_deny = None\<rparr>\<rparr>)"

definition port_uri :: "string \<Rightarrow> uri option" where
  "port_uri s = Some \<lparr>ur_authority = Some \<lparr>au_host = ''127.0.0.1'', au_port = Some (''8'', 8)\<rparr>,
     ur_path_and_query = None\<rparr>"

end
