(* ===== verification/Spki_Der.thy ===== *)
theory Spki_Der
  imports Wire_Framing
begin

text \<open>
  DER encoding and parsing of public keys: \<open>public_key_as_der\<close> of \<open>eth_key.rs\<close> and
  \<open>encryption_key.rs\<close>, and \<open>parse_der_public_key\<close> of the latter.  A slice out of range is a panic.
\<close>

unbundle bit_operations_syntax

subsection \<open>Encoding\<close>

definition u32_be_bytes :: "u32 \<Rightarrow> bytes" where
  "u32_be_bytes w = rev (to_le_bytes w)"

definition oid_ec_pubkey :: bytes where
  "oid_ec_pubkey = [0x06, 0x07, 0x2a, 0x86, 0x48, 0xce, 0x3d, 0x02, 0x01]"

definition oid_secp256k1 :: bytes where
  "oid_secp256k1 = [0x06, 0x05, 0x2b, 0x81, 0x04, 0x00, 0x0a]"

definition oid_secp384r1 :: bytes where
  "oid_secp384r1 = [0x06, 0x05, 0x2b, 0x81, 0x04, 0x00, 0x22]"

text \<open>The \<open>AlgorithmIdentifier\<close>, whose length is cut to a byte.\<close>

definition alg_seq :: "bytes \<Rightarrow> bytes" where
  "alg_seq oid = [0x30, of_nat (length oid_ec_pubkey + length oid)] @ oid_ec_pubkey @ oid"

text \<open>The bit string of the Ethereum key always has a one-byte length.\<close>

definition eth_bit_string :: "bytes \<Rightarrow> bytes" where
  "eth_bit_string pub = [0x03, of_nat (1 + length pub), 0x00] @ pub"

definition p384_bit_string :: "bytes \<Rightarrow> bytes" where
  "p384_bit_string pub =
     (let n = 1 + length pub
      in [0x03] @ (if n > 127 then [0x81, of_nat n] else [of_nat n]) @ [0x00] @ pub)"

definition spki_length :: "nat \<Rightarrow> bytes" where
  "spki_length n =
     (if n > 127 then
        (let len_bytes = u32_be_bytes (of_nat n);
             needed = length (dropWhile (\<lambda>b. b = 0) len_bytes)
         in (0x80 OR of_nat needed) # drop (4 - needed) len_bytes)
      else [of_nat n])"

definition spki :: "bytes \<Rightarrow> bytes \<Rightarrow> bytes" where
  "spki alg bit_string = [0x30] @ spki_length (length alg + length bit_string) @ alg @ bit_string"

definition eth_public_key_as_der :: "bytes \<Rightarrow> bytes" where
  "eth_public_key_as_der pub = spki (alg_seq oid_secp256k1) (eth_bit_string pub)"

definition p384_public_key_as_der :: "bytes \<Rightarrow> bytes" where
  "p384_public_key_as_der pub = spki (alg_seq oid_secp384r1) (p384_bit_string pub)"

subsection \<open>Parsing\<close>

datatype der_error =
    DerExpectedSequence
  | DerExpectedAlgorithm
  | DerExpectedBitString
  | DerBitStringLength
  | DerEmptyLength
  | DerTruncatedLength
  | DerUnsupportedLength
  | DerSlicePanic
  | BadPoint

definition parse_der_length :: "bytes \<Rightarrow> (der_error, nat \<times> nat) result" where
  "parse_der_length data =
     (if data = [] then Inl DerEmptyLength
      else if data ! 0 < 0x80 then Inr (1, unat (data ! 0))
      else if data ! 0 = 0x81 then
        (if length data < 2 then Inl DerTruncatedLength else Inr (2, unat (data ! 1)))
      else if data ! 0 = 0x82 then
        (if length data < 3 then Inl DerTruncatedLength
         else Inr (3, unat (data ! 1) * 256 + unat (data ! 2)))
      else Inl DerUnsupportedLength)"

definition slice :: "bytes \<Rightarrow> nat \<Rightarrow> nat \<Rightarrow> (der_error, bytes) result" where
  "slice bs a b = (if a \<le> b \<and> b \<le> length bs then Inr (take (b - a) (drop a bs)) else Inl DerSlicePanic)"

definition der_key_bytes :: "bytes \<Rightarrow> (der_error, bytes) result" where
  "der_key_bytes der =
     rbind (bail_if (length der < 4 \<or> der ! 0 \<noteq> 0x30) DerExpectedSequence) (\<lambda>_.
     rbind (parse_der_length (drop 1 der)) (\<lambda>(content_start, _).
     rbind (slice der (1 + content_start) (length der)) (\<lambda>content.
     rbind (bail_if (content = [] \<or> content ! 0 \<noteq> 0x30) DerExpectedAlgorithm) (\<lambda>_.
     rbind (parse_der_length (drop 1 content)) (\<lambda>(alg_len_size, alg_len).
     let start = 1 + alg_len_size + alg_len in
     rbind (bail_if (start \<ge> length content \<or> content ! start \<noteq> 0x03) DerExpectedBitString) (\<lambda>_.
     rbind (slice content start (length content)) (\<lambda>bit_string.
     rbind (parse_der_length (drop 1 bit_string)) (\<lambda>(bs_len_size, bs_len).
     let content_start = 1 + bs_len_size in
     rbind (bail_if (content_start + bs_len > length bit_string) DerBitStringLength) (\<lambda>_.
     slice bit_string (content_start + 1) (content_start + bs_len))))))))))"

definition parse_der_public_key :: "(bytes \<Rightarrow> 'pk option) \<Rightarrow> bytes \<Rightarrow> (der_error, 'pk) result" where
  "parse_der_public_key from_sec1 der =
     rbind (der_key_bytes der) (\<lambda>bs. ok_or BadPoint (from_sec1 bs))"


subsection \<open>Lengths\<close>

lemma u32_be_bytes_small:
  assumes "n < 65536"
  shows "u32_be_bytes (of_nat n) = [0, 0, of_nat (n div 256), of_nat (n mod 256)]"
proof -
  have "n div 65536 = 0" "n div 16777216 = 0" "n div 256 < 256" using assms by auto
  then show ?thesis using assms by (simp add: u32_be_bytes_def to_le_bytes_def unat_of_nat_u32)
qed

lemma of_nat_u8_zero: "n < 256 \<Longrightarrow> of_nat n = (0 :: u8) \<longleftrightarrow> n = 0"
  by (simp add: word_unat_eq_iff unat_of_nat_u8)

lemma long_form_tags: "(0x80 OR of_nat 1 :: u8) = 0x81" "(0x80 OR of_nat 2 :: u8) = 0x82"
  by simp_all

lemma spki_length_long:
  assumes "n < 65536" "127 < n" "dropWhile (\<lambda>b. b = 0) (u32_be_bytes (of_nat n)) = ds"
  shows "spki_length n = (0x80 OR of_nat (length ds)) # drop (4 - length ds) (u32_be_bytes (of_nat n))"
  using assms by (simp only: spki_length_def Let_def if_True)

lemma spki_length_cases:
  assumes "n < 65536"
  obtains "n < 128" "spki_length n = [of_nat n]"
  | "128 \<le> n" "n < 256" "spki_length n = [0x81, of_nat n]"
  | "256 \<le> n" "spki_length n = [0x82, of_nat (n div 256), of_nat (n mod 256)]"
proof -
  have hi: "n div 256 < 256" using assms by auto
  note be = u32_be_bytes_small [OF assms]
  consider "n < 128" | "128 \<le> n" "n < 256" | "256 \<le> n" by linarith
  then show ?thesis
  proof cases
    case 1
    then show ?thesis using that(1) by (simp add: spki_length_def)
  next
    case 2
    then have "n div 256 = 0" "n mod 256 = n" "(of_nat n :: u8) \<noteq> 0" by (simp_all add: of_nat_u8_zero)
    then have d: "u32_be_bytes (of_nat n) = [0, 0, 0, of_nat n]"
      "dropWhile (\<lambda>b. b = 0) (u32_be_bytes (of_nat n)) = [of_nat n]"
      using be by simp_all
    have "spki_length n = [0x81, of_nat n]"
      using spki_length_long [OF assms _ d(2)] 2 long_form_tags(1) unfolding d(1) by simp
    then show ?thesis using 2 that(2) by simp
  next
    case 3
    then have "(of_nat (n div 256) :: u8) \<noteq> 0" using hi by (simp add: of_nat_u8_zero)
    then have d: "dropWhile (\<lambda>b. b = 0) (u32_be_bytes (of_nat n)) = [of_nat (n div 256), of_nat (n mod 256)]"
      unfolding be by simp
    have "spki_length n = [0x82, of_nat (n div 256), of_nat (n mod 256)]"
      using spki_length_long [OF assms _ d] 3 long_form_tags(2) unfolding be by (simp add: numeral_2_eq_2)
    then show ?thesis using 3 that(3) by simp
  qed
qed

lemma u8_less_128: "n < 128 \<Longrightarrow> (of_nat n :: u8) < 128"
  by (simp add: word_less_nat_alt unat_of_nat_u8)

lemma parse_spki_length:
  assumes "n < 65536"
  shows "parse_der_length (spki_length n @ rest) = Inr (length (spki_length n), n)"
proof (cases rule: spki_length_cases [OF assms])
  case 1
  then show ?thesis by (simp add: parse_der_length_def u8_less_128 unat_of_nat_u8)
next
  case 2
  then show ?thesis by (simp add: parse_der_length_def unat_of_nat_u8)
next
  case 3
  have "n div 256 < 256" "n mod 256 < 256" using assms by auto
  then show ?thesis using 3 by (simp add: parse_der_length_def unat_of_nat_u8 del: of_nat_mod)
qed

lemma parse_bit_string_length:
  assumes "n < 256"
  shows "parse_der_length ((if n > 127 then [0x81, of_nat n] else [of_nat n]) @ rest) =
    Inr (if n > 127 then 2 else 1, n)"
  using assms u8_less_128 [of n] by (cases "n > 127") (simp_all add: parse_der_length_def unat_of_nat_u8)

subsection \<open>Round trip\<close>

lemma length_alg_seq: "length (alg_seq oid_secp384r1) = 18"
  by (simp add: alg_seq_def oid_ec_pubkey_def oid_secp384r1_def)

lemma alg_seq_header:
  "alg_seq oid_secp384r1 ! 0 = 0x30"
  "parse_der_length (drop 1 (alg_seq oid_secp384r1) @ rest) = Inr (1, 16)"
  by (simp_all add: alg_seq_def oid_ec_pubkey_def oid_secp384r1_def parse_der_length_def)

lemma slice_all [simp]: "n \<le> length bs \<Longrightarrow> slice bs n (length bs) = Inr (drop n bs)"
  by (simp add: slice_def)

text \<open>Parsing the content of the outer sequence, whatever follows the bit string.\<close>

lemma der_key_bytes_spki:
  assumes pub: "length pub \<le> 254" and n: "n < 65536"
  shows "der_key_bytes ([0x30] @ spki_length n @ alg_seq oid_secp384r1 @ p384_bit_string pub @ junk) = Inr pub"
proof -
  let ?bs = "p384_bit_string pub @ junk"
  let ?content = "alg_seq oid_secp384r1 @ ?bs"
  let ?der = "[0x30] @ spki_length n @ ?content"
  let ?k = "1 + length pub"
  have der: "\<not> (length ?der < 4 \<or> ?der ! 0 \<noteq> 0x30)" by (simp add: length_alg_seq)
  have outer: "parse_der_length (drop 1 ?der) = Inr (length (spki_length n), n)"
    using parse_spki_length [OF n] by simp
  have content: "slice ?der (1 + length (spki_length n)) (length ?der) = Inr ?content"
    by (subst slice_all) simp_all
  have c0: "\<not> (?content = [] \<or> ?content ! 0 \<noteq> 0x30)"
    using alg_seq_header(1) length_alg_seq by (auto simp: nth_append alg_seq_def)
  have alg: "parse_der_length (drop 1 ?content) = Inr (1, 16)"
    using alg_seq_header(2) [of ?bs] length_alg_seq by simp
  have at18: "?content ! 18 = ?bs ! 0" by (simp add: nth_append length_alg_seq)
  have bs0: "?bs ! 0 = 0x03" by (simp add: p384_bit_string_def Let_def)
  have c18: "\<not> (1 + 1 + 16 \<ge> length ?content \<or> ?content ! (1 + 1 + 16) \<noteq> 0x03)"
    using at18 bs0 by (simp add: length_alg_seq p384_bit_string_def Let_def)
  have bit: "slice ?content (1 + 1 + 16) (length ?content) = Inr ?bs"
    by (subst slice_all) (simp_all add: length_alg_seq)
  have bl: "parse_der_length (drop 1 ?bs) = Inr (if ?k > 127 then 2 else 1, ?k)"
    using parse_bit_string_length [of ?k "[0x00] @ pub @ junk"] pub
    by (simp only: p384_bit_string_def Let_def append_assoc append_Cons append_Nil drop_Suc_Cons drop_0 One_nat_def)
  have fits: "\<not> (1 + (if ?k > 127 then 2 else 1) + ?k > length ?bs)"
    by (simp add: p384_bit_string_def Let_def)
  have key: "slice ?bs (1 + (if ?k > 127 then 2 else 1) + 1) (1 + (if ?k > 127 then 2 else 1) + ?k) = Inr pub"
    by (simp add: slice_def p384_bit_string_def Let_def)
  show ?thesis
    unfolding der_key_bytes_def Let_def
    by (simp only: der outer content c0 alg c18 bit bl fits key rbind_simps bail_if_simps case_prod_conv)
qed


lemma p384_der_roundtrip:
  assumes "length pub \<le> 254"
  shows "der_key_bytes (p384_public_key_as_der pub @ junk) = Inr pub"
proof -
  have "length (alg_seq oid_secp384r1) + length (p384_bit_string pub) < 65536"
    using assms by (simp add: length_alg_seq p384_bit_string_def Let_def)
  from der_key_bytes_spki [OF assms this, of junk] show ?thesis
    by (simp add: p384_public_key_as_der_def spki_def)
qed

text \<open>A bit string of length zero makes the last slice start behind its end.\<close>

lemma der_empty_bit_string_panics: "der_key_bytes [0x30, 4, 0x30, 0, 0x03, 0] = Inl DerSlicePanic"
  by (simp add: der_key_bytes_def parse_der_length_def slice_def Let_def)

end
