(* ===== verification/Enclave_Keys.thy ===== *)
theory Enclave_Keys
  imports Spki_Der
begin

text \<open>
  The keys of the enclave: the P-384 encryption key (\<open>encryption_key.rs\<close>), the Ethereum key
  (\<open>eth_key.rs\<close>) and the access to the Nitro security module (\<open>nsm.rs\<close>).  Elliptic curves, HKDF,
  AES-GCM, Keccak, base64 and hexadecimal are arguments (records of functions).
\<close>

subsection \<open>The encryption key\<close>

record ('sk, 'pk) p384_ops =
  pc_from_seed :: "bytes \<Rightarrow> 'sk"
  pc_public :: "'sk \<Rightarrow> 'pk"
  pc_to_sec1 :: "'pk \<Rightarrow> bytes"
  pc_from_sec1 :: "bytes \<Rightarrow> 'pk option"
  pc_ecdh :: "'sk \<Rightarrow> 'pk \<Rightarrow> bytes"
  pc_hkdf :: "bytes \<Rightarrow> bytes \<Rightarrow> bytes \<Rightarrow> nat \<Rightarrow> bytes option"
  pc_gcm_encrypt :: "bytes \<Rightarrow> bytes \<Rightarrow> bytes \<Rightarrow> bytes option"
  pc_gcm_decrypt :: "bytes \<Rightarrow> bytes \<Rightarrow> bytes \<Rightarrow> bytes option"
  pc_base64 :: "bytes \<Rightarrow> string"
  pc_hex :: "bytes \<Rightarrow> string"

record ('sk, 'pk) encryption_key =
  en_secret_key :: 'sk
  en_public_key :: 'pk

datatype key_error =
    ShortEntropy nat
  | DerError der_error
  | HkdfFailed
  | NonceLength nat
  | DecryptionFailed
  | EncryptionFailed
  | InvalidHex
  | InvalidKeyLength
  | InvalidPrivateKey

definition encryption_key_of :: "('sk, 'pk) p384_ops \<Rightarrow> 'sk \<Rightarrow> ('sk, 'pk) encryption_key" where
  "encryption_key_of C sk = \<lparr>en_secret_key = sk, en_public_key = pc_public C sk\<rparr>"

definition from_entropy_p384 :: "('sk, 'pk) p384_ops \<Rightarrow> bytes \<Rightarrow> (key_error, ('sk, 'pk) encryption_key) result" where
  "from_entropy_p384 C entropy =
     (if length entropy < 32 then Inl (ShortEntropy (length entropy))
      else Inr (encryption_key_of C (pc_from_seed C (take 32 entropy))))"

definition public_key_bytes :: "('sk, 'pk) p384_ops \<Rightarrow> ('sk, 'pk) encryption_key \<Rightarrow> bytes" where
  "public_key_bytes C k = pc_to_sec1 C (en_public_key k)"

definition public_key_as_der :: "('sk, 'pk) p384_ops \<Rightarrow> ('sk, 'pk) encryption_key \<Rightarrow> bytes" where
  "public_key_as_der C k = p384_public_key_as_der (public_key_bytes C k)"

function chunks :: "nat \<Rightarrow> 'a list \<Rightarrow> 'a list list" where
  "chunks n xs = (if xs = [] \<or> n = 0 then [] else take n xs # chunks n (drop n xs))"
  by pat_completeness auto
termination by (relation "measure (\<lambda>(n, xs). length xs)") auto

declare chunks.simps [simp del]

fun join :: "string \<Rightarrow> string list \<Rightarrow> string" where
  "join sep [] = []"
| "join sep [x] = x"
| "join sep (x # y # ys) = x @ sep @ join sep (y # ys)"

definition public_key_as_pem :: "('sk, 'pk) p384_ops \<Rightarrow> ('sk, 'pk) encryption_key \<Rightarrow> string" where
  "public_key_as_pem C k =
     ''-----BEGIN PUBLIC KEY-----'' @ [CHR 0x0A] @
     join [CHR 0x0A] (chunks 64 (pc_base64 C (public_key_as_der C k))) @ [CHR 0x0A] @
     ''-----END PUBLIC KEY-----''"

definition public_key_hex :: "('sk, 'pk) p384_ops \<Rightarrow> ('sk, 'pk) encryption_key \<Rightarrow> string" where
  "public_key_hex C k = ''0x'' @ pc_hex C (public_key_bytes C k)"

text \<open>The order of byte slices: lexicographic.\<close>

fun bytes_le :: "bytes \<Rightarrow> bytes \<Rightarrow> bool" where
  "bytes_le [] ys = True"
| "bytes_le (x # xs) [] = False"
| "bytes_le (x # xs) (y # ys) = (x < y \<or> x = y \<and> bytes_le xs ys)"

definition hkdf_info :: bytes where
  "hkdf_info = map of_char ''capsule-ecdh-aes256gcm-v1''"

definition salt_material :: "bytes \<Rightarrow> bytes \<Rightarrow> bytes \<Rightarrow> bytes" where
  "salt_material self_pub peer_pub nonce =
     (let (first_pub, second_pub) =
            (if bytes_le self_pub peer_pub then (self_pub, peer_pub) else (peer_pub, self_pub))
      in first_pub @ second_pub @ nonce)"

definition derive_shared_key ::
  "('sk, 'pk) p384_ops \<Rightarrow> ('sk, 'pk) encryption_key \<Rightarrow> bytes \<Rightarrow> bytes \<Rightarrow> (key_error, bytes) result" where
  "derive_shared_key C k peer_der nonce =
     rbind (map_err DerError (parse_der_public_key (pc_from_sec1 C) peer_der)) (\<lambda>peer.
     let shared_secret = pc_ecdh C (en_secret_key k) peer;
         salt = salt_material (public_key_bytes C k) (pc_to_sec1 C peer) nonce
     in ok_or HkdfFailed (pc_hkdf C salt shared_secret hkdf_info 32))"

definition validate_nonce :: "bytes \<Rightarrow> (key_error, unit) result" where
  "validate_nonce nonce = bail_if (length nonce \<noteq> 12) (NonceLength (length nonce))"

definition decrypt ::
  "('sk, 'pk) p384_ops \<Rightarrow> ('sk, 'pk) encryption_key \<Rightarrow> bytes \<Rightarrow> bytes \<Rightarrow> bytes \<Rightarrow> (key_error, bytes) result" where
  "decrypt C k nonce client_der encrypted_data =
     rbind (validate_nonce nonce) (\<lambda>_.
     rbind (derive_shared_key C k client_der nonce) (\<lambda>aes_key.
     ok_or DecryptionFailed (pc_gcm_decrypt C aes_key nonce encrypted_data)))"

definition encrypt ::
  "('sk, 'pk) p384_ops \<Rightarrow> ('sk, 'pk) encryption_key \<Rightarrow> bytes \<Rightarrow> bytes \<Rightarrow> bytes \<Rightarrow> (key_error, bytes) result" where
  "encrypt C k plaintext client_der nonce =
     rbind (validate_nonce nonce) (\<lambda>_.
     rbind (derive_shared_key C k client_der nonce) (\<lambda>aes_key.
     ok_or EncryptionFailed (pc_gcm_encrypt C aes_key nonce plaintext)))"

subsection \<open>The Ethereum key\<close>

record 'k eth_ops =
  et_from_bytes :: "bytes \<Rightarrow> 'k option"
  et_to_bytes :: "'k \<Rightarrow> bytes"
  et_public_point :: "'k \<Rightarrow> bytes"
  et_sign_recoverable :: "'k \<Rightarrow> bytes \<Rightarrow> bytes \<times> u8"
  et_recover :: "bytes \<Rightarrow> bytes \<Rightarrow> u8 \<Rightarrow> bytes option"
  et_keccak :: "bytes \<Rightarrow> bytes"
  et_hex :: "bytes \<Rightarrow> string"
  et_unhex :: "string \<Rightarrow> bytes option"
  et_lowercase :: "string \<Rightarrow> string"

definition from_entropy_eth :: "'k eth_ops \<Rightarrow> bytes \<Rightarrow> (key_error, 'k) result" where
  "from_entropy_eth E entropy = ok_or InvalidPrivateKey (et_from_bytes E entropy)"

definition new_from_bytes :: "'k eth_ops \<Rightarrow> string \<Rightarrow> (key_error, 'k) result" where
  "new_from_bytes E hex_str =
     rbind (ok_or InvalidHex (et_unhex E (unwrap_or hex_str (strip_prefix ''0x'' hex_str)))) (\<lambda>bs.
     rbind (bail_if (length bs \<noteq> 32) InvalidKeyLength) (\<lambda>_.
     ok_or InvalidPrivateKey (et_from_bytes E bs)))"

definition private_key_hex :: "'k eth_ops \<Rightarrow> 'k \<Rightarrow> string" where
  "private_key_hex E k = ''0x'' @ et_hex E (et_to_bytes E k)"

definition eth_public_key_hex :: "'k eth_ops \<Rightarrow> 'k \<Rightarrow> string" where
  "eth_public_key_hex E k = ''0x'' @ et_hex E (et_public_point E k)"

definition point_address :: "'k eth_ops \<Rightarrow> bytes \<Rightarrow> bytes" where
  "point_address E point = drop 12 (et_keccak E (drop 1 point))"

definition address :: "'k eth_ops \<Rightarrow> 'k \<Rightarrow> string" where
  "address E k = ''0x'' @ et_hex E (point_address E (et_public_point E k))"

definition address_bytes :: "'k eth_ops \<Rightarrow> 'k \<Rightarrow> bytes" where
  "address_bytes E k = point_address E (et_public_point E k)"

definition eth_key_as_der :: "'k eth_ops \<Rightarrow> 'k \<Rightarrow> bytes" where
  "eth_key_as_der E k = eth_public_key_as_der (et_public_point E k)"

text \<open>The message is hashed with Keccak; the recovery id follows the 64 bytes of the signature.\<close>

definition sign_message :: "'k eth_ops \<Rightarrow> 'k \<Rightarrow> bytes \<Rightarrow> bytes" where
  "sign_message E k msg =
     (let (sig, recid) = et_sign_recoverable E k (et_keccak E msg) in sig @ [recid])"

definition verify_message :: "'k eth_ops \<Rightarrow> string \<Rightarrow> bytes \<Rightarrow> string \<Rightarrow> bool" where
  "verify_message E sig_hex msg addr =
     (case et_unhex E (unwrap_or sig_hex (strip_prefix ''0x'' sig_hex)) of
        None \<Rightarrow> False
      | Some sig_bytes \<Rightarrow>
          if length sig_bytes \<noteq> 65 then False
          else (case et_recover E (et_keccak E msg) (take 64 sig_bytes) (sig_bytes ! 64) of
                  None \<Rightarrow> False
                | Some point \<Rightarrow> ''0x'' @ et_hex E (point_address E point) = et_lowercase E addr))"

subsection \<open>The security module\<close>

record attestation_params =
  att_nonce :: "bytes option"
  att_user_data :: "bytes option"
  att_public_key :: "bytes option"

datatype nsm_request = NsmGetRandom | NsmAttestation attestation_params
datatype nsm_response = NsmRandom bytes | NsmDocument bytes | NsmError string | NsmOther

definition nsm_process :: "(nsm_request \<Rightarrow> nsm_response) \<Rightarrow> nsm_request \<Rightarrow> (string, nsm_response) result" where
  "nsm_process driver req =
     (case driver req of
        NsmError e \<Rightarrow> Inl (''nsm request failed with: '' @ e)
      | rsp \<Rightarrow> Inr rsp)"

definition nsm_get_random :: "(nsm_request \<Rightarrow> nsm_response) \<Rightarrow> (string, bytes) result" where
  "nsm_get_random driver =
     rbind (nsm_process driver NsmGetRandom) (\<lambda>rsp.
     case rsp of NsmRandom bs \<Rightarrow> Inr bs | _ \<Rightarrow> Inl ''unexpected response for GetRandom'')"

definition nsm_attestation :: "(nsm_request \<Rightarrow> nsm_response) \<Rightarrow> attestation_params \<Rightarrow> (string, bytes) result" where
  "nsm_attestation driver params =
     rbind (nsm_process driver (NsmAttestation params)) (\<lambda>rsp.
     case rsp of NsmDocument d \<Rightarrow> Inr d | _ \<Rightarrow> Inl ''unexpected response for Attestation'')"

subsection \<open>Both sides derive the same key\<close>

lemma bytes_le_total: "bytes_le xs ys \<or> bytes_le ys xs"
  by (induction xs ys rule: bytes_le.induct) (auto simp: neq_iff)

lemma bytes_le_antisym: "bytes_le xs ys \<Longrightarrow> bytes_le ys xs \<Longrightarrow> xs = ys"
  by (induction xs ys rule: bytes_le.induct) (auto elim: bytes_le.elims)

lemma salt_material_sym: "salt_material a b nonce = salt_material b a nonce"
  using bytes_le_total [of a b] bytes_le_antisym [of a b] by (auto simp: salt_material_def)

text \<open>
  What the encryption key relies on: Diffie-Hellman commutes, points are read back from their
  encoding, an uncompressed point has 97 bytes.
\<close>

definition curve_laws :: "('sk, 'pk) p384_ops \<Rightarrow> bool" where
  "curve_laws C \<longleftrightarrow>
     (\<forall>a b. pc_ecdh C a (pc_public C b) = pc_ecdh C b (pc_public C a)) \<and>
     (\<forall>p. pc_from_sec1 C (pc_to_sec1 C p) = Some p \<and> length (pc_to_sec1 C p) = 97)"

lemma derive_shared_key_der:
  assumes "curve_laws C"
  shows "derive_shared_key C (encryption_key_of C a) (public_key_as_der C (encryption_key_of C b) @ junk) nonce =
    ok_or HkdfFailed (pc_hkdf C (salt_material (pc_to_sec1 C (pc_public C a)) (pc_to_sec1 C (pc_public C b)) nonce)
      (pc_ecdh C a (pc_public C b)) hkdf_info 32)"
  using assms p384_der_roundtrip [of "pc_to_sec1 C (pc_public C b)" junk]
  by (simp add: curve_laws_def derive_shared_key_def public_key_as_der_def public_key_bytes_def
      encryption_key_of_def parse_der_public_key_def Let_def)

lemma derive_shared_key_agrees:
  assumes "curve_laws C"
  shows "derive_shared_key C (encryption_key_of C a) (public_key_as_der C (encryption_key_of C b) @ junk) nonce =
    derive_shared_key C (encryption_key_of C b) (public_key_as_der C (encryption_key_of C a) @ junk') nonce"
proof -
  have "pc_ecdh C a (pc_public C b) = pc_ecdh C b (pc_public C a)" using assms by (simp add: curve_laws_def)
  then show ?thesis by (simp only: derive_shared_key_der [OF assms] salt_material_sym)
qed

text \<open>
  A signature of a key verifies against the key's address: given that hexadecimal is read back and
  the signer's point is recovered from its own signature.
\<close>

lemma sign_message_verifies:
  assumes "\<And>bs. et_unhex E (et_hex E bs) = Some bs"
    and "et_sign_recoverable E k (et_keccak E msg) = (sig, recid)" and "length sig = 64"
    and "et_recover E (et_keccak E msg) sig recid = Some (et_public_point E k)"
    and "et_lowercase E (address E k) = address E k"
  shows "verify_message E (''0x'' @ et_hex E (sign_message E k msg)) msg (address E k)"
proof -
  have "strip_prefix ''0x'' (''0x'' @ et_hex E (sig @ [recid])) = Some (et_hex E (sig @ [recid]))"
    by (rule strip_prefix_append)
  then have "et_unhex E (unwrap_or (''0x'' @ et_hex E (sig @ [recid]))
      (strip_prefix ''0x'' (''0x'' @ et_hex E (sig @ [recid])))) = Some (sig @ [recid])"
    using assms(1) by simp
  moreover have "(sig @ [recid]) ! 64 = recid" using assms(3) by (metis nth_append_length)
  ultimately show ?thesis
    using assms by (simp add: verify_message_def sign_message_def address_def)
qed

subsection \<open>Main results\<close>

text \<open>
  C13. What one key encrypts to another, the other decrypts: both sides parse the peer's DER key, derive
  the same AES key whichever side they are on, and the plaintext comes back, given that
  Diffie-Hellman commutes, encoded points are read back, and AES-GCM decrypts what it encrypted.
\<close>

theorem encrypt_decrypt:
  assumes laws: "curve_laws C"
    and gcm: "\<And>key nonce p c. pc_gcm_encrypt C key nonce p = Some c \<Longrightarrow> pc_gcm_decrypt C key nonce c = Some p"
    and enc: "encrypt C (encryption_key_of C a) plaintext (public_key_as_der C (encryption_key_of C b)) nonce = Inr ct"
  shows "decrypt C (encryption_key_of C b) nonce (public_key_as_der C (encryption_key_of C a)) ct = Inr plaintext"
proof -
  obtain key where key: "derive_shared_key C (encryption_key_of C a) (public_key_as_der C (encryption_key_of C b)) nonce = Inr key"
    and ct: "pc_gcm_encrypt C key nonce plaintext = Some ct" and n: "validate_nonce nonce = Inr ()"
    using enc by (auto simp: encrypt_def result_elims)
  have "derive_shared_key C (encryption_key_of C b) (public_key_as_der C (encryption_key_of C a)) nonce = Inr key"
    using key derive_shared_key_agrees [OF laws, of a b "[]" nonce "[]"] by simp
  then show ?thesis using n gcm [OF ct] by (simp add: decrypt_def)
qed

text \<open>A toy curve for the witness: keys are naturals, the public key of \<open>a\<close> is \<open>a\<close>.\<close>

definition toy_curve :: "(u8, u8) p384_ops" where
  "toy_curve = \<lparr>pc_from_seed = hd, pc_public = (\<lambda>a. a), pc_to_sec1 = (\<lambda>p. p # replicate 96 0),
     pc_from_sec1 = (\<lambda>bs. Some (hd bs)), pc_ecdh = (\<lambda>a b. [a * b]), pc_hkdf = (\<lambda>salt s i n. Some s),
     pc_gcm_encrypt = (\<lambda>k n p. Some (k @ p)), pc_gcm_decrypt = (\<lambda>k n c. Some (drop (length k) c)),
     pc_base64 = (\<lambda>_. []), pc_hex = (\<lambda>_. [])\<rparr>"

lemma toy_curve_laws: "curve_laws toy_curve"
  by (simp add: curve_laws_def toy_curve_def mult.commute)

theorem encrypt_decrypt_witness:
  "decrypt toy_curve (encryption_key_of toy_curve 3) (replicate 12 0)
     (public_key_as_der toy_curve (encryption_key_of toy_curve 5)) [15, 9] = Inr [9]"
proof (rule encrypt_decrypt [OF toy_curve_laws])
  show "pc_gcm_decrypt toy_curve key nonce c = Some p" if "pc_gcm_encrypt toy_curve key nonce p = Some c" for key nonce p c
    using that by (auto simp: toy_curve_def)
  have "derive_shared_key toy_curve (encryption_key_of toy_curve 5) (public_key_as_der toy_curve (encryption_key_of toy_curve 3)) (replicate 12 0) =
      Inr [15]"
    using derive_shared_key_der [OF toy_curve_laws, of 5 3 "[]" "replicate 12 0"] by (simp add: toy_curve_def)
  then show "encrypt toy_curve (encryption_key_of toy_curve 5) [9] (public_key_as_der toy_curve (encryption_key_of toy_curve 3))
      (replicate 12 0) = Inr [15, 9]"
    by (simp add: encrypt_def validate_nonce_def) (simp add: toy_curve_def)
qed

end
