(* ===== verification/Http_Util.thy ===== *)
theory Http_Util
  imports Rust_Std
begin

text \<open>
  HTTP responses, JSON values and the request loop shared by the two APIs (\<open>http_util.rs\<close>).  The
  JSON parser and printer are arguments; the frames of a request body are a list.
\<close>

definition str_bytes :: "string \<Rightarrow> bytes" where
  "str_bytes s = map of_char s"

definition bytes_str :: "bytes \<Rightarrow> string" where
  "bytes_str bs = map (\<lambda>b. char_of (unat b)) bs"

record http_response =
  rs_status :: nat
  rs_headers :: "(string \<times> string) list"
  rs_body :: bytes

definition plain_response :: "nat \<Rightarrow> string \<Rightarrow> http_response" where
  "plain_response status msg = \<lparr>rs_status = status, rs_headers = [], rs_body = str_bytes msg\<rparr>"

definition resp_internal_srv_err :: "string \<Rightarrow> http_response" where
  "resp_internal_srv_err msg = plain_response 500 msg"

definition resp_bad_request :: "string \<Rightarrow> http_response" where
  "resp_bad_request msg = plain_response 400 msg"

definition resp_payload_too_large :: "string \<Rightarrow> http_response" where
  "resp_payload_too_large msg = plain_response 413 msg"

definition resp_method_not_allowed :: http_response where
  "resp_method_not_allowed = plain_response 405 []"

definition resp_not_found :: http_response where
  "resp_not_found = plain_response 404 []"

subsection \<open>JSON\<close>

text \<open>The keys of an object are distinct.\<close>

datatype json_value =
    JNull
  | JBool bool
  | JNumber string
  | JString string
  | JArray "json_value list"
  | JObject "(string \<times> json_value) list"

record json_codec =
  js_parse :: "bytes \<Rightarrow> (string, json_value) result"
  js_bytes :: "json_value \<Rightarrow> bytes"

fun json_insert :: "string \<Rightarrow> json_value \<Rightarrow> (string \<times> json_value) list \<Rightarrow> (string \<times> json_value) list" where
  "json_insert k v [] = [(k, v)]"
| "json_insert k v ((k', v') # m) = (if k' = k then (k, v) # m else (k', v') # json_insert k v m)"

definition json_remove :: "string \<Rightarrow> (string \<times> json_value) list \<Rightarrow> (string \<times> json_value) list" where
  "json_remove k m = filter (\<lambda>(k', _). k' \<noteq> k) m"

definition json_response :: "json_codec \<Rightarrow> nat \<Rightarrow> json_value \<Rightarrow> http_response" where
  "json_response J status body =
     \<lparr>rs_status = status, rs_headers = [(''content-type'', ''application/json'')], rs_body = js_bytes J body\<rparr>"

definition ok_json :: "json_codec \<Rightarrow> json_value \<Rightarrow> http_response" where
  "ok_json J body = json_response J 200 body"

lemma map_of_json_insert [simp]: "map_of (json_insert k v m) = (map_of m)(k \<mapsto> v)"
  by (induction k v m rule: json_insert.induct) auto

lemma map_of_json_remove [simp]: "map_of (json_remove k m) = (map_of m)(k := None)"
  by (induction m) (auto simp: json_remove_def)

subsection \<open>Collecting the body and serving a request\<close>

definition DEFAULT_MAX_REQUEST_BODY_BYTES :: nat where
  "DEFAULT_MAX_REQUEST_BODY_BYTES = 10 * 1024 * 1024"

text \<open>
  A frame of the body is an error (its text), data, or something else (trailers).  The saturating
  sum of the lengths, which are below the size of the address space, is a plain sum.
\<close>

fun collect_request_body_with_limit ::
  "nat \<Rightarrow> bytes \<Rightarrow> (string, bytes option) result list \<Rightarrow> (string, bytes) result" where
  "collect_request_body_with_limit max_bytes out [] = Inr out"
| "collect_request_body_with_limit max_bytes out (Inl e # fs) = Inl e"
| "collect_request_body_with_limit max_bytes out (Inr None # fs) =
     collect_request_body_with_limit max_bytes out fs"
| "collect_request_body_with_limit max_bytes out (Inr (Some chunk) # fs) =
     (let next_len = length out + length chunk
      in if next_len > max_bytes
         then Inl (''request body exceeds '' @ show_nat max_bytes @ '' bytes (received at least '' @
                   show_nat next_len @ '')'')
         else collect_request_body_with_limit max_bytes (out @ chunk) fs)"

datatype api_failure = Failed string | Panicked

text \<open>The service function of \<open>HttpServer::serve\<close> for one request.\<close>

definition serve_http_request ::
  "nat \<Rightarrow> ('s \<Rightarrow> bytes \<Rightarrow> 's \<times> (api_failure, http_response) result) \<Rightarrow> 's
     \<Rightarrow> (string, bytes option) result list \<Rightarrow> 's \<times> (api_failure, http_response) result" where
  "serve_http_request max_bytes handle s frames =
     (case collect_request_body_with_limit max_bytes [] frames of
        Inl message \<Rightarrow>
          (s, Inr (if contains_str message ''request body exceeds'' then resp_payload_too_large message
                   else resp_bad_request message))
      | Inr body \<Rightarrow> handle s body)"

lemma collect_body_bounded:
  "collect_request_body_with_limit max_bytes out fs = Inr body \<Longrightarrow> length out \<le> max_bytes \<Longrightarrow>
   length body \<le> max_bytes \<and>
   body = out @ concat (map (\<lambda>f. case f of Inr (Some chunk) \<Rightarrow> chunk | _ \<Rightarrow> []) fs)"
  by (induction max_bytes out fs rule: collect_request_body_with_limit.induct)
     (auto simp: Let_def split: if_splits)

lemma serve_http_request_bounded:
  assumes "\<And>body. length body \<le> max_bytes \<Longrightarrow> snd (handle s body) \<noteq> Inl f"
  shows "snd (serve_http_request max_bytes handle s frames) \<noteq> Inl f"
  using assms collect_body_bounded [of max_bytes "[]" frames]
  by (auto simp: serve_http_request_def split: sum.splits)

end
