(* ===== verification/Kms_Text.thy ===== *)
theory Kms_Text
  imports Enclave_Keys Http_Util Rust_Net
begin

text \<open>
  The pure helpers of the Nova KMS client (\<open>integrations/nova_kms.rs\<close>): wallets, addresses, URLs,
  redaction for the log, classification of errors, and the reading of registry answers.  Strings are
  their UTF-8 bytes; hexadecimal, base64, UTF-8 checks, the Unicode lower case, the URL parser and
  JSON are arguments.
\<close>

record text_ops =
  kx_lowercase :: "string \<Rightarrow> string"
  kx_hex :: "bytes \<Rightarrow> string"
  kx_unhex :: "string \<Rightarrow> (string, bytes) result"
  kx_base64 :: "bytes \<Rightarrow> string"
  kx_unbase64 :: "string \<Rightarrow> (string, bytes) result"
  kx_utf8 :: "bytes \<Rightarrow> (string, string) result"
  kx_url_host :: "string \<Rightarrow> string option option"
  kx_json :: json_codec
  kx_sha256 :: "bytes \<Rightarrow> bytes"
  kx_urlencode :: "bytes \<Rightarrow> string"

subsection \<open>Text\<close>

definition KMS_DEBUG_LOG_MAX_LEN :: nat where "KMS_DEBUG_LOG_MAX_LEN = 1024"

definition trim_0x :: "string \<Rightarrow> string" where
  "trim_0x s = trim_start_matches ''0X'' (trim_start_matches ''0x'' s)"

text \<open>Slicing a string inside a character panics.\<close>

definition is_char_boundary :: "string \<Rightarrow> nat \<Rightarrow> bool" where
  "is_char_boundary s i \<longleftrightarrow>
     i = length s \<or> i < length s \<and> \<not> (128 \<le> (of_char (s ! i) :: nat) \<and> (of_char (s ! i) :: nat) < 192)"

definition truncate_for_log :: "string \<Rightarrow> nat \<Rightarrow> (api_failure, string) result" where
  "truncate_for_log s max_len =
     (if length s \<le> max_len then Inr s
      else if is_char_boundary s max_len then Inr (take max_len s @ ''...(truncated)'')
      else Inl Panicked)"

definition is_sensitive_log_field :: "string \<Rightarrow> bool" where
  "is_sensitive_log_field field \<longleftrightarrow>
     to_ascii_lowercase field \<in> {''key'', ''value'', ''private_key'', ''signature'', ''encrypted_data''}"

definition json_text :: "json_codec \<Rightarrow> json_value \<Rightarrow> string" where
  "json_text J v = bytes_str (js_bytes J v)"

definition approx_len :: "json_codec \<Rightarrow> json_value \<Rightarrow> nat" where
  "approx_len J v = (case v of JString s \<Rightarrow> length s | _ \<Rightarrow> length (json_text J v))"

fun redact_json_for_log :: "json_codec \<Rightarrow> json_value \<Rightarrow> json_value" where
  "redact_json_for_log J (JObject m) =
     JObject (map (\<lambda>(k, v).
       if is_sensitive_log_field k
       then (k, JString (''<redacted:'' @ show_nat (approx_len J v) @ '' chars>''))
       else (k, redact_json_for_log J v)) m)"
| "redact_json_for_log J (JArray vs) = JArray (map (redact_json_for_log J) vs)"
| "redact_json_for_log J v = v"

definition preview_json_for_log :: "json_codec \<Rightarrow> json_value \<Rightarrow> (api_failure, string) result" where
  "preview_json_for_log J v = truncate_for_log (json_text J (redact_json_for_log J v)) KMS_DEBUG_LOG_MAX_LEN"

definition preview_text_for_log :: "json_codec \<Rightarrow> string \<Rightarrow> (api_failure, string) result" where
  "preview_text_for_log J t =
     (case js_parse J (str_bytes t) of
        Inr v \<Rightarrow> preview_json_for_log J v
      | Inl _ \<Rightarrow> truncate_for_log t KMS_DEBUG_LOG_MAX_LEN)"

subsection \<open>Classification of errors\<close>

definition looks_like_connectivity_error :: "string \<Rightarrow> bool" where
  "looks_like_connectivity_error message =
     (let lowered = to_ascii_lowercase message
      in list_ex (contains_str lowered)
           [''error sending request for url'', ''connection refused'', ''connection reset'', ''timed out'',
            ''timeout'', ''dns error'', ''tcp connect'', ''channel closed'', ''broken pipe'',
            ''network is unreachable''])"

definition looks_like_kms_not_found_error :: "string \<Rightarrow> bool" where
  "looks_like_kms_not_found_error message =
     (let lowered = to_ascii_lowercase message
      in contains_str lowered ''kms http 404'' \<or> contains_str lowered ''key not found'')"

definition looks_like_transient_registry_error :: "string \<Rightarrow> bool" where
  "looks_like_transient_registry_error message \<longleftrightarrow>
     looks_like_connectivity_error message \<or> contains_str (to_ascii_lowercase message) ''out of sync''"

definition looks_like_registry_not_ready_error :: "string \<Rightarrow> bool" where
  "looks_like_registry_not_ready_error message =
     (let lowered = to_ascii_lowercase message
      in contains_str lowered ''is not zk-verified on registry'' \<or>
         contains_str lowered ''is not active on registry'' \<or>
         contains_str lowered ''registry discovery returned no active kms nodes'')"

definition looks_like_registry_rpc_unavailable_error :: "string \<Rightarrow> bool" where
  "looks_like_registry_rpc_unavailable_error message =
     (let lowered = to_ascii_lowercase message
      in contains_str lowered ''registry discovery failed'' \<or>
         contains_str lowered ''registry eth_call http 5'' \<or>
         contains_str lowered ''registry eth_call failed: upstream temporarily unavailable'')"

definition retryable_error :: "string \<Rightarrow> bool" where
  "retryable_error message \<longleftrightarrow>
     looks_like_transient_registry_error message \<or> looks_like_registry_not_ready_error message \<or>
     looks_like_registry_rpc_unavailable_error message"

definition retry_later :: "string \<Rightarrow> http_response" where
  "retry_later message =
     \<lparr>rs_status = 503, rs_headers = [(''Retry-After'', ''10'')], rs_body = str_bytes message\<rparr>"

definition authz_error_response :: "string \<Rightarrow> http_response" where
  "authz_error_response message =
     (if retryable_error message then retry_later message else resp_bad_request message)"

definition kms_operation_error_response :: "string \<Rightarrow> http_response" where
  "kms_operation_error_response message =
     (if retryable_error message then retry_later message else resp_bad_request message)"

subsection \<open>Wallets and keys\<close>

definition canonical_wallet :: "text_ops \<Rightarrow> string \<Rightarrow> (string, string) result" where
  "canonical_wallet X wallet =
     (let val = kx_lowercase X (trim wallet);
          invalid = ''invalid wallet address format: '' @ wallet
      in rbind (case strip_prefix ''0x'' val of
                  Some stripped \<Rightarrow> if length stripped \<noteq> 40 then Inl invalid else Inr stripped
                | None \<Rightarrow> if length val = 40 then Inr val else Inl invalid) (\<lambda>body.
         rbind (map_err (\<lambda>_. invalid) (kx_unhex X body)) (\<lambda>_.
         Inr (''0x'' @ body))))"

definition decode_kms_wallet_address :: "text_ops \<Rightarrow> string \<Rightarrow> (string, string) result" where
  "decode_kms_wallet_address X value_b64 =
     rbind (map_err (\<lambda>e. ''invalid KMS app wallet address encoding: '' @ e) (kx_unbase64 X value_b64)) (\<lambda>decoded.
     rbind (map_err (\<lambda>e. ''invalid KMS app wallet address utf8: '' @ e) (kx_utf8 X decoded)) (\<lambda>addr.
     canonical_wallet X addr))"

definition decode_kms_private_key_hex :: "text_ops \<Rightarrow> string \<Rightarrow> (string, string) result" where
  "decode_kms_private_key_hex X value_b64 =
     rbind (map_err (\<lambda>e. ''invalid KMS app wallet key encoding: '' @ e) (kx_unbase64 X value_b64)) (\<lambda>decoded.
     if length decoded = 32 then Inr (''0x'' @ kx_hex X decoded)
     else
       rbind (map_err (\<lambda>e. ''invalid KMS app wallet key utf8: '' @ e) (kx_utf8 X decoded)) (\<lambda>key_text.
       let clean = kx_lowercase X (trim_0x key_text)
       in rbind (bail_if (length clean \<noteq> 64) ''invalid KMS app wallet key length'') (\<lambda>_.
          rbind (map_err (\<lambda>e. ''invalid KMS app wallet key hex: '' @ e) (kx_unhex X clean)) (\<lambda>_.
          Inr (''0x'' @ clean)))))"

definition eip191_personal_message_bytes :: "string \<Rightarrow> bytes" where
  "eip191_personal_message_bytes message =
     str_bytes ([CHR 0x19] @ ''Ethereum Signed Message:'' @ [CHR 0x0A] @ show_nat (length message)) @ str_bytes message"

text \<open>\<open>H160::from_slice\<close> panics unless it gets 20 bytes.\<close>

definition parse_h160 :: "text_ops \<Rightarrow> string \<Rightarrow> (api_failure, bytes) result" where
  "parse_h160 X addr =
     (let clean = trim_0x addr
      in if length clean \<noteq> 40 then Inl (Failed (''invalid address length: '' @ addr))
         else (case kx_unhex X clean of
                 Inl e \<Rightarrow> Inl (Failed (''invalid address hex: '' @ e))
               | Inr bs \<Rightarrow> if length bs = 20 then Inr bs else Inl Panicked))"

subsection \<open>URLs\<close>

fun trim_end_char :: "char \<Rightarrow> string \<Rightarrow> string" where
  "trim_end_char c s = rev (dropWhile (\<lambda>x. x = c) (rev s))"

definition normalize_base_url :: "text_ops \<Rightarrow> string \<Rightarrow> string option" where
  "normalize_base_url X v =
     (let trimmed = trim v
      in if trimmed = [] then None
         else
           (let full = (if starts_with trimmed ''http://'' \<or> starts_with trimmed ''https://'' then trimmed
                        else ''https://'' @ trimmed);
                normalized = trim_end_char (CHR ''/'') full
            in if normalized = [] then None
               else (case kx_url_host X normalized of Some (Some _) \<Rightarrow> Some normalized | _ \<Rightarrow> None)))"

definition is_loopback_ip :: "ip_addr \<Rightarrow> bool" where
  "is_loopback_ip ip = (case ip of V4 xs \<Rightarrow> xs \<noteq> [] \<and> hd xs = 127 | V6 xs \<Rightarrow> xs = [0, 0, 0, 0, 0, 0, 0, 1])"

definition is_loopback_url :: "text_ops \<Rightarrow> string \<Rightarrow> bool" where
  "is_loopback_url X url =
     (case kx_url_host X url of
        Some (Some raw_host) \<Rightarrow>
          (let host = trim_end_char (CHR '']'') (dropWhile (\<lambda>x. x = CHR ''['') raw_host)
           in eq_ignore_ascii_case host ''localhost'' \<or> host = ''::1'' \<or>
              (case parse_ip_addr host of Some ip \<Rightarrow> is_loopback_ip ip | None \<Rightarrow> False))
      | _ \<Rightarrow> False)"

definition no_proxy_bypasses_localhost :: "string \<Rightarrow> bool" where
  "no_proxy_bypasses_localhost v =
     list_ex (\<lambda>entry.
       let lowered = to_ascii_lowercase entry
       in lowered \<in> {''*'', ''localhost'', ''127.0.0.1'', ''::1'', ''127.0.0.0/8''} \<or> ends_with lowered ''.localhost'')
     (filter (\<lambda>entry. entry \<noteq> []) (map trim (split_on (CHR '','') v)))"

subsection \<open>Registry answers\<close>

datatype abi_token =
    TUint nat
  | TBool bool
  | TString string
  | TAddress bytes
  | TBytes bytes
  | TFixedBytes bytes
  | TArray "abi_token list"
  | TTuple "abi_token list"

datatype abi_type = AUint nat | ABool | AString | AAddress | ABytes | AFixedBytes nat | AArray abi_type | ATuple "abi_type list"

record abi_function =
  af_name :: string
  af_inputs :: "abi_type list"
  af_outputs :: "abi_type list"

record abi_ops =
  ab_encode :: "abi_function \<Rightarrow> abi_token list \<Rightarrow> (string, bytes) result"
  ab_decode :: "abi_function \<Rightarrow> bytes \<Rightarrow> (string, abi_token list) result"
  ab_show :: "abi_token \<Rightarrow> string"
  ab_show_opt :: "abi_token option \<Rightarrow> string"

definition registry_fn_get_active_instances :: abi_function where
  "registry_fn_get_active_instances =
     \<lparr>af_name = ''getActiveInstances'', af_inputs = [AUint 256], af_outputs = [AArray AAddress]\<rparr>"

definition registry_fn_get_instance_by_wallet :: abi_function where
  "registry_fn_get_instance_by_wallet =
     \<lparr>af_name = ''getInstanceByWallet'', af_inputs = [AAddress],
      af_outputs = [ATuple [AUint 256, AUint 256, AUint 256, AAddress, AString, ABytes, AAddress, ABool, AUint 8, AUint 256]]\<rparr>"

definition registry_fn_get_app :: abi_function where
  "registry_fn_get_app =
     \<lparr>af_name = ''getApp'', af_inputs = [AUint 256],
      af_outputs = [ATuple [AUint 256, AAddress, AFixedBytes 32, AAddress, AString, AUint 256, AUint 256, AUint 8, AAddress]]\<rparr>"

definition extract_single_tuple :: "abi_ops \<Rightarrow> abi_token list \<Rightarrow> string \<Rightarrow> (string, abi_token list) result" where
  "extract_single_tuple B tokens context =
     (if length tokens \<noteq> 1
      then Inl (context @ '' returned '' @ show_nat (length tokens) @ '' outputs, expected 1'')
      else (case tokens of
              TTuple vs # _ \<Rightarrow> Inr vs
            | t # _ \<Rightarrow> Inl (context @ '' expected tuple output, got '' @ ab_show_opt B (Some t))
            | [] \<Rightarrow> Inl (context @ '' expected tuple output, got '' @ ab_show_opt B None)))"

definition token_to_u64 :: "abi_ops \<Rightarrow> abi_token \<Rightarrow> string \<Rightarrow> (string, u64) result" where
  "token_to_u64 B t field =
     (case t of
        TUint v \<Rightarrow> if v > unat (- 1 :: u64) then Inl (field @ '' exceeds u64'') else Inr (of_nat v)
      | _ \<Rightarrow> Inl (field @ '' expected uint, got '' @ ab_show B t))"

definition token_to_bool :: "abi_ops \<Rightarrow> abi_token \<Rightarrow> string \<Rightarrow> (string, bool) result" where
  "token_to_bool B t field =
     (case t of TBool v \<Rightarrow> Inr v | _ \<Rightarrow> Inl (field @ '' expected bool, got '' @ ab_show B t))"

definition token_to_string :: "abi_ops \<Rightarrow> abi_token \<Rightarrow> string \<Rightarrow> (string, string) result" where
  "token_to_string B t field =
     (case t of TString v \<Rightarrow> Inr v | _ \<Rightarrow> Inl (field @ '' expected string, got '' @ ab_show B t))"

definition token_to_address :: "text_ops \<Rightarrow> abi_ops \<Rightarrow> abi_token \<Rightarrow> string \<Rightarrow> (string, string) result" where
  "token_to_address X B t field =
     (case t of
        TAddress v \<Rightarrow> Inr (''0x'' @ kx_hex X v)
      | _ \<Rightarrow> Inl (field @ '' expected address, got '' @ ab_show B t))"

definition token_to_bytes :: "abi_ops \<Rightarrow> abi_token \<Rightarrow> string \<Rightarrow> (string, bytes) result" where
  "token_to_bytes B t field =
     (case t of TBytes v \<Rightarrow> Inr v | _ \<Rightarrow> Inl (field @ '' expected bytes, got '' @ ab_show B t))"

end
