(* ===== verification/Kms_Nodes.thy ===== *)
theory Kms_Nodes
  imports Kms_Text
begin

text \<open>
  The node list of the Nova KMS client: cache entries, merging a fresh list with what is known about
  reachability, the order in which nodes are tried, and the check that a node is the one the
  registry names.  Times are milliseconds in \<open>u64\<close>.
\<close>

definition DEFAULT_KMS_NODE_REACHABLE_CACHE_TTL_MS :: u64 where "DEFAULT_KMS_NODE_REACHABLE_CACHE_TTL_MS = 30000"
definition DEFAULT_KMS_NODE_UNREACHABLE_CACHE_TTL_MS :: u64 where "DEFAULT_KMS_NODE_UNREACHABLE_CACHE_TTL_MS = 10000"

record kms_node =
  kd_wallet :: string
  kd_base_url :: string
  kd_tee_pubkey :: string
  kd_reachable :: "bool option"
  kd_expires_at_ms :: u64
  kd_last_checked_ms :: u64
  kd_last_http_status :: "nat option"
  kd_last_error :: "string option"

record discovery_cache_entry =
  dc_nodes :: "kms_node list"
  dc_expires_at_ms :: u64

record kms_node_identity =
  ni_wallet :: string
  ni_tee_pubkey :: string

definition KmsNodeCacheEntry_new :: "string \<Rightarrow> string \<Rightarrow> string \<Rightarrow> kms_node" where
  "KmsNodeCacheEntry_new wallet base_url tee_pubkey =
     \<lparr>kd_wallet = wallet, kd_base_url = base_url, kd_tee_pubkey = trim_0x tee_pubkey, kd_reachable = None,
      kd_expires_at_ms = 0, kd_last_checked_ms = 0, kd_last_http_status = None, kd_last_error = None\<rparr>"

definition mark_reachability ::
  "bool \<Rightarrow> u64 \<Rightarrow> nat option \<Rightarrow> string option \<Rightarrow> u64 \<Rightarrow> kms_node \<Rightarrow> kms_node" where
  "mark_reachability reachable expires_at_ms last_http_status last_error now node =
     node\<lparr>kd_reachable := Some reachable, kd_expires_at_ms := expires_at_ms, kd_last_checked_ms := now,
          kd_last_http_status := last_http_status, kd_last_error := last_error\<rparr>"

text \<open>A map from URLs to nodes built in order: a later entry replaces an earlier one.\<close>

definition nodes_by_url :: "kms_node list \<Rightarrow> string \<rightharpoonup> kms_node" where
  "nodes_by_url nodes = map_of (rev (map (\<lambda>n. (kd_base_url n, n)) nodes))"

text \<open>What is known about the reachability of one node, copied to another.\<close>

definition copy_reachability :: "kms_node \<Rightarrow> kms_node \<Rightarrow> kms_node" where
  "copy_reachability from node =
     node\<lparr>kd_reachable := kd_reachable from, kd_expires_at_ms := kd_expires_at_ms from,
          kd_last_checked_ms := kd_last_checked_ms from, kd_last_http_status := kd_last_http_status from,
          kd_last_error := kd_last_error from\<rparr>"

definition merge_discovered_nodes_with_previous ::
  "kms_node list \<Rightarrow> discovery_cache_entry option \<Rightarrow> u64 \<Rightarrow> kms_node list" where
  "merge_discovered_nodes_with_previous discovered previous now_ms =
     (case previous of
        None \<Rightarrow> discovered
      | Some p \<Rightarrow>
          map (\<lambda>node. case nodes_by_url (dc_nodes p) (kd_base_url node) of
                        Some prev \<Rightarrow> if now_ms < kd_expires_at_ms prev then copy_reachability prev node else node
                      | None \<Rightarrow> node) discovered)"

definition merge_refresh_with_live_cache ::
  "kms_node list \<Rightarrow> discovery_cache_entry option \<Rightarrow> u64 \<Rightarrow> kms_node list" where
  "merge_refresh_with_live_cache refreshed live_cache now_ms =
     (case live_cache of
        None \<Rightarrow> refreshed
      | Some lc \<Rightarrow>
          map (\<lambda>node. case nodes_by_url (dc_nodes lc) (kd_base_url node) of
                        Some live \<Rightarrow>
                          if kd_last_checked_ms live > kd_last_checked_ms node \<and> now_ms < kd_expires_at_ms live
                          then copy_reachability live node else node
                      | None \<Rightarrow> node) refreshed)"

definition format_node_wallet_urls :: "kms_node list \<Rightarrow> string" where
  "format_node_wallet_urls nodes =
     (if nodes = [] then ''<none>''
      else join '','' (map (\<lambda>n. kd_wallet n @ ''@'' @ kd_base_url n) nodes))"

definition reachability_text :: "u64 \<Rightarrow> kms_node \<Rightarrow> string" where
  "reachability_text now_ms node =
     (case kd_reachable node of
        Some True \<Rightarrow> if now_ms < kd_expires_at_ms node then ''reachable'' else ''unknown''
      | Some False \<Rightarrow> if now_ms < kd_expires_at_ms node then ''unreachable'' else ''unknown''
      | None \<Rightarrow> ''unknown'')"

definition format_node_refresh_list :: "kms_node list \<Rightarrow> u64 \<Rightarrow> string" where
  "format_node_refresh_list nodes now_ms =
     (if nodes = [] then ''<none>''
      else join '','' (map (\<lambda>n. ''{wallet='' @ kd_wallet n @ '',url='' @ kd_base_url n @ '',tee_pubkey='' @
             kd_tee_pubkey n @ '',reachability='' @ reachability_text now_ms n @ ''}'') nodes))"

text \<open>The nodes to try: those known to be reachable, then those nothing is known about.\<close>

fun split_by_reachability :: "u64 \<Rightarrow> kms_node list \<Rightarrow> kms_node list \<times> kms_node list" where
  "split_by_reachability now_ms [] = ([], [])"
| "split_by_reachability now_ms (node # nodes) =
     (let (reachable, unknown) = split_by_reachability now_ms nodes
      in if kd_reachable node = Some True \<and> now_ms < kd_expires_at_ms node then (node # reachable, unknown)
         else if kd_reachable node = Some False \<and> now_ms < kd_expires_at_ms node then (reachable, unknown)
         else (reachable, node # unknown))"

definition resolve_connectable_nodes :: "u64 \<Rightarrow> kms_node list \<Rightarrow> kms_node list" where
  "resolve_connectable_nodes now_ms discovered =
     (let (reachable, unknown) = split_by_reachability now_ms discovered in reachable @ unknown)"

text \<open>The cache entry of the node with a URL, updated in place (the first one found).\<close>

fun update_first :: "string \<Rightarrow> (kms_node \<Rightarrow> kms_node) \<Rightarrow> kms_node list \<Rightarrow> kms_node list" where
  "update_first url f [] = []"
| "update_first url f (n # ns) = (if kd_base_url n = url then f n # ns else n # update_first url f ns)"

definition update_node_reachability ::
  "string \<Rightarrow> bool \<Rightarrow> nat option \<Rightarrow> string option \<Rightarrow> u64 \<Rightarrow> u64 \<Rightarrow> discovery_cache_entry option
     \<Rightarrow> discovery_cache_entry option" where
  "update_node_reachability base_url reachable last_http_status last_error now later cache =
     (let ttl_ms = (if reachable then DEFAULT_KMS_NODE_REACHABLE_CACHE_TTL_MS
                    else DEFAULT_KMS_NODE_UNREACHABLE_CACHE_TTL_MS);
          expires_at_ms = saturating_add now ttl_ms
      in map_option (\<lambda>c. c\<lparr>dc_nodes := update_first base_url
           (mark_reachability reachable expires_at_ms last_http_status last_error later) (dc_nodes c)\<rparr>) cache)"

definition verify_node_identity_binding ::
  "text_ops \<Rightarrow> kms_node \<Rightarrow> kms_node_identity \<Rightarrow> (string, string) result" where
  "verify_node_identity_binding X node status_identity =
     rbind (canonical_wallet X (kd_wallet node)) (\<lambda>registry_wallet.
     rbind (canonical_wallet X (ni_wallet status_identity)) (\<lambda>status_wallet.
     rbind (bail_if (status_wallet \<noteq> registry_wallet)
       (''KMS node wallet mismatch for node='' @ kd_base_url node @ '' registry_wallet='' @ registry_wallet @
        '' status_wallet='' @ status_wallet)) (\<lambda>_.
     let registry_tee_pubkey = trim_0x (kd_tee_pubkey node)
     in rbind (bail_if (registry_tee_pubkey = [])
       (''registry discovery missing tee_pubkey for node='' @ kd_base_url node @ '' wallet='' @ registry_wallet)) (\<lambda>_.
     let status_tee_pubkey = trim_0x (ni_tee_pubkey status_identity)
     in rbind (bail_if (status_tee_pubkey = [])
       (''KMS /status returned empty tee_pubkey for node='' @ kd_base_url node @ '' wallet='' @ status_wallet)) (\<lambda>_.
     rbind (bail_if (status_tee_pubkey \<noteq> registry_tee_pubkey)
       (''KMS node tee_pubkey mismatch for node='' @ kd_base_url node @ '' wallet='' @ registry_wallet)) (\<lambda>_.
     Inr registry_tee_pubkey))))))"

subsection \<open>Facts\<close>

text \<open>Who a node is: merging and marking never change it.\<close>

definition node_id :: "kms_node \<Rightarrow> string \<times> string \<times> string" where
  "node_id n = (kd_wallet n, kd_base_url n, kd_tee_pubkey n)"

lemma node_id_copy [simp]: "node_id (copy_reachability p n) = node_id n"
  by (simp add: node_id_def copy_reachability_def)

lemma node_id_mark [simp]: "node_id (mark_reachability r e st er now n) = node_id n"
  by (simp add: node_id_def mark_reachability_def)

lemma map_node_id_merge_discovered [simp]:
  "map node_id (merge_discovered_nodes_with_previous ns p now) = map node_id ns"
  by (simp add: merge_discovered_nodes_with_previous_def split: option.splits)

lemma map_node_id_merge_refresh [simp]:
  "map node_id (merge_refresh_with_live_cache ns p now) = map node_id ns"
  by (simp add: merge_refresh_with_live_cache_def split: option.splits)

lemma map_node_id_update_first [simp]:
  "(\<And>n. node_id (f n) = node_id n) \<Longrightarrow> map node_id (update_first url f ns) = map node_id ns"
  by (induction ns) auto

lemma split_by_reachability_filter:
  "split_by_reachability now ns =
     (filter (\<lambda>n. kd_reachable n = Some True \<and> now < kd_expires_at_ms n) ns,
      filter (\<lambda>n. kd_reachable n = None \<or> \<not> now < kd_expires_at_ms n) ns)"
proof (induction ns)
  case Nil
  then show ?case by simp
next
  case (Cons n ns)
  then show ?case by (cases "kd_reachable n"; cases "the (kd_reachable n)") auto
qed

lemma resolve_connectable_nodes_subset: "set (resolve_connectable_nodes now ns) \<subseteq> set ns"
  by (auto simp: resolve_connectable_nodes_def split_by_reachability_filter)

lemma verify_node_identity_binding_ok:
  assumes "verify_node_identity_binding X node ident = Inr key"
  shows "key = trim_0x (kd_tee_pubkey node) \<and> key = trim_0x (ni_tee_pubkey ident) \<and> key \<noteq> [] \<and>
    (\<exists>w. canonical_wallet X (kd_wallet node) = Inr w \<and> canonical_wallet X (ni_wallet ident) = Inr w)"
  using assms by (auto simp: verify_node_identity_binding_def Let_def result_elims)

end
