(* ===== verification/Kms_Client.thy ===== *)
theory Kms_Client
  imports Kms_Nodes Manifest "HOL-Library.List_Lexorder" "HOL-Library.Char_ord"
begin

text \<open>
  The Nova KMS client (\<open>NovaKmsProxy\<close> of \<open>integrations/nova_kms.rs\<close>): authorisation and discovery
  through the registry, the mutually authenticated and encrypted call of a node, retries, the caches
  and the request handlers.  The state is the caches and the world behind them; the clock and the
  HTTP client are functions on the world.  Arguments of log macros are not evaluated.
\<close>

subsection \<open>Configuration and state\<close>

definition AUTHZ_CACHE_TTL_MS :: u64 where "AUTHZ_CACHE_TTL_MS = 10000"
definition DEFAULT_REGISTRY_CHAIN_RPC :: string where "DEFAULT_REGISTRY_CHAIN_RPC = ''http://127.0.0.1:18545''"
definition DEFAULT_KMS_MAX_ATTEMPTS :: nat where "DEFAULT_KMS_MAX_ATTEMPTS = 3"
definition DEFAULT_KMS_DISCOVERY_TTL_MS :: u64 where "DEFAULT_KMS_DISCOVERY_TTL_MS = 60000"
definition DEFAULT_KMS_NODE_IDENTITY_CACHE_TTL_MS :: u64 where "DEFAULT_KMS_NODE_IDENTITY_CACHE_TTL_MS = 30000"
definition DEFAULT_KMS_REQUIRE_MUTUAL_SIGNATURE :: bool where "DEFAULT_KMS_REQUIRE_MUTUAL_SIGNATURE = True"
definition DEFAULT_KMS_RESERVED_DERIVE_PREFIXES :: "string list" where
  "DEFAULT_KMS_RESERVED_DERIVE_PREFIXES = [''wallet/eth/app/'']"
definition DEFAULT_REGISTRY_ETH_CALL_MAX_ATTEMPTS :: nat where "DEFAULT_REGISTRY_ETH_CALL_MAX_ATTEMPTS = 5"
definition DEFAULT_REGISTRY_ETH_CALL_RETRY_BACKOFF_BASE_MS :: nat where
  "DEFAULT_REGISTRY_ETH_CALL_RETRY_BACKOFF_BASE_MS = 400"

record app_authz_context =
  az_id :: u64
  az_app_wallet :: string
  az_wallet :: string

record cached_authz =
  cz_context :: app_authz_context
  cz_expires_at_ms :: u64

record app_wallet_material =
  wm_private_key_hex :: string
  wm_address :: string

record cached_app_wallet =
  cw_material :: app_wallet_material
  cw_expires_at_ms :: u64

record registry_discovery =
  rd_kms_app_id :: u64
  rd_registry_address :: string
  rd_rpc_url :: string
  rd_ttl_ms :: u64

record cached_identity =
  ci_identity :: kms_node_identity
  ci_expires_at_ms :: u64

record registry_instance =
  ri_app_id :: u64
  ri_instance_url :: string
  ri_tee_pubkey :: string
  ri_zk_verified :: bool
  ri_status :: u64

record registry_app =
  ra_status :: u64
  ra_app_wallet :: string

record nova_kms =
  nk_endpoint :: string
  nk_use_app_wallet :: bool
  nk_max_retries :: nat
  nk_require_mutual_signature :: bool
  nk_reserved :: "string list"
  nk_discovery :: "registry_discovery option"

record 'w kms_state =
  ks_world :: 'w
  ks_discovery :: "discovery_cache_entry option"
  ks_refresh_started :: bool
  ks_identity :: "string \<rightharpoonup> cached_identity"
  ks_authz :: "cached_authz option"
  ks_wallet :: "cached_app_wallet option"

datatype client_route = DefaultClient | LocalClient
datatype kms_method = MGet | MPost | MPut | MDelete

record kms_request =
  kq_method :: kms_method
  kq_url :: string
  kq_headers :: "(string \<times> string) list"
  kq_json :: "json_value option"

record kms_response =
  kr_status :: nat
  kr_signature :: "string option"
  kr_text :: "(string, string) result"

record rpc_response =
  rp_result :: "string option"
  rp_error :: "(int \<times> string) option"

record derive_api_request =
  dq_path :: string
  dq_context :: string
  dq_length :: nat

record kv_put_api_request =
  pq_key :: string
  pq_value :: string
  pq_ttl_ms :: u64

record ('k, 'w) kms_env =
  ke_text :: text_ops
  ke_eth :: "'k eth_ops"
  ke_abi :: abi_ops
  ke_millis :: "'w \<Rightarrow> 'w \<times> u64"
  ke_secs :: "'w \<Rightarrow> 'w \<times> u64"
  ke_sleep :: "nat \<Rightarrow> 'w \<Rightarrow> 'w"
  ke_send :: "client_route \<Rightarrow> kms_request \<Rightarrow> 'w \<Rightarrow> 'w \<times> (string, kms_response) result"
  ke_key_text :: "key_error \<Rightarrow> string"
  ke_status_error :: "string \<Rightarrow> nat \<Rightarrow> string"
  ke_rpc_response :: "string \<Rightarrow> (string, rpc_response) result"
  ke_new_key :: "'w \<Rightarrow> 'w \<times> 'k"
  ke_derive_request :: "bytes \<Rightarrow> (string, derive_api_request) result"
  ke_key_request :: "bytes \<Rightarrow> (string, string) result"
  ke_put_request :: "bytes \<Rightarrow> (string, kv_put_api_request) result"

type_synonym ('w, 'a) kms_step = "'w kms_state \<times> (api_failure, 'a) result"

definition build_registry_discovery ::
  "text_ops \<Rightarrow> kms_integration \<Rightarrow> (string, registry_discovery option) result" where
  "build_registry_discovery X config =
     (if kms_app_id config = None \<and> kms_nova_app_registry config = None then Inr None
      else
        rbind (ok_or ''kms_integration.kms_app_id is required for registry discovery'' (kms_app_id config)) (\<lambda>app_id.
        rbind (ok_or ''kms_integration.nova_app_registry is required for registry discovery''
                (case map_option trim (kms_nova_app_registry config) of
                   Some v \<Rightarrow> if v \<noteq> [] then Some v else None
                 | None \<Rightarrow> None)) (\<lambda>registry_address.
        rbind (canonical_wallet X registry_address) (\<lambda>addr.
        Inr (Some \<lparr>rd_kms_app_id = app_id, rd_registry_address = addr, rd_rpc_url = DEFAULT_REGISTRY_CHAIN_RPC,
                   rd_ttl_ms = DEFAULT_KMS_DISCOVERY_TTL_MS\<rparr>)))))"

text \<open>Building the two HTTP clients is an argument: \<open>Inl\<close> when it fails.\<close>

definition NovaKmsProxy_new ::
  "text_ops \<Rightarrow> (string, unit) result \<Rightarrow> kms_integration \<Rightarrow> string \<Rightarrow> 'w \<Rightarrow> (string, nova_kms \<times> 'w kms_state) result" where
  "NovaKmsProxy_new X clients config endpoint w =
     rbind clients (\<lambda>_.
     rbind (build_registry_discovery X config) (\<lambda>registry_discovery.
     Inr (\<lparr>nk_endpoint = endpoint, nk_use_app_wallet = kms_use_app_wallet config,
           nk_max_retries = DEFAULT_KMS_MAX_ATTEMPTS, nk_require_mutual_signature = DEFAULT_KMS_REQUIRE_MUTUAL_SIGNATURE,
           nk_reserved = DEFAULT_KMS_RESERVED_DERIVE_PREFIXES, nk_discovery = registry_discovery\<rparr>,
          \<lparr>ks_world = w, ks_discovery = None, ks_refresh_started = False, ks_identity = Map.empty,
           ks_authz = None, ks_wallet = None\<rparr>)))"

text \<open>\<open>start_background_refresh\<close>: the new state and whether the refresh loop is started.\<close>

definition start_background_refresh :: "nova_kms \<Rightarrow> 'w kms_state \<Rightarrow> 'w kms_state \<times> bool" where
  "start_background_refresh P s =
     (if nk_discovery P = None then (s, False)
      else if ks_refresh_started s then (s, False)
      else (s\<lparr>ks_refresh_started := True\<rparr>, True))"

definition is_reserved_derive_path :: "nova_kms \<Rightarrow> string \<Rightarrow> bool" where
  "is_reserved_derive_path P path = list_ex (starts_with (trim path)) (nk_reserved P)"

subsection \<open>The world\<close>

definition lift_res :: "'w kms_state \<Rightarrow> (string, 'a) result \<Rightarrow> ('w, 'a) kms_step" where
  "lift_res s r = (s, map_err Failed r)"

definition current_unix_millis :: "('k, 'w) kms_env \<Rightarrow> 'w kms_state \<Rightarrow> 'w kms_state \<times> u64" where
  "current_unix_millis E s = (case ke_millis E (ks_world s) of (w, t) \<Rightarrow> (s\<lparr>ks_world := w\<rparr>, t))"

definition current_unix_timestamp :: "('k, 'w) kms_env \<Rightarrow> 'w kms_state \<Rightarrow> 'w kms_state \<times> u64" where
  "current_unix_timestamp E s = (case ke_secs E (ks_world s) of (w, t) \<Rightarrow> (s\<lparr>ks_world := w\<rparr>, t))"

definition http_send ::
  "('k, 'w) kms_env \<Rightarrow> client_route \<Rightarrow> kms_request \<Rightarrow> 'w kms_state \<Rightarrow> ('w, kms_response) kms_step" where
  "http_send E c q s = (case ke_send E c q (ks_world s) of (w, r) \<Rightarrow> (s\<lparr>ks_world := w\<rparr>, map_err Failed r))"

definition http_client_for_url :: "text_ops \<Rightarrow> string \<Rightarrow> client_route" where
  "http_client_for_url X url = (if is_loopback_url X url then LocalClient else DefaultClient)"

definition is_success :: "nat \<Rightarrow> bool" where
  "is_success status \<longleftrightarrow> 200 \<le> status \<and> status < 300"

definition get_request :: "string \<Rightarrow> kms_request" where
  "get_request url = \<lparr>kq_method = MGet, kq_url = url, kq_headers = [], kq_json = None\<rparr>"

definition json_get :: "string \<Rightarrow> json_value \<Rightarrow> json_value option" where
  "json_get k v = (case v of JObject m \<Rightarrow> map_of m k | _ \<Rightarrow> None)"

definition json_str :: "string \<Rightarrow> json_value \<Rightarrow> string option" where
  "json_str k v = (case json_get k v of Some (JString t) \<Rightarrow> Some t | _ \<Rightarrow> None)"

text \<open>A GET whose answer is JSON, by \<open>send\<close>, \<open>error_for_status\<close> and \<open>json\<close>.\<close>

definition fetch_json :: "('k, 'w) kms_env \<Rightarrow> string \<Rightarrow> 'w kms_state \<Rightarrow> ('w, json_value) kms_step" where
  "fetch_json E url s =
     sbind (http_send E DefaultClient (get_request url) s) (\<lambda>s r.
     lift_res s (rbind (bail_if (400 \<le> kr_status r \<and> kr_status r < 600) (ke_status_error E url (kr_status r))) (\<lambda>_.
       rbind (kr_text r) (\<lambda>t. js_parse (kx_json (ke_text E)) (str_bytes t)))))"

subsection \<open>The local Capsule API\<close>

definition capsule_api_call ::
  "('k, 'w) kms_env \<Rightarrow> nova_kms \<Rightarrow> kms_method \<Rightarrow> string \<Rightarrow> string \<Rightarrow> json_value option \<Rightarrow> 'w kms_state
     \<Rightarrow> ('w, json_value) kms_step" where
  "capsule_api_call E P m name path payload s =
     (let url = nk_endpoint P @ path;
          J = kx_json (ke_text E);
          q = \<lparr>kq_method = m, kq_url = url,
               kq_headers = (if payload = None then [] else [(''content-type'', ''application/json'')]), kq_json = payload\<rparr>
      in case http_send E (http_client_for_url (ke_text E) url) q s of
           (s, Inl Panicked) \<Rightarrow> (s, Inl Panicked)
         | (s, Inl (Failed e)) \<Rightarrow>
             (s, Inl (Failed (''capsule_api '' @ name @ '' transport failed path='' @ path @ '' url='' @ url @ '': '' @ e)))
         | (s, Inr r) \<Rightarrow>
             (let body = (case kr_text r of Inr t \<Rightarrow> t | Inl _ \<Rightarrow> [])
              in if \<not> is_success (kr_status r) then
                   (case preview_text_for_log J body of
                      Inl f \<Rightarrow> (s, Inl f)
                    | Inr preview \<Rightarrow>
                        (s, Inl (Failed (''capsule_api '' @ name @ '' failed path='' @ path @ '' url='' @ url @ '' http='' @
                           show_nat (kr_status r) @ '' body='' @ preview))))
                 else lift_res s (map_err (\<lambda>e. ''capsule_api '' @ name @ '' invalid JSON path='' @ path @ '' url='' @
                        url @ '': '' @ e) (js_parse J (str_bytes body)))))"

definition capsule_api_get ::
  "('k, 'w) kms_env \<Rightarrow> nova_kms \<Rightarrow> string \<Rightarrow> 'w kms_state \<Rightarrow> ('w, json_value) kms_step" where
  "capsule_api_get E P path s = capsule_api_call E P MGet ''GET'' path None s"

definition capsule_api_post ::
  "('k, 'w) kms_env \<Rightarrow> nova_kms \<Rightarrow> string \<Rightarrow> json_value \<Rightarrow> 'w kms_state \<Rightarrow> ('w, json_value) kms_step" where
  "capsule_api_post E P path payload s = capsule_api_call E P MPost ''POST'' path (Some payload) s"

definition local_eth_address :: "('k, 'w) kms_env \<Rightarrow> nova_kms \<Rightarrow> 'w kms_state \<Rightarrow> ('w, string) kms_step" where
  "local_eth_address E P s =
     sbind (capsule_api_get E P ''/v1/eth/address'' s) (\<lambda>s v.
     lift_res s (rbind (ok_or ''Capsule API /v1/eth/address response missing address'' (json_str ''address'' v))
       (canonical_wallet (ke_text E))))"

definition local_sign_message ::
  "('k, 'w) kms_env \<Rightarrow> nova_kms \<Rightarrow> string \<Rightarrow> 'w kms_state \<Rightarrow> ('w, string) kms_step" where
  "local_sign_message E P message s =
     sbind (capsule_api_post E P ''/v1/eth/sign''
       (JObject [(''message'', JString message), (''include_attestation'', JBool False)]) s) (\<lambda>s v.
     lift_res s (ok_or ''Capsule API /v1/eth/sign response missing signature'' (json_str ''signature'' v)))"

definition local_tee_pubkey :: "('k, 'w) kms_env \<Rightarrow> nova_kms \<Rightarrow> 'w kms_state \<Rightarrow> ('w, string) kms_step" where
  "local_tee_pubkey E P s =
     sbind (capsule_api_get E P ''/v1/encryption/public_key'' s) (\<lambda>s v.
     lift_res s (rbind (ok_or ''Capsule API /v1/encryption/public_key response missing public_key_der''
       (json_str ''public_key_der'' v)) (\<lambda>k. Inr (trim_0x k))))"

definition encrypt_payload_for_node ::
  "('k, 'w) kms_env \<Rightarrow> nova_kms \<Rightarrow> json_value \<Rightarrow> string \<Rightarrow> 'w kms_state \<Rightarrow> ('w, json_value) kms_step" where
  "encrypt_payload_for_node E P payload node_tee_pubkey s =
     sbind (local_tee_pubkey E P s) (\<lambda>s sender_pubkey.
     sbind (capsule_api_post E P ''/v1/encryption/encrypt''
       (JObject [(''plaintext'', JString (json_text (kx_json (ke_text E)) payload)),
                 (''client_public_key'', JString (''0x'' @ trim_0x node_tee_pubkey))]) s) (\<lambda>s v.
     lift_res s
       (rbind (ok_or ''Capsule API /v1/encryption/encrypt response missing nonce'' (json_str ''nonce'' v)) (\<lambda>nonce.
        rbind (ok_or ''Capsule API /v1/encryption/encrypt response missing encrypted_data'' (json_str ''encrypted_data'' v)) (\<lambda>data.
        Inr (JObject [(''sender_tee_pubkey'', JString sender_pubkey), (''nonce'', JString (trim_0x nonce)),
                      (''encrypted_data'', JString (trim_0x data))]))))))"

definition check_sender ::
  "json_value \<Rightarrow> string \<Rightarrow> (api_failure, string) result" where
  "check_sender envelope expected =
     rbind (ok_or (Failed ''KMS response missing sender_tee_pubkey'') (json_str ''sender_tee_pubkey'' envelope)) (\<lambda>k.
     let sender = trim_0x k; expected = trim_0x expected
     in rbind (bail_if (sender = []) (Failed ''KMS response sender_tee_pubkey is empty'')) (\<lambda>_.
        rbind (bail_if (expected = []) (Failed ''expected sender tee_pubkey is empty'')) (\<lambda>_.
        if sender \<noteq> expected then
          rbind (truncate_for_log expected 24) (\<lambda>e. rbind (truncate_for_log sender 24) (\<lambda>o'.
          Inl (Failed (''KMS response sender_tee_pubkey mismatch: expected='' @ e @ '' observed='' @ o'))))
        else Inr sender)))"

definition decrypt_envelope ::
  "('k, 'w) kms_env \<Rightarrow> nova_kms \<Rightarrow> json_value \<Rightarrow> string \<Rightarrow> 'w kms_state \<Rightarrow> ('w, json_value) kms_step" where
  "decrypt_envelope E P envelope expected s =
     sbind (s, check_sender envelope expected) (\<lambda>s sender.
     sbind (lift_res s (ok_or ''KMS response missing nonce'' (json_str ''nonce'' envelope))) (\<lambda>s nonce.
     sbind (lift_res s (ok_or ''KMS response missing encrypted_data'' (json_str ''encrypted_data'' envelope))) (\<lambda>s data.
     sbind (capsule_api_post E P ''/v1/encryption/decrypt''
       (JObject [(''nonce'', JString (''0x'' @ trim_0x nonce)), (''client_public_key'', JString (''0x'' @ sender)),
                 (''encrypted_data'', JString (''0x'' @ trim_0x data))]) s) (\<lambda>s v.
     lift_res s (rbind (ok_or ''Capsule API decrypt response missing plaintext'' (json_str ''plaintext'' v)) (\<lambda>t.
       js_parse (kx_json (ke_text E)) (str_bytes t)))))))"

end
