(* ===== verification/Rust_Num.thy ===== *)
theory Rust_Num
  imports Rust_Std
begin

text \<open>
  Parsing of unsigned decimal integers (\<open>str::parse::<u64>\<close>), with the texts of \<open>ParseIntError\<close>,
  and the characters of a UTF-8 text.
\<close>

definition digit_value :: "char \<Rightarrow> nat option" where
  "digit_value c = (let n = (of_char c :: nat) in if 48 \<le> n \<and> n \<le> 57 then Some (n - 48) else None)"

fun digits_value :: "nat \<Rightarrow> string \<Rightarrow> nat option" where
  "digits_value acc [] = Some acc"
| "digits_value acc (c # cs) =
     (case digit_value c of None \<Rightarrow> None | Some d \<Rightarrow> digits_value (10 * acc + d) cs)"

text \<open>
  A sign is allowed before at least one digit.  The standard library stops at the first digit that
  overflows, even when a later character is no digit; the error texts differ only then.
\<close>

fun read_decimal :: "nat \<Rightarrow> nat \<Rightarrow> string \<Rightarrow> (string, nat) result" where
  "read_decimal limit acc [] = Inr acc"
| "read_decimal limit acc (c # cs) =
     (case digit_value c of
        None \<Rightarrow> Inl ''invalid digit found in string''
      | Some d \<Rightarrow>
          if 10 * acc + d < limit then read_decimal limit (10 * acc + d) cs
          else Inl ''number too large to fit in target type'')"

definition parse_unsigned :: "nat \<Rightarrow> string \<Rightarrow> (string, nat) result" where
  "parse_unsigned limit s =
     (case s of
        [] \<Rightarrow> Inl ''cannot parse integer from empty string''
      | c # cs \<Rightarrow>
          if c = CHR ''+'' \<or> c = CHR ''-'' then
            (if cs = [] then Inl ''invalid digit found in string''
             else if c = CHR ''+'' then read_decimal limit 0 cs
             else Inl ''invalid digit found in string'')
          else read_decimal limit 0 s)"

definition parse_u64 :: "string \<Rightarrow> (string, u64) result" where
  "parse_u64 s = rbind (parse_unsigned (2 ^ 64) s) (\<lambda>n. Inr (of_nat n))"

definition parse_u32 :: "string \<Rightarrow> (string, u32) result" where
  "parse_u32 s = rbind (parse_unsigned (2 ^ 32) s) (\<lambda>n. Inr (of_nat n))"

definition parse_u16 :: "string \<Rightarrow> (string, u16) result" where
  "parse_u16 s = rbind (parse_unsigned (2 ^ 16) s) (\<lambda>n. Inr (of_nat n))"

lemma read_decimal_bound:
  "read_decimal limit acc s = Inr n \<Longrightarrow> acc < limit \<Longrightarrow> n < limit"
  by (induction limit acc s rule: read_decimal.induct) (auto split: option.splits if_splits)

lemma read_decimal_value:
  assumes "acc < limit"
  shows "read_decimal limit acc s = Inr n \<longleftrightarrow> digits_value acc s = Some n \<and> n < limit"
  using assms
proof (induction limit acc s rule: read_decimal.induct)
  case (2 limit acc c cs)
  have mono: "digits_value a s = Some m \<Longrightarrow> a \<le> m" for a s m
    by (induction a s rule: digits_value.induct) (auto split: option.splits)
  show ?case
  proof (cases "digit_value c")
    case (Some d)
    then show ?thesis using 2 mono [of "10 * acc + d" cs n] by auto
  qed simp
qed auto

text \<open>The first characters of a text: each starts at a byte that does not continue another.\<close>

definition continues_char :: "char \<Rightarrow> bool" where
  "continues_char c \<longleftrightarrow> 128 \<le> (of_char c :: nat) \<and> (of_char c :: nat) < 192"

fun take_chars :: "nat \<Rightarrow> string \<Rightarrow> string \<times> string" where
  "take_chars 0 s = ([], s)"
| "take_chars (Suc n) [] = ([], [])"
| "take_chars (Suc n) (c # cs) =
     (let (p, r) = take_chars n (dropWhile continues_char cs)
      in (c # takeWhile continues_char cs @ p, r))"

lemma take_chars_append: "take_chars n s = (p, r) \<Longrightarrow> p @ r = s"
proof (induction n s arbitrary: p r rule: take_chars.induct)
  case (3 n c cs)
  obtain p' r' where "take_chars n (dropWhile continues_char cs) = (p', r')" by fastforce
  then show ?case using 3 takeWhile_dropWhile_id [of continues_char cs] by auto
qed auto

end
