(* ===== verification/Helios_Rpc.thy ===== *)
theory Helios_Rpc
  imports Runtime_Config Kms_Client Rust_Num
begin

text \<open>
  The light-client service (\<open>bin/capsule-runtime/helios_rpc.rs\<close>): choice of the execution RPC, search
  for a checkpoint, set-up of the clients, and the readiness of the services.  The HTTP client, JSON,
  the parser of 32-byte hashes and the Helios library are functions.
\<close>

definition SLOTS_PER_SYNC_COMMITTEE_PERIOD :: u64 where "SLOTS_PER_SYNC_COMMITTEE_PERIOD = 8192"
definition CHECKPOINT_LOOKBACK_PERIODS :: u64 where "CHECKPOINT_LOOKBACK_PERIODS = 4"
definition CHECKPOINT_HTTP_TIMEOUT_SECS :: nat where "CHECKPOINT_HTTP_TIMEOUT_SECS = 10"
definition EXECUTION_RPC_PROBE_TIMEOUT_SECS :: nat where "EXECUTION_RPC_PROBE_TIMEOUT_SECS = 8"
definition LOG_PREVIEW_CHARS :: nat where "LOG_PREVIEW_CHARS = 160"
definition ETHEREUM_MAINNET_CHAIN_ID :: string where "ETHEREUM_MAINNET_CHAIN_ID = ''0x1''"
definition ETHEREUM_MAINNET_EXECUTION_RPC_FALLBACKS :: "string list" where
  "ETHEREUM_MAINNET_EXECUTION_RPC_FALLBACKS = [''https://ethereum-rpc.publicnode.com'', ''https://eth.drpc.org'']"

text \<open>
  The outside: building a client with a time limit, requests (status and text of the answer), the
  text of a status, JSON, hashes, and the Unicode lower-case table.
\<close>

record 'w helios_http =
  hh_client :: "nat \<Rightarrow> (string, unit) result"
  hh_get :: "string \<Rightarrow> 'w \<Rightarrow> 'w \<times> (string, nat \<times> (string, string) result) result"
  hh_post :: "string \<Rightarrow> json_value \<Rightarrow> 'w \<Rightarrow> 'w \<times> (string, nat \<times> (string, string) result) result"
  hh_status_text :: "nat \<Rightarrow> string"
  hh_json :: json_codec
  hh_b256 :: "string \<Rightarrow> (string, bytes) result"
  hh_lowercase :: "string \<Rightarrow> string"

subsection \<open>Reading answers\<close>

definition truncate_chars_for_log :: "string \<Rightarrow> nat \<Rightarrow> string" where
  "truncate_chars_for_log value max_chars =
     (case take_chars max_chars value of (preview, rest) \<Rightarrow> if rest \<noteq> [] then preview @ ''...'' else preview)"

text \<open>The text of an answer, or the error for a failed request.\<close>

definition answer_text ::
  "'w helios_http \<Rightarrow> string \<Rightarrow> string \<Rightarrow> (string, nat \<times> (string, string) result) result \<Rightarrow> (string, string) result" where
  "answer_text H verb url r =
     rbind (map_err (\<lambda>e. verb @ '' '' @ url @ '' failed: '' @ e) r) (\<lambda>(status, text).
     rbind (map_err (\<lambda>e. ''reading response body from '' @ url @ '' failed: '' @ e) text) (\<lambda>body.
     rbind (bail_if (\<not> is_success status)
       (verb @ '' '' @ url @ '' returned status '' @ hh_status_text H status @ '' body='' @ [CHR 0x27] @
        truncate_chars_for_log body LOG_PREVIEW_CHARS @ [CHR 0x27])) (\<lambda>_.
     Inr body)))"

definition http_get_text :: "'w helios_http \<Rightarrow> string \<Rightarrow> 'w \<Rightarrow> 'w \<times> (string, string) result" where
  "http_get_text H url w = (case hh_get H url w of (w, r) \<Rightarrow> (w, answer_text H ''GET'' url r))"

text \<open>\<open>Value::pointer\<close> for the tokens used here, none of which is a number: arrays have no such element.\<close>

fun json_pointer :: "string list \<Rightarrow> json_value \<Rightarrow> json_value option" where
  "json_pointer [] v = Some v"
| "json_pointer (k # ks) v = (case json_get k v of None \<Rightarrow> None | Some v' \<Rightarrow> json_pointer ks v')"

definition as_str :: "json_value option \<Rightarrow> string option" where
  "as_str v = (case v of Some (JString s) \<Rightarrow> Some s | _ \<Rightarrow> None)"

definition beacon_slot :: "json_value \<Rightarrow> string option" where
  "beacon_slot v =
     as_str (case json_pointer [''data'', ''finalized_header'', ''beacon'', ''slot''] v of
               Some x \<Rightarrow> Some x
             | None \<Rightarrow> json_pointer [''data'', ''attested_header'', ''beacon'', ''slot''] v)"

definition extract_finalized_slot_from_finality_update :: "'w helios_http \<Rightarrow> string \<Rightarrow> (string, u64) result" where
  "extract_finalized_slot_from_finality_update H body =
     rbind (map_err (\<lambda>e. ''invalid JSON for finality update: '' @ e) (js_parse (hh_json H) (str_bytes body))) (\<lambda>parsed.
     rbind (ok_or ''finality update missing finalized/attested beacon slot'' (beacon_slot parsed)) (\<lambda>slot.
     map_err (\<lambda>e. ''invalid finality slot '' @ [CHR 0x27] @ slot @ [CHR 0x27] @ '': '' @ e) (parse_u64 slot)))"

definition extract_checkpoint_slot_from_updates :: "'w helios_http \<Rightarrow> string \<Rightarrow> (string, u64 option) result" where
  "extract_checkpoint_slot_from_updates H body =
     rbind (map_err (\<lambda>e. ''invalid JSON for light-client updates: '' @ e) (js_parse (hh_json H) (str_bytes body))) (\<lambda>parsed.
     rbind (ok_or ''light-client updates response must be a JSON array''
       (case parsed of JArray vs \<Rightarrow> Some vs | _ \<Rightarrow> None)) (\<lambda>entries.
     case entries of
       [] \<Rightarrow> Inr None
     | first # _ \<Rightarrow>
         rbind (ok_or ''light-client update missing finalized/attested beacon slot'' (beacon_slot first)) (\<lambda>slot.
         rbind (map_err (\<lambda>e. ''invalid update slot '' @ [CHR 0x27] @ slot @ [CHR 0x27] @ '': '' @ e) (parse_u64 slot)) (\<lambda>n.
         Inr (Some n)))))"

definition extract_block_root :: "'w helios_http \<Rightarrow> string \<Rightarrow> (string, bytes) result" where
  "extract_block_root H body =
     rbind (map_err (\<lambda>e. ''invalid JSON for block root: '' @ e) (js_parse (hh_json H) (str_bytes body))) (\<lambda>parsed.
     rbind (ok_or ''block root response missing data.root'' (as_str (json_pointer [''data'', ''root''] parsed))) (\<lambda>root.
     map_err (\<lambda>e. ''invalid block root '' @ [CHR 0x27] @ root @ [CHR 0x27] @ '': '' @ e) (hh_b256 H root)))"

subsection \<open>The checkpoint\<close>

text \<open>One round of the search: every failure means that an earlier period is tried.\<close>

definition checkpoint_of_period :: "'w helios_http \<Rightarrow> string \<Rightarrow> u64 \<Rightarrow> 'w \<Rightarrow> 'w \<times> bytes option" where
  "checkpoint_of_period H base period w =
     (case http_get_text H (base @ ''/eth/v1/beacon/light_client/updates?start_period='' @ show_nat (unat period) @
              ''&count=1'') w of
        (w, Inl _) \<Rightarrow> (w, None)
      | (w, Inr updates_body) \<Rightarrow>
          (case extract_checkpoint_slot_from_updates H updates_body of
             Inl _ \<Rightarrow> (w, None)
           | Inr None \<Rightarrow> (w, None)
           | Inr (Some slot) \<Rightarrow>
               (case http_get_text H (base @ ''/eth/v1/beacon/blocks/'' @ show_nat (unat slot) @ ''/root'') w of
                  (w, Inl _) \<Rightarrow> (w, None)
                | (w, Inr root_body) \<Rightarrow>
                    (case extract_block_root H root_body of Inl _ \<Rightarrow> (w, None) | Inr root \<Rightarrow> (w, Some root)))))"

fun checkpoint_loop :: "'w helios_http \<Rightarrow> string \<Rightarrow> u64 \<Rightarrow> u64 list \<Rightarrow> 'w \<Rightarrow> 'w \<times> bytes option" where
  "checkpoint_loop H base current [] w = (w, None)"
| "checkpoint_loop H base current (offset # offsets) w =
     (if current < offset then (w, None)
      else
        (case checkpoint_of_period H base (current - offset) w of
           (w, Some root) \<Rightarrow> (w, Some root)
         | (w, None) \<Rightarrow> checkpoint_loop H base current offsets w))"

definition lookback_offsets :: "u64 list" where
  "lookback_offsets = map of_nat [1..<Suc (unat CHECKPOINT_LOOKBACK_PERIODS)]"

definition resolve_ethereum_checkpoint :: "'w helios_http \<Rightarrow> string \<Rightarrow> 'w \<Rightarrow> 'w \<times> (string, bytes) result" where
  "resolve_ethereum_checkpoint H consensus_rpc w =
     (let base = trim_end_char (CHR ''/'') consensus_rpc in
      sbind (w, map_err (\<lambda>e. ''Failed to build HTTP client for checkpoint resolution: '' @ e)
               (hh_client H CHECKPOINT_HTTP_TIMEOUT_SECS)) (\<lambda>w _.
      sbind (http_get_text H (base @ ''/eth/v1/beacon/light_client/finality_update'') w) (\<lambda>w body.
      sbind (w, extract_finalized_slot_from_finality_update H body) (\<lambda>w finalized_slot.
      case checkpoint_loop H base (finalized_slot div SLOTS_PER_SYNC_COMMITTEE_PERIOD) lookback_offsets w of
        (w, Some root) \<Rightarrow> (w, Inr root)
      | (w, None) \<Rightarrow>
          (w, Inl (''Unable to derive checkpoint from consensus RPC '' @ consensus_rpc @ '' across last '' @
                   show_nat (unat CHECKPOINT_LOOKBACK_PERIODS) @ '' sync-committee periods''))))))"

subsection \<open>The execution RPC\<close>

fun push_missing :: "string list \<Rightarrow> string list \<Rightarrow> string list" where
  "push_missing candidates [] = candidates"
| "push_missing candidates (f # fs) =
     push_missing (if f \<in> set candidates then candidates else candidates @ [f]) fs"

definition ethereum_execution_rpc_candidates :: "string \<Rightarrow> string \<Rightarrow> string list" where
  "ethereum_execution_rpc_candidates network configured_rpc =
     (let configured = trim configured_rpc;
          candidates = (if configured = [] then [] else [configured]);
          candidates = (if eq_ignore_ascii_case network ''mainnet''
                        then push_missing candidates ETHEREUM_MAINNET_EXECUTION_RPC_FALLBACKS else candidates)
      in if candidates = [] then [configured_rpc] else candidates)"

definition probe_execution_chain_id :: "'w helios_http \<Rightarrow> string \<Rightarrow> 'w \<Rightarrow> 'w \<times> (string, string) result" where
  "probe_execution_chain_id H rpc_url w =
     (case hh_post H rpc_url (JObject [(''jsonrpc'', JString ''2.0''), (''method'', JString ''eth_chainId''),
                                       (''params'', JArray []), (''id'', JNumber ''1'')]) w of
        (w, r) \<Rightarrow>
          (w, rbind (answer_text H ''POST'' rpc_url r) (\<lambda>body.
              rbind (map_err (\<lambda>e. ''invalid JSON from '' @ rpc_url @ '': '' @ e) (js_parse (hh_json H) (str_bytes body))) (\<lambda>parsed.
              rbind (case json_get ''error'' parsed of
                       Some err \<Rightarrow> Inl (''eth_chainId returned error from '' @ rpc_url @ '': '' @
                                        truncate_chars_for_log (json_text (hh_json H) err) LOG_PREVIEW_CHARS)
                     | None \<Rightarrow> Inr ()) (\<lambda>_.
              ok_or (''eth_chainId response from '' @ rpc_url @ '' missing result'') (json_str ''result'' parsed))))))"

fun probe_candidates :: "'w helios_http \<Rightarrow> string list \<Rightarrow> 'w \<Rightarrow> 'w \<times> string option" where
  "probe_candidates H [] w = (w, None)"
| "probe_candidates H (candidate # candidates) w =
     (case probe_execution_chain_id H candidate w of
        (w, Inr chain_id) \<Rightarrow>
          if eq_ignore_ascii_case chain_id ETHEREUM_MAINNET_CHAIN_ID then (w, Some candidate)
          else probe_candidates H candidates w
      | (w, Inl _) \<Rightarrow> probe_candidates H candidates w)"

definition select_ethereum_execution_rpc :: "'w helios_http \<Rightarrow> string \<Rightarrow> string \<Rightarrow> 'w \<Rightarrow> 'w \<times> string" where
  "select_ethereum_execution_rpc H network configured_rpc w =
     (let candidates = ethereum_execution_rpc_candidates network configured_rpc in
      if length candidates \<le> 1 then (w, configured_rpc)
      else
        (case hh_client H EXECUTION_RPC_PROBE_TIMEOUT_SECS of
           Inl _ \<Rightarrow> (w, configured_rpc)
         | Inr _ \<Rightarrow>
             (case probe_candidates H candidates w of
                (w, Some candidate) \<Rightarrow> (w, candidate)
              | (w, None) \<Rightarrow> (w, configured_rpc))))"

subsection \<open>The clients\<close>

datatype eth_network = Mainnet | Sepolia | Holesky
datatype op_network = OpMainnet | Base | BaseSepolia | Worldchain | Zora | Unichain

definition parse_ethereum_network :: "(string \<Rightarrow> string) \<Rightarrow> string \<Rightarrow> (string, eth_network) result" where
  "parse_ethereum_network lc network =
     (let n = lc network in
      if n = ''mainnet'' then Inr Mainnet else if n = ''sepolia'' then Inr Sepolia else if n = ''holesky'' then Inr Holesky
      else Inl (''Unsupported ethereum network '' @ [CHR 0x27] @ n @ [CHR 0x27] @
                ''. Supported: mainnet, sepolia, holesky.''))"

definition parse_opstack_network :: "(string \<Rightarrow> string) \<Rightarrow> string \<Rightarrow> (string, op_network) result" where
  "parse_opstack_network lc network =
     (let n = lc network in
      if n = ''op-mainnet'' then Inr OpMainnet else if n = ''base'' then Inr Base
      else if n = ''base-sepolia'' then Inr BaseSepolia else if n = ''worldchain'' then Inr Worldchain
      else if n = ''zora'' then Inr Zora else if n = ''unichain'' then Inr Unichain
      else Inl (''Unsupported opstack network '' @ [CHR 0x27] @ n @ [CHR 0x27] @
                ''. Supported: op-mainnet, base, base-sepolia, worldchain, zora, unichain.''))"

text \<open>What the builders are given.  The address is 127.0.0.1 with the port, which always parses.\<close>

record eth_builder =
  eb_network :: eth_network
  eb_execution_rpc :: string
  eb_rpc_port :: u16
  eb_checkpoint :: "bytes option"
  eb_external_fallback :: bool
  eb_consensus_rpc :: "string option"

record op_builder =
  ob_network :: op_network
  ob_consensus_rpc :: string
  ob_execution_rpc :: string
  ob_rpc_port :: u16

record ('c, 'o, 'w) helios_lib =
  hl_url :: "string \<Rightarrow> (string, unit) result"
  hl_build :: "eth_builder \<Rightarrow> 'w \<Rightarrow> 'w \<times> (string, 'c) result"
  hl_sync :: "'c \<Rightarrow> 'w \<Rightarrow> 'w \<times> (string, unit) result"
  hl_op_consensus :: "op_network \<Rightarrow> string option"
  hl_op_text :: "op_network \<Rightarrow> string"
  hl_op_build :: "op_builder \<Rightarrow> 'w \<Rightarrow> 'w \<times> (string, 'o) result"
  hl_op_sync :: "'o \<Rightarrow> 'w \<Rightarrow> 'w \<times> (string, unit) result"

definition err_context :: "string \<Rightarrow> 'w \<times> (string, 'a) result \<Rightarrow> 'w \<times> (string, 'a) result" where
  "err_context prefix_text r = (case r of (w, x) \<Rightarrow> (w, map_err (\<lambda>e. prefix_text @ e) x))"

text \<open>The checkpoint of the builder: given, found through the consensus RPC, or left to the fallback services.\<close>

definition choose_checkpoint ::
  "'w helios_http \<Rightarrow> string option \<Rightarrow> string option \<Rightarrow> eth_builder \<Rightarrow> 'w \<Rightarrow> 'w \<times> (string, eth_builder) result" where
  "choose_checkpoint H consensus_rpc checkpoint builder w =
     (case checkpoint of
        Some c \<Rightarrow>
          (w, rbind (map_err (\<lambda>e. ''Invalid checkpoint '' @ [CHR 0x27] @ c @ [CHR 0x27] @ '': '' @ e) (hh_b256 H c)) (\<lambda>parsed.
              Inr (builder\<lparr>eb_checkpoint := Some parsed\<rparr>)))
      | None \<Rightarrow>
          (case consensus_rpc of
             Some consensus \<Rightarrow>
               (case resolve_ethereum_checkpoint H consensus w of
                  (w, Inr auto_checkpoint) \<Rightarrow> (w, Inr (builder\<lparr>eb_checkpoint := Some auto_checkpoint\<rparr>))
                | (w, Inl _) \<Rightarrow> (w, Inr (builder\<lparr>eb_external_fallback := True\<rparr>)))
           | None \<Rightarrow> (w, Inr (builder\<lparr>eb_external_fallback := True\<rparr>))))"

definition run_helios_ethereum ::
  "'w helios_http \<Rightarrow> ('c, 'o, 'w) helios_lib \<Rightarrow> u16 \<Rightarrow> string \<Rightarrow> string \<Rightarrow> string option \<Rightarrow> string option \<Rightarrow> 'w
     \<Rightarrow> 'w \<times> (string, 'c) result" where
  "run_helios_ethereum H L port network execution_rpc consensus_rpc checkpoint w =
     sbind (w, parse_ethereum_network (hh_lowercase H) network) (\<lambda>w net.
     case select_ethereum_execution_rpc H network execution_rpc w of
       (w, selected) \<Rightarrow>
         sbind (w, map_err (\<lambda>e. ''Invalid execution RPC: '' @ e) (hl_url L selected)) (\<lambda>w _.
         sbind (choose_checkpoint H consensus_rpc checkpoint
           \<lparr>eb_network = net, eb_execution_rpc = selected, eb_rpc_port = port, eb_checkpoint = None,
            eb_external_fallback = False, eb_consensus_rpc = None\<rparr> w) (\<lambda>w builder.
         sbind (w, case consensus_rpc of
                     Some consensus \<Rightarrow>
                       rbind (map_err (\<lambda>e. ''Invalid consensus RPC: '' @ e) (hl_url L consensus)) (\<lambda>_.
                       Inr (builder\<lparr>eb_consensus_rpc := Some consensus\<rparr>))
                   | None \<Rightarrow> Inr builder) (\<lambda>w builder.
         sbind (err_context ''Failed to build Helios client: '' (hl_build L builder w)) (\<lambda>w client.
         sbind (err_context ''Helios sync failed: '' (hl_sync L client w)) (\<lambda>w _.
         (w, Inr client)))))))"

definition run_helios_opstack ::
  "'w helios_http \<Rightarrow> ('c, 'o, 'w) helios_lib \<Rightarrow> u16 \<Rightarrow> string \<Rightarrow> string \<Rightarrow> string option \<Rightarrow> 'w \<Rightarrow> 'w \<times> (string, 'o) result" where
  "run_helios_opstack H L port network execution_rpc consensus_rpc w =
     sbind (w, parse_opstack_network (hh_lowercase H) network) (\<lambda>w net.
     sbind (w, case consensus_rpc of
                 Some value \<Rightarrow> Inr value
               | None \<Rightarrow> ok_or (''Helios OP Stack network '' @ [CHR 0x27] @ hl_op_text L net @ [CHR 0x27] @
                                '' missing default consensus RPC'') (hl_op_consensus L net)) (\<lambda>w consensus.
     sbind (err_context ''Failed to build Helios OP Stack client: ''
       (hl_op_build L \<lparr>ob_network = net, ob_consensus_rpc = consensus, ob_execution_rpc = execution_rpc, ob_rpc_port = port\<rparr> w)) (\<lambda>w client.
     sbind (err_context ''Helios OP Stack sync failed: '' (hl_op_sync L client w)) (\<lambda>w _.
     (w, Inr client)))))"

subsection \<open>The service\<close>

text \<open>The task of one chain, and what it reports on its channel.\<close>

definition helios_task ::
  "'w helios_http \<Rightarrow> ('c, 'o, 'w) helios_lib \<Rightarrow> helios_runtime_config \<Rightarrow> 'w \<Rightarrow> 'w \<times> bool" where
  "helios_task H L c w =
     (case hrc_kind c of
        Ethereum \<Rightarrow>
          (case run_helios_ethereum H L (hrc_listen_port c) (hrc_network c) (hrc_execution_rpc c) (hrc_consensus_rpc c)
                  (hrc_checkpoint c) w of (w, r) \<Rightarrow> (w, is_ok r))
      | Opstack \<Rightarrow>
          (case run_helios_opstack H L (hrc_listen_port c) (hrc_network c) (hrc_execution_rpc c) (hrc_consensus_rpc c) w of
             (w, r) \<Rightarrow> (w, is_ok r)))"

text \<open>A task and its channel are named by the position of the chain.\<close>

record helios_service =
  hs_tasks :: "nat list"
  hs_ready_rxs :: "(u16 \<times> nat) list"

definition HeliosRpcService_start :: "configuration \<Rightarrow> helios_service" where
  "HeliosRpcService_start cfg =
     (let cs = helios_configs cfg
      in \<lparr>hs_tasks = [0..<length cs], hs_ready_rxs = zip (map hrc_listen_port cs) [0..<length cs]\<rparr>)"

text \<open>\<open>report i\<close> is what is received from the task of chain \<open>i\<close>, \<open>None\<close> when it ended without reporting.\<close>

definition helios_wait_ready :: "(nat \<Rightarrow> bool option) \<Rightarrow> helios_service \<Rightarrow> helios_service \<times> bool" where
  "helios_wait_ready report svc =
     (if hs_ready_rxs svc = [] then (svc, True)
      else (svc\<lparr>hs_ready_rxs := []\<rparr>, list_all (\<lambda>(_, ch). unwrap_or False (report ch)) (hs_ready_rxs svc)))"

definition swap_remove :: "nat \<Rightarrow> 'a list \<Rightarrow> 'a list" where
  "swap_remove i xs = (if i = length xs - 1 then butlast xs else (butlast xs)[i := last xs])"

definition port_position :: "u16 \<Rightarrow> (u16 \<times> nat) list \<Rightarrow> nat option" where
  "port_position port rxs =
     (let i = length (takeWhile (\<lambda>(tracked, _). tracked \<noteq> port) rxs) in if i < length rxs then Some i else None)"

definition helios_wait_ready_for_port ::
  "(nat \<Rightarrow> bool option) \<Rightarrow> u16 \<Rightarrow> helios_service \<Rightarrow> helios_service \<times> bool" where
  "helios_wait_ready_for_port report port svc =
     (if hs_ready_rxs svc = [] then (svc, True)
      else
        (case port_position port (hs_ready_rxs svc) of
           None \<Rightarrow> (svc, False)
         | Some idx \<Rightarrow>
             (svc\<lparr>hs_ready_rxs := swap_remove idx (hs_ready_rxs svc)\<rparr>,
              unwrap_or False (report (snd (hs_ready_rxs svc ! idx))))))"

end
