(* ===== verification/Kms_Registry.thy ===== *)
theory Kms_Registry
  imports Kms_Client
begin

text \<open>
  The registry side of the Nova KMS client: \<open>eth_call\<close> with retries, reading instances and
  applications, discovery of the KMS nodes, the authorisation context and the node list that calls
  use.
\<close>

definition GET_INSTANCE_BY_WALLET_TUPLE_MIN_LEN :: nat where "GET_INSTANCE_BY_WALLET_TUPLE_MIN_LEN = 10"
definition GET_INSTANCE_BY_WALLET_APP_ID_IDX :: nat where "GET_INSTANCE_BY_WALLET_APP_ID_IDX = 1"
definition GET_INSTANCE_BY_WALLET_INSTANCE_URL_IDX :: nat where "GET_INSTANCE_BY_WALLET_INSTANCE_URL_IDX = 4"
definition GET_INSTANCE_BY_WALLET_TEE_PUBKEY_IDX :: nat where "GET_INSTANCE_BY_WALLET_TEE_PUBKEY_IDX = 5"
definition GET_INSTANCE_BY_WALLET_ZK_VERIFIED_IDX :: nat where "GET_INSTANCE_BY_WALLET_ZK_VERIFIED_IDX = 7"
definition GET_INSTANCE_BY_WALLET_STATUS_IDX :: nat where "GET_INSTANCE_BY_WALLET_STATUS_IDX = 8"
definition GET_APP_TUPLE_MIN_LEN :: nat where "GET_APP_TUPLE_MIN_LEN = 9"
definition GET_APP_STATUS_IDX :: nat where "GET_APP_STATUS_IDX = 7"
definition GET_APP_APP_WALLET_IDX :: nat where "GET_APP_APP_WALLET_IDX = 8"

subsection \<open>Calls of the registry contract\<close>

definition eth_call_payload :: "text_ops \<Rightarrow> registry_discovery \<Rightarrow> bytes \<Rightarrow> json_value" where
  "eth_call_payload X discovery calldata =
     JObject [(''jsonrpc'', JString ''2.0''), (''id'', JNumber ''1''), (''method'', JString ''eth_call''),
       (''params'', JArray [JObject [(''to'', JString (rd_registry_address discovery)),
                                     (''data'', JString (''0x'' @ kx_hex X calldata))], JString ''latest''])]"

definition eth_call_attempt ::
  "('k, 'w) kms_env \<Rightarrow> registry_discovery \<Rightarrow> bytes \<Rightarrow> 'w kms_state \<Rightarrow> ('w, bytes) kms_step" where
  "eth_call_attempt E discovery calldata s =
     (let X = ke_text E; J = kx_json X in
      sbind (http_send E (http_client_for_url X (rd_rpc_url discovery))
        \<lparr>kq_method = MPost, kq_url = rd_rpc_url discovery, kq_headers = [(''content-type'', ''application/json'')],
         kq_json = Some (eth_call_payload X discovery calldata)\<rparr> s) (\<lambda>s r.
      let body = (case kr_text r of Inr t \<Rightarrow> t | Inl _ \<Rightarrow> [])
      in if \<not> is_success (kr_status r) then
           (s, rbind (preview_text_for_log J body) (\<lambda>preview.
               Inl (Failed (''registry eth_call HTTP '' @ show_nat (kr_status r) @ '' body='' @ preview))))
         else (case ke_rpc_response E body of
                 Inl err \<Rightarrow>
                   (s, rbind (preview_text_for_log J body) (\<lambda>preview.
                       Inl (Failed (''registry eth_call invalid JSON response: '' @ err @ '' body='' @ preview))))
               | Inr rsp \<Rightarrow>
                   lift_res s
                     (case rp_error rsp of
                        Some (code, message) \<Rightarrow> Inl (''registry eth_call failed: '' @ message @ '' ('' @ show_int code @ '')'')
                      | None \<Rightarrow>
                          rbind (ok_or ''registry eth_call missing result'' (rp_result rsp)) (\<lambda>result_hex.
                          map_err (\<lambda>e. ''registry eth_call invalid hex result: '' @ e) (kx_unhex X (trim_0x result_hex)))))))"

definition registry_eth_call_retry_backoff_ms :: "nat \<Rightarrow> nat" where
  "registry_eth_call_retry_backoff_ms attempt = DEFAULT_REGISTRY_ETH_CALL_RETRY_BACKOFF_BASE_MS * (attempt + 1)"

text \<open>The loop over the attempts from number \<open>attempt\<close> on, \<open>left\<close> of them.\<close>

fun eth_call_loop ::
  "('k, 'w) kms_env \<Rightarrow> registry_discovery \<Rightarrow> bytes \<Rightarrow> nat \<Rightarrow> nat \<Rightarrow> string option \<Rightarrow> 'w kms_state \<Rightarrow> ('w, bytes) kms_step" where
  "eth_call_loop E discovery calldata attempt 0 last_error s =
     (s, Inl (Failed (unwrap_or ''registry eth_call failed with unknown error'' last_error)))"
| "eth_call_loop E discovery calldata attempt (Suc left) last_error s =
     (case eth_call_attempt E discovery calldata s of
        (s, Inr bs) \<Rightarrow> (s, Inr bs)
      | (s, Inl Panicked) \<Rightarrow> (s, Inl Panicked)
      | (s, Inl (Failed err_text)) \<Rightarrow>
          if attempt + 1 < DEFAULT_REGISTRY_ETH_CALL_MAX_ATTEMPTS \<and> looks_like_transient_registry_error err_text
          then eth_call_loop E discovery calldata (attempt + 1) left (Some err_text)
                 (s\<lparr>ks_world := ke_sleep E (registry_eth_call_retry_backoff_ms attempt) (ks_world s)\<rparr>)
          else (s, Inl (Failed err_text)))"

definition registry_eth_call ::
  "('k, 'w) kms_env \<Rightarrow> registry_discovery \<Rightarrow> bytes \<Rightarrow> 'w kms_state \<Rightarrow> ('w, bytes) kms_step" where
  "registry_eth_call E discovery calldata s =
     eth_call_loop E discovery calldata 0 DEFAULT_REGISTRY_ETH_CALL_MAX_ATTEMPTS None s"

definition registry_call ::
  "('k, 'w) kms_env \<Rightarrow> registry_discovery \<Rightarrow> abi_function \<Rightarrow> abi_token list \<Rightarrow> 'w kms_state
     \<Rightarrow> ('w, abi_token list) kms_step" where
  "registry_call E discovery fn args s =
     sbind (lift_res s (ab_encode (ke_abi E) fn args)) (\<lambda>s calldata.
     sbind (registry_eth_call E discovery calldata s) (\<lambda>s raw_output.
     lift_res s (map_err (\<lambda>e. ''registry decode '' @ af_name fn @ '' failed: '' @ e) (ab_decode (ke_abi E) fn raw_output))))"

definition active_instances_of :: "text_ops \<Rightarrow> abi_ops \<Rightarrow> abi_token list \<Rightarrow> (string, string list) result" where
  "active_instances_of X B output =
     (case output of
        [] \<Rightarrow> Inl ''registry getActiveInstances returned empty output''
      | TArray vs # _ \<Rightarrow> collect_results (\<lambda>t. token_to_address X B t ''getActiveInstances.wallet'') vs
      | t # _ \<Rightarrow> Inl (''registry getActiveInstances returned unexpected token: '' @ ab_show B t))"

definition registry_get_active_instances ::
  "('k, 'w) kms_env \<Rightarrow> registry_discovery \<Rightarrow> u64 \<Rightarrow> 'w kms_state \<Rightarrow> ('w, string list) kms_step" where
  "registry_get_active_instances E discovery app_id s =
     sbind (registry_call E discovery registry_fn_get_active_instances [TUint (unat app_id)] s) (\<lambda>s output.
     lift_res s (active_instances_of (ke_text E) (ke_abi E) output))"

definition instance_of :: "text_ops \<Rightarrow> abi_ops \<Rightarrow> abi_token list \<Rightarrow> (string, registry_instance) result" where
  "instance_of X B output =
     rbind (extract_single_tuple B output ''getInstanceByWallet'') (\<lambda>tuple.
     rbind (bail_if (length tuple < GET_INSTANCE_BY_WALLET_TUPLE_MIN_LEN)
       (''registry getInstanceByWallet tuple too short: expected >=10, got '' @ show_nat (length tuple))) (\<lambda>_.
     rbind (token_to_u64 B (tuple ! GET_INSTANCE_BY_WALLET_APP_ID_IDX) ''getInstanceByWallet.appId'') (\<lambda>app_id.
     rbind (token_to_string B (tuple ! GET_INSTANCE_BY_WALLET_INSTANCE_URL_IDX) ''getInstanceByWallet.instanceUrl'') (\<lambda>url.
     rbind (token_to_bytes B (tuple ! GET_INSTANCE_BY_WALLET_TEE_PUBKEY_IDX) ''getInstanceByWallet.teePubkey'') (\<lambda>key.
     rbind (token_to_bool B (tuple ! GET_INSTANCE_BY_WALLET_ZK_VERIFIED_IDX) ''getInstanceByWallet.zkVerified'') (\<lambda>zk.
     rbind (token_to_u64 B (tuple ! GET_INSTANCE_BY_WALLET_STATUS_IDX) ''getInstanceByWallet.status'') (\<lambda>status.
     Inr \<lparr>ri_app_id = app_id, ri_instance_url = url, ri_tee_pubkey = kx_hex X key, ri_zk_verified = zk,
          ri_status = status\<rparr>)))))))"

definition registry_get_instance_by_wallet ::
  "('k, 'w) kms_env \<Rightarrow> registry_discovery \<Rightarrow> string \<Rightarrow> 'w kms_state \<Rightarrow> ('w, registry_instance) kms_step" where
  "registry_get_instance_by_wallet E discovery wallet s =
     sbind (s, parse_h160 (ke_text E) wallet) (\<lambda>s addr.
     sbind (registry_call E discovery registry_fn_get_instance_by_wallet [TAddress addr] s) (\<lambda>s output.
     lift_res s (instance_of (ke_text E) (ke_abi E) output)))"

definition app_of :: "text_ops \<Rightarrow> abi_ops \<Rightarrow> abi_token list \<Rightarrow> (string, registry_app) result" where
  "app_of X B output =
     rbind (extract_single_tuple B output ''getApp'') (\<lambda>tuple.
     rbind (bail_if (length tuple < GET_APP_TUPLE_MIN_LEN)
       (''registry getApp tuple too short: expected >=9, got '' @ show_nat (length tuple))) (\<lambda>_.
     rbind (token_to_u64 B (tuple ! GET_APP_STATUS_IDX) ''getApp.status'') (\<lambda>status.
     rbind (token_to_address X B (tuple ! GET_APP_APP_WALLET_IDX) ''getApp.appWallet'') (\<lambda>wallet.
     Inr \<lparr>ra_status = status, ra_app_wallet = wallet\<rparr>))))"

definition registry_get_app ::
  "('k, 'w) kms_env \<Rightarrow> registry_discovery \<Rightarrow> u64 \<Rightarrow> 'w kms_state \<Rightarrow> ('w, registry_app) kms_step" where
  "registry_get_app E discovery app_id s =
     sbind (registry_call E discovery registry_fn_get_app [TUint (unat app_id)] s) (\<lambda>s output.
     lift_res s (app_of (ke_text E) (ke_abi E) output))"

subsection \<open>Authorisation\<close>

definition cached_authz_context ::
  "('k, 'w) kms_env \<Rightarrow> 'w kms_state \<Rightarrow> 'w kms_state \<times> app_authz_context option" where
  "cached_authz_context E s =
     (case current_unix_millis E s of
        (s, now_ms) \<Rightarrow>
          (case ks_authz s of
             Some c \<Rightarrow> if now_ms < cz_expires_at_ms c then (s, Some (cz_context c)) else (s\<lparr>ks_authz := None\<rparr>, None)
           | None \<Rightarrow> (s\<lparr>ks_authz := None\<rparr>, None)))"

text \<open>The conditions on the instance and its application that grant access.\<close>

definition check_instance :: "string \<Rightarrow> registry_instance \<Rightarrow> (string, unit) result" where
  "check_instance instance_wallet i =
     rbind (bail_if (\<not> ri_zk_verified i) (''instance '' @ instance_wallet @ '' is not zk-verified on registry'')) (\<lambda>_.
     bail_if (ri_status i \<noteq> 0) (''instance '' @ instance_wallet @ '' is not ACTIVE on registry''))"

definition resolve_authz_context ::
  "('k, 'w) kms_env \<Rightarrow> nova_kms \<Rightarrow> 'w kms_state \<Rightarrow> ('w, app_authz_context) kms_step" where
  "resolve_authz_context E P s =
     (case cached_authz_context E s of
        (s, Some context) \<Rightarrow> (s, Inr context)
      | (s, None) \<Rightarrow>
          sbind (lift_res s (ok_or ''registry-based authz requires kms_app_id/nova_app_registry'' (nk_discovery P))) (\<lambda>s discovery.
          sbind (local_eth_address E P s) (\<lambda>s instance_wallet.
          sbind (registry_get_instance_by_wallet E discovery instance_wallet s) (\<lambda>s inst.
          sbind (lift_res s (check_instance instance_wallet inst)) (\<lambda>s _.
          sbind (registry_get_app E discovery (ri_app_id inst) s) (\<lambda>s app.
          sbind (lift_res s (rbind (bail_if (ra_status app \<noteq> 0)
                   (''app '' @ show_nat (unat (ri_app_id inst)) @ '' is not ACTIVE on registry'')) (\<lambda>_.
                   canonical_wallet (ke_text E) (ra_app_wallet app)))) (\<lambda>s anchored_wallet.
          let context = \<lparr>az_id = ri_app_id inst, az_app_wallet = anchored_wallet, az_wallet = instance_wallet\<rparr>
          in case current_unix_millis E s of
               (s, now) \<Rightarrow>
                 (s\<lparr>ks_authz := Some \<lparr>cz_context = context, cz_expires_at_ms = saturating_add now AUTHZ_CACHE_TTL_MS\<rparr>\<rparr>,
                  Inr context))))))))"

definition ensure_kms_access_authorized ::
  "('k, 'w) kms_env \<Rightarrow> nova_kms \<Rightarrow> 'w kms_state \<Rightarrow> ('w, app_authz_context) kms_step" where
  "ensure_kms_access_authorized E P s = resolve_authz_context E P s"

subsection \<open>Discovery\<close>

text \<open>The registry's answer about one wallet: a node, or nothing when it is not eligible.\<close>

definition eligible_url :: "text_ops \<Rightarrow> registry_discovery \<Rightarrow> registry_instance \<Rightarrow> string option" where
  "eligible_url X discovery i =
     (if ri_app_id i \<noteq> rd_kms_app_id discovery then None
      else if ri_status i \<noteq> 0 \<or> \<not> ri_zk_verified i then None
      else normalize_base_url X (ri_instance_url i))"

fun discover_nodes ::
  "('k, 'w) kms_env \<Rightarrow> registry_discovery \<Rightarrow> string list \<Rightarrow> string set \<Rightarrow> kms_node list \<Rightarrow> 'w kms_state
     \<Rightarrow> ('w, kms_node list) kms_step" where
  "discover_nodes E discovery [] dedup nodes s = (s, Inr nodes)"
| "discover_nodes E discovery (wallet # ws) dedup nodes s =
     sbind (lift_res s (canonical_wallet (ke_text E) wallet)) (\<lambda>s canonical.
     sbind (registry_get_instance_by_wallet E discovery canonical s) (\<lambda>s inst.
     case eligible_url (ke_text E) discovery inst of
       None \<Rightarrow> discover_nodes E discovery ws dedup nodes s
     | Some base_url \<Rightarrow>
         if base_url \<in> dedup then discover_nodes E discovery ws dedup nodes s
         else
           (let tee_pubkey = trim_0x (ri_tee_pubkey inst)
            in if tee_pubkey = [] then discover_nodes E discovery ws (insert base_url dedup) nodes s
               else discover_nodes E discovery ws (insert base_url dedup)
                      (nodes @ [KmsNodeCacheEntry_new canonical base_url tee_pubkey]) s)))"

definition discover_kms_nodes_from_registry ::
  "('k, 'w) kms_env \<Rightarrow> registry_discovery \<Rightarrow> 'w kms_state \<Rightarrow> ('w, kms_node list) kms_step" where
  "discover_kms_nodes_from_registry E discovery s =
     sbind (registry_get_active_instances E discovery (rd_kms_app_id discovery) s) (\<lambda>s active_wallets.
     sbind (discover_nodes E discovery active_wallets {} [] s) (\<lambda>s nodes.
     (s, Inr (sort_key kd_base_url nodes))))"

definition cached_nodes :: "u64 \<Rightarrow> 'w kms_state \<Rightarrow> kms_node list option" where
  "cached_nodes now_ms s =
     (case ks_discovery s of
        Some c \<Rightarrow> if now_ms < dc_expires_at_ms c \<and> dc_nodes c \<noteq> [] then Some (dc_nodes c) else None
      | None \<Rightarrow> None)"

text \<open>The cache is looked up again once the refresh lock is held.\<close>

definition resolve_discovered_nodes ::
  "('k, 'w) kms_env \<Rightarrow> nova_kms \<Rightarrow> 'w kms_state \<Rightarrow> ('w, kms_node list) kms_step" where
  "resolve_discovered_nodes E P s =
     sbind (lift_res s (ok_or ''kms_integration requires registry discovery configuration'' (nk_discovery P))) (\<lambda>s discovery.
     case current_unix_millis E s of
       (s, now_ms) \<Rightarrow>
         (case cached_nodes now_ms s of
            Some nodes \<Rightarrow> (s, Inr nodes)
          | None \<Rightarrow>
              (case current_unix_millis E s of
                 (s, now_ms) \<Rightarrow>
                   (case cached_nodes now_ms s of
                      Some nodes \<Rightarrow> (s, Inr nodes)
                    | None \<Rightarrow>
                        (case discover_kms_nodes_from_registry E discovery s of
                           (s, Inl Panicked) \<Rightarrow> (s, Inl Panicked)
                         | (s, Inl (Failed err)) \<Rightarrow> (s, Inl (Failed (''registry discovery failed: '' @ err)))
                         | (s, Inr nodes) \<Rightarrow>
                             if nodes = [] then
                               (s, Inl (Failed (''registry discovery returned no ACTIVE KMS nodes for app_id '' @
                                  show_nat (unat (rd_kms_app_id discovery)))))
                             else
                               (let merged = merge_discovered_nodes_with_previous nodes (ks_discovery s) now_ms
                                in (s\<lparr>ks_discovery := Some \<lparr>dc_nodes = merged,
                                        dc_expires_at_ms = saturating_add now_ms (rd_ttl_ms discovery)\<rparr>\<rparr>, Inr merged)))))))"

definition resolve_node_candidates ::
  "('k, 'w) kms_env \<Rightarrow> nova_kms \<Rightarrow> 'w kms_state \<Rightarrow> ('w, kms_node list) kms_step" where
  "resolve_node_candidates E P s =
     sbind (resolve_discovered_nodes E P s) (\<lambda>s discovered.
     case current_unix_millis E s of
       (s, now_ms) \<Rightarrow>
         (let prioritized = resolve_connectable_nodes now_ms discovered
          in if prioritized \<noteq> [] then (s, Inr prioritized) else (s, Inr discovered)))"

subsection \<open>The background refresh\<close>

definition probe_node_status_once ::
  "('k, 'w) kms_env \<Rightarrow> string \<Rightarrow> 'w kms_state \<Rightarrow> ('w, nat) kms_step" where
  "probe_node_status_once E base_url s =
     (let url = base_url @ ''/status'';
          route = http_client_for_url (ke_text E) url
      in sbind (http_send E route (get_request url) s) (\<lambda>s r.
         if \<not> is_success (kr_status r) then
           (s, rbind (truncate_for_log (case kr_text r of Inr t \<Rightarrow> t | Inl _ \<Rightarrow> []) KMS_DEBUG_LOG_MAX_LEN) (\<lambda>body.
               Inl (Failed (''status probe failed node='' @ base_url @ '' route='' @
                 (case route of LocalClient \<Rightarrow> ''local-no-proxy'' | DefaultClient \<Rightarrow> ''default'') @
                 '' http='' @ show_nat (kr_status r) @ '' body='' @ body))))
         else (s, Inr (kr_status r))))"

definition probe_node ::
  "('k, 'w) kms_env \<Rightarrow> kms_node \<Rightarrow> 'w kms_state \<Rightarrow> ('w, kms_node) kms_step" where
  "probe_node E node s =
     (case probe_node_status_once E (kd_base_url node) s of
        (s, Inl Panicked) \<Rightarrow> (s, Inl Panicked)
      | (s, Inr status_code) \<Rightarrow>
          (case current_unix_millis E s of (s, t) \<Rightarrow>
           case current_unix_millis E s of (s, t') \<Rightarrow>
             (s, Inr (mark_reachability True (saturating_add t DEFAULT_KMS_NODE_REACHABLE_CACHE_TTL_MS)
                (Some status_code) None t' node)))
      | (s, Inl (Failed err)) \<Rightarrow>
          (case current_unix_millis E s of (s, t) \<Rightarrow>
             (case truncate_for_log err KMS_DEBUG_LOG_MAX_LEN of
                Inl f \<Rightarrow> (s, Inl f)
              | Inr msg \<Rightarrow>
                  (case current_unix_millis E s of (s, t') \<Rightarrow>
                     (s, Inr (mark_reachability False (saturating_add t DEFAULT_KMS_NODE_UNREACHABLE_CACHE_TTL_MS)
                        None (Some msg) t' node))))))"

fun probe_nodes ::
  "('k, 'w) kms_env \<Rightarrow> kms_node list \<Rightarrow> 'w kms_state \<Rightarrow> ('w, kms_node list) kms_step" where
  "probe_nodes E [] s = (s, Inr [])"
| "probe_nodes E (n # ns) s =
     sbind (probe_node E n s) (\<lambda>s n'. sbind (probe_nodes E ns s) (\<lambda>s ns'. (s, Inr (n' # ns'))))"

definition refresh_registry_and_node_status_once ::
  "('k, 'w) kms_env \<Rightarrow> nova_kms \<Rightarrow> 'w kms_state \<Rightarrow> ('w, unit) kms_step" where
  "refresh_registry_and_node_status_once E P s =
     (case nk_discovery P of
        None \<Rightarrow> (s, Inr ())
      | Some discovery \<Rightarrow>
          (case current_unix_millis E s of
             (s, now_ms) \<Rightarrow>
               (let previous = ks_discovery s in
                sbind (discover_kms_nodes_from_registry E discovery s) (\<lambda>s discovered.
                sbind (probe_nodes E
                  (if discovered = [] then (case previous of Some c \<Rightarrow> dc_nodes c | None \<Rightarrow> [])
                   else merge_discovered_nodes_with_previous discovered previous now_ms) s) (\<lambda>s refreshed.
                case current_unix_millis E s of
                  (s, swap_now_ms) \<Rightarrow>
                    (s\<lparr>ks_discovery := Some
                        \<lparr>dc_nodes = merge_refresh_with_live_cache refreshed (ks_discovery s) swap_now_ms,
                         dc_expires_at_ms = saturating_add swap_now_ms (rd_ttl_ms discovery)\<rparr>\<rparr>, Inr ()))))))"

end
