(* ===== verification/Kms_Calls.thy ===== *)
theory Kms_Calls
  imports Kms_Registry
begin

text \<open>
  Calls of KMS nodes: the identity of a node and its cache, the authenticated and encrypted exchange
  with one node, the loop over nodes and attempts, the key operations and the handlers of the Capsule
  API's \<open>/v1/kms\<close> routes.
\<close>

subsection \<open>Node identity\<close>

definition cached_node_identity ::
  "string \<Rightarrow> u64 \<Rightarrow> 'w kms_state \<Rightarrow> 'w kms_state \<times> kms_node_identity option" where
  "cached_node_identity base_url now_ms s =
     (case ks_identity s base_url of
        Some entry \<Rightarrow>
          if now_ms < ci_expires_at_ms entry then (s, Some (ci_identity entry))
          else (s\<lparr>ks_identity := (ks_identity s)(base_url := None)\<rparr>, None)
      | None \<Rightarrow> (s\<lparr>ks_identity := (ks_identity s)(base_url := None)\<rparr>, None))"

definition cache_node_identity ::
  "string \<Rightarrow> kms_node_identity \<Rightarrow> u64 \<Rightarrow> 'w kms_state \<Rightarrow> 'w kms_state" where
  "cache_node_identity base_url identity now_ms s =
     s\<lparr>ks_identity := (ks_identity s)(base_url \<mapsto>
        \<lparr>ci_identity = identity, ci_expires_at_ms = saturating_add now_ms DEFAULT_KMS_NODE_IDENTITY_CACHE_TTL_MS\<rparr>)\<rparr>"

definition invalidate_node_identity_cache :: "string \<Rightarrow> 'w kms_state \<Rightarrow> 'w kms_state" where
  "invalidate_node_identity_cache base_url s = s\<lparr>ks_identity := (ks_identity s)(base_url := None)\<rparr>"

definition identity_of_status :: "text_ops \<Rightarrow> json_value \<Rightarrow> (string, kms_node_identity) result" where
  "identity_of_status X data =
     rbind (ok_or ''KMS /status response missing node'' (json_get ''node'' data)) (\<lambda>node.
     rbind (ok_or ''KMS /status response missing node.tee_wallet'' (json_str ''tee_wallet'' node)) (\<lambda>wallet.
     rbind (ok_or ''KMS /status response missing node.tee_pubkey'' (json_str ''tee_pubkey'' node)) (\<lambda>tee_pubkey.
     rbind (bail_if (trim tee_pubkey = []) ''KMS /status returned empty tee_pubkey'') (\<lambda>_.
     rbind (canonical_wallet X wallet) (\<lambda>w.
     Inr \<lparr>ni_wallet = w, ni_tee_pubkey = trim_0x tee_pubkey\<rparr>)))))"

definition fetch_node_identity ::
  "('k, 'w) kms_env \<Rightarrow> string \<Rightarrow> 'w kms_state \<Rightarrow> ('w, kms_node_identity) kms_step" where
  "fetch_node_identity E base_url s =
     sbind (fetch_json E (base_url @ ''/status'') s) (\<lambda>s data. lift_res s (identity_of_status (ke_text E) data))"

definition resolve_node_identity ::
  "('k, 'w) kms_env \<Rightarrow> kms_node \<Rightarrow> 'w kms_state \<Rightarrow> ('w, kms_node_identity) kms_step" where
  "resolve_node_identity E node s =
     (case current_unix_millis E s of
        (s, now_ms) \<Rightarrow>
          (case cached_node_identity (kd_base_url node) now_ms s of
             (s, Some identity) \<Rightarrow> (s, Inr identity)
           | (s, None) \<Rightarrow>
               sbind (fetch_node_identity E (kd_base_url node) s) (\<lambda>s identity.
               (cache_node_identity (kd_base_url node) identity now_ms s, Inr identity))))"

definition fetch_nonce :: "('k, 'w) kms_env \<Rightarrow> string \<Rightarrow> 'w kms_state \<Rightarrow> ('w, string) kms_step" where
  "fetch_nonce E base_url s =
     sbind (fetch_json E (base_url @ ''/nonce'') s) (\<lambda>s v.
     lift_res s (ok_or ''KMS /nonce response missing nonce'' (json_str ''nonce'' v)))"

subsection \<open>One exchange with one node\<close>

definition verify_mutual_response_signature ::
  "text_ops \<Rightarrow> 'k eth_ops \<Rightarrow> string \<Rightarrow> string \<Rightarrow> string \<Rightarrow> (string, unit) result" where
  "verify_mutual_response_signature X K signature client_signature expected_wallet =
     rbind (canonical_wallet X expected_wallet) (\<lambda>signer_wallet.
     bail_if (\<not> verify_message K signature
         (eip191_personal_message_bytes (''NovaKMS:Response:'' @ client_signature @ '':'' @ signer_wallet)) signer_wallet)
       (''KMS mutual response signature verification failed (expected_signer='' @ signer_wallet @ '')''))"

definition app_auth_message :: "string \<Rightarrow> string \<Rightarrow> u64 \<Rightarrow> string" where
  "app_auth_message nonce_b64 wallet timestamp =
     ''NovaKMS:AppAuth:'' @ nonce_b64 @ '':'' @ wallet @ '':'' @ show_nat (unat timestamp)"

text \<open>The body of the request, encrypted for the node; the previews for the log may panic.\<close>

definition sealed_payload ::
  "('k, 'w) kms_env \<Rightarrow> nova_kms \<Rightarrow> json_value option \<Rightarrow> string \<Rightarrow> 'w kms_state \<Rightarrow> ('w, json_value option) kms_step" where
  "sealed_payload E P payload node_tee_pubkey s =
     (case payload of
        None \<Rightarrow> (s, Inr None)
      | Some payload_json \<Rightarrow>
          sbind (s, preview_json_for_log (kx_json (ke_text E)) payload_json) (\<lambda>s _.
          sbind (encrypt_payload_for_node E P payload_json node_tee_pubkey s) (\<lambda>s envelope.
          sbind (s, preview_json_for_log (kx_json (ke_text E)) envelope) (\<lambda>s _.
          (s, Inr (Some envelope))))))"

text \<open>What is done with the node's answer.\<close>

definition accept_response ::
  "('k, 'w) kms_env \<Rightarrow> nova_kms \<Rightarrow> kms_node \<Rightarrow> string \<Rightarrow> string \<Rightarrow> kms_response \<Rightarrow> 'w kms_state
     \<Rightarrow> ('w, json_value) kms_step" where
  "accept_response E P node client_signature node_tee_pubkey r s =
     (let X = ke_text E; J = kx_json X in
      sbind (lift_res s (kr_text r)) (\<lambda>s response_text.
      sbind (s, preview_text_for_log J response_text) (\<lambda>s _.
      sbind (lift_res s (bail_if (\<not> is_success (kr_status r))
        (''KMS HTTP '' @ show_nat (kr_status r) @ '': '' @ response_text))) (\<lambda>s _.
      sbind (lift_res s (if nk_require_mutual_signature P then
               rbind (ok_or ''KMS response missing X-KMS-Response-Signature'' (kr_signature r)) (\<lambda>sig.
               verify_mutual_response_signature X (ke_eth E) sig client_signature (kd_wallet node))
             else Inr ())) (\<lambda>s _.
      sbind (lift_res s (js_parse J (str_bytes response_text))) (\<lambda>s envelope.
      decrypt_envelope E P envelope node_tee_pubkey s))))))"

definition call_kms_on_node ::
  "('k, 'w) kms_env \<Rightarrow> nova_kms \<Rightarrow> kms_node \<Rightarrow> kms_method \<Rightarrow> string \<Rightarrow> json_value option \<Rightarrow> 'w kms_state
     \<Rightarrow> ('w, json_value) kms_step" where
  "call_kms_on_node E P node m path payload s =
     (let X = ke_text E; base_url = kd_base_url node in
      sbind (resolve_node_identity E node s) (\<lambda>s status_identity.
      sbind (lift_res s (verify_node_identity_binding X node status_identity)) (\<lambda>s node_tee_pubkey.
      sbind (fetch_nonce E base_url s) (\<lambda>s nonce_b64.
      case current_unix_timestamp E s of
        (s, timestamp) \<Rightarrow>
          sbind (lift_res s (canonical_wallet X (kd_wallet node))) (\<lambda>s wallet.
          sbind (local_sign_message E P (app_auth_message nonce_b64 wallet timestamp) s) (\<lambda>s client_signature.
          sbind (local_eth_address E P s) (\<lambda>s app_wallet.
          sbind (sealed_payload E P payload node_tee_pubkey s) (\<lambda>s body.
          sbind (http_send E DefaultClient
            \<lparr>kq_method = m, kq_url = base_url @ path,
             kq_headers = [(''x-app-signature'', client_signature), (''x-app-nonce'', nonce_b64),
                           (''x-app-timestamp'', show_nat (unat timestamp)), (''x-app-wallet'', app_wallet)] @
                          (if body = None then [] else [(''content-type'', ''application/json'')]),
             kq_json = body\<rparr> s) (\<lambda>s r.
          accept_response E P node client_signature node_tee_pubkey r s)))))))))"

subsection \<open>Trying the nodes\<close>

definition update_node_reachability_cache ::
  "('k, 'w) kms_env \<Rightarrow> string \<Rightarrow> bool \<Rightarrow> nat option \<Rightarrow> string option \<Rightarrow> 'w kms_state \<Rightarrow> 'w kms_state" where
  "update_node_reachability_cache E base_url reachable last_http_status last_error s =
     (case current_unix_millis E s of
        (s, now) \<Rightarrow>
          (case ks_discovery s of
             Some c \<Rightarrow>
               if list_ex (\<lambda>n. kd_base_url n = base_url) (dc_nodes c) then
                 (case current_unix_millis E s of
                    (s, later) \<Rightarrow>
                      s\<lparr>ks_discovery := update_node_reachability base_url reachable last_http_status last_error now later
                                          (ks_discovery s)\<rparr>)
               else s
           | None \<Rightarrow> s))"

text \<open>What a failed call of a node changes.\<close>

definition note_failure ::
  "('k, 'w) kms_env \<Rightarrow> string \<Rightarrow> string \<Rightarrow> 'w kms_state \<Rightarrow> ('w, unit) kms_step" where
  "note_failure E base_url err_text s =
     (let s1 = (if contains_str err_text ''mutual response signature verification failed'' \<or>
                   contains_str err_text ''KMS response missing X-KMS-Response-Signature''
                then invalidate_node_identity_cache base_url s else s)
      in if looks_like_connectivity_error err_text then
           (case truncate_for_log err_text KMS_DEBUG_LOG_MAX_LEN of
              Inl f \<Rightarrow> (s1, Inl f)
            | Inr msg \<Rightarrow> (update_node_reachability_cache E base_url False None (Some msg) s1, Inr ()))
         else (s1, Inr ()))"

text \<open>
  One round over the nodes: \<open>Inl\<close> with the answer of the first node that gives one, otherwise the last
  error and the first not-found error so far.
\<close>

fun try_nodes ::
  "('k, 'w) kms_env \<Rightarrow> nova_kms \<Rightarrow> kms_method \<Rightarrow> string \<Rightarrow> json_value option \<Rightarrow> kms_node list
     \<Rightarrow> string option \<times> string option \<Rightarrow> 'w kms_state \<Rightarrow> ('w, json_value + string option \<times> string option) kms_step" where
  "try_nodes E P m path payload [] errs s = (s, Inr (Inr errs))"
| "try_nodes E P m path payload (node # nodes) (last_error, not_found) s =
     (case call_kms_on_node E P node m path payload s of
        (s, Inr v) \<Rightarrow>
          (let s1 = update_node_reachability_cache E (kd_base_url node) True None None s
           in sbind (s1, preview_json_for_log (kx_json (ke_text E)) v) (\<lambda>s _. (s, Inr (Inl v))))
      | (s, Inl Panicked) \<Rightarrow> (s, Inl Panicked)
      | (s, Inl (Failed err_text)) \<Rightarrow>
          sbind (note_failure E (kd_base_url node) err_text s) (\<lambda>s _.
          try_nodes E P m path payload nodes
            (Some err_text,
             if looks_like_kms_not_found_error err_text \<and> not_found = None then Some err_text else not_found) s))"

fun try_attempts ::
  "('k, 'w) kms_env \<Rightarrow> nova_kms \<Rightarrow> kms_method \<Rightarrow> string \<Rightarrow> json_value option \<Rightarrow> kms_node list \<Rightarrow> nat
     \<Rightarrow> string option \<times> string option \<Rightarrow> 'w kms_state \<Rightarrow> ('w, json_value) kms_step" where
  "try_attempts E P m path payload nodes 0 errs s =
     (s, Inl (Failed (case snd errs of
        Some err \<Rightarrow> err
      | None \<Rightarrow> unwrap_or ''KMS call failed with unknown error'' (fst errs))))"
| "try_attempts E P m path payload nodes (Suc left) errs s =
     sbind (try_nodes E P m path payload nodes errs s) (\<lambda>s out.
     case out of
       Inl v \<Rightarrow> (s, Inr v)
     | Inr errs' \<Rightarrow>
         try_attempts E P m path payload nodes left errs'
           (if left > 0 then s\<lparr>ks_world := ke_sleep E 150 (ks_world s)\<rparr> else s))"

definition hash_payload :: "text_ops \<Rightarrow> json_value option \<Rightarrow> string" where
  "hash_payload X payload =
     kx_hex X (kx_sha256 X (case payload of Some v \<Rightarrow> js_bytes (kx_json X) v | None \<Rightarrow> []))"

definition call_kms_json_internal ::
  "('k, 'w) kms_env \<Rightarrow> nova_kms \<Rightarrow> kms_method \<Rightarrow> string \<Rightarrow> json_value option \<Rightarrow> 'w kms_state \<Rightarrow> ('w, json_value) kms_step" where
  "call_kms_json_internal E P m path payload s =
     sbind (resolve_node_candidates E P s) (\<lambda>s nodes.
     sbind (s, case payload of
                 Some v \<Rightarrow> preview_json_for_log (kx_json (ke_text E)) v
               | None \<Rightarrow> Inr ''<none>'') (\<lambda>s _.
     try_attempts E P m path payload nodes (nk_max_retries P) (None, None) s))"

subsection \<open>Key operations\<close>

definition derive_key ::
  "('k, 'w) kms_env \<Rightarrow> nova_kms \<Rightarrow> string \<Rightarrow> string \<Rightarrow> nat \<Rightarrow> 'w kms_state \<Rightarrow> ('w, bytes) kms_step" where
  "derive_key E P path context len s =
     (if trim path = [] then (s, Inl (Failed ''KMS derive path cannot be empty''))
      else if is_reserved_derive_path P path then (s, Inl (Failed (''KMS derive path '' @ [CHR 0x27] @ path @ [CHR 0x27] @ '' is reserved'')))
      else
        sbind (call_kms_json_internal E P MPost ''/kms/derive''
          (Some (JObject [(''path'', JString path), (''context'', JString context), (''length'', JNumber (show_nat len))])) s)
        (\<lambda>s response.
         lift_res s (rbind (ok_or (''KMS response missing '' @ [CHR 0x27] @ ''key'' @ [CHR 0x27]) (json_str ''key'' response)) (\<lambda>key_b64.
           map_err (\<lambda>e. ''invalid KMS key base64: '' @ e) (kx_unbase64 (ke_text E) key_b64)))))"

definition kv_get ::
  "('k, 'w) kms_env \<Rightarrow> nova_kms \<Rightarrow> string \<Rightarrow> 'w kms_state \<Rightarrow> ('w, string option) kms_step" where
  "kv_get E P key s =
     (if trim key = [] then (s, Inl (Failed ''KMS KV key cannot be empty''))
      else
        (case call_kms_json_internal E P MGet (''/kms/data/'' @ kx_urlencode (ke_text E) (str_bytes key)) None s of
           (s, Inr response) \<Rightarrow> (s, Inr (json_str ''value'' response))
         | (s, Inl Panicked) \<Rightarrow> (s, Inl Panicked)
         | (s, Inl (Failed msg)) \<Rightarrow>
             if looks_like_kms_not_found_error msg then (s, Inr None) else (s, Inl (Failed msg))))"

definition kv_put ::
  "('k, 'w) kms_env \<Rightarrow> nova_kms \<Rightarrow> string \<Rightarrow> string \<Rightarrow> u64 \<Rightarrow> 'w kms_state \<Rightarrow> ('w, unit) kms_step" where
  "kv_put E P key value_b64 ttl_ms s =
     (if trim key = [] then (s, Inl (Failed ''KMS KV key cannot be empty''))
      else if trim value_b64 = [] then (s, Inl (Failed ''KMS KV value cannot be empty''))
      else
        sbind (call_kms_json_internal E P MPut ''/kms/data''
          (Some (JObject [(''key'', JString key), (''value'', JString value_b64),
                          (''ttl_ms'', JNumber (show_nat (unat ttl_ms)))])) s) (\<lambda>s _. (s, Inr ())))"

definition kv_delete ::
  "('k, 'w) kms_env \<Rightarrow> nova_kms \<Rightarrow> string \<Rightarrow> 'w kms_state \<Rightarrow> ('w, unit) kms_step" where
  "kv_delete E P key s =
     (if trim key = [] then (s, Inl (Failed ''KMS KV key cannot be empty''))
      else sbind (call_kms_json_internal E P MDelete ''/kms/data'' (Some (JObject [(''key'', JString key)])) s)
             (\<lambda>s _. (s, Inr ())))"

subsection \<open>Handlers\<close>

text \<open>
  The common frame of the handlers: the body is read, then the authorisation is resolved, then the
  operation runs; an error becomes a response.
\<close>

definition authorized ::
  "('k, 'w) kms_env \<Rightarrow> nova_kms \<Rightarrow> (string, 'q) result \<Rightarrow> ('q \<Rightarrow> 'w kms_state \<Rightarrow> ('w, http_response) kms_step)
     \<Rightarrow> 'w kms_state \<Rightarrow> ('w, http_response) kms_step" where
  "authorized E P req k s =
     (case req of
        Inl err \<Rightarrow> (s, Inr (resp_bad_request err))
      | Inr q \<Rightarrow>
          (case ensure_kms_access_authorized E P s of
             (s, Inl Panicked) \<Rightarrow> (s, Inl Panicked)
           | (s, Inl (Failed message)) \<Rightarrow> (s, Inr (authz_error_response message))
           | (s, Inr _) \<Rightarrow> k q s))"

definition responding ::
  "('a \<Rightarrow> http_response) \<Rightarrow> ('w, 'a) kms_step \<Rightarrow> ('w, http_response) kms_step" where
  "responding f r =
     (case r of
        (s, Inl Panicked) \<Rightarrow> (s, Inl Panicked)
      | (s, Inl (Failed err)) \<Rightarrow> (s, Inr (kms_operation_error_response err))
      | (s, Inr x) \<Rightarrow> (s, Inr (f x)))"

definition handle_derive ::
  "('k, 'w) kms_env \<Rightarrow> nova_kms \<Rightarrow> bytes \<Rightarrow> 'w kms_state \<Rightarrow> ('w, http_response) kms_step" where
  "handle_derive E P body =
     authorized E P (ke_derive_request E body) (\<lambda>q s.
       if is_reserved_derive_path P (dq_path q)
       then (s, Inr (resp_bad_request ''KMS derive path is reserved and cannot be requested by app''))
       else responding (\<lambda>key. ok_json (kx_json (ke_text E)) (JObject [(''key'', JString (kx_base64 (ke_text E) key))]))
              (derive_key E P (dq_path q) (dq_context q) (dq_length q) s))"

definition handle_kv_get ::
  "('k, 'w) kms_env \<Rightarrow> nova_kms \<Rightarrow> bytes \<Rightarrow> 'w kms_state \<Rightarrow> ('w, http_response) kms_step" where
  "handle_kv_get E P body =
     authorized E P (ke_key_request E body) (\<lambda>key s.
       responding (\<lambda>found. case found of
           Some v \<Rightarrow> ok_json (kx_json (ke_text E)) (JObject [(''found'', JBool True), (''value'', JString v)])
         | None \<Rightarrow> json_response (kx_json (ke_text E)) 404 (JObject [(''found'', JBool False), (''value'', JNull)]))
         (kv_get E P key s))"

definition handle_kv_put ::
  "('k, 'w) kms_env \<Rightarrow> nova_kms \<Rightarrow> bytes \<Rightarrow> 'w kms_state \<Rightarrow> ('w, http_response) kms_step" where
  "handle_kv_put E P body =
     authorized E P (ke_put_request E body) (\<lambda>q s.
       responding (\<lambda>_. ok_json (kx_json (ke_text E)) (JObject [(''success'', JBool True)]))
         (kv_put E P (pq_key q) (pq_value q) (pq_ttl_ms q) s))"

definition handle_kv_delete ::
  "('k, 'w) kms_env \<Rightarrow> nova_kms \<Rightarrow> bytes \<Rightarrow> 'w kms_state \<Rightarrow> ('w, http_response) kms_step" where
  "handle_kv_delete E P body =
     authorized E P (ke_key_request E body) (\<lambda>key s.
       responding (\<lambda>_. ok_json (kx_json (ke_text E)) (JObject [(''success'', JBool True)])) (kv_delete E P key s))"

end
