(* ===== verification/Kms_Frames.thy ===== *)
theory Kms_Frames
  imports Kms_Calls
begin

text \<open>
  What the operations of the KMS client leave alone.  A state predicate that does not look at the
  world is kept by every exchange with the network; one that does not look at the identity cache
  either is kept by the call of a node; one that is stable under storing accepted nodes is kept by
  every key operation.  The three locales state these contracts once; the safety properties
  interpret them with the predicates they need.
\<close>

lemma sbind_eq_Inr [result_elims]:
  "sbind r f = (s', Inr y) \<longleftrightarrow> (\<exists>s x. r = (s, Inr x) \<and> f s x = (s', Inr y))"
  by (cases r; cases "snd r") auto

lemma lift_res_eq_Inr [result_elims]: "lift_res s r = (s', Inr y) \<longleftrightarrow> s' = s \<and> r = Inr y"
  by (auto simp: lift_res_def result_elims)

lemma fst_lift_res [simp]: "fst (lift_res s r) = s"
  by (simp add: lift_res_def)

lemma millis_discovery: "current_unix_millis E s = (s', t) \<Longrightarrow> ks_discovery s' = ks_discovery s"
  by (auto simp: current_unix_millis_def split: prod.splits)

lemma probe_nodes_ids: "probe_nodes E ns s = (s', Inr ns') \<Longrightarrow> map node_id ns = map node_id ns'"
proof (induction ns arbitrary: s s' ns')
  case (Cons n ns)
  then obtain v n' ms where "probe_node E n s = (v, Inr n')" "probe_nodes E ns v = (s', Inr ms)" "ns' = n' # ms"
    by (auto simp: result_elims)
  moreover from this(1) have "node_id n' = node_id n"
    by (auto simp: probe_node_def split: prod.splits sum.splits api_failure.splits)
  ultimately show ?case using Cons.IH by auto
qed simp

locale kms_world =
  fixes I :: "'w kms_state \<Rightarrow> bool"
  assumes world [simp]: "I (s\<lparr>ks_world := w\<rparr>) \<longleftrightarrow> I s"
begin

lemma keeps_sbind_eq:
  assumes "I (fst r)" and "\<And>s x. r = (s, Inr x) \<Longrightarrow> I s \<Longrightarrow> I (fst (f s x))"
  shows "I (fst (sbind r f))"
proof (cases r)
  case (Pair s y)
  then show ?thesis using assms by (cases y) simp_all
qed

lemma keeps_sbind:
  assumes "I (fst r)" and "\<And>s x. I s \<Longrightarrow> I (fst (f s x))"
  shows "I (fst (sbind r f))"
proof (cases r)
  case (Pair s y)
  then show ?thesis using assms by (cases y) simp_all
qed

lemma keeps_millis: "I s \<Longrightarrow> I (fst (current_unix_millis E s))"
  by (simp add: current_unix_millis_def split: prod.splits)

lemma keeps_millis_eq: "I s \<Longrightarrow> current_unix_millis E s = (s', t) \<Longrightarrow> I s'"
  using keeps_millis [of s E] by simp

lemma keeps_timestamp_eq: "I s \<Longrightarrow> current_unix_timestamp E s = (s', t) \<Longrightarrow> I s'"
  by (auto simp: current_unix_timestamp_def split: prod.splits)

lemma keeps_http_send: "I s \<Longrightarrow> I (fst (http_send E c q s))"
  by (simp add: http_send_def split: prod.splits)

lemma keeps_fetch_json: "I s \<Longrightarrow> I (fst (fetch_json E url s))"
  unfolding fetch_json_def by (rule keeps_sbind) (simp_all add: keeps_http_send)

lemma keeps_capsule_api_call: "I s \<Longrightarrow> I (fst (capsule_api_call E P m name path payload s))"
proof -
  assume s: "I s"
  let ?url = "nk_endpoint P @ path"
  let ?q = "\<lparr>kq_method = m, kq_url = ?url,
     kq_headers = (if payload = None then [] else [(''content-type'', ''application/json'')]), kq_json = payload\<rparr>"
  obtain s1 r1 where r1: "http_send E (http_client_for_url (ke_text E) ?url) ?q s = (s1, r1)" by fastforce
  have "I s1" using keeps_http_send [OF s, of E "http_client_for_url (ke_text E) ?url" ?q] r1 by simp
  then show ?thesis
    unfolding capsule_api_call_def Let_def r1 prod.case
    by (cases r1) (simp_all split: api_failure.splits sum.splits)
qed

lemma keeps_capsule_api:
  "I s \<Longrightarrow> I (fst (capsule_api_get E P path s))"
  "I s \<Longrightarrow> I (fst (capsule_api_post E P path payload s))"
  by (simp_all add: capsule_api_get_def capsule_api_post_def keeps_capsule_api_call)

lemma keeps_local:
  "I s \<Longrightarrow> I (fst (local_eth_address E P s))"
  "I s \<Longrightarrow> I (fst (local_sign_message E P message s))"
  "I s \<Longrightarrow> I (fst (local_tee_pubkey E P s))"
  unfolding local_eth_address_def local_sign_message_def local_tee_pubkey_def
  by (rule keeps_sbind; simp add: keeps_capsule_api)+

lemma keeps_encrypt_payload: "I s \<Longrightarrow> I (fst (encrypt_payload_for_node E P payload key s))"
  unfolding encrypt_payload_for_node_def
  by (intro keeps_sbind) (simp_all add: keeps_local keeps_capsule_api)

lemma keeps_decrypt_envelope: "I s \<Longrightarrow> I (fst (decrypt_envelope E P envelope key s))"
  unfolding decrypt_envelope_def by (intro keeps_sbind) (simp_all add: keeps_capsule_api)

lemma keeps_eth_call_attempt: "I s \<Longrightarrow> I (fst (eth_call_attempt E d cd s))"
  unfolding eth_call_attempt_def Let_def
  by (intro keeps_sbind) (simp_all add: keeps_http_send split: sum.splits)

lemma keeps_eth_call_loop: "I s \<Longrightarrow> I (fst (eth_call_loop E d cd attempt left err s))"
proof (induction left arbitrary: attempt err s)
  case 0
  then show ?case by simp
next
  case (Suc left)
  have "I s'" if "eth_call_attempt E d cd s = (s', r)" for s' r
    using keeps_eth_call_attempt [OF Suc.prems, of E d cd] that by simp
  then show ?case by (auto simp: Suc.IH split: prod.splits sum.splits api_failure.splits)
qed

lemma keeps_registry_call: "I s \<Longrightarrow> I (fst (registry_call E d fn args s))"
  unfolding registry_call_def registry_eth_call_def
  by (intro keeps_sbind) (simp_all add: keeps_eth_call_loop)

lemma keeps_registry:
  "I s \<Longrightarrow> I (fst (registry_get_active_instances E d app s))"
  "I s \<Longrightarrow> I (fst (registry_get_instance_by_wallet E d w s))"
  "I s \<Longrightarrow> I (fst (registry_get_app E d app s))"
  unfolding registry_get_active_instances_def registry_get_instance_by_wallet_def registry_get_app_def
  by (intro keeps_sbind; simp add: keeps_registry_call)+

lemma keeps_discover_nodes: "I s \<Longrightarrow> I (fst (discover_nodes E d ws dedup nodes s))"
proof (induction ws arbitrary: dedup nodes s)
  case Nil
  then show ?case by simp
next
  case (Cons w ws)
  then show ?case unfolding discover_nodes.simps
    by (intro keeps_sbind) (simp_all add: keeps_registry Let_def split: option.splits)
qed

lemma keeps_discover: "I s \<Longrightarrow> I (fst (discover_kms_nodes_from_registry E d s))"
  unfolding discover_kms_nodes_from_registry_def
  by (intro keeps_sbind) (simp_all add: keeps_registry keeps_discover_nodes)

lemma keeps_probe_once: "I s \<Longrightarrow> I (fst (probe_node_status_once E url s))"
  unfolding probe_node_status_once_def Let_def by (intro keeps_sbind) (simp_all add: keeps_http_send)

lemma keeps_probe_node: "I s \<Longrightarrow> I (fst (probe_node E n s))"
proof -
  assume "I s"
  then have "I s'" if "probe_node_status_once E (kd_base_url n) s = (s', r)" for s' r
    using keeps_probe_once [of s E "kd_base_url n"] that by simp
  then show ?thesis
    by (auto simp: probe_node_def split: prod.splits sum.splits api_failure.splits)
       (blast intro: keeps_millis_eq)+
qed

lemma keeps_probe_nodes: "I s \<Longrightarrow> I (fst (probe_nodes E ns s))"
proof (induction ns arbitrary: s)
  case Nil
  then show ?case by simp
next
  case (Cons n ns)
  then show ?case unfolding probe_nodes.simps by (intro keeps_sbind) (simp_all add: keeps_probe_node)
qed

end

locale kms_identity = kms_world +
  assumes identity [simp]: "I (s\<lparr>ks_identity := m\<rparr>) \<longleftrightarrow> I s"
begin

lemma keeps_resolve_node_identity: "I s \<Longrightarrow> I (fst (resolve_node_identity E node s))"
proof -
  assume s: "I s"
  obtain s1 now where t: "current_unix_millis E s = (s1, now)" by fastforce
  obtain s2 c where c: "cached_node_identity (kd_base_url node) now s1 = (s2, c)" by fastforce
  have "I s1" using keeps_millis_eq [OF s t] .
  then have "I s2" using c by (auto simp: cached_node_identity_def split: option.splits if_splits)
  then have "I (fst (sbind (fetch_node_identity E (kd_base_url node) s2) (\<lambda>s identity.
      (cache_node_identity (kd_base_url node) identity now s, Inr identity))))"
    unfolding fetch_node_identity_def
    by (intro keeps_sbind) (simp_all add: keeps_fetch_json cache_node_identity_def)
  with \<open>I s2\<close> show ?thesis by (simp add: resolve_node_identity_def t c split: option.splits)
qed

lemma keeps_sealed_payload: "I s \<Longrightarrow> I (fst (sealed_payload E P payload key s))"
proof (cases payload)
  case (Some v)
  assume "I s"
  then show ?thesis unfolding sealed_payload_def Some option.case
    by (intro keeps_sbind) (simp_all add: keeps_encrypt_payload)
qed (simp add: sealed_payload_def)

lemma keeps_accept_response: "I s \<Longrightarrow> I (fst (accept_response E P node csig key r s))"
  unfolding accept_response_def Let_def by (intro keeps_sbind) (simp_all add: keeps_decrypt_envelope)

lemma keeps_call_kms_on_node: "I s \<Longrightarrow> I (fst (call_kms_on_node E P node m path payload s))"
proof -
  assume s: "I s"
  show ?thesis
    unfolding call_kms_on_node_def Let_def fetch_nonce_def
  proof (intro keeps_sbind)
    fix u ident v key x nonce
    assume "I x"
    obtain y ts where ts: "current_unix_timestamp E x = (y, ts)" by fastforce
    have "I y" using \<open>I x\<close> ts by (rule keeps_timestamp_eq)
    then show "I (fst (case current_unix_timestamp E x of (s, timestamp) \<Rightarrow>
          sbind (lift_res s (canonical_wallet (ke_text E) (kd_wallet node))) (\<lambda>s wallet.
          sbind (local_sign_message E P (app_auth_message nonce wallet timestamp) s) (\<lambda>s client_signature.
          sbind (local_eth_address E P s) (\<lambda>s app_wallet.
          sbind (sealed_payload E P payload key s) (\<lambda>s body.
          sbind (http_send E DefaultClient
            \<lparr>kq_method = m, kq_url = kd_base_url node @ path,
             kq_headers = [(''x-app-signature'', client_signature), (''x-app-nonce'', nonce),
                           (''x-app-timestamp'', show_nat (unat timestamp)), (''x-app-wallet'', app_wallet)] @
                          (if body = None then [] else [(''content-type'', ''application/json'')]),
             kq_json = body\<rparr> s) (\<lambda>s r.
          accept_response E P node client_signature key r s)))))))"
      unfolding ts prod.case
      by (intro keeps_sbind) (simp_all add: keeps_local keeps_sealed_payload keeps_http_send keeps_accept_response)
  qed (simp_all add: s keeps_resolve_node_identity keeps_fetch_json)
qed

end

text \<open>
  \<open>T\<close> is what is known of every node in the cache: it must hold of each node that discovery finds and
  depend only on who the node is.
\<close>

locale kms_node_cache = kms_identity I for I :: "'w kms_state \<Rightarrow> bool" +
  fixes E :: "('k, 'w) kms_env" and P :: nova_kms and T :: "kms_node \<Rightarrow> bool"
  assumes T_id: "node_id n = node_id n' \<Longrightarrow> T n = T n'"
    and cached: "I s \<Longrightarrow> ks_discovery s = Some c \<Longrightarrow> n \<in> set (dc_nodes c) \<Longrightarrow> T n"
    and store: "I s \<Longrightarrow> \<forall>n \<in> set ns. T n \<Longrightarrow>
      I (s\<lparr>ks_discovery := Some \<lparr>dc_nodes = ns, dc_expires_at_ms = t\<rparr>\<rparr>)"
    and found: "nk_discovery P = Some d \<Longrightarrow> discover_kms_nodes_from_registry E d s0 = (s', Inr ns) \<Longrightarrow>
      n \<in> set ns \<Longrightarrow> T n"
begin

lemma T_nodes:
  assumes "map node_id ns = map node_id ns'" and "\<forall>n \<in> set ns. T n"
  shows "\<forall>n \<in> set ns'. T n"
proof
  fix n
  assume "n \<in> set ns'"
  then have "node_id n \<in> set (map node_id ns)" using assms(1) by simp
  then obtain m where "m \<in> set ns" "node_id m = node_id n" by auto
  then show "T n" using assms(2) T_id by blast
qed

lemma resolve_discovered:
  assumes "I s" and "resolve_discovered_nodes E P s = (s', r)"
  shows "I s' \<and> (\<forall>ns. r = Inr ns \<longrightarrow> (\<forall>n \<in> set ns. T n))"
proof (cases "nk_discovery P")
  case None
  then show ?thesis using assms by (auto simp: resolve_discovered_nodes_def lift_res_def)
next
  case (Some d)
  obtain s1 t1 where t1: "current_unix_millis E s = (s1, t1)" by fastforce
  obtain s2 t2 where t2: "current_unix_millis E s1 = (s2, t2)" by fastforce
  obtain s3 r3 where d: "discover_kms_nodes_from_registry E d s2 = (s3, r3)" by fastforce
  have I1: "I s1" using keeps_millis_eq [OF assms(1) t1] .
  have I2: "I s2" using keeps_millis_eq [OF I1 t2] .
  have I3: "I s3" using keeps_discover [OF I2, of E d] d by simp
  have hit: "\<forall>n \<in> set ns. T n" if "cached_nodes t u = Some ns" "I u" for t u ns
    using that cached by (auto simp: cached_nodes_def split: option.splits if_splits)
  have new: "\<forall>n \<in> set (merge_discovered_nodes_with_previous ns (ks_discovery s3) t2). T n" if "r3 = Inr ns" for ns
    using that found [OF Some d [unfolded that]] T_nodes [of ns] by (metis map_node_id_merge_discovered)
  have eq: "(s', r) = (case cached_nodes t1 s1 of Some nodes \<Rightarrow> (s1, Inr nodes) | None \<Rightarrow>
      (case cached_nodes t2 s2 of Some nodes \<Rightarrow> (s2, Inr nodes) | None \<Rightarrow>
      (case r3 of
         Inl Panicked \<Rightarrow> (s3, Inl Panicked)
       | Inl (Failed err) \<Rightarrow> (s3, Inl (Failed (''registry discovery failed: '' @ err)))
       | Inr nodes \<Rightarrow>
           if nodes = [] then
             (s3, Inl (Failed (''registry discovery returned no ACTIVE KMS nodes for app_id '' @
                show_nat (unat (rd_kms_app_id d)))))
           else
             (s3\<lparr>ks_discovery := Some \<lparr>dc_nodes = merge_discovered_nodes_with_previous nodes (ks_discovery s3) t2,
                 dc_expires_at_ms = saturating_add t2 (rd_ttl_ms d)\<rparr>\<rparr>,
              Inr (merge_discovered_nodes_with_previous nodes (ks_discovery s3) t2)))))"
    using assms(2) [symmetric]
    by (cases "cached_nodes t1 s1"; cases "cached_nodes t2 s2"; cases r3)
       (simp_all add: resolve_discovered_nodes_def Some lift_res_def t1 t2 d Let_def split: api_failure.splits)
  show ?thesis
  proof (cases "cached_nodes t1 s1 = None \<and> cached_nodes t2 s2 = None")
    case True
    show ?thesis
    proof (cases r3)
      case (Inl f)
      then show ?thesis using eq True I3 by (cases f) simp_all
    next
      case (Inr ns)
      then show ?thesis using eq True I3 new [OF Inr] store [OF I3 new [OF Inr]] by (cases "ns = []") auto
    qed
  next
    case False
    then show ?thesis using eq I1 I2 hit [of t1 s1] hit [of t2 s2] by (cases "cached_nodes t1 s1") auto
  qed
qed

lemma resolve_candidates:
  assumes "I s" and "resolve_node_candidates E P s = (s', r)"
  shows "I s' \<and> (\<forall>ns. r = Inr ns \<longrightarrow> (\<forall>n \<in> set ns. T n))"
proof -
  obtain s1 r1 where r1: "resolve_discovered_nodes E P s = (s1, r1)" by fastforce
  note D = resolve_discovered [OF assms(1) r1]
  obtain s2 t where t: "current_unix_millis E s1 = (s2, t)" by fastforce
  have "I s2" using keeps_millis_eq D t by blast
  then show ?thesis
    using assms(2) D resolve_connectable_nodes_subset [of t]
    by (cases r1) (auto simp: resolve_node_candidates_def r1 t Let_def split: if_splits)
qed

lemma keeps_update_reachability: "I s \<Longrightarrow> I (update_node_reachability_cache E url r st er s)"
proof -
  assume s: "I s"
  obtain s1 t1 where t1: "current_unix_millis E s = (s1, t1)" by fastforce
  obtain s2 t2 where t2: "current_unix_millis E s1 = (s2, t2)" by fastforce
  have I1: "I s1" using keeps_millis_eq [OF s t1] .
  have I2: "I s2" using keeps_millis_eq [OF I1 t2] .
  show ?thesis
  proof (cases "ks_discovery s2")
    case None
    then have "ks_discovery s1 = None" using millis_discovery [OF t2] by simp
    then show ?thesis using I1 by (simp add: update_node_reachability_cache_def t1)
  next
    case (Some c)
    let ?f = "mark_reachability r (saturating_add t1 (if r then DEFAULT_KMS_NODE_REACHABLE_CACHE_TTL_MS
        else DEFAULT_KMS_NODE_UNREACHABLE_CACHE_TTL_MS)) st er t2"
    have "\<forall>n \<in> set (update_first url ?f (dc_nodes c)). T n"
      using T_nodes [of "dc_nodes c" "update_first url ?f (dc_nodes c)"] cached [OF I2 Some] by simp
    moreover have "ks_discovery s1 = Some c" using millis_discovery [OF t2] Some by simp
    moreover obtain ns0 t0 where "c = \<lparr>dc_nodes = ns0, dc_expires_at_ms = t0\<rparr>" by (cases c) simp
    ultimately show ?thesis using store [OF I2, of _ "dc_expires_at_ms c"] I1 Some
      by (auto simp: update_node_reachability_cache_def t1 t2 update_node_reachability_def Let_def
          split: option.splits)
  qed
qed

lemma keeps_note_failure: "I s \<Longrightarrow> I (fst (note_failure E url e s))"
  by (simp add: note_failure_def Let_def invalidate_node_identity_cache_def keeps_update_reachability split: sum.splits)

lemma keeps_try_nodes: "I s \<Longrightarrow> I (fst (try_nodes E P m path payload ns errs s))"
proof (induction ns arbitrary: errs s)
  case Nil
  then show ?case by simp
next
  case (Cons n ns)
  obtain a b where errs: "errs = (a, b)" by (cases errs)
  obtain s1 r1 where r1: "call_kms_on_node E P n m path payload s = (s1, r1)" by fastforce
  have I1: "I s1" using keeps_call_kms_on_node [OF Cons.prems, of E P n m path payload] r1 by simp
  have nf: "I s2" if "note_failure E (kd_base_url n) e s1 = (s2, r2)" for e s2 r2
    using keeps_note_failure [OF I1, of "kd_base_url n" e] that by simp
  show ?case
  proof (cases r1)
    case (Inl f)
    then show ?thesis
      by (cases f) (auto simp: errs r1 I1 intro!: keeps_sbind Cons.IH keeps_note_failure)
  next
    case (Inr v)
    then show ?thesis by (auto simp: errs r1 Let_def I1 intro!: keeps_sbind keeps_update_reachability)
  qed
qed

lemma keeps_try_attempts: "I s \<Longrightarrow> I (fst (try_attempts E P m path payload ns left errs s))"
proof (induction left arbitrary: errs s)
  case 0
  then show ?case by simp
next
  case (Suc left)
  then show ?case unfolding try_attempts.simps
    by (intro keeps_sbind) (auto simp: keeps_try_nodes split: sum.splits)
qed

lemma keeps_call_kms: "I s \<Longrightarrow> I (fst (call_kms_json_internal E P m path payload s))"
proof -
  assume s: "I s"
  have "I (fst (resolve_node_candidates E P s))"
    using resolve_candidates [OF s, of "fst (resolve_node_candidates E P s)" "snd (resolve_node_candidates E P s)"] by simp
  then show ?thesis unfolding call_kms_json_internal_def
    by (intro keeps_sbind) (simp_all add: keeps_try_attempts)
qed

lemma keeps_key_operations:
  "I s \<Longrightarrow> I (fst (derive_key E P path context len s))"
  "I s \<Longrightarrow> I (fst (kv_get E P key s))"
  "I s \<Longrightarrow> I (fst (kv_put E P key v ttl s))"
  "I s \<Longrightarrow> I (fst (kv_delete E P key s))"
proof -
  assume s: "I s"
  show "I (fst (kv_get E P key s))"
    using s keeps_call_kms [OF s, of MGet "''/kms/data/'' @ kx_urlencode (ke_text E) (str_bytes key)" None]
    by (auto simp: kv_get_def split: prod.splits sum.splits api_failure.splits)
qed (simp_all add: derive_key_def kv_put_def kv_delete_def keeps_sbind keeps_call_kms)

lemma refresh_start:
  assumes "I s" "nk_discovery P = Some d" "discover_kms_nodes_from_registry E d s = (s', Inr ns)"
  shows "\<forall>n \<in> set (if ns = [] then (case ks_discovery s of Some c \<Rightarrow> dc_nodes c | None \<Rightarrow> [])
    else merge_discovered_nodes_with_previous ns (ks_discovery s) now). T n"
proof (cases "ns = []")
  case True
  then show ?thesis using cached [OF assms(1)] by (cases "ks_discovery s") auto
next
  case False
  have "\<forall>n \<in> set ns. T n" using found [OF assms(2,3)] by blast
  then show ?thesis using False T_nodes [of ns] by (metis map_node_id_merge_discovered)
qed

lemma keeps_refresh_swap:
  assumes "I u" and "\<forall>n \<in> set ms. T n"
  shows "I (fst (case current_unix_millis E u of (u', t) \<Rightarrow>
    (u'\<lparr>ks_discovery := Some \<lparr>dc_nodes = merge_refresh_with_live_cache ms (ks_discovery u') t,
       dc_expires_at_ms = saturating_add t ttl\<rparr>\<rparr>, Inr ())))"
proof -
  obtain u' t where t: "current_unix_millis E u = (u', t)" by fastforce
  have "\<forall>n \<in> set (merge_refresh_with_live_cache ms (ks_discovery u') t). T n"
    using T_nodes [OF _ assms(2)] by (metis map_node_id_merge_refresh)
  then show ?thesis using keeps_millis_eq [OF assms(1) t] by (simp add: t store)
qed

lemma keeps_refresh:
  assumes "I s"
  shows "I (fst (refresh_registry_and_node_status_once E P s))"
proof (cases "nk_discovery P")
  case None
  then show ?thesis using assms by (simp add: refresh_registry_and_node_status_once_def)
next
  case (Some d)
  obtain s1 t1 where t1: "current_unix_millis E s = (s1, t1)" by fastforce
  obtain s2 r2 where d: "discover_kms_nodes_from_registry E d s1 = (s2, r2)" by fastforce
  have I1: "I s1" using keeps_millis_eq [OF assms t1] .
  have I2: "I s2" using keeps_discover [OF I1, of E d] d by simp
  show ?thesis
  proof (cases r2)
    case (Inl f)
    then show ?thesis using I2 by (simp add: refresh_registry_and_node_status_once_def Some t1 d Let_def)
  next
    case (Inr ns)
    define start where "start = (if ns = [] then (case ks_discovery s1 of Some c \<Rightarrow> dc_nodes c | None \<Rightarrow> [])
      else merge_discovered_nodes_with_previous ns (ks_discovery s1) t1)"
    obtain u r3 where p: "probe_nodes E start s2 = (u, r3)" by fastforce
    have "I u" using keeps_probe_nodes [OF I2, of E start] p by simp
    moreover have "\<forall>n \<in> set ms. T n" if "r3 = Inr ms" for ms
      using T_nodes [of start ms] refresh_start [OF I1 Some d [unfolded Inr], of t1] probe_nodes_ids [OF p [unfolded that]]
      by (simp add: start_def)
    ultimately show ?thesis using keeps_refresh_swap
      by (cases r3) (simp_all add: refresh_registry_and_node_status_once_def Some t1 d Inr Let_def p flip: start_def)
  qed
qed

end

end
