(* ===== verification/Kms_Wallet.thy ===== *)
theory Kms_Wallet
  imports Kms_Calls
begin

text \<open>
  The app wallet (\<open>integrations/nova_kms/app_wallet.rs\<close>): a key kept in the KMS under two records,
  created on first use, checked against its own address, and cached.
\<close>

definition APP_WALLET_KV_PRIVATE_KEY :: string where "APP_WALLET_KV_PRIVATE_KEY = ''wallet/eth/app/main/private_key''"
definition APP_WALLET_KV_ADDRESS :: string where "APP_WALLET_KV_ADDRESS = ''wallet/eth/app/main/address''"
definition APP_WALLET_CACHE_TTL_MS :: u64 where "APP_WALLET_CACHE_TTL_MS = 10000"

definition local_key :: "('k, 'w) kms_env \<Rightarrow> string \<Rightarrow> (string, 'k) result" where
  "local_key E key_hex =
     map_err (\<lambda>e. ''invalid app wallet private key material in KMS: '' @ ke_key_text E e)
       (new_from_bytes (ke_eth E) key_hex)"

definition decode_app_wallet_material ::
  "('k, 'w) kms_env \<Rightarrow> string \<Rightarrow> string \<Rightarrow> (string, app_wallet_material) result" where
  "decode_app_wallet_material E private_key_b64 address_b64 =
     rbind (decode_kms_private_key_hex (ke_text E) private_key_b64) (\<lambda>key_hex.
     rbind (local_key E key_hex) (\<lambda>k.
     rbind (canonical_wallet (ke_text E) (address (ke_eth E) k)) (\<lambda>local_address.
     rbind (decode_kms_wallet_address (ke_text E) address_b64) (\<lambda>kms_address.
     rbind (bail_if (kms_address \<noteq> local_address)
       (''app wallet unavailable: KMS address '' @ kms_address @ '' does not match local address '' @ local_address)) (\<lambda>_.
     Inr \<lparr>wm_private_key_hex = key_hex, wm_address = local_address\<rparr>)))))"

definition write_app_wallet_address ::
  "('k, 'w) kms_env \<Rightarrow> nova_kms \<Rightarrow> string \<Rightarrow> 'w kms_state \<Rightarrow> ('w, unit) kms_step" where
  "write_app_wallet_address E P addr s =
     sbind (lift_res s (canonical_wallet (ke_text E) addr)) (\<lambda>s canonical.
     kv_put E P APP_WALLET_KV_ADDRESS (kx_base64 (ke_text E) (str_bytes canonical)) 0 s)"

definition write_app_wallet_record ::
  "('k, 'w) kms_env \<Rightarrow> nova_kms \<Rightarrow> string \<Rightarrow> string \<Rightarrow> 'w kms_state \<Rightarrow> ('w, unit) kms_step" where
  "write_app_wallet_record E P key_hex addr s =
     sbind (lift_res s (map_err (\<lambda>e. ''invalid app wallet private key hex: '' @ e)
       (kx_unhex (ke_text E) (trim_0x key_hex)))) (\<lambda>s private_key_bytes.
     sbind (kv_put E P APP_WALLET_KV_PRIVATE_KEY (kx_base64 (ke_text E) private_key_bytes) 0 s) (\<lambda>s _.
     write_app_wallet_address E P addr s))"

definition cache_app_wallet_material ::
  "('k, 'w) kms_env \<Rightarrow> app_wallet_material \<Rightarrow> 'w kms_state \<Rightarrow> 'w kms_state" where
  "cache_app_wallet_material E material s =
     (case current_unix_millis E s of
        (s, now) \<Rightarrow> s\<lparr>ks_wallet := Some \<lparr>cw_material = material, cw_expires_at_ms = saturating_add now APP_WALLET_CACHE_TTL_MS\<rparr>\<rparr>)"

definition cached_app_wallet_material ::
  "('k, 'w) kms_env \<Rightarrow> 'w kms_state \<Rightarrow> 'w kms_state \<times> app_wallet_material option" where
  "cached_app_wallet_material E s =
     (case current_unix_millis E s of
        (s, now_ms) \<Rightarrow>
          (case ks_wallet s of
             Some c \<Rightarrow> if now_ms < cw_expires_at_ms c then (s, Some (cw_material c)) else (s\<lparr>ks_wallet := None\<rparr>, None)
           | None \<Rightarrow> (s\<lparr>ks_wallet := None\<rparr>, None)))"

text \<open>The two records, decoded, or the error for the one that is missing.\<close>

definition material_of_records ::
  "('k, 'w) kms_env \<Rightarrow> string option \<Rightarrow> string option \<Rightarrow> (string, app_wallet_material) result" where
  "material_of_records E private_key_b64 address_b64 =
     rbind (ok_or ''KMS app wallet is incomplete: missing private key record'' private_key_b64) (\<lambda>k.
     rbind (ok_or ''KMS app wallet is incomplete: missing address record'' address_b64) (\<lambda>a.
     decode_app_wallet_material E k a))"

definition initialize_app_wallet ::
  "('k, 'w) kms_env \<Rightarrow> nova_kms \<Rightarrow> 'w kms_state \<Rightarrow> ('w, app_wallet_material) kms_step" where
  "initialize_app_wallet E P s =
     (case ke_new_key E (ks_world s) of
        (w, generated) \<Rightarrow>
          (let s = s\<lparr>ks_world := w\<rparr>; generated_hex = private_key_hex (ke_eth E) generated in
           sbind (lift_res s (canonical_wallet (ke_text E) (address (ke_eth E) generated))) (\<lambda>s generated_address.
           sbind (write_app_wallet_record E P generated_hex generated_address s) (\<lambda>s _.
           sbind (kv_get E P APP_WALLET_KV_PRIVATE_KEY s) (\<lambda>s private_key_b64.
           sbind (kv_get E P APP_WALLET_KV_ADDRESS s) (\<lambda>s address_b64.
           sbind (lift_res s (material_of_records E private_key_b64 address_b64)) (\<lambda>s material.
           if wm_private_key_hex material \<noteq> generated_hex \<or> wm_address material \<noteq> generated_address
           then (s, Inl (Failed ''app wallet unavailable: KMS app wallet material does not match local initialization''))
           else (cache_app_wallet_material E material s, Inr material))))))))"

definition resolve_app_wallet_material ::
  "('k, 'w) kms_env \<Rightarrow> nova_kms \<Rightarrow> 'w kms_state \<Rightarrow> ('w, app_wallet_material) kms_step" where
  "resolve_app_wallet_material E P s =
     (case cached_app_wallet_material E s of
        (s, Some cached) \<Rightarrow> (s, Inr cached)
      | (s, None) \<Rightarrow>
          sbind (kv_get E P APP_WALLET_KV_PRIVATE_KEY s) (\<lambda>s private_key_b64.
          sbind (kv_get E P APP_WALLET_KV_ADDRESS s) (\<lambda>s address_b64.
          if private_key_b64 = None \<and> address_b64 = None then initialize_app_wallet E P s
          else
            sbind (lift_res s (material_of_records E private_key_b64 address_b64)) (\<lambda>s material.
            (cache_app_wallet_material E material s, Inr material)))))"

definition ensure_app_wallet_authorized ::
  "('k, 'w) kms_env \<Rightarrow> nova_kms \<Rightarrow> 'w kms_state \<Rightarrow> ('w, app_authz_context) kms_step" where
  "ensure_app_wallet_authorized E P s =
     sbind (lift_res s (bail_if (\<not> nk_use_app_wallet P) ''app wallet integration is disabled'')) (\<lambda>s _.
     sbind (resolve_app_wallet_material E P s) (\<lambda>s material.
     case local_eth_address E P s of
       (s, Inl Panicked) \<Rightarrow> (s, Inl Panicked)
     | (s, r) \<Rightarrow>
         (s, Inr \<lparr>az_id = 0, az_app_wallet = wm_address material,
                  az_wallet = (case r of Inr wallet \<Rightarrow> wallet | Inl _ \<Rightarrow> wm_address material)\<rparr>)))"

definition app_wallet_key :: "('k, 'w) kms_env \<Rightarrow> nova_kms \<Rightarrow> 'w kms_state \<Rightarrow> ('w, 'k) kms_step" where
  "app_wallet_key E P s =
     sbind (lift_res s (bail_if (\<not> nk_use_app_wallet P) ''app wallet integration is disabled'')) (\<lambda>s _.
     sbind (resolve_app_wallet_material E P s) (\<lambda>s material.
     lift_res s (local_key E (wm_private_key_hex material))))"

definition app_wallet_address :: "('k, 'w) kms_env \<Rightarrow> nova_kms \<Rightarrow> 'w kms_state \<Rightarrow> ('w, string) kms_step" where
  "app_wallet_address E P s =
     sbind (lift_res s (bail_if (\<not> nk_use_app_wallet P) ''app wallet integration is disabled'')) (\<lambda>s _.
     sbind (resolve_app_wallet_material E P s) (\<lambda>s material. (s, Inr (wm_address material))))"

end
