(* ===== verification/Kms_Safety.thy ===== *)
theory Kms_Safety
  imports Kms_Frames Kms_Wallet "HOL-Library.Multiset"
begin

text \<open>
  What the Nova KMS client guarantees: answers come from nodes the registry vouches for and that
  prove it, access is granted by the registry, the app wallet is the key its address names, and the
  log does not leak secrets.
\<close>

subsection \<open>Nodes the registry vouches for\<close>

definition registered :: "('k, 'w) kms_env \<Rightarrow> registry_discovery \<Rightarrow> kms_node \<Rightarrow> bool" where
  "registered E d n \<longleftrightarrow>
     (\<exists>u u' inst. registry_get_instance_by_wallet E d (kd_wallet n) u = (u', Inr inst) \<and>
        ri_app_id inst = rd_kms_app_id d \<and> ri_status inst = 0 \<and> ri_zk_verified inst \<and>
        normalize_base_url (ke_text E) (ri_instance_url inst) = Some (kd_base_url n) \<and>
        trim_0x (ri_tee_pubkey inst) \<noteq> [] \<and> kd_tee_pubkey n = trim_0x (trim_0x (ri_tee_pubkey inst)))"

lemma registered_id: "node_id n = node_id n' \<Longrightarrow> registered E d n = registered E d n'"
  by (simp add: registered_def node_id_def)

lemma discover_nodes_sound:
  assumes "discover_nodes E d ws dedup nodes s = (s', Inr ns)"
    and "\<forall>n \<in> set nodes. registered E d n" and "distinct (map kd_base_url nodes)" and "kd_base_url ` set nodes \<subseteq> dedup"
  shows "(\<forall>n \<in> set ns. registered E d n) \<and> distinct (map kd_base_url ns)"
  using assms
proof (induction ws arbitrary: dedup nodes s)
  case Nil
  then show ?case by simp
next
  case (Cons w ws)
  from Cons.prems(1) obtain cw u inst where
    cw: "canonical_wallet (ke_text E) w = Inr cw"
    and inst: "registry_get_instance_by_wallet E d cw s = (u, Inr inst)"
    and rest: "(case eligible_url (ke_text E) d inst of
       None \<Rightarrow> discover_nodes E d ws dedup nodes u
     | Some base_url \<Rightarrow>
         if base_url \<in> dedup then discover_nodes E d ws dedup nodes u
         else
           (let tee_pubkey = trim_0x (ri_tee_pubkey inst)
            in if tee_pubkey = [] then discover_nodes E d ws (insert base_url dedup) nodes u
               else discover_nodes E d ws (insert base_url dedup)
                      (nodes @ [KmsNodeCacheEntry_new cw base_url tee_pubkey]) u)) = (s', Inr ns)"
    by (auto simp: result_elims)
  show ?case
  proof (cases "\<exists>url. eligible_url (ke_text E) d inst = Some url \<and> url \<notin> dedup \<and> trim_0x (ri_tee_pubkey inst) \<noteq> []")
    case True
    then obtain url where url: "eligible_url (ke_text E) d inst = Some url" "url \<notin> dedup" "trim_0x (ri_tee_pubkey inst) \<noteq> []"
      by blast
    define n where "n = KmsNodeCacheEntry_new cw url (trim_0x (ri_tee_pubkey inst))"
    have "registered E d n"
      using inst url unfolding registered_def n_def
      by (auto simp: KmsNodeCacheEntry_new_def eligible_url_def split: if_splits)
    moreover have "discover_nodes E d ws (insert url dedup) (nodes @ [n]) u = (s', Inr ns)"
      using rest url by (simp add: n_def Let_def)
    ultimately show ?thesis
      using Cons.prems(2-4) url(2) Cons.IH [of "insert url dedup" "nodes @ [n]" u]
      by (auto simp: n_def KmsNodeCacheEntry_new_def)
  next
    case False
    then obtain dedup' where "discover_nodes E d ws dedup' nodes u = (s', Inr ns)" "dedup \<subseteq> dedup'"
      using rest by (auto simp: Let_def split: option.splits if_splits)
    then show ?thesis using Cons.prems(2-4) Cons.IH [of dedup' nodes u] by blast
  qed
qed

lemma discover_sound:
  assumes "discover_kms_nodes_from_registry E d s = (s', Inr ns)"
  shows "(\<forall>n \<in> set ns. registered E d n) \<and> distinct (map kd_base_url ns) \<and> sorted (map kd_base_url ns)"
proof -
  obtain ws u ms where "discover_nodes E d ws {} [] u = (s', Inr ms)" and ns: "ns = sort_key kd_base_url ms"
    using assms by (auto simp: discover_kms_nodes_from_registry_def result_elims)
  then have "(\<forall>n \<in> set ms. registered E d n) \<and> distinct (map kd_base_url ms)"
    using discover_nodes_sound by fastforce
  moreover have "mset (map kd_base_url ns) = mset (map kd_base_url ms)" unfolding ns by (metis mset_map mset_sort)
  then have "distinct (map kd_base_url ns) = distinct (map kd_base_url ms)" by (rule mset_eq_imp_distinct_iff)
  ultimately show ?thesis by (simp add: ns)
qed

definition trusted_node :: "('k, 'w) kms_env \<Rightarrow> nova_kms \<Rightarrow> kms_node \<Rightarrow> bool" where
  "trusted_node E P n \<longleftrightarrow> (\<forall>d. nk_discovery P = Some d \<longrightarrow> registered E d n)"

definition trusted :: "('k, 'w) kms_env \<Rightarrow> nova_kms \<Rightarrow> 'w kms_state \<Rightarrow> bool" where
  "trusted E P s \<longleftrightarrow> (\<forall>c. ks_discovery s = Some c \<longrightarrow> (\<forall>n \<in> set (dc_nodes c). trusted_node E P n))"

interpretation trust: kms_node_cache "trusted E P" E P "trusted_node E P" for E P
proof (unfold_locales, goal_cases)
  case (3 n n')
  then show ?case by (simp add: trusted_node_def registered_id [OF 3])
next
  case (6 d s0 s' ns n)
  then show ?case using discover_sound [OF 6(2)] by (auto simp: trusted_node_def)
qed (auto simp: trusted_def)

subsection \<open>The exchange with a node\<close>

text \<open>
  An answer is authenticated by a node: the node signed, under the wallet the registry names, the
  signature the enclave had made for this call; and the answer is what the enclave's own key
  decrypts from the node's registered encryption key.
\<close>

definition node_authenticated :: "('k, 'w) kms_env \<Rightarrow> nova_kms \<Rightarrow> kms_node \<Rightarrow> json_value \<Rightarrow> bool" where
  "node_authenticated E P node v \<longleftrightarrow>
     (\<exists>wallet key.
        canonical_wallet (ke_text E) (kd_wallet node) = Inr wallet \<and>
        key = trim_0x (trim_0x (kd_tee_pubkey node)) \<and> key \<noteq> [] \<and>
        (\<exists>nonce ts u u' csig sig.
           local_sign_message E P (app_auth_message nonce wallet ts) u = (u', Inr csig) \<and>
           verify_message (ke_eth E) sig
             (eip191_personal_message_bytes (''NovaKMS:Response:'' @ csig @ '':'' @ wallet)) wallet) \<and>
        (\<exists>nonce data u u' answer text.
           capsule_api_post E P ''/v1/encryption/decrypt''
             (JObject [(''nonce'', JString nonce), (''client_public_key'', JString (''0x'' @ key)),
                       (''encrypted_data'', JString data)]) u = (u', Inr answer) \<and>
           json_str ''plaintext'' answer = Some text \<and>
           js_parse (kx_json (ke_text E)) (str_bytes text) = Inr v))"

lemma check_sender_ok: "check_sender envelope expected = Inr sender \<Longrightarrow> sender = trim_0x expected \<and> sender \<noteq> []"
  by (auto simp: check_sender_def Let_def result_elims split: if_splits)

lemma decrypt_envelope_ok:
  assumes "decrypt_envelope E P envelope expected s = (s', Inr v)"
  shows "trim_0x expected \<noteq> [] \<and> (\<exists>nonce data u u' answer text.
     capsule_api_post E P ''/v1/encryption/decrypt''
       (JObject [(''nonce'', JString nonce), (''client_public_key'', JString (''0x'' @ trim_0x expected)),
                 (''encrypted_data'', JString data)]) u = (u', Inr answer) \<and>
     json_str ''plaintext'' answer = Some text \<and> js_parse (kx_json (ke_text E)) (str_bytes text) = Inr v)"
  using assms unfolding decrypt_envelope_def
  by (auto simp only: result_elims prod.inject sum.inject dest!: check_sender_ok) blast+

lemma accept_response_ok:
  assumes "accept_response E P node csig key r s = (s', Inr v)" and "nk_require_mutual_signature P"
  shows "\<exists>wallet sig envelope u. canonical_wallet (ke_text E) (kd_wallet node) = Inr wallet \<and>
    verify_message (ke_eth E) sig
      (eip191_personal_message_bytes (''NovaKMS:Response:'' @ csig @ '':'' @ wallet)) wallet \<and>
    decrypt_envelope E P envelope key u = (s', Inr v)"
  using assms unfolding accept_response_def Let_def verify_mutual_response_signature_def
  by (simp only: if_True result_elims) (elim exE conjE, blast)

lemma call_kms_on_node_authenticated:
  assumes call: "call_kms_on_node E P node m path payload s = (s', Inr v)" and mutual: "nk_require_mutual_signature P"
  shows "node_authenticated E P node v"
proof -
  obtain ident key y nonce where key: "verify_node_identity_binding (ke_text E) node ident = Inr key"
    and rest: "(case current_unix_timestamp E y of (s, timestamp) \<Rightarrow>
          sbind (lift_res s (canonical_wallet (ke_text E) (kd_wallet node))) (\<lambda>s wallet.
          sbind (local_sign_message E P (app_auth_message nonce wallet timestamp) s) (\<lambda>s client_signature.
          sbind (local_eth_address E P s) (\<lambda>s app_wallet.
          sbind (sealed_payload E P payload key s) (\<lambda>s body.
          sbind (http_send E DefaultClient
            \<lparr>kq_method = m, kq_url = kd_base_url node @ path,
             kq_headers = [(''x-app-signature'', client_signature), (''x-app-nonce'', nonce),
                           (''x-app-timestamp'', show_nat (unat timestamp)), (''x-app-wallet'', app_wallet)] @
                          (if body = None then [] else [(''content-type'', ''application/json'')]),
             kq_json = body\<rparr> s) (\<lambda>s r.
          accept_response E P node client_signature key r s)))))) = (s', Inr v)"
    using call unfolding call_kms_on_node_def Let_def by (auto simp only: result_elims)
  obtain z ts where ts: "current_unix_timestamp E y = (z, ts)" by fastforce
  have "\<exists>w u u' csig r x. canonical_wallet (ke_text E) (kd_wallet node) = Inr w \<and>
      local_sign_message E P (app_auth_message nonce w ts) u = (u', Inr csig) \<and>
      accept_response E P node csig key r x = (s', Inr v)"
    using rest unfolding ts prod.case by (simp only: result_elims) blast
  then obtain w u u' csig r x where w: "canonical_wallet (ke_text E) (kd_wallet node) = Inr w"
    and csig: "local_sign_message E P (app_auth_message nonce w ts) u = (u', Inr csig)"
    and acc: "accept_response E P node csig key r x = (s', Inr v)" by blast
  obtain sig envelope y where "verify_message (ke_eth E) sig
        (eip191_personal_message_bytes (''NovaKMS:Response:'' @ csig @ '':'' @ w)) w"
    and dec: "decrypt_envelope E P envelope key y = (s', Inr v)"
    using accept_response_ok [OF acc mutual] w by auto
  with decrypt_envelope_ok [OF dec] verify_node_identity_binding_ok [OF key] w csig show ?thesis
    unfolding node_authenticated_def by - (rule exI [of _ w], rule exI [of _ "trim_0x key"], blast)
qed

lemma try_nodes_ok:
  assumes "try_nodes E P m path payload nodes errs s = (s', Inr (Inl v))"
  shows "\<exists>node \<in> set nodes. \<exists>u u'. call_kms_on_node E P node m path payload u = (u', Inr v)"
  using assms
proof (induction nodes arbitrary: errs s)
  case Nil
  then show ?case by simp
next
  case (Cons n ns)
  obtain a b where errs: "errs = (a, b)" by (cases errs)
  obtain s1 r1 where r1: "call_kms_on_node E P n m path payload s = (s1, r1)" by fastforce
  show ?case
  proof (cases r1)
    case (Inl f)
    then obtain errs' u where "try_nodes E P m path payload ns errs' u = (s', Inr (Inl v))"
      using Cons.prems r1 by (cases f) (auto simp: errs result_elims)
    then show ?thesis using Cons.IH by (metis list.set_intros(2))
  next
    case (Inr v')
    then have "v' = v" using Cons.prems r1 by (auto simp: errs result_elims Let_def)
    then show ?thesis using r1 Inr by auto
  qed
qed

lemma try_attempts_ok:
  assumes "try_attempts E P m path payload nodes left errs s = (s', Inr v)"
  shows "\<exists>node \<in> set nodes. \<exists>u u'. call_kms_on_node E P node m path payload u = (u', Inr v)"
  using assms
proof (induction left arbitrary: errs s)
  case 0
  then show ?case by simp
next
  case (Suc left)
  then obtain u out where out: "try_nodes E P m path payload nodes errs s = (u, Inr out)"
    and rest: "(case out of Inl v \<Rightarrow> (u, Inr v) | Inr errs' \<Rightarrow>
         try_attempts E P m path payload nodes left errs'
           (if left > 0 then u\<lparr>ks_world := ke_sleep E 150 (ks_world u)\<rparr> else u)) = (s', Inr v)"
    by (auto simp: result_elims)
  show ?case
  proof (cases out)
    case (Inl v')
    then show ?thesis using out rest try_nodes_ok by fastforce
  next
    case (Inr errs')
    then show ?thesis using rest Suc.IH by auto
  qed
qed


subsection \<open>Access granted by the registry\<close>

definition granted :: "('k, 'w) kms_env \<Rightarrow> nova_kms \<Rightarrow> registry_discovery \<Rightarrow> app_authz_context \<Rightarrow> bool" where
  "granted E P d ctx \<longleftrightarrow>
     (\<exists>u u' inst v v' app. \<exists>own own'.
        local_eth_address E P own = (own', Inr (az_wallet ctx)) \<and>
        registry_get_instance_by_wallet E d (az_wallet ctx) u = (u', Inr inst) \<and>
        ri_zk_verified inst \<and> ri_status inst = 0 \<and> ri_app_id inst = az_id ctx \<and>
        registry_get_app E d (az_id ctx) v = (v', Inr app) \<and> ra_status app = 0 \<and>
        canonical_wallet (ke_text E) (ra_app_wallet app) = Inr (az_app_wallet ctx))"

definition authz_ok :: "('k, 'w) kms_env \<Rightarrow> nova_kms \<Rightarrow> 'w kms_state \<Rightarrow> bool" where
  "authz_ok E P s \<longleftrightarrow>
     (\<forall>c. ks_authz s = Some c \<longrightarrow> (\<exists>d. nk_discovery P = Some d \<and> granted E P d (cz_context c)))"

interpretation authz: kms_node_cache "authz_ok E P" E P "\<lambda>_. True" for E P
  by unfold_locales (auto simp: authz_ok_def)

lemma millis_authz: "current_unix_millis E s = (s', t) \<Longrightarrow> ks_authz s' = ks_authz s"
  by (auto simp: current_unix_millis_def split: prod.splits)

lemma cached_authz_context_ok:
  assumes "authz_ok E P s" and "cached_authz_context E s = (s', r)"
  shows "authz_ok E P s' \<and> (\<forall>ctx. r = Some ctx \<longrightarrow> (\<exists>d. nk_discovery P = Some d \<and> granted E P d ctx))"
proof -
  obtain u t where t: "current_unix_millis E s = (u, t)" by fastforce
  have "authz_ok E P u" using authz.keeps_millis_eq [OF assms(1) t] .
  then show ?thesis using assms(2)
    by (auto simp: cached_authz_context_def t authz_ok_def split: option.splits if_splits)
qed

text \<open>The part of \<open>resolve_authz_context\<close> after a miss of the cache.\<close>

lemma resolve_authz_context_cases:
  assumes "resolve_authz_context E P s = (s', Inr ctx)"
  shows "(\<exists>u. cached_authz_context E s = (u, Some ctx) \<and> s' = u) \<or>
    (\<exists>d u t. nk_discovery P = Some d \<and> granted E P d ctx \<and>
       s' = u\<lparr>ks_authz := Some \<lparr>cz_context = ctx, cz_expires_at_ms = t\<rparr>\<rparr>)"
proof -
  obtain u r where c: "cached_authz_context E s = (u, r)" by fastforce
  show ?thesis
  proof (cases r)
    case (Some ctx')
    then show ?thesis using assms c by (auto simp: resolve_authz_context_def)
  next
    case None
    then obtain d u1 wallet u2 inst u3 app anchored u4 now where d: "nk_discovery P = Some d"
      and own: "local_eth_address E P u = (u1, Inr wallet)"
      and inst: "registry_get_instance_by_wallet E d wallet u1 = (u2, Inr inst)"
      and chk: "check_instance wallet inst = Inr ()"
      and app: "registry_get_app E d (ri_app_id inst) u2 = (u3, Inr app)" "ra_status app = 0"
        "canonical_wallet (ke_text E) (ra_app_wallet app) = Inr anchored"
      and res: "s' = u4\<lparr>ks_authz := Some \<lparr>cz_context = \<lparr>az_id = ri_app_id inst, az_app_wallet = anchored, az_wallet = wallet\<rparr>,
             cz_expires_at_ms = saturating_add now AUTHZ_CACHE_TTL_MS\<rparr>\<rparr>"
         "ctx = \<lparr>az_id = ri_app_id inst, az_app_wallet = anchored, az_wallet = wallet\<rparr>"
      using assms c by (auto simp: resolve_authz_context_def Let_def result_elims case_prod_unfold)
    have "granted E P d \<lparr>az_id = ri_app_id inst, az_app_wallet = anchored, az_wallet = wallet\<rparr>"
      using own inst chk app by (fastforce simp: granted_def check_instance_def result_elims)
    then show ?thesis using d res by auto
  qed
qed

lemma resolve_authz_context_sound:
  assumes "authz_ok E P s" and "resolve_authz_context E P s = (s', Inr ctx)"
  shows "authz_ok E P s' \<and> (\<exists>d. nk_discovery P = Some d \<and> granted E P d ctx)"
  using resolve_authz_context_cases [OF assms(2)] cached_authz_context_ok [OF assms(1)]
  by (auto simp: authz_ok_def)

text \<open>Predicates that do not look at the authorisation cache, or not at the wallet cache.\<close>

locale kms_skip_authz = kms_world +
  assumes skip_authz [simp]: "I (s\<lparr>ks_authz := a\<rparr>) \<longleftrightarrow> I s"
begin

lemma keeps_resolve_authz:
  assumes "I s"
  shows "I (fst (resolve_authz_context E P s))"
proof -
  obtain u t where t: "current_unix_millis E s = (u, t)" by fastforce
  have u: "I u" using keeps_millis_eq [OF assms t] .
  obtain v r where v: "cached_authz_context E s = (v, r)" by fastforce
  have Iv: "I v" using v u by (auto simp: cached_authz_context_def t split: option.splits if_splits)
  show ?thesis
  proof (cases r)
    case None
    show ?thesis unfolding resolve_authz_context_def v None prod.case option.case Let_def
      by (intro keeps_sbind) (auto simp: Iv keeps_local keeps_registry split: prod.splits dest: keeps_millis_eq)
  qed (use Iv v in \<open>simp add: resolve_authz_context_def\<close>)
qed

end

locale kms_skip_wallet = kms_node_cache +
  assumes skip_wallet [simp]: "I (s\<lparr>ks_wallet := a\<rparr>) \<longleftrightarrow> I s"
begin

lemma keeps_cache_wallet: "I s \<Longrightarrow> I (cache_app_wallet_material E m s)"
  using keeps_millis_eq by (auto simp: cache_app_wallet_material_def split: prod.splits)

lemma keeps_write_record: "I s \<Longrightarrow> I (fst (write_app_wallet_record E P k a s))"
  unfolding write_app_wallet_record_def write_app_wallet_address_def
  by (intro keeps_sbind) (simp_all add: keeps_key_operations)

lemma keeps_initialize: "I s \<Longrightarrow> I (fst (initialize_app_wallet E P s))"
proof -
  assume s: "I s"
  obtain w k where "ke_new_key E (ks_world s) = (w, k)" by fastforce
  then show ?thesis unfolding initialize_app_wallet_def Let_def
    by (simp only: prod.case, intro keeps_sbind)
       (simp_all add: s keeps_write_record keeps_key_operations keeps_cache_wallet)
qed

lemma keeps_resolve_wallet:
  assumes "I s"
  shows "I (fst (resolve_app_wallet_material E P s))"
proof -
  obtain u t where t: "current_unix_millis E s = (u, t)" by fastforce
  have u: "I u" using keeps_millis_eq [OF assms t] .
  obtain v r where v: "cached_app_wallet_material E s = (v, r)" by fastforce
  have Iv: "I v" using v u by (auto simp: cached_app_wallet_material_def t split: option.splits if_splits)
  show ?thesis
  proof (cases r)
    case None
    show ?thesis unfolding resolve_app_wallet_material_def v None prod.case option.case
      by (intro keeps_sbind)
         (auto simp: Iv keeps_key_operations keeps_initialize keeps_cache_wallet intro!: keeps_sbind)
  qed (use Iv v in \<open>simp add: resolve_app_wallet_material_def\<close>)
qed

end


subsection \<open>The app wallet\<close>

text \<open>The address of wallet material is the address of its key.\<close>

definition material_ok :: "('k, 'w) kms_env \<Rightarrow> app_wallet_material \<Rightarrow> bool" where
  "material_ok E m \<longleftrightarrow>
     (\<exists>k. local_key E (wm_private_key_hex m) = Inr k \<and>
          canonical_wallet (ke_text E) (address (ke_eth E) k) = Inr (wm_address m))"

definition wallet_ok :: "('k, 'w) kms_env \<Rightarrow> 'w kms_state \<Rightarrow> bool" where
  "wallet_ok E s \<longleftrightarrow> (\<forall>c. ks_wallet s = Some c \<longrightarrow> material_ok E (cw_material c))"

interpretation wallet: kms_node_cache "wallet_ok E" E P "\<lambda>_. True" for E P
  by unfold_locales (auto simp: wallet_ok_def)

lemma material_of_records_ok: "material_of_records E k a = Inr m \<Longrightarrow> material_ok E m"
  by (auto simp: material_of_records_def decode_app_wallet_material_def material_ok_def result_elims)

lemma cache_app_wallet_material_ok: "material_ok E m \<Longrightarrow> wallet_ok E (cache_app_wallet_material E m s)"
  by (simp add: cache_app_wallet_material_def wallet_ok_def split: prod.splits)

lemma resolve_app_wallet_material_cases:
  assumes "resolve_app_wallet_material E P s = (s', Inr m)"
  shows "(\<exists>u. cached_app_wallet_material E s = (u, Some m) \<and> s' = u) \<or>
    (\<exists>u k a. material_of_records E k a = Inr m \<and> s' = cache_app_wallet_material E m u)"
proof -
  obtain u r where c: "cached_app_wallet_material E s = (u, r)" by fastforce
  show ?thesis
  proof (cases r)
    case (Some m')
    then show ?thesis using assms c by (auto simp: resolve_app_wallet_material_def)
  next
    case None
    then show ?thesis using assms c
      by (auto simp: resolve_app_wallet_material_def initialize_app_wallet_def Let_def result_elims case_prod_unfold
          split: if_splits)
  qed
qed

lemma cached_app_wallet_material_ok:
  assumes "wallet_ok E s" and "cached_app_wallet_material E s = (s', r)"
  shows "wallet_ok E s' \<and> (\<forall>m. r = Some m \<longrightarrow> material_ok E m)"
proof -
  obtain u t where t: "current_unix_millis E s = (u, t)" by fastforce
  have "wallet_ok E u" using wallet.keeps_millis_eq [OF assms(1) t] .
  then show ?thesis using assms(2)
    by (auto simp: cached_app_wallet_material_def t wallet_ok_def split: option.splits if_splits)
qed

lemma resolve_app_wallet_material_sound:
  assumes "wallet_ok E s" and "resolve_app_wallet_material E P s = (s', Inr m)"
  shows "wallet_ok E s' \<and> material_ok E m"
  using resolve_app_wallet_material_cases [OF assms(2)] cached_app_wallet_material_ok [OF assms(1)]
    material_of_records_ok cache_app_wallet_material_ok by (metis option.inject)

lemma keeps_material:
  "wallet_ok E u \<Longrightarrow>
   wallet_ok E (fst (sbind (lift_res u (material_of_records E k a)) (\<lambda>s m. if Q m then (s, Inl e)
     else (cache_app_wallet_material E m s, Inr m))))"
  by (auto simp: lift_res_def map_err_def sbind_def intro!: cache_app_wallet_material_ok dest: material_of_records_ok split: sum.splits)

lemma keeps_wallet_record: "wallet_ok E s \<Longrightarrow> wallet_ok E (fst (write_app_wallet_record E P k a s))"
  unfolding write_app_wallet_record_def write_app_wallet_address_def
  by (intro wallet.keeps_sbind) (simp_all add: wallet.keeps_key_operations)

lemma keeps_wallet_initialize:
  assumes "wallet_ok E s"
  shows "wallet_ok E (fst (initialize_app_wallet E P s))"
proof -
  obtain w k where k: "ke_new_key E (ks_world s) = (w, k)" by fastforce
  show ?thesis unfolding initialize_app_wallet_def Let_def k prod.case
    by (rule wallet.keeps_sbind, simp add: assms, rule wallet.keeps_sbind, simp add: keeps_wallet_record,
        rule wallet.keeps_sbind, simp add: wallet.keeps_key_operations, rule wallet.keeps_sbind,
        simp add: wallet.keeps_key_operations, rule keeps_material)
qed

lemma keeps_wallet_ok:
  assumes "wallet_ok E s"
  shows "wallet_ok E (fst (resolve_app_wallet_material E P s))"
proof -
  obtain u r where c: "cached_app_wallet_material E s = (u, r)" by fastforce
  have u: "wallet_ok E u" using cached_app_wallet_material_ok [OF assms c] by simp
  have mat: "wallet_ok E (fst (sbind (lift_res v (material_of_records E k a)) (\<lambda>s m. (cache_app_wallet_material E m s, Inr m))))"
    if "wallet_ok E v" for v k a
    using keeps_material [OF that, of k a "\<lambda>_. False"] by simp
  show ?thesis
  proof (cases r)
    case None
    show ?thesis unfolding resolve_app_wallet_material_def c None prod.case option.case
      by (rule wallet.keeps_sbind, simp add: u wallet.keeps_key_operations, rule wallet.keeps_sbind,
          simp add: wallet.keeps_key_operations) (simp add: keeps_wallet_initialize mat)
  qed (use u c in \<open>simp add: resolve_app_wallet_material_def\<close>)
qed

subsection \<open>All states of the client\<close>

inductive kms_reach :: "('k, 'w) kms_env \<Rightarrow> nova_kms \<Rightarrow> 'w kms_state \<Rightarrow> 'w kms_state \<Rightarrow> bool"
  for E :: "('k, 'w) kms_env" and P :: nova_kms and s0 :: "'w kms_state" where
  start: "kms_reach E P s0 s0"
| elapse: "kms_reach E P s0 s \<Longrightarrow> kms_reach E P s0 (s\<lparr>ks_world := w\<rparr>)"
| background: "kms_reach E P s0 s \<Longrightarrow> kms_reach E P s0 (fst (start_background_refresh P s))"
| refresh: "kms_reach E P s0 s \<Longrightarrow> kms_reach E P s0 (fst (refresh_registry_and_node_status_once E P s))"
| derive: "kms_reach E P s0 s \<Longrightarrow> kms_reach E P s0 (fst (handle_derive E P body s))"
| get: "kms_reach E P s0 s \<Longrightarrow> kms_reach E P s0 (fst (handle_kv_get E P body s))"
| put: "kms_reach E P s0 s \<Longrightarrow> kms_reach E P s0 (fst (handle_kv_put E P body s))"
| delete: "kms_reach E P s0 s \<Longrightarrow> kms_reach E P s0 (fst (handle_kv_delete E P body s))"
| authorize: "kms_reach E P s0 s \<Longrightarrow> kms_reach E P s0 (fst (ensure_app_wallet_authorized E P s))"
| wallet_key: "kms_reach E P s0 s \<Longrightarrow> kms_reach E P s0 (fst (app_wallet_key E P s))"
| wallet_address: "kms_reach E P s0 s \<Longrightarrow> kms_reach E P s0 (fst (app_wallet_address E P s))"

text \<open>
  A predicate that survives node discovery, authorisation and wallet look-up survives everything the
  client does.
\<close>

locale kms_invariant = kms_node_cache +
  assumes authz_step: "I s \<Longrightarrow> I (fst (resolve_authz_context E P s))"
    and wallet_step: "I s \<Longrightarrow> I (fst (resolve_app_wallet_material E P s))"
    and flag [simp]: "I (s\<lparr>ks_refresh_started := b\<rparr>) \<longleftrightarrow> I s"
begin

lemma keeps_authorized:
  assumes "I s" and "\<And>q s. I s \<Longrightarrow> I (fst (k q s))"
  shows "I (fst (authorized E P req k s))"
proof (cases req)
  case (Inr q)
  obtain u r where r: "ensure_kms_access_authorized E P s = (u, r)" by fastforce
  have "I u" using authz_step [OF assms(1)] r by (simp add: ensure_kms_access_authorized_def)
  then show ?thesis using assms(2) by (simp add: authorized_def Inr r split: sum.splits api_failure.splits)
qed (use assms in \<open>simp add: authorized_def\<close>)

lemma keeps_responding: "I (fst r) \<Longrightarrow> I (fst (responding f r))"
  by (cases r) (simp add: responding_def split: sum.splits api_failure.splits)

lemma keeps_handlers:
  "I s \<Longrightarrow> I (fst (handle_derive E P body s))"
  "I s \<Longrightarrow> I (fst (handle_kv_get E P body s))"
  "I s \<Longrightarrow> I (fst (handle_kv_put E P body s))"
  "I s \<Longrightarrow> I (fst (handle_kv_delete E P body s))"
  unfolding handle_derive_def handle_kv_get_def handle_kv_put_def handle_kv_delete_def
  by (auto intro!: keeps_authorized keeps_responding keeps_key_operations)

lemma keeps_wallet_api:
  assumes "I s"
  shows "I (fst (ensure_app_wallet_authorized E P s))" "I (fst (app_wallet_key E P s))"
    "I (fst (app_wallet_address E P s))"
proof -
  have addr: "I u'" if "I u" "local_eth_address E P u = (u', r)" for u u' r
    using keeps_local(1) [OF that(1), of E P] that(2) by simp
  show "I (fst (ensure_app_wallet_authorized E P s))"
    unfolding ensure_app_wallet_authorized_def
    by (intro keeps_sbind) (auto simp: assms wallet_step dest: addr split: prod.splits sum.splits api_failure.splits)
  show "I (fst (app_wallet_key E P s))" "I (fst (app_wallet_address E P s))"
    unfolding app_wallet_key_def app_wallet_address_def by (intro keeps_sbind; simp add: assms wallet_step)+
qed

lemma reach_keeps: "kms_reach E P s0 s \<Longrightarrow> I s0 \<Longrightarrow> I s"
  by (induction rule: kms_reach.induct)
     (simp_all add: keeps_refresh keeps_handlers keeps_wallet_api start_background_refresh_def)

end

interpretation trust_authz: kms_skip_authz "trusted E P" for E P
  by unfold_locales (simp add: trusted_def)

interpretation trust_wallet: kms_skip_wallet "trusted E P" E P "trusted_node E P" for E P
  by unfold_locales (simp add: trusted_def)

interpretation trust: kms_invariant "trusted E P" E P "trusted_node E P" for E P
  by unfold_locales (simp_all add: trust_authz.keeps_resolve_authz trust_wallet.keeps_resolve_wallet, simp add: trusted_def)

interpretation authz_wallet: kms_skip_wallet "authz_ok E P" E P "\<lambda>_. True" for E P
  by unfold_locales (simp add: authz_ok_def)

interpretation wallet_authz: kms_skip_authz "wallet_ok E" for E
  by unfold_locales (simp add: wallet_ok_def)

interpretation wallet: kms_invariant "wallet_ok E" E P "\<lambda>_. True" for E P
  by unfold_locales (simp_all add: wallet_authz.keeps_resolve_authz keeps_wallet_ok, simp add: wallet_ok_def)


lemma keeps_authz_ok:
  assumes "authz_ok E P s"
  shows "authz_ok E P (fst (resolve_authz_context E P s))"
proof -
  obtain u r where c: "cached_authz_context E s = (u, r)" by fastforce
  have u: "authz_ok E P u" using cached_authz_context_ok [OF assms c] by simp
  show ?thesis
  proof (cases r)
    case None
    show ?thesis unfolding resolve_authz_context_def c None prod.case option.case Let_def
    proof (intro authz.keeps_sbind_eq, goal_cases)
      case (7 v1 d v2 wallet v3 inst v4 _ v5 app v6 anchored)
      then have "nk_discovery P = Some d \<and> granted E P d \<lparr>az_id = ri_app_id inst, az_app_wallet = anchored, az_wallet = wallet\<rparr>"
        by (fastforce simp: granted_def check_instance_def result_elims)
      then show ?case by (auto simp: authz_ok_def split: prod.splits)
    qed (simp_all add: u authz.keeps_local authz.keeps_registry)
  qed (use u c in \<open>simp add: resolve_authz_context_def\<close>)
qed

interpretation authz: kms_invariant "authz_ok E P" E P "\<lambda>_. True" for E P
  by unfold_locales (simp_all add: keeps_authz_ok authz_wallet.keeps_resolve_wallet, simp add: authz_ok_def)


subsection \<open>The log\<close>

text \<open>Replacing the values of the sensitive fields at every depth.\<close>

fun scrub :: "(string \<Rightarrow> json_value \<Rightarrow> json_value) \<Rightarrow> json_value \<Rightarrow> json_value" where
  "scrub f (JObject m) = JObject (map (\<lambda>(k, v). if is_sensitive_log_field k then (k, f k v) else (k, scrub f v)) m)"
| "scrub f (JArray vs) = JArray (map (scrub f) vs)"
| "scrub f v = v"

lemma redact_scrub:
  assumes "\<And>k v. approx_len J (f k v) = approx_len J v"
  shows "redact_json_for_log J (scrub f v) = redact_json_for_log J v"
  using assms by (induction f v rule: scrub.induct) auto

text \<open>
  The request that has a payload encrypted carries it in a field that is not redacted: what is put
  under a key appears in the log line of that request.
\<close>

lemma plaintext_not_redacted:
  "redact_json_for_log J (JObject [(''plaintext'', JString t), (''client_public_key'', JString k)]) =
     JObject [(''plaintext'', JString t), (''client_public_key'', JString k)]"
proof -
  have "\<not> is_sensitive_log_field ''plaintext''" "\<not> is_sensitive_log_field ''client_public_key''" by code_simp+
  then show ?thesis by simp
qed

subsection \<open>Registry answers of the declared type\<close>

fun has_type :: "abi_token \<Rightarrow> abi_type \<Rightarrow> bool" where
  "has_type (TUint v) (AUint n) \<longleftrightarrow> v < 2 ^ n"
| "has_type (TBool v) ABool \<longleftrightarrow> True"
| "has_type (TString v) AString \<longleftrightarrow> True"
| "has_type (TAddress v) AAddress \<longleftrightarrow> length v = 20"
| "has_type (TBytes v) ABytes \<longleftrightarrow> True"
| "has_type (TFixedBytes v) (AFixedBytes n) \<longleftrightarrow> length v = n"
| "has_type (TArray vs) (AArray t) \<longleftrightarrow> (\<forall>v \<in> set vs. has_type v t)"
| "has_type (TTuple vs) (ATuple ts) \<longleftrightarrow> list_all2 has_type vs ts"
| "has_type _ _ \<longleftrightarrow> False"


text \<open>A tuple of the declared type has every field where the code looks for it.\<close>

lemma instance_tuple:
  assumes "list_all2 has_type tokens (af_outputs registry_fn_get_instance_by_wallet)"
  obtains a b c d e f g h i j where
    "tokens = [TTuple [TUint a, TUint b, TUint c, TAddress d, TString e, TBytes f, TAddress g, TBool h, TUint i, TUint j]]"
    "i < 256" "length d = 20"
  using assms
  by (auto simp: registry_fn_get_instance_by_wallet_def list_all2_Cons2 elim!: has_type.elims(2))

lemma app_tuple:
  assumes "list_all2 has_type tokens (af_outputs registry_fn_get_app)"
  obtains a b c d e f g h i where
    "tokens = [TTuple [TUint a, TAddress b, TFixedBytes c, TAddress d, TString e, TUint f, TUint g, TUint h, TAddress i]]"
    "h < 256" "length i = 20"
  using assms by (auto simp: registry_fn_get_app_def list_all2_Cons2 elim!: has_type.elims(2))


subsection \<open>Main results\<close>

lemma authorized_has_context:
  assumes "authorized E P req k s = (s', Inr r)" and "rs_status r = 200"
  shows "\<exists>u ctx. resolve_authz_context E P s = (u, Inr ctx)"
proof -
  have bad: "rs_status (resp_bad_request e) \<noteq> 200" "rs_status (authz_error_response e) \<noteq> 200" for e
    by (simp_all add: resp_bad_request_def plain_response_def authz_error_response_def retry_later_def)
  show ?thesis using assms bad
    by (auto simp: authorized_def ensure_kms_access_authorized_def split: sum.splits prod.splits api_failure.splits)
qed

lemma NovaKmsProxy_new_ok:
  assumes "NovaKmsProxy_new X clients config endpoint w = Inr (P, s0)"
  shows "nk_require_mutual_signature P" "trusted E P s0" "authz_ok E P s0" "wallet_ok E s0"
  using assms by (auto simp: NovaKmsProxy_new_def DEFAULT_KMS_REQUIRE_MUTUAL_SIGNATURE_def trusted_def authz_ok_def
      wallet_ok_def result_elims)

text \<open>
  C12. A key operation only ever returns what a genuine KMS node said: in every state the client can reach
  from its start, an answer of \<open>call_kms_json_internal\<close> comes from a node the registry has named as an
  active, verified instance of the KMS application with that wallet, URL and encryption key; the
  node has signed the enclave's own proof of possession under that wallet, and the answer is what
  was decrypted with that key as the sender.
\<close>

theorem kms_answers_authenticated:
  assumes init: "NovaKmsProxy_new X clients config endpoint w = Inr (P, s0)" and reach: "kms_reach E P s0 s"
    and call: "call_kms_json_internal E P m path payload s = (s', Inr v)"
  shows "\<exists>d node. nk_discovery P = Some d \<and> registered E d node \<and> node_authenticated E P node v"
proof -
  have "trusted E P s" using trust.reach_keeps [OF reach] NovaKmsProxy_new_ok(2) [OF init] by blast
  obtain u nodes u' where nodes: "resolve_node_candidates E P s = (u, Inr nodes)"
    and att: "try_attempts E P m path payload nodes (nk_max_retries P) (None, None) u' = (s', Inr v)"
    using call by (auto simp: call_kms_json_internal_def result_elims)
  obtain d where d: "nk_discovery P = Some d"
    using nodes by (auto simp: resolve_node_candidates_def resolve_discovered_nodes_def result_elims)
  obtain node x x' where "node \<in> set nodes" and c: "call_kms_on_node E P node m path payload x = (x', Inr v)"
    using try_attempts_ok [OF att] by blast
  moreover have "\<forall>n \<in> set nodes. trusted_node E P n"
    using trust.resolve_candidates [OF \<open>trusted E P s\<close> nodes] by blast
  ultimately have "registered E d node" using d by (auto simp: trusted_node_def)
  with d call_kms_on_node_authenticated [OF c NovaKmsProxy_new_ok(1) [OF init]] show ?thesis by blast
qed

text \<open>
  C17. The KMS routes work only for an instance the registry admits: a successful response of any of the
  four handlers rests on the resolved context, in which the wallet is the address the enclave's own API
  gave, the registry reported the instance of this wallet as verified and active, its application as
  active, and the application's wallet.
\<close>

theorem kms_handlers_authorized:
  assumes init: "NovaKmsProxy_new X clients config endpoint w = Inr (P, s0)" and reach: "kms_reach E P s0 s"
    and handled: "handle_derive E P body s = (s', Inr r) \<or> handle_kv_get E P body s = (s', Inr r) \<or>
      handle_kv_put E P body s = (s', Inr r) \<or> handle_kv_delete E P body s = (s', Inr r)"
    and ok: "rs_status r = 200"
  shows "\<exists>d u ctx. nk_discovery P = Some d \<and> resolve_authz_context E P s = (u, Inr ctx) \<and> granted E P d ctx"
proof -
  have authz: "authz_ok E P s" using authz.reach_keeps [OF reach] NovaKmsProxy_new_ok(3) [OF init] by blast
  have "\<exists>u ctx. resolve_authz_context E P s = (u, Inr ctx)"
    using handled
    by (elim disjE; unfold handle_derive_def handle_kv_get_def handle_kv_put_def handle_kv_delete_def)
       (erule authorized_has_context [OF _ ok])+
  then obtain u ctx where ctx: "resolve_authz_context E P s = (u, Inr ctx)" by blast
  from resolve_authz_context_sound [OF authz ctx] ctx show ?thesis by blast
qed

text \<open>
  C18. The address that the app wallet reports and the key it signs with belong together: after the address
  has been reported, the key that is handed out while the cached record is valid has that address.
\<close>

theorem app_wallet_key_has_address:
  assumes init: "NovaKmsProxy_new X clients config endpoint w = Inr (P, s0)" and reach: "kms_reach E P s0 s"
    and addr: "app_wallet_address E P s = (s1, Inr a)" and key: "app_wallet_key E P s1 = (s2, Inr k)"
    and valid: "\<And>c. ks_wallet s1 = Some c \<Longrightarrow> snd (current_unix_millis E s1) < cw_expires_at_ms c"
  shows "canonical_wallet (ke_text E) (address (ke_eth E) k) = Inr a"
proof -
  have w: "wallet_ok E s" using wallet.reach_keeps [OF reach] NovaKmsProxy_new_ok(4) [OF init] by blast
  obtain m where m: "resolve_app_wallet_material E P s = (s1, Inr m)" and a: "a = wm_address m"
    using addr by (auto simp: app_wallet_address_def result_elims)
  have mok: "material_ok E m" using resolve_app_wallet_material_sound [OF w m] by blast
  have "\<exists>c. ks_wallet s1 = Some c \<and> cw_material c = m"
    using resolve_app_wallet_material_cases [OF m]
    by (auto simp: cached_app_wallet_material_def cache_app_wallet_material_def current_unix_millis_def
        split: prod.splits option.splits if_splits)
  then obtain c where c: "ks_wallet s1 = Some c" "cw_material c = m" by blast
  have "\<exists>u. cached_app_wallet_material E s1 = (u, Some m)"
    using c valid [OF c(1)]
    by (auto simp: cached_app_wallet_material_def current_unix_millis_def split: prod.splits option.splits)
  then have "local_key E (wm_private_key_hex m) = Inr k"
    using key by (auto simp: app_wallet_key_def resolve_app_wallet_material_def result_elims)
  then show ?thesis using mok a by (simp add: material_ok_def)
qed

text \<open>
  The previews that are logged do not depend on secrets: replacing the values of all sensitive fields,
  at any depth, by others of the same length leaves the preview as it was.
\<close>

lemma preview_hides_secrets:
  assumes "\<And>k v. approx_len J (f k v) = approx_len J v"
  shows "preview_json_for_log J (scrub f v) = preview_json_for_log J v"
  unfolding preview_json_for_log_def redact_scrub [OF assms] ..

lemma max_u64: "unat (- 1 :: u64) = 2 ^ 64 - 1"
  by (simp add: unsigned_minus_1_eq_mask mask_eq_exp_minus_1)

lemma app_answers_read:
  assumes "list_all2 has_type tokens (af_outputs registry_fn_get_app)"
  shows "\<exists>app. app_of X B tokens = Inr app"
proof -
  obtain a b c d e f g h i where
    "tokens = [TTuple [TUint a, TAddress b, TFixedBytes c, TAddress d, TString e, TUint f, TUint g, TUint h, TAddress i]]"
    "h < 256" using app_tuple [OF assms] by metis
  then show ?thesis
    by (simp add: app_of_def extract_single_tuple_def GET_APP_TUPLE_MIN_LEN_def GET_APP_STATUS_IDX_def
        GET_APP_APP_WALLET_IDX_def token_to_u64_def token_to_address_def max_u64)
qed

lemmas instance_indices = GET_INSTANCE_BY_WALLET_TUPLE_MIN_LEN_def GET_INSTANCE_BY_WALLET_APP_ID_IDX_def
  GET_INSTANCE_BY_WALLET_INSTANCE_URL_IDX_def GET_INSTANCE_BY_WALLET_TEE_PUBKEY_IDX_def
  GET_INSTANCE_BY_WALLET_ZK_VERIFIED_IDX_def GET_INSTANCE_BY_WALLET_STATUS_IDX_def

text \<open>
  The registry's answers are read where the contract puts them: every answer of the declared type
  gives an instance with the application id, URL, key, verification flag and status of the declared
  fields, unless the application id exceeds 64 bits, which is reported.
\<close>

lemma registry_answers_read:
  assumes "list_all2 has_type tokens (af_outputs registry_fn_get_instance_by_wallet)"
  shows "\<exists>i app_id v op url key t zk status r.
    tokens = [TTuple [TUint i, TUint app_id, TUint v, TAddress op, TString url, TBytes key, TAddress t, TBool zk,
                      TUint status, TUint r]] \<and>
    instance_of X B tokens =
      (if app_id < 2 ^ 64
       then Inr \<lparr>ri_app_id = of_nat app_id, ri_instance_url = url, ri_tee_pubkey = kx_hex X key,
                 ri_zk_verified = zk, ri_status = of_nat status\<rparr>
       else Inl ''getInstanceByWallet.appId exceeds u64'')"
proof -
  obtain a b c d e f g h i j where t: "tokens = [TTuple [TUint a, TUint b, TUint c, TAddress d, TString e, TBytes f,
      TAddress g, TBool h, TUint i, TUint j]]" and i: "i < 256"
    using instance_tuple [OF assms] by metis
  have "instance_of X B tokens =
      (if b < 2 ^ 64
       then Inr \<lparr>ri_app_id = of_nat b, ri_instance_url = e, ri_tee_pubkey = kx_hex X f,
                 ri_zk_verified = h, ri_status = of_nat i\<rparr>
       else Inl ''getInstanceByWallet.appId exceeds u64'')"
    unfolding t using i
    by (simp add: instance_of_def extract_single_tuple_def instance_indices token_to_u64_def token_to_string_def
        token_to_bytes_def token_to_bool_def max_u64)
  with t show ?thesis by blast
qed

end
