(* ===== verification/S3_Proxy.thy ===== *)
theory S3_Proxy
  imports Kms_Safety
begin

text \<open>
  The S3 storage proxy (\<open>integrations/s3.rs\<close>): keys below the application's prefix, encryption with
  keys derived by the KMS, and the four request handlers.  The S3 client, the nonce generator and the
  cipher are functions; the state is that of the attached KMS client, whose world holds the store.
\<close>

subsection \<open>Data\<close>

definition META_ENC_SCHEME :: string where "META_ENC_SCHEME = ''capsule-api-enc''"
definition META_NONCE :: string where "META_NONCE = ''capsule-api-nonce''"
definition META_KEY_VERSION :: string where "META_KEY_VERSION = ''capsule-api-key-version''"
definition META_AAD_MODE :: string where "META_AAD_MODE = ''capsule-api-aad-mode''"
definition META_CONTENT_TYPE :: string where "META_CONTENT_TYPE = ''capsule-api-content-type''"
definition ENC_SCHEME_KMS_V1 :: string where "ENC_SCHEME_KMS_V1 = ''kms-v1''"

text \<open>What a \<open>get_object\<close> returns; reading the body may fail.\<close>

record s3_object =
  so_content_type :: "string option"
  so_metadata :: "(string \<rightharpoonup> string) option"
  so_body :: "(string, bytes) result"

datatype s3_error = NoSuchKey | S3Error string

record s3_listing =
  sl_keys :: "string option list"
  sl_token :: "string option"
  sl_truncated :: "bool option"

record s3_list_query =
  lq_prefix :: string
  lq_token :: "string option"
  lq_max_keys :: "int option"

record 'w s3_client =
  sc_get :: "string \<Rightarrow> string \<Rightarrow> 'w \<Rightarrow> 'w \<times> (s3_error, s3_object) result"
  sc_put :: "string \<Rightarrow> string \<Rightarrow> bytes \<Rightarrow> string option \<Rightarrow> (string \<times> string) list \<Rightarrow> 'w \<Rightarrow> 'w \<times> (string, unit) result"
  sc_delete :: "string \<Rightarrow> string \<Rightarrow> 'w \<Rightarrow> 'w \<times> (string, unit) result"
  sc_list :: "string \<Rightarrow> s3_list_query \<Rightarrow> 'w \<Rightarrow> 'w \<times> (string, s3_listing) result"

record s3_put_request =
  pr_key :: string
  pr_value :: string
  pr_content_type :: "string option"

record s3_list_request =
  lr_prefix :: "string option"
  lr_token :: "string option"
  lr_max_keys :: "u64 option"

text \<open>The cipher and generator crates, and the request types read by serde.\<close>

record 'w s3_env =
  se_new_cipher :: "bytes \<Rightarrow> (string, unit) result"
  se_seal :: "bytes \<Rightarrow> bytes \<Rightarrow> bytes \<Rightarrow> bytes \<Rightarrow> (string, bytes) result"
  se_open :: "bytes \<Rightarrow> bytes \<Rightarrow> bytes \<Rightarrow> bytes \<Rightarrow> (string, bytes) result"
  se_nonce :: "'w \<Rightarrow> 'w \<times> bytes"
  se_error_text :: "s3_error \<Rightarrow> string"
  se_get_request :: "bytes \<Rightarrow> (string, string) result"
  se_put_request :: "bytes \<Rightarrow> (string, s3_put_request) result"
  se_delete_request :: "bytes \<Rightarrow> (string, string) result"
  se_list_request :: "bytes \<Rightarrow> (string, s3_list_request) result"

record 'w s3_proxy =
  sx_client :: "'w s3_client"
  sx_bucket :: string
  sx_prefix :: string
  sx_encryption :: "s3_encryption_config option"
  sx_nova_kms :: "nova_kms option"

subsection \<open>Construction and keys\<close>

definition S3Proxy_new ::
  "'w s3_client \<Rightarrow> string \<Rightarrow> string \<Rightarrow> s3_encryption_config option \<Rightarrow> 'w s3_proxy" where
  "S3Proxy_new client bucket pfx encryption =
     \<lparr>sx_client = client, sx_bucket = bucket,
      sx_prefix = (if pfx \<noteq> [] \<and> \<not> ends_with pfx ''/'' then pfx @ ''/'' else pfx),
      sx_encryption = encryption, sx_nova_kms = None\<rparr>"

definition attach_nova_kms :: "nova_kms \<Rightarrow> 'w s3_proxy \<Rightarrow> 'w s3_proxy" where
  "attach_nova_kms kms S = S\<lparr>sx_nova_kms := Some kms\<rparr>"

definition build_key :: "'w s3_proxy \<Rightarrow> string \<Rightarrow> (string, string) result" where
  "build_key S key =
     (if contains_str key ''..'' \<or> starts_with key ''/''
      then Inl ''Invalid key: path traversal or absolute path not allowed''
      else Inr (sx_prefix S @ key))"

definition kms_encryption_enabled :: "'w s3_proxy \<Rightarrow> bool" where
  "kms_encryption_enabled S \<longleftrightarrow> map_option s3e_mode (sx_encryption S) = Some Kms"

definition accept_plaintext :: "'w s3_proxy \<Rightarrow> bool" where
  "accept_plaintext S = unwrap_or True (map_option s3e_accept_plaintext (sx_encryption S))"

definition current_nova_kms :: "'w s3_proxy \<Rightarrow> (string, nova_kms) result" where
  "current_nova_kms S =
     ok_or ''S3 KMS encryption is enabled, but KMS integration is not configured'' (sx_nova_kms S)"

definition key_version :: "'w s3_proxy \<Rightarrow> string" where
  "key_version S = unwrap_or ''v1'' (map_option s3e_key_version (sx_encryption S))"

definition aad_mode :: "'w s3_proxy \<Rightarrow> s3_aad_mode" where
  "aad_mode S = unwrap_or AadKey (map_option s3e_aad_mode (sx_encryption S))"

fun aad_mode_label :: "s3_aad_mode \<Rightarrow> string" where
  "aad_mode_label AadNone = ''none''"
| "aad_mode_label AadKey = ''key''"
| "aad_mode_label AadKeyAndVersion = ''key+version''"

fun build_aad :: "string \<Rightarrow> string \<Rightarrow> s3_aad_mode \<Rightarrow> bytes" where
  "build_aad key version AadNone = []"
| "build_aad key version AadKey = str_bytes key"
| "build_aad key version AadKeyAndVersion = str_bytes (version @ '':'' @ key)"

definition dek_path :: "string \<Rightarrow> string \<Rightarrow> string" where
  "dek_path key version = ''s3/'' @ version @ ''/'' @ key"

subsection \<open>Encryption\<close>

text \<open>The data key of an object, and the cipher set up with it.\<close>

definition object_key ::
  "('k, 'w) kms_env \<Rightarrow> 'w s3_env \<Rightarrow> 'w s3_proxy \<Rightarrow> string \<Rightarrow> string \<Rightarrow> 'w kms_state \<Rightarrow> ('w, bytes) kms_step" where
  "object_key E X S key version s =
     sbind (lift_res s (current_nova_kms S)) (\<lambda>s kms.
     sbind (derive_key E kms (dek_path key version) [] 32 s) (\<lambda>s dek.
     sbind (lift_res s (bail_if (length dek \<noteq> 32)
       (''KMS returned invalid DEK length '' @ show_nat (length dek) @ '', expected 32''))) (\<lambda>s _.
     sbind (lift_res s (map_err (\<lambda>e. ''Failed to build AES-256-GCM cipher: '' @ e) (se_new_cipher X dek))) (\<lambda>s _.
     (s, Inr dek)))))"

definition encrypt_for_s3 ::
  "('k, 'w) kms_env \<Rightarrow> 'w s3_env \<Rightarrow> 'w s3_proxy \<Rightarrow> string \<Rightarrow> bytes \<Rightarrow> 'w kms_state
     \<Rightarrow> ('w, bytes \<times> string \<times> string \<times> string) kms_step" where
  "encrypt_for_s3 E X S key plaintext s =
     (let version = key_version S; mode = aad_mode S; aad = build_aad key version mode in
      sbind (object_key E X S key version s) (\<lambda>s dek.
      case se_nonce X (ks_world s) of
        (w, nonce) \<Rightarrow>
          sbind (lift_res (s\<lparr>ks_world := w\<rparr>) (map_err (\<lambda>e. ''S3 encrypt failed: '' @ e) (se_seal X dek nonce plaintext aad)))
            (\<lambda>s ciphertext. (s, Inr (ciphertext, kx_hex (ke_text E) nonce, version, aad_mode_label mode)))))"

definition aad_mode_of :: "'w s3_proxy \<Rightarrow> string option \<Rightarrow> s3_aad_mode" where
  "aad_mode_of S label =
     (if label = Some ''none'' then AadNone
      else if label = Some ''key'' then AadKey
      else if label = Some ''key+version'' then AadKeyAndVersion
      else aad_mode S)"

definition nonce_of :: "text_ops \<Rightarrow> (string \<rightharpoonup> string) \<Rightarrow> (string, bytes) result" where
  "nonce_of T metadata =
     rbind (ok_or ''encrypted object metadata missing nonce'' (metadata META_NONCE)) (\<lambda>nonce_hex.
     rbind (map_err (\<lambda>e. ''invalid nonce metadata '' @ [CHR 0x27] @ nonce_hex @ [CHR 0x27] @ '': '' @ e)
       (kx_unhex T nonce_hex)) (\<lambda>nonce.
     rbind (bail_if (length nonce \<noteq> 12) (''invalid nonce size '' @ show_nat (length nonce) @ '', expected 12'')) (\<lambda>_.
     Inr nonce)))"

definition decrypt_if_needed ::
  "('k, 'w) kms_env \<Rightarrow> 'w s3_env \<Rightarrow> 'w s3_proxy \<Rightarrow> string \<Rightarrow> bytes \<Rightarrow> (string \<rightharpoonup> string) \<Rightarrow> 'w kms_state
     \<Rightarrow> ('w, bytes) kms_step" where
  "decrypt_if_needed E X S key content metadata s =
     (if unwrap_or [] (metadata META_ENC_SCHEME) \<noteq> ENC_SCHEME_KMS_V1 then
        (if kms_encryption_enabled S \<and> \<not> accept_plaintext S
         then (s, Inl (Failed ''plaintext object is not accepted when kms encryption is enforced''))
         else (s, Inr content))
      else
        sbind (lift_res s (nonce_of (ke_text E) metadata)) (\<lambda>s nonce.
        let version = unwrap_or (key_version S) (metadata META_KEY_VERSION);
            aad = build_aad key version (aad_mode_of S (metadata META_AAD_MODE)) in
        sbind (object_key E X S key version s) (\<lambda>s dek.
        lift_res s (map_err (\<lambda>e. ''S3 decrypt failed: '' @ e) (se_open X dek nonce content aad)))))"

subsection \<open>Requests\<close>

text \<open>The metadata of an encrypted object, in the order it is added.\<close>

definition encryption_metadata :: "string \<Rightarrow> string \<Rightarrow> string \<Rightarrow> string option \<Rightarrow> (string \<times> string) list" where
  "encryption_metadata nonce_hex version mode content_type =
     [(META_ENC_SCHEME, ENC_SCHEME_KMS_V1), (META_NONCE, nonce_hex), (META_KEY_VERSION, version), (META_AAD_MODE, mode)] @
     (case content_type of Some ct \<Rightarrow> [(META_CONTENT_TYPE, ct)] | None \<Rightarrow> [])"

definition put_object_internal ::
  "('k, 'w) kms_env \<Rightarrow> 'w s3_env \<Rightarrow> 'w s3_proxy \<Rightarrow> string \<Rightarrow> bytes \<Rightarrow> string option \<Rightarrow> 'w kms_state \<Rightarrow> ('w, unit) kms_step" where
  "put_object_internal E X S key data content_type s =
     sbind (lift_res s (build_key S key)) (\<lambda>s full_key.
     sbind (if kms_encryption_enabled S then
              sbind (encrypt_for_s3 E X S key data s) (\<lambda>s (ciphertext, nonce_hex, version, mode).
              (s, Inr (ciphertext, encryption_metadata nonce_hex version mode content_type)))
            else (s, Inr (data, []))) (\<lambda>s (data, metadata).
     case sc_put (sx_client S) (sx_bucket S) full_key data content_type metadata (ks_world s) of
       (w, r) \<Rightarrow> lift_res (s\<lparr>ks_world := w\<rparr>) r))"

definition put_raw ::
  "('k, 'w) kms_env \<Rightarrow> 'w s3_env \<Rightarrow> 'w s3_proxy \<Rightarrow> string \<Rightarrow> bytes \<Rightarrow> string option \<Rightarrow> 'w kms_state \<Rightarrow> ('w, unit) kms_step" where
  "put_raw E X S key value content_type s = put_object_internal E X S key value content_type s"

definition s3_get_response :: "text_ops \<Rightarrow> bytes \<Rightarrow> string option \<Rightarrow> http_response" where
  "s3_get_response T plaintext content_type =
     ok_json (kx_json T) (JObject ((''value'', JString (kx_base64 T plaintext)) #
       (case content_type of Some ct \<Rightarrow> [(''content_type'', JString ct)] | None \<Rightarrow> [])))"

definition s3_handle_get ::
  "('k, 'w) kms_env \<Rightarrow> 'w s3_env \<Rightarrow> 'w s3_proxy \<Rightarrow> bytes \<Rightarrow> 'w kms_state \<Rightarrow> ('w, http_response) kms_step" where
  "s3_handle_get E X S body s =
     sbind (lift_res s (se_get_request X body)) (\<lambda>s key.
     sbind (lift_res s (build_key S key)) (\<lambda>s full_key.
     case sc_get (sx_client S) (sx_bucket S) full_key (ks_world s) of
       (w, r) \<Rightarrow>
         (let s = s\<lparr>ks_world := w\<rparr> in
          case r of
            Inr output \<Rightarrow>
              (let metadata = unwrap_or Map.empty (so_metadata output) in
               sbind (lift_res s (so_body output)) (\<lambda>s ciphertext.
               sbind (decrypt_if_needed E X S key ciphertext metadata s) (\<lambda>s plaintext.
               (s, Inr (s3_get_response (ke_text E) plaintext
                  (case so_content_type output of Some ct \<Rightarrow> Some ct | None \<Rightarrow> metadata META_CONTENT_TYPE))))))
          | Inl NoSuchKey \<Rightarrow> (s, Inr resp_not_found)
          | Inl err \<Rightarrow> (s, Inr (resp_bad_request (''S3 error: '' @ se_error_text X err))))))"

definition s3_success :: "text_ops \<Rightarrow> http_response" where
  "s3_success T = ok_json (kx_json T) (JObject [(''success'', JBool True)])"

definition s3_handle_put ::
  "('k, 'w) kms_env \<Rightarrow> 'w s3_env \<Rightarrow> 'w s3_proxy \<Rightarrow> bytes \<Rightarrow> 'w kms_state \<Rightarrow> ('w, http_response) kms_step" where
  "s3_handle_put E X S body s =
     sbind (lift_res s (se_put_request X body)) (\<lambda>s req.
     sbind (lift_res s (map_err (\<lambda>e. ''Invalid base64 value: '' @ e) (kx_unbase64 (ke_text E) (pr_value req)))) (\<lambda>s value.
     case put_object_internal E X S (pr_key req) value (pr_content_type req) s of
       (s, Inr _) \<Rightarrow> (s, Inr (s3_success (ke_text E)))
     | (s, Inl (Failed err)) \<Rightarrow> (s, Inr (resp_bad_request (''S3 error: '' @ err)))
     | (s, Inl Panicked) \<Rightarrow> (s, Inl Panicked)))"

definition s3_handle_delete ::
  "('k, 'w) kms_env \<Rightarrow> 'w s3_env \<Rightarrow> 'w s3_proxy \<Rightarrow> bytes \<Rightarrow> 'w kms_state \<Rightarrow> ('w, http_response) kms_step" where
  "s3_handle_delete E X S body s =
     sbind (lift_res s (se_delete_request X body)) (\<lambda>s key.
     sbind (lift_res s (build_key S key)) (\<lambda>s full_key.
     case sc_delete (sx_client S) (sx_bucket S) full_key (ks_world s) of
       (w, Inr _) \<Rightarrow> (s\<lparr>ks_world := w\<rparr>, Inr (s3_success (ke_text E)))
     | (w, Inl err) \<Rightarrow> (s\<lparr>ks_world := w\<rparr>, Inr (resp_bad_request (''S3 error: '' @ err)))))"

text \<open>Casting \<open>usize\<close> to \<open>i32\<close> keeps the low 32 bits.\<close>

definition s3_list_query_of :: "string \<Rightarrow> s3_list_request \<Rightarrow> s3_list_query" where
  "s3_list_query_of full_prefix req =
     \<lparr>lq_prefix = full_prefix, lq_token = lr_token req,
      lq_max_keys = map_option (\<lambda>n. signed_take_bit 31 (uint n)) (lr_max_keys req)\<rparr>"

definition listed_keys :: "string \<Rightarrow> string option list \<Rightarrow> string list" where
  "listed_keys p keys = List.map_filter (\<lambda>k. Option.bind k (strip_prefix p)) keys"

definition s3_handle_list ::
  "('k, 'w) kms_env \<Rightarrow> 'w s3_env \<Rightarrow> 'w s3_proxy \<Rightarrow> bytes \<Rightarrow> 'w kms_state \<Rightarrow> ('w, http_response) kms_step" where
  "s3_handle_list E X S body s =
     sbind (lift_res s (se_list_request X body)) (\<lambda>s req.
     sbind (lift_res s (build_key S (unwrap_or [] (lr_prefix req)))) (\<lambda>s full_prefix.
     case sc_list (sx_client S) (sx_bucket S) (s3_list_query_of full_prefix req) (ks_world s) of
       (w, Inr output) \<Rightarrow>
         (s\<lparr>ks_world := w\<rparr>, Inr (ok_json (kx_json (ke_text E)) (JObject
            [(''keys'', JArray (map JString (listed_keys (sx_prefix S) (sl_keys output)))),
             (''continuation_token'', (case sl_token output of Some t \<Rightarrow> JString t | None \<Rightarrow> JNull)),
             (''is_truncated'', JBool (unwrap_or False (sl_truncated output)))])))
     | (w, Inl err) \<Rightarrow> (s\<lparr>ks_world := w\<rparr>, Inr (resp_bad_request (''S3 error: '' @ err)))))"

end
