(* ===== verification/Eth_Tx.thy ===== *)
theory Eth_Tx
  imports Rust_Std
begin

text \<open>
  EIP-1559 transactions (\<open>eth_tx.rs\<close>).  Byte arrays of fixed size are byte lists; that they have
  their size is the well-formedness predicate \<open>tx_ok\<close>.  The RLP library is an argument: a view of
  encoded data with its accessors, and the encoding of an item tree, with \<open>represents\<close> saying that
  the accessors of a view show a given tree.  Hexadecimal decoding is an argument.
\<close>

definition EIP1559_TX_TYPE :: u8 where
  "EIP1559_TX_TYPE = 0x02"

record access_list_entry =
  al_address :: bytes
  al_storage_keys :: "bytes list"

record unsigned_tx =
  tx_chain_id :: bytes
  tx_nonce :: bytes
  tx_max_priority_fee :: bytes
  tx_max_fee :: bytes
  tx_gas_limit :: bytes
  tx_to :: "bytes option"
  tx_value :: bytes
  tx_data :: bytes
  tx_access_list :: "access_list_entry list"

record tx_signature =
  sg_y_parity :: u8
  sg_r :: bytes
  sg_s :: bytes

datatype tx_error =
    EmptyPayload
  | WrongType u8
  | BodyNotList
  | FieldCount nat
  | RlpError
  | WrongLength nat nat
  | AccessListNotList
  | AccessEntryShape
  | StorageKeysNotList
  | BadParity u8
  | BadHex
  | AddressLength nat
  | StorageKeyLength nat
  | ChainIdZero

subsection \<open>The RLP library\<close>

datatype rlp_item = RStr bytes | RList "rlp_item list"

record 'v rlp_ops =
  rp_new :: "bytes \<Rightarrow> 'v"
  rp_is_list :: "'v \<Rightarrow> bool"
  rp_item_count :: "'v \<Rightarrow> nat option"
  rp_at :: "'v \<Rightarrow> nat \<Rightarrow> 'v option"
  rp_bytes :: "'v \<Rightarrow> bytes option"
  rp_out :: "rlp_item \<Rightarrow> bytes"

definition val_at :: "'v rlp_ops \<Rightarrow> 'v \<Rightarrow> nat \<Rightarrow> (tx_error, bytes) result" where
  "val_at R v i = ok_or RlpError (Option.bind (rp_at R v i) (rp_bytes R))"

definition view_at :: "'v rlp_ops \<Rightarrow> 'v \<Rightarrow> nat \<Rightarrow> (tx_error, 'v) result" where
  "view_at R v i = ok_or RlpError (rp_at R v i)"

definition item_count :: "'v rlp_ops \<Rightarrow> 'v \<Rightarrow> (tx_error, nat) result" where
  "item_count R v = ok_or RlpError (rp_item_count R v)"

subsection \<open>Scalars and hexadecimal input\<close>

fun position :: "('a \<Rightarrow> bool) \<Rightarrow> 'a list \<Rightarrow> nat option" where
  "position P [] = None"
| "position P (x # xs) = (if P x then Some 0 else map_option Suc (position P xs))"

definition trim_scalar :: "bytes \<Rightarrow> bytes" where
  "trim_scalar bs =
     (if list_all (\<lambda>b. b = 0) bs then []
      else (case position (\<lambda>b. b \<noteq> 0) bs of Some idx \<Rightarrow> drop idx bs | None \<Rightarrow> []))"

definition parse_hex_bytes :: "(string \<Rightarrow> bytes option) \<Rightarrow> string \<Rightarrow> (tx_error, bytes) result" where
  "parse_hex_bytes hexd input =
     (let trimmed = trim input; t = unwrap_or trimmed (strip_prefix ''0x'' trimmed)
      in if t = [] then Inr []
         else if length t mod 2 \<noteq> 0 then ok_or BadHex (hexd (''0'' @ t))
         else ok_or BadHex (hexd t))"

definition parse_scalar_hex :: "(string \<Rightarrow> bytes option) \<Rightarrow> string \<Rightarrow> (tx_error, bytes) result" where
  "parse_scalar_hex hexd input = rbind (parse_hex_bytes hexd input) (\<lambda>bs. Inr (trim_scalar bs))"

definition parse_data_hex :: "(string \<Rightarrow> bytes option) \<Rightarrow> string \<Rightarrow> (tx_error, bytes) result" where
  "parse_data_hex hexd input = parse_hex_bytes hexd input"

definition to_fixed_array :: "nat \<Rightarrow> bytes \<Rightarrow> (tx_error, bytes) result" where
  "to_fixed_array n bs = (if length bs \<noteq> n then Inl (WrongLength n (length bs)) else Inr bs)"

definition parse_address_hex :: "(string \<Rightarrow> bytes option) \<Rightarrow> string \<Rightarrow> (tx_error, bytes) result" where
  "parse_address_hex hexd input =
     rbind (parse_hex_bytes hexd input) (\<lambda>bs.
     rbind (bail_if (length bs \<noteq> 20) (AddressLength (length bs))) (\<lambda>_.
     to_fixed_array 20 bs))"

definition parse_storage_key_hex :: "(string \<Rightarrow> bytes option) \<Rightarrow> string \<Rightarrow> (tx_error, bytes) result" where
  "parse_storage_key_hex hexd input =
     rbind (parse_hex_bytes hexd input) (\<lambda>bs.
     rbind (bail_if (length bs \<noteq> 32) (StorageKeyLength (length bs))) (\<lambda>_.
     to_fixed_array 32 bs))"

text \<open>\<open>TxSignature::from_recoverable_bytes\<close> on the 65 bytes of a recoverable signature.\<close>

definition from_recoverable_bytes :: "bytes \<Rightarrow> (tx_error, tx_signature) result" where
  "from_recoverable_bytes sig =
     (let y_parity = sig ! 64
      in if y_parity > 1 then Inl (BadParity y_parity)
         else Inr \<lparr>sg_y_parity = y_parity, sg_r = trim_scalar (take 32 sig),
                   sg_s = trim_scalar (take 32 (drop 32 sig))\<rparr>)"

subsection \<open>Decoding\<close>

definition parse_access_entry :: "'v rlp_ops \<Rightarrow> 'v \<Rightarrow> (tx_error, access_list_entry) result" where
  "parse_access_entry R entry =
     rbind (if \<not> rp_is_list R entry then Inl AccessEntryShape
            else rbind (item_count R entry) (\<lambda>n. bail_if (n \<noteq> 2) AccessEntryShape)) (\<lambda>_.
     rbind (val_at R entry 0) (\<lambda>address_bytes.
     rbind (to_fixed_array 20 address_bytes) (\<lambda>address.
     rbind (view_at R entry 1) (\<lambda>keys.
     rbind (bail_if (\<not> rp_is_list R keys) StorageKeysNotList) (\<lambda>_.
     rbind (item_count R keys) (\<lambda>n.
     rbind (collect_results (\<lambda>i. rbind (val_at R keys i) (to_fixed_array 32)) [0..<n]) (\<lambda>storage_keys.
     Inr \<lparr>al_address = address, al_storage_keys = storage_keys\<rparr>)))))))"

definition parse_access_list :: "'v rlp_ops \<Rightarrow> 'v \<Rightarrow> (tx_error, access_list_entry list) result" where
  "parse_access_list R v =
     rbind (bail_if (\<not> rp_is_list R v) AccessListNotList) (\<lambda>_.
     rbind (item_count R v) (\<lambda>n.
     collect_results (\<lambda>i. rbind (view_at R v i) (parse_access_entry R)) [0..<n]))"

definition from_raw_payload :: "'v rlp_ops \<Rightarrow> bytes \<Rightarrow> (tx_error, unsigned_tx) result" where
  "from_raw_payload R raw =
     (case raw of
        [] \<Rightarrow> Inl EmptyPayload
      | b # body \<Rightarrow>
          rbind (bail_if (b \<noteq> EIP1559_TX_TYPE) (WrongType b)) (\<lambda>_.
          let rlp = rp_new R body in
          rbind (bail_if (\<not> rp_is_list R rlp) BodyNotList) (\<lambda>_.
          rbind (item_count R rlp) (\<lambda>fields.
          rbind (bail_if (fields \<noteq> 9) (FieldCount fields)) (\<lambda>_.
          rbind (val_at R rlp 5) (\<lambda>to_bytes.
          rbind (if to_bytes = [] then Inr None
                 else rbind (to_fixed_array 20 to_bytes) (\<lambda>a. Inr (Some a))) (\<lambda>to_addr.
          rbind (rbind (view_at R rlp 8) (parse_access_list R)) (\<lambda>access_list.
          rbind (val_at R rlp 0) (\<lambda>chain_id.
          rbind (val_at R rlp 1) (\<lambda>nonce.
          rbind (val_at R rlp 2) (\<lambda>max_priority_fee.
          rbind (val_at R rlp 3) (\<lambda>max_fee.
          rbind (val_at R rlp 4) (\<lambda>gas_limit.
          rbind (val_at R rlp 6) (\<lambda>val.
          rbind (val_at R rlp 7) (\<lambda>data.
          Inr \<lparr>tx_chain_id = chain_id, tx_nonce = nonce, tx_max_priority_fee = max_priority_fee,
               tx_max_fee = max_fee, tx_gas_limit = gas_limit, tx_to = to_addr, tx_value = val,
               tx_data = data, tx_access_list = access_list\<rparr>)))))))))))))))"

subsection \<open>Encoding\<close>

definition access_entry_item :: "access_list_entry \<Rightarrow> rlp_item" where
  "access_entry_item e = RList [RStr (al_address e), RList (map RStr (al_storage_keys e))]"

definition base_fields :: "unsigned_tx \<Rightarrow> rlp_item list" where
  "base_fields tx =
     [RStr (tx_chain_id tx), RStr (tx_nonce tx), RStr (tx_max_priority_fee tx), RStr (tx_max_fee tx),
      RStr (tx_gas_limit tx), RStr (case tx_to tx of Some a \<Rightarrow> a | None \<Rightarrow> []), RStr (tx_value tx),
      RStr (tx_data tx), RList (map access_entry_item (tx_access_list tx))]"

definition prepend_type_prefix :: "bytes \<Rightarrow> bytes" where
  "prepend_type_prefix payload = EIP1559_TX_TYPE # payload"

definition signing_payload :: "'v rlp_ops \<Rightarrow> unsigned_tx \<Rightarrow> bytes" where
  "signing_payload R tx = prepend_type_prefix (rp_out R (RList (base_fields tx)))"

text \<open>A \<open>u8\<close> is encoded as a scalar: zero is the empty string.\<close>

definition u8_item :: "u8 \<Rightarrow> rlp_item" where
  "u8_item b = RStr (if b = 0 then [] else [b])"

definition finalize :: "'v rlp_ops \<Rightarrow> unsigned_tx \<Rightarrow> tx_signature \<Rightarrow> bytes" where
  "finalize R tx sg =
     prepend_type_prefix (rp_out R (RList (base_fields tx @
       [u8_item (sg_y_parity sg), RStr (sg_r sg), RStr (sg_s sg)])))"

subsection \<open>Well-formed transactions\<close>

definition entry_ok :: "access_list_entry \<Rightarrow> bool" where
  "entry_ok e \<longleftrightarrow> length (al_address e) = 20 \<and> (\<forall>k \<in> set (al_storage_keys e). length k = 32)"

definition tx_ok :: "unsigned_tx \<Rightarrow> bool" where
  "tx_ok tx \<longleftrightarrow> (\<forall>a. tx_to tx = Some a \<longrightarrow> length a = 20) \<and> (\<forall>e \<in> set (tx_access_list tx). entry_ok e)"

function represents :: "'v rlp_ops \<Rightarrow> 'v \<Rightarrow> rlp_item \<Rightarrow> bool" where
  "represents R v (RStr b) \<longleftrightarrow> rp_bytes R v = Some b"
| "represents R v (RList ts) \<longleftrightarrow>
     rp_is_list R v \<and> rp_item_count R v = Some (length ts) \<and>
     (\<forall>i < length ts. \<exists>w. rp_at R v i = Some w \<and> represents R w (ts ! i))"
  by pat_completeness auto
termination
  by (relation "measure (\<lambda>(R, v, t). size t)") (auto simp: less_Suc_eq_le intro!: size_list_estimation' [OF nth_mem])

lemma represents_view:
  assumes "represents R v (RList ts)" and "i < length ts"
  obtains w where "rp_at R v i = Some w" "represents R w (ts ! i)"
  using assms by auto

lemma represents_val:
  "represents R v (RList ts) \<Longrightarrow> i < length ts \<Longrightarrow> ts ! i = RStr b \<Longrightarrow> val_at R v i = Inr b"
  by (fastforce simp: val_at_def)

lemma collect_results_map:
  "(\<And>x. x \<in> set xs \<Longrightarrow> f x = Inr (g x)) \<Longrightarrow> collect_results f xs = Inr (map g xs)"
  by (induction xs) auto

lemma collect_results_nth:
  assumes "\<And>i. i < n \<Longrightarrow> f i = Inr (xs ! i)" and "length xs = n"
  shows "collect_results f [0..<n] = Inr xs"
  using collect_results_map [of "[0..<n]" f "\<lambda>i. xs ! i"] assms map_nth [of xs] by auto

lemma collect_results_all:
  assumes "collect_results f xs = Inr ys" and "\<And>x y. f x = Inr y \<Longrightarrow> P y"
  shows "\<forall>y \<in> set ys. P y"
  using assms by (induction xs arbitrary: ys) (auto simp: result_elims)

lemma to_fixed_array_ok [simp]: "length bs = n \<Longrightarrow> to_fixed_array n bs = Inr bs"
  by (simp add: to_fixed_array_def)

lemma parse_access_entry_item:
  assumes rep: "represents R v (access_entry_item e)" and ok: "entry_ok e"
  shows "parse_access_entry R v = Inr e"
proof -
  let ?ts = "[RStr (al_address e), RList (map RStr (al_storage_keys e))]"
  have v: "represents R v (RList ?ts)" using rep by (simp add: access_entry_item_def)
  obtain w where w: "rp_at R v 1 = Some w" "represents R w (RList (map RStr (al_storage_keys e)))"
    using represents_view [OF v, of 1] by auto
  have keys: "collect_results (\<lambda>i. rbind (val_at R w i) (to_fixed_array 32)) [0..<length (al_storage_keys e)] =
      Inr (al_storage_keys e)"
    using ok by (intro collect_results_nth) (simp_all add: represents_val [OF w(2)] entry_ok_def)
  have "val_at R v 0 = Inr (al_address e)" using represents_val [OF v, of 0] by simp
  then show ?thesis
    using v w keys ok by (simp add: parse_access_entry_def item_count_def view_at_def entry_ok_def)
qed

lemma parse_access_list_items:
  assumes rep: "represents R v (RList (map access_entry_item es))" and ok: "\<forall>e \<in> set es. entry_ok e"
  shows "parse_access_list R v = Inr es"
proof -
  have "rbind (view_at R v i) (parse_access_entry R) = Inr (es ! i)" if i: "i < length es" for i
  proof -
    obtain w where w: "rp_at R v i = Some w" "represents R w (access_entry_item (es ! i))"
      using represents_view [OF rep, of i] i by (metis length_map nth_map)
    moreover have "entry_ok (es ! i)" using ok i by simp
    ultimately show ?thesis using parse_access_entry_item by (simp add: view_at_def)
  qed
  then have "collect_results (\<lambda>i. rbind (view_at R v i) (parse_access_entry R)) [0..<length es] = Inr es"
    by (intro collect_results_nth) simp_all
  moreover have "rp_is_list R v" "rp_item_count R v = Some (length es)" using rep by simp_all
  ultimately show ?thesis by (simp add: parse_access_list_def item_count_def)
qed

lemma to_fixed_array_length: "to_fixed_array n bs = Inr a \<Longrightarrow> length a = n"
  by (auto simp: to_fixed_array_def split: if_splits)

lemma parse_access_entry_ok: "parse_access_entry R v = Inr e \<Longrightarrow> entry_ok e"
  unfolding parse_access_entry_def entry_ok_def
  by (auto simp only: result_elims Inr_inject access_list_entry.select_convs
      dest!: to_fixed_array_length collect_results_all [where P = "\<lambda>k. length k = 32"])

lemma parse_access_list_ok: "parse_access_list R v = Inr es \<Longrightarrow> \<forall>e \<in> set es. entry_ok e"
  unfolding parse_access_list_def
  by (auto simp only: result_elims dest!: collect_results_all [where P = entry_ok] parse_access_entry_ok)


subsection \<open>Scalars\<close>

definition be_value :: "bytes \<Rightarrow> nat" where
  "be_value bs = foldl (\<lambda>n b. 256 * n + unat b) 0 bs"

lemma trim_scalar_dropWhile: "trim_scalar bs = dropWhile (\<lambda>b. b = 0) bs"
proof -
  have "case_option [] (\<lambda>idx. drop idx bs) (position (\<lambda>b. b \<noteq> 0) bs) = dropWhile (\<lambda>b. b = 0) bs"
    for bs :: bytes
    by (induction bs) (auto split: option.splits)
  moreover have "list_all (\<lambda>b. b = 0) bs \<Longrightarrow> dropWhile (\<lambda>b. b = 0) bs = []" by (induction bs) auto
  ultimately show ?thesis unfolding trim_scalar_def by (metis (no_types, lifting))
qed

lemma be_value_dropWhile: "be_value (dropWhile (\<lambda>b. b = 0) bs) = be_value bs"
  by (induction bs) (auto simp: be_value_def)

lemma hd_dropWhile_nonzero: "dropWhile (\<lambda>b. b = 0) bs \<noteq> [] \<Longrightarrow> hd (dropWhile (\<lambda>b. b = 0) bs) \<noteq> 0"
  by (induction bs) auto

subsection \<open>Main results\<close>

text \<open>
  C14. Encoding and decoding a transaction are inverse: the payload that is signed decodes to the very
  transaction, whenever its addresses and storage keys have their fixed sizes and the RLP library
  reads back the item tree it wrote.
\<close>

theorem signing_payload_roundtrip:
  assumes ok: "tx_ok tx"
    and rlp: "represents R (rp_new R (rp_out R (RList (base_fields tx)))) (RList (base_fields tx))"
  shows "from_raw_payload R (signing_payload R tx) = Inr tx"
proof -
  let ?v = "rp_new R (rp_out R (RList (base_fields tx)))"
  have len: "length (base_fields tx) = 9" by (simp add: base_fields_def)
  have shape: "rp_is_list R ?v" "rp_item_count R ?v = Some 9" using rlp len by simp_all
  note val = represents_val [OF rlp, unfolded len]
  have fields: "val_at R ?v 0 = Inr (tx_chain_id tx)" "val_at R ?v 1 = Inr (tx_nonce tx)"
    "val_at R ?v 2 = Inr (tx_max_priority_fee tx)" "val_at R ?v 3 = Inr (tx_max_fee tx)"
    "val_at R ?v 4 = Inr (tx_gas_limit tx)" "val_at R ?v 6 = Inr (tx_value tx)" "val_at R ?v 7 = Inr (tx_data tx)"
    "val_at R ?v 5 = Inr (case tx_to tx of Some a \<Rightarrow> a | None \<Rightarrow> [])"
    by (rule val; simp add: base_fields_def)+
  obtain w where w: "rp_at R ?v 8 = Some w" "represents R w (base_fields tx ! 8)"
    using represents_view [OF rlp, unfolded len, of 8] by auto
  have "represents R w (RList (map access_entry_item (tx_access_list tx)))"
    using w(2) by (simp add: base_fields_def)
  then have al: "parse_access_list R w = Inr (tx_access_list tx)"
    using ok by (intro parse_access_list_items) (simp_all add: tx_ok_def)
  have to_addr: "rbind (if (case tx_to tx of Some a \<Rightarrow> a | None \<Rightarrow> []) = [] then Inr None
      else rbind (to_fixed_array 20 (case tx_to tx of Some a \<Rightarrow> a | None \<Rightarrow> [])) (\<lambda>a. Inr (Some a))) k = k (tx_to tx)" for k
    using ok by (cases "tx_to tx") (auto simp: tx_ok_def)
  show ?thesis
    by (simp add: from_raw_payload_def signing_payload_def prepend_type_prefix_def Let_def shape
        item_count_def fields fields(2) [unfolded One_nat_def] to_addr view_at_def w al)
qed

definition plain_tx :: unsigned_tx where
  "plain_tx = \<lparr>tx_chain_id = [1], tx_nonce = [42], tx_max_priority_fee = [3], tx_max_fee = [4],
     tx_gas_limit = [5], tx_to = None, tx_value = [], tx_data = [6], tx_access_list = []\<rparr>"

text \<open>A library that knows one tree, for the witnesses.\<close>

definition tree_rlp :: "rlp_item \<Rightarrow> rlp_item rlp_ops" where
  "tree_rlp t = \<lparr>rp_new = (\<lambda>_. t), rp_is_list = (\<lambda>v. case v of RList _ \<Rightarrow> True | _ \<Rightarrow> False),
     rp_item_count = (\<lambda>v. case v of RList ts \<Rightarrow> Some (length ts) | _ \<Rightarrow> None),
     rp_at = (\<lambda>v i. case v of RList ts \<Rightarrow> if i < length ts then Some (ts ! i) else None | _ \<Rightarrow> None),
     rp_bytes = (\<lambda>v. case v of RStr b \<Rightarrow> Some b | _ \<Rightarrow> None), rp_out = (\<lambda>_. [7])\<rparr>"

lemma tree_rlp_represents: "represents (tree_rlp t) u u"
  by (induction "tree_rlp t" u u rule: represents.induct) (simp_all add: tree_rlp_def)

theorem signing_payload_roundtrip_witness:
  "from_raw_payload (tree_rlp (RList (base_fields plain_tx)))
     (signing_payload (tree_rlp (RList (base_fields plain_tx))) plain_tx) = Inr plain_tx"
proof (rule signing_payload_roundtrip)
  show "tx_ok plain_tx" by (simp add: tx_ok_def plain_tx_def)
  show "represents (tree_rlp (RList (base_fields plain_tx)))
      (rp_new (tree_rlp (RList (base_fields plain_tx)))
        (rp_out (tree_rlp (RList (base_fields plain_tx))) (RList (base_fields plain_tx))))
      (RList (base_fields plain_tx))"
    using tree_rlp_represents [of "RList (base_fields plain_tx)" "RList (base_fields plain_tx)"]
    by (simp add: tree_rlp_def del: represents.simps)
qed

text \<open>
  C24. A decoded transaction is well formed whatever the bytes were: it carries the type byte of
  EIP-1559, its recipient, if any, is a 20-byte address, and every access list entry has a 20-byte
  address and 32-byte keys.
\<close>

theorem from_raw_payload_typed:
  assumes "from_raw_payload R raw = Inr tx"
  shows "tx_ok tx \<and> (\<exists>body. raw = EIP1559_TX_TYPE # body)"
proof -
  obtain body where raw: "raw = EIP1559_TX_TYPE # body"
    using assms by (cases raw) (auto simp: from_raw_payload_def bail_if_def split: if_splits)
  have "\<exists>tb v. (if tb = [] then Inr None else rbind (to_fixed_array 20 tb) (\<lambda>a. Inr (Some a))) = Inr (tx_to tx) \<and>
      parse_access_list R v = Inr (tx_access_list tx)"
    using assms unfolding raw from_raw_payload_def list.case Let_def
    by (simp only: result_elims sum.inject) (elim exE conjE, hypsubst, simp (no_asm) only: unsigned_tx.select_convs, intro exI conjI)
  then obtain tb v where to_addr: "(if tb = [] then Inr None
        else rbind (to_fixed_array 20 tb) (\<lambda>a. Inr (Some a))) = Inr (tx_to tx)"
    and al: "parse_access_list R v = Inr (tx_access_list tx)" by blast
  have "\<forall>a. tx_to tx = Some a \<longrightarrow> length a = 20"
    using to_addr by (auto simp: result_elims dest: to_fixed_array_length split: if_splits)
  then show ?thesis using parse_access_list_ok [OF al] raw by (simp add: tx_ok_def)
qed

theorem from_raw_payload_typed_witness:
  "from_raw_payload (tree_rlp (RList (base_fields plain_tx))) [2, 7] = Inr plain_tx \<and> tx_ok plain_tx"
proof -
  have "from_raw_payload (tree_rlp (RList (base_fields plain_tx))) [2, 7] = Inr plain_tx"
    by (simp add: from_raw_payload_def tree_rlp_def val_at_def view_at_def item_count_def base_fields_def
        plain_tx_def EIP1559_TX_TYPE_def Let_def parse_access_list_def)
  from this from_raw_payload_typed [OF this] show ?thesis by simp
qed

end
