(* ===== verification/Capsule_Api.thy ===== *)
theory Capsule_Api
  imports Eth_Tx Enclave_Keys Http_Util
begin

text \<open>
  The Capsule API (\<open>capsule_api.rs\<close>): key set-up, every request handler and the dispatch.  The only
  state that changes is the cache of seen nonces, which the handlers thread through.  Cryptography,
  RLP and JSON are the argument records of the theories below; the S3 proxy and the KMS proxy are
  the handlers they provide.  An error that \<open>?\<close> passes on is \<open>Failed\<close>, a panic \<open>Panicked\<close>.
\<close>

definition MAX_EMPTY_RANDOM_CHUNKS :: nat where "MAX_EMPTY_RANDOM_CHUNKS = 128"
definition MAX_API_REQUEST_BODY_BYTES :: nat where "MAX_API_REQUEST_BODY_BYTES = 10 * 1024 * 1024"
definition NONCE_REPLAY_CACHE_CAPACITY :: nat where "NONCE_REPLAY_CACHE_CAPACITY = 4096"
definition AES_GCM_NONCE_LEN :: nat where "AES_GCM_NONCE_LEN = 12"
definition LEGACY_AES_GCM_NONCE_LEN :: nat where "LEGACY_AES_GCM_NONCE_LEN = 32"

subsection \<open>The nonce replay cache\<close>

record nonce_replay_cache =
  nc_capacity :: nat
  nc_order :: "bytes list"
  nc_seen :: "bytes set"

definition NonceReplayCache_new :: "nat \<Rightarrow> nonce_replay_cache" where
  "NonceReplayCache_new capacity = \<lparr>nc_capacity = capacity, nc_order = [], nc_seen = {}\<rparr>"

text \<open>The loop that drops the oldest entries; the queue is kept from oldest to newest.\<close>

function evict :: "nat \<Rightarrow> bytes list \<Rightarrow> bytes set \<Rightarrow> bytes list \<times> bytes set" where
  "evict capacity order seen =
     (if length order > capacity then
        (case order of
           [] \<Rightarrow> evict capacity order seen
         | oldest # rest \<Rightarrow> evict capacity rest (seen - {oldest}))
      else (order, seen))"
  by pat_completeness auto
termination by (relation "measure (\<lambda>(c, order, seen). length order)") auto

declare evict.simps [simp del]

definition insert_if_new :: "nonce_replay_cache \<Rightarrow> bytes \<Rightarrow> nonce_replay_cache \<times> bool" where
  "insert_if_new c fingerprint =
     (if fingerprint \<in> nc_seen c then (c, False)
      else (let (order, seen) = evict (nc_capacity c) (nc_order c @ [fingerprint])
                                  (insert fingerprint (nc_seen c))
            in (c\<lparr>nc_order := order, nc_seen := seen\<rparr>, True)))"

subsection \<open>Random bytes\<close>

text \<open>
  \<open>collect_random_bytes_from_source\<close>: \<open>src i\<close> is the answer to the \<open>i\<close>-th call of the source.  The
  loop ends because every call either fails, adds a byte, or counts towards the bound on empty
  answers.
\<close>

function collect_random ::
  "(nat \<Rightarrow> (string, bytes) result) \<Rightarrow> nat \<Rightarrow> nat \<Rightarrow> nat \<Rightarrow> bytes \<Rightarrow> (string, bytes) result" where
  "collect_random src len i empties buf =
     (if length buf < len then
        (case src i of
           Inl e \<Rightarrow> Inl e
         | Inr chunk \<Rightarrow>
             if chunk = [] then
               (if empties + 1 \<ge> MAX_EMPTY_RANDOM_CHUNKS
                then Inl (''NSM RNG returned empty output '' @ show_nat MAX_EMPTY_RANDOM_CHUNKS @
                          '' times while collecting '' @ show_nat len @ '' bytes'')
                else collect_random src len (i + 1) (empties + 1) buf)
             else
               (let remaining = len - length buf
                in if length chunk \<ge> remaining
                   then collect_random src len (i + 1) 0 (buf @ take remaining chunk)
                   else collect_random src len (i + 1) 0 (buf @ chunk)))
      else Inr buf)"
  by pat_completeness auto
termination
proof (relation "measures [\<lambda>(src, len, i, e, buf). len - length buf, \<lambda>(src, len, i, e, buf). MAX_EMPTY_RANDOM_CHUNKS - e]",
    goal_cases)
  case (2 src len i e buf chunk)
  then show ?case by (simp add: MAX_EMPTY_RANDOM_CHUNKS_def)
next
  case (3 src len i e buf chunk r)
  then show ?case by (cases chunk) auto
next
  case (4 src len i e buf chunk r)
  then show ?case by (cases chunk) auto
qed simp

declare collect_random.simps [simp del]

definition collect_random_bytes :: "(nat \<Rightarrow> (string, bytes) result) \<Rightarrow> nat \<Rightarrow> (string, bytes) result" where
  "collect_random_bytes src len = collect_random src len 0 0 []"

subsection \<open>The handler and what it uses\<close>

record wallet_authz =
  az_app_id :: u64
  az_instance_wallet :: string

datatype s3_route = S3Get | S3Put | S3Delete | S3List
datatype kms_route = KmsDerive | KmsKvGet | KmsKvPut | KmsKvDelete

record 'k kms_proxy =
  kp_handle :: "kms_route \<Rightarrow> bytes \<Rightarrow> (api_failure, http_response) result"
  kp_app_wallet_enabled :: bool
  kp_authorize :: "(string, wallet_authz) result"
  kp_wallet_address :: "(string, string) result"
  kp_wallet_address_timed :: "(string, string) result option"
  kp_wallet_key :: "(string, 'k) result"

record ('k, 'sk, 'pk) capsule_api =
  ca_attester :: "attestation_params \<Rightarrow> (string, bytes) result"
  ca_eth_key :: 'k
  ca_encryption_key :: "('sk, 'pk) encryption_key"
  ca_nsm :: "(nat \<Rightarrow> (string, bytes) result) option"
  ca_s3 :: "(s3_route \<Rightarrow> bytes \<Rightarrow> (api_failure, http_response) result) option"
  ca_kms :: "'k kms_proxy option"

record eth_sign_request =
  sr_message :: string
  sr_include_attestation :: bool

record access_list_input =
  ai_address :: string
  ai_storage_keys :: "string list"

record structured_tx =
  sx_chain_id :: string
  sx_nonce :: string
  sx_max_priority_fee :: string
  sx_max_fee :: string
  sx_gas_limit :: string
  sx_to :: "string option"
  sx_value :: string
  sx_data :: string
  sx_access_list :: "access_list_input list"

datatype tx_payload = Structured structured_tx | RawRlp string

record eth_sign_tx_request =
  st_include_attestation :: bool
  st_payload :: tx_payload

record decrypt_request =
  dr_nonce :: string
  dr_client_public_key :: string
  dr_encrypted_data :: string

record encrypt_request =
  er_plaintext :: string
  er_client_public_key :: string

record ('k, 'sk, 'pk, 'v) api_env =
  ae_eth :: "'k eth_ops"
  ae_p384 :: "('sk, 'pk) p384_ops"
  ae_rlp :: "'v rlp_ops"
  ae_json :: json_codec
  ae_os_random :: "nat \<Rightarrow> bytes"
  ae_base64 :: "bytes \<Rightarrow> string"
  ae_unbase64 :: "string \<Rightarrow> (string, bytes) result"
  ae_pem_decode :: "string \<Rightarrow> (string, bytes) result"
  ae_sha256 :: "bytes \<Rightarrow> bytes"
  ae_utf8 :: "bytes \<Rightarrow> (string, string) result"
  ae_unhex :: "string \<Rightarrow> (string, bytes) result"
  ae_tx_text :: "tx_error \<Rightarrow> string"
  ae_key_text :: "key_error \<Rightarrow> string"
  ae_sign_request :: "bytes \<Rightarrow> (string, eth_sign_request) result"
  ae_sign_tx_request :: "bytes \<Rightarrow> (string, eth_sign_tx_request) result"
  ae_decrypt_request :: "bytes \<Rightarrow> (string, decrypt_request) result"
  ae_encrypt_request :: "bytes \<Rightarrow> (string, encrypt_request) result"

abbreviation ok_resp :: "http_response \<Rightarrow> (api_failure, http_response) result" where
  "ok_resp r \<equiv> Inr r"

subsection \<open>Transaction payloads\<close>

definition into_entry ::
  "(string \<Rightarrow> bytes option) \<Rightarrow> access_list_input \<Rightarrow> (tx_error, access_list_entry) result" where
  "into_entry hexd e =
     rbind (parse_address_hex hexd (ai_address e)) (\<lambda>addr.
     rbind (collect_results (parse_storage_key_hex hexd) (ai_storage_keys e)) (\<lambda>ks.
     Inr \<lparr>al_address = addr, al_storage_keys = ks\<rparr>))"

definition structured_into_unsigned_tx ::
  "(string \<Rightarrow> bytes option) \<Rightarrow> structured_tx \<Rightarrow> (tx_error, unsigned_tx) result" where
  "structured_into_unsigned_tx hexd x =
     rbind (parse_scalar_hex hexd (sx_chain_id x)) (\<lambda>chain_id.
     rbind (bail_if (chain_id = []) ChainIdZero) (\<lambda>_.
     rbind (case sx_to x of
              Some a \<Rightarrow> rbind (parse_address_hex hexd a) (\<lambda>b. Inr (Some b))
            | None \<Rightarrow> Inr None) (\<lambda>to_addr.
     rbind (collect_results (into_entry hexd) (sx_access_list x)) (\<lambda>access_list.
     rbind (parse_scalar_hex hexd (sx_nonce x)) (\<lambda>nonce.
     rbind (parse_scalar_hex hexd (sx_max_priority_fee x)) (\<lambda>max_priority_fee.
     rbind (parse_scalar_hex hexd (sx_max_fee x)) (\<lambda>max_fee.
     rbind (parse_scalar_hex hexd (sx_gas_limit x)) (\<lambda>gas_limit.
     rbind (parse_scalar_hex hexd (sx_value x)) (\<lambda>val.
     rbind (parse_data_hex hexd (sx_data x)) (\<lambda>data.
     Inr \<lparr>tx_chain_id = chain_id, tx_nonce = nonce, tx_max_priority_fee = max_priority_fee,
          tx_max_fee = max_fee, tx_gas_limit = gas_limit, tx_to = to_addr, tx_value = val,
          tx_data = data, tx_access_list = access_list\<rparr>))))))))))"

definition into_unsigned_tx ::
  "(string \<Rightarrow> bytes option) \<Rightarrow> 'v rlp_ops \<Rightarrow> tx_payload \<Rightarrow> (tx_error, unsigned_tx) result" where
  "into_unsigned_tx hexd R p =
     (case p of
        Structured x \<Rightarrow> structured_into_unsigned_tx hexd x
      | RawRlp raw \<Rightarrow> rbind (parse_data_hex hexd raw) (from_raw_payload R))"

subsection \<open>Attestation\<close>

record attestation_request =
  ar_nonce :: "string option"
  ar_public_key :: "string option"
  ar_user_data :: "json_value option"

text \<open>
  Deserialising \<open>AttestationRequest\<close> the way the derived code does: an object field by field, with
  missing and null fields as \<open>None\<close>, or an array of exactly the three fields in order.
\<close>

definition opt_string :: "json_value option \<Rightarrow> (string, string option) result" where
  "opt_string v =
     (case v of
        None \<Rightarrow> Inr None
      | Some JNull \<Rightarrow> Inr None
      | Some (JString s) \<Rightarrow> Inr (Some s)
      | Some _ \<Rightarrow> Inl ''invalid type, expected a string'')"

definition opt_value :: "json_value option \<Rightarrow> json_value option" where
  "opt_value v = (case v of Some JNull \<Rightarrow> None | _ \<Rightarrow> v)"

definition request_fields ::
  "json_value option \<Rightarrow> json_value option \<Rightarrow> json_value option \<Rightarrow> (string, attestation_request) result" where
  "request_fields n p u =
     rbind (opt_string n) (\<lambda>nonce. rbind (opt_string p) (\<lambda>public_key.
     Inr \<lparr>ar_nonce = nonce, ar_public_key = public_key, ar_user_data = opt_value u\<rparr>))"

definition attestation_request_of :: "json_value \<Rightarrow> (string, attestation_request) result" where
  "attestation_request_of v =
     (case v of
        JObject m \<Rightarrow> request_fields (map_of m ''nonce'') (map_of m ''public_key'') (map_of m ''user_data'')
      | JArray [n, p, u] \<Rightarrow> request_fields (Some n) (Some p) (Some u)
      | JArray _ \<Rightarrow> Inl ''invalid length, expected struct AttestationRequest with 3 elements''
      | _ \<Rightarrow> Inl ''invalid type, expected struct AttestationRequest'')"

definition build_user_data ::
  "json_codec \<Rightarrow> json_value option \<Rightarrow> string \<Rightarrow> string option \<Rightarrow> (string, bytes) result" where
  "build_user_data J user_data eth_addr app_wallet =
     rbind (case user_data of
              Some (JObject m) \<Rightarrow> Inr m
            | Some _ \<Rightarrow> Inl ''user_data must be a JSON object''
            | None \<Rightarrow> Inr []) (\<lambda>m.
     let m1 = json_insert ''eth_addr'' (JString eth_addr) m;
         m2 = (case app_wallet of Some a \<Rightarrow> json_insert ''app_wallet'' (JString a) m1 | None \<Rightarrow> m1)
     in Inr (js_bytes J (JObject m2)))"

definition into_params ::
  "('k, 'sk, 'pk, 'v) api_env \<Rightarrow> 'k \<Rightarrow> ('sk, 'pk) encryption_key \<Rightarrow> string option \<Rightarrow> attestation_request
     \<Rightarrow> (string, attestation_params) result" where
  "into_params A eth_key encryption_key app_wallet req =
     rbind (case ar_nonce req of
              None \<Rightarrow> Inr None
            | Some n \<Rightarrow> rbind (ae_unbase64 A n) (\<lambda>bs. Inr (Some bs))) (\<lambda>nonce.
     rbind (case ar_public_key req of
              Some pem \<Rightarrow> ae_pem_decode A pem
            | None \<Rightarrow> Inr (public_key_as_der (ae_p384 A) encryption_key)) (\<lambda>public_key.
     rbind (build_user_data (ae_json A) (ar_user_data req) (address (ae_eth A) eth_key) app_wallet) (\<lambda>user_data.
     Inr \<lparr>att_nonce = nonce, att_user_data = Some user_data, att_public_key = Some public_key\<rparr>)))"

definition attestation_app_wallet :: "('k, 'sk, 'pk) capsule_api \<Rightarrow> string option" where
  "attestation_app_wallet api =
     (case ca_kms api of
        None \<Rightarrow> None
      | Some proxy \<Rightarrow>
          if \<not> kp_app_wallet_enabled proxy then None
          else (case kp_wallet_address_timed proxy of Some (Inr a) \<Rightarrow> Some a | _ \<Rightarrow> None))"

definition handle_attestation ::
  "('k, 'sk, 'pk, 'v) api_env \<Rightarrow> ('k, 'sk, 'pk) capsule_api \<Rightarrow> bytes \<Rightarrow> (api_failure, http_response) result" where
  "handle_attestation A api body =
     (case rbind (js_parse (ae_json A) body) attestation_request_of of
        Inl err \<Rightarrow> ok_resp (resp_bad_request err)
      | Inr req \<Rightarrow>
          (case into_params A (ca_eth_key api) (ca_encryption_key api) (attestation_app_wallet api) req of
             Inl err \<Rightarrow> ok_resp (resp_bad_request err)
           | Inr params \<Rightarrow>
               rbind (map_err Failed (ca_attester api params)) (\<lambda>doc.
               ok_resp \<lparr>rs_status = 200, rs_headers = [(''content-type'', ''application/cbor'')], rs_body = doc\<rparr>)))"

definition attestation_user_data_bytes ::
  "('k, 'sk, 'pk, 'v) api_env \<Rightarrow> ('k, 'sk, 'pk) capsule_api \<Rightarrow> json_value option \<Rightarrow> (string, bytes) result" where
  "attestation_user_data_bytes A api user_data =
     build_user_data (ae_json A) user_data (address (ae_eth A) (ca_eth_key api)) (attestation_app_wallet api)"

text \<open>The attestation that the signing handlers add on request, in base64.\<close>

definition signing_attestation ::
  "('k, 'sk, 'pk, 'v) api_env \<Rightarrow> ('k, 'sk, 'pk) capsule_api \<Rightarrow> bool \<Rightarrow> bytes
     \<Rightarrow> (api_failure, json_value) result" where
  "signing_attestation A api include nonce =
     (if include then
        rbind (map_err Failed (attestation_user_data_bytes A api None)) (\<lambda>user_data.
        rbind (map_err Failed (ca_attester api
          \<lparr>att_nonce = Some nonce, att_user_data = Some user_data,
           att_public_key = Some (eth_key_as_der (ae_eth A) (ca_eth_key api))\<rparr>)) (\<lambda>doc.
        Inr (JString (ae_base64 A doc))))
      else Inr JNull)"


subsection \<open>Signing\<close>

definition hex_text :: "('k, 'sk, 'pk, 'v) api_env \<Rightarrow> bytes \<Rightarrow> json_value" where
  "hex_text A bs = JString (''0x'' @ et_hex (ae_eth A) bs)"

definition personal_message :: "string \<Rightarrow> bytes" where
  "personal_message msg =
     str_bytes ([CHR 0x19] @ ''Ethereum Signed Message:'' @ [CHR 0x0A] @ show_nat (length msg)) @ str_bytes msg"

definition handle_eth_address :: "('k, 'sk, 'pk, 'v) api_env \<Rightarrow> ('k, 'sk, 'pk) capsule_api \<Rightarrow> http_response" where
  "handle_eth_address A api =
     ok_json (ae_json A) (JObject
       [(''address'', JString (address (ae_eth A) (ca_eth_key api))),
        (''public_key'', JString (eth_public_key_hex (ae_eth A) (ca_eth_key api)))])"

definition handle_eth_sign ::
  "('k, 'sk, 'pk, 'v) api_env \<Rightarrow> ('k, 'sk, 'pk) capsule_api \<Rightarrow> bytes \<Rightarrow> (api_failure, http_response) result" where
  "handle_eth_sign A api body =
     (case ae_sign_request A body of
        Inl err \<Rightarrow> ok_resp (resp_bad_request err)
      | Inr req \<Rightarrow>
          if sr_message req = [] then ok_resp (resp_bad_request ''Message cannot be empty'')
          else
            (let msg = personal_message (sr_message req);
                 signature = sign_message (ae_eth A) (ca_eth_key api) msg;
                 msg_hash = et_keccak (ae_eth A) msg
             in rbind (signing_attestation A api (sr_include_attestation req) msg_hash) (\<lambda>att.
                ok_resp (ok_json (ae_json A) (JObject
                  [(''signature'', hex_text A signature),
                   (''address'', JString (address (ae_eth A) (ca_eth_key api))),
                   (''attestation'', att)])))))"

text \<open>Signing a transaction with a key: the raw transaction, its hash and the signature.\<close>

definition sign_tx ::
  "('k, 'sk, 'pk, 'v) api_env \<Rightarrow> 'k \<Rightarrow> unsigned_tx \<Rightarrow> (tx_error, bytes \<times> bytes \<times> bytes) result" where
  "sign_tx A key utx =
     (let sig = sign_message (ae_eth A) key (signing_payload (ae_rlp A) utx)
      in rbind (from_recoverable_bytes sig) (\<lambda>tx_sig.
         let raw_tx = finalize (ae_rlp A) utx tx_sig
         in Inr (raw_tx, et_keccak (ae_eth A) raw_tx, sig)))"

definition tx_unhex :: "('k, 'sk, 'pk, 'v) api_env \<Rightarrow> string \<Rightarrow> bytes option" where
  "tx_unhex A t = (case ae_unhex A t of Inr bs \<Rightarrow> Some bs | Inl _ \<Rightarrow> None)"

definition handle_eth_sign_tx ::
  "('k, 'sk, 'pk, 'v) api_env \<Rightarrow> ('k, 'sk, 'pk) capsule_api \<Rightarrow> bytes \<Rightarrow> (api_failure, http_response) result" where
  "handle_eth_sign_tx A api body =
     (case ae_sign_tx_request A body of
        Inl err \<Rightarrow> ok_resp (resp_bad_request err)
      | Inr req \<Rightarrow>
          (case rbind (into_unsigned_tx (tx_unhex A) (ae_rlp A) (st_payload req)) (sign_tx A (ca_eth_key api)) of
             Inl err \<Rightarrow> ok_resp (resp_bad_request (ae_tx_text A err))
           | Inr (raw_tx, tx_hash, sig) \<Rightarrow>
               rbind (signing_attestation A api (st_include_attestation req) tx_hash) (\<lambda>att.
               ok_resp (ok_json (ae_json A) (JObject
                 [(''raw_transaction'', hex_text A raw_tx), (''transaction_hash'', hex_text A tx_hash),
                  (''signature'', hex_text A sig),
                  (''address'', JString (address (ae_eth A) (ca_eth_key api))), (''attestation'', att)])))))"

subsection \<open>The app wallet\<close>

definition app_wallet_unavailable :: "string \<Rightarrow> http_response" where
  "app_wallet_unavailable msg =
     \<lparr>rs_status = 503, rs_headers = [(''Retry-After'', ''10'')],
      rs_body = str_bytes (''App wallet service unavailable: '' @ msg)\<rparr>"

definition app_wallet_not_configured :: http_response where
  "app_wallet_not_configured = app_wallet_unavailable ''KMS integration not configured''"

definition kms_not_configured :: http_response where
  "kms_not_configured = resp_bad_request ''KMS integration not configured''"

definition s3_not_configured :: http_response where
  "s3_not_configured = resp_bad_request ''S3 storage not configured''"

definition app_id_json :: "wallet_authz \<Rightarrow> json_value" where
  "app_id_json authz = JNumber (show_nat (unat (az_app_id authz)))"

definition handle_app_wallet_address ::
  "('k, 'sk, 'pk, 'v) api_env \<Rightarrow> ('k, 'sk, 'pk) capsule_api \<Rightarrow> http_response" where
  "handle_app_wallet_address A api =
     (case ca_kms api of
        None \<Rightarrow> app_wallet_not_configured
      | Some proxy \<Rightarrow>
          (case rbind (kp_authorize proxy) (\<lambda>authz. rbind (kp_wallet_address proxy) (\<lambda>a. Inr (authz, a))) of
             Inl err \<Rightarrow> app_wallet_unavailable err
           | Inr (authz, a) \<Rightarrow>
               ok_json (ae_json A) (JObject
                 [(''address'', JString a), (''app_id'', app_id_json authz),
                  (''instance_wallet'', JString (az_instance_wallet authz))])))"

definition handle_app_wallet_sign ::
  "('k, 'sk, 'pk, 'v) api_env \<Rightarrow> ('k, 'sk, 'pk) capsule_api \<Rightarrow> bytes \<Rightarrow> http_response" where
  "handle_app_wallet_sign A api body =
     (case ca_kms api of
        None \<Rightarrow> app_wallet_not_configured
      | Some proxy \<Rightarrow>
          (case ae_sign_request A body of
             Inl err \<Rightarrow> resp_bad_request err
           | Inr req \<Rightarrow>
               if sr_message req = [] then resp_bad_request ''Message cannot be empty''
               else (case rbind (kp_authorize proxy) (\<lambda>authz. rbind (kp_wallet_key proxy) (\<lambda>k. Inr (authz, k))) of
                       Inl err \<Rightarrow> app_wallet_unavailable err
                     | Inr (authz, k) \<Rightarrow>
                         ok_json (ae_json A) (JObject
                           [(''signature'', hex_text A (sign_message (ae_eth A) k (personal_message (sr_message req)))),
                            (''address'', JString (address (ae_eth A) k)), (''app_id'', app_id_json authz)]))))"

definition handle_app_wallet_sign_tx ::
  "('k, 'sk, 'pk, 'v) api_env \<Rightarrow> ('k, 'sk, 'pk) capsule_api \<Rightarrow> bytes \<Rightarrow> http_response" where
  "handle_app_wallet_sign_tx A api body =
     (case ca_kms api of
        None \<Rightarrow> app_wallet_not_configured
      | Some proxy \<Rightarrow>
          (case ae_sign_tx_request A body of
             Inl err \<Rightarrow> resp_bad_request err
           | Inr req \<Rightarrow>
               (case kp_authorize proxy of
                  Inl err \<Rightarrow> app_wallet_unavailable err
                | Inr authz \<Rightarrow>
                    (case into_unsigned_tx (tx_unhex A) (ae_rlp A) (st_payload req) of
                       Inl err \<Rightarrow> resp_bad_request (ae_tx_text A err)
                     | Inr utx \<Rightarrow>
                         (case kp_wallet_key proxy of
                            Inl err \<Rightarrow> app_wallet_unavailable err
                          | Inr k \<Rightarrow>
                              (case sign_tx A k utx of
                                 Inl err \<Rightarrow> resp_bad_request (ae_tx_text A err)
                               | Inr (raw_tx, tx_hash, sig) \<Rightarrow>
                                   ok_json (ae_json A) (JObject
                                     [(''raw_transaction'', hex_text A raw_tx),
                                      (''transaction_hash'', hex_text A tx_hash),
                                      (''signature'', hex_text A sig),
                                      (''address'', JString (address (ae_eth A) k)),
                                      (''app_id'', app_id_json authz)])))))))"

subsection \<open>Random bytes and encryption\<close>

definition random_bytes ::
  "('k, 'sk, 'pk, 'v) api_env \<Rightarrow> ('k, 'sk, 'pk) capsule_api \<Rightarrow> nat \<Rightarrow> (string, bytes) result" where
  "random_bytes A api len =
     (case ca_nsm api of
        Some src \<Rightarrow> collect_random_bytes src len
      | None \<Rightarrow> Inr (ae_os_random A len))"

definition handle_random ::
  "('k, 'sk, 'pk, 'v) api_env \<Rightarrow> ('k, 'sk, 'pk) capsule_api \<Rightarrow> (api_failure, http_response) result" where
  "handle_random A api =
     rbind (map_err Failed (random_bytes A api 32)) (\<lambda>bs.
     ok_resp (ok_json (ae_json A) (JObject [(''random_bytes'', hex_text A bs)])))"

definition handle_encryption_public_key ::
  "('k, 'sk, 'pk, 'v) api_env \<Rightarrow> ('k, 'sk, 'pk) capsule_api \<Rightarrow> http_response" where
  "handle_encryption_public_key A api =
     ok_json (ae_json A) (JObject
       [(''public_key_der'', hex_text A (public_key_as_der (ae_p384 A) (ca_encryption_key api))),
        (''public_key_pem'', JString (public_key_as_pem (ae_p384 A) (ca_encryption_key api)))])"

definition nonce_fingerprint :: "('k, 'sk, 'pk, 'v) api_env \<Rightarrow> bytes \<Rightarrow> bytes \<Rightarrow> bytes" where
  "nonce_fingerprint A client_der nonce = ae_sha256 A (client_der @ nonce)"

definition register_client_nonce ::
  "('k, 'sk, 'pk, 'v) api_env \<Rightarrow> nonce_replay_cache \<Rightarrow> bytes \<Rightarrow> bytes \<Rightarrow> nonce_replay_cache \<times> bool" where
  "register_client_nonce A c client_der nonce = insert_if_new c (nonce_fingerprint A client_der nonce)"

definition normalize_decrypt_nonce :: "bytes \<Rightarrow> (string, bytes \<times> bool) result" where
  "normalize_decrypt_nonce raw_nonce =
     (if length raw_nonce = AES_GCM_NONCE_LEN then Inr (raw_nonce, False)
      else if length raw_nonce = LEGACY_AES_GCM_NONCE_LEN then Inr (take AES_GCM_NONCE_LEN raw_nonce, True)
      else Inl (''Invalid nonce length: expected '' @ show_nat AES_GCM_NONCE_LEN @ '' bytes (or '' @
                show_nat LEGACY_AES_GCM_NONCE_LEN @ ''-byte legacy nonce), got '' @ show_nat (length raw_nonce)))"

definition unhex_field ::
  "('k, 'sk, 'pk, 'v) api_env \<Rightarrow> string \<Rightarrow> string \<Rightarrow> (string, bytes) result" where
  "unhex_field A name t =
     map_err (\<lambda>e. ''Invalid '' @ name @ '' hex: '' @ e) (ae_unhex A (unwrap_or t (strip_prefix ''0x'' t)))"

definition decode_decrypt_request ::
  "('k, 'sk, 'pk, 'v) api_env \<Rightarrow> decrypt_request \<Rightarrow> (string, bytes \<times> bytes \<times> bytes) result" where
  "decode_decrypt_request A req =
     rbind (unhex_field A ''nonce'' (dr_nonce req)) (\<lambda>raw_nonce.
     rbind (normalize_decrypt_nonce raw_nonce) (\<lambda>(nonce, _).
     rbind (unhex_field A ''client_public_key'' (dr_client_public_key req)) (\<lambda>client_der.
     rbind (unhex_field A ''encrypted_data'' (dr_encrypted_data req)) (\<lambda>encrypted_data.
     Inr (nonce, client_der, encrypted_data)))))"

text \<open>The panic of the DER parser is not an error the handler could report.\<close>

definition key_failure ::
  "('k, 'sk, 'pk, 'v) api_env \<Rightarrow> string \<Rightarrow> key_error \<Rightarrow> (api_failure, http_response) result" where
  "key_failure A what e =
     (if e = DerError DerSlicePanic then Inl Panicked
      else ok_resp (resp_bad_request (what @ '' failed: '' @ ae_key_text A e)))"

definition handle_encryption_decrypt ::
  "('k, 'sk, 'pk, 'v) api_env \<Rightarrow> ('k, 'sk, 'pk) capsule_api \<Rightarrow> nonce_replay_cache \<Rightarrow> bytes
     \<Rightarrow> nonce_replay_cache \<times> (api_failure, http_response) result" where
  "handle_encryption_decrypt A api c body =
     (case rbind (ae_decrypt_request A body) (decode_decrypt_request A) of
        Inl err \<Rightarrow> (c, ok_resp (resp_bad_request err))
      | Inr (nonce, client_der, encrypted_data) \<Rightarrow>
          (case register_client_nonce A c client_der nonce of
             (c', False) \<Rightarrow> (c', ok_resp (resp_bad_request ''Nonce reuse detected for client_public_key''))
           | (c', True) \<Rightarrow>
               (c', case decrypt (ae_p384 A) (ca_encryption_key api) nonce client_der encrypted_data of
                      Inl e \<Rightarrow> key_failure A ''Decryption'' e
                    | Inr plaintext_bytes \<Rightarrow>
                        (case ae_utf8 A plaintext_bytes of
                           Inl e \<Rightarrow> ok_resp (resp_bad_request (''Invalid UTF-8 in plaintext: '' @ e))
                         | Inr plaintext \<Rightarrow>
                             ok_resp (ok_json (ae_json A) (JObject [(''plaintext'', JString plaintext)]))))))"

definition handle_encryption_encrypt ::
  "('k, 'sk, 'pk, 'v) api_env \<Rightarrow> ('k, 'sk, 'pk) capsule_api \<Rightarrow> bytes \<Rightarrow> (api_failure, http_response) result" where
  "handle_encryption_encrypt A api body =
     (case rbind (ae_encrypt_request A body) (\<lambda>req.
             rbind (unhex_field A ''client_public_key'' (er_client_public_key req)) (\<lambda>der. Inr (req, der))) of
        Inl err \<Rightarrow> ok_resp (resp_bad_request err)
      | Inr (req, client_der) \<Rightarrow>
          rbind (map_err Failed (random_bytes A api 12)) (\<lambda>nonce.
          case encrypt (ae_p384 A) (ca_encryption_key api) (str_bytes (er_plaintext req)) client_der nonce of
            Inl e \<Rightarrow> key_failure A ''Encryption'' e
          | Inr encrypted_data \<Rightarrow>
              ok_resp (ok_json (ae_json A) (JObject
                [(''encrypted_data'', JString (et_hex (ae_eth A) encrypted_data)),
                 (''enclave_public_key'', JString (et_hex (ae_eth A) (public_key_as_der (ae_p384 A) (ca_encryption_key api)))),
                 (''nonce'', JString (et_hex (ae_eth A) nonce))]))))"

subsection \<open>Dispatch\<close>

datatype http_method = GET | POST | OPTIONS | OtherMethod

definition s3_call ::
  "('k, 'sk, 'pk) capsule_api \<Rightarrow> s3_route \<Rightarrow> bytes \<Rightarrow> (api_failure, http_response) result" where
  "s3_call api r body = (case ca_s3 api of Some h \<Rightarrow> h r body | None \<Rightarrow> ok_resp s3_not_configured)"

definition kms_call ::
  "('k, 'sk, 'pk) capsule_api \<Rightarrow> kms_route \<Rightarrow> bytes \<Rightarrow> (api_failure, http_response) result" where
  "kms_call api r body = (case ca_kms api of Some p \<Rightarrow> kp_handle p r body | None \<Rightarrow> ok_resp kms_not_configured)"

definition on_method ::
  "http_method \<Rightarrow> http_method \<Rightarrow> 'c \<Rightarrow> 'c \<times> (api_failure, http_response) result \<Rightarrow> 'c \<times> (api_failure, http_response) result" where
  "on_method expected m c r = (if m = expected then r else (c, ok_resp resp_method_not_allowed))"

definition api_handle_request ::
  "('k, 'sk, 'pk, 'v) api_env \<Rightarrow> ('k, 'sk, 'pk) capsule_api \<Rightarrow> nonce_replay_cache
     \<Rightarrow> http_method \<Rightarrow> string \<Rightarrow> bytes \<Rightarrow> nonce_replay_cache \<times> (api_failure, http_response) result" where
  "api_handle_request A api c m p body =
     (if p = ''/v1/attestation'' then on_method POST m c (c, handle_attestation A api body)
      else if p = ''/v1/eth/address'' then on_method GET m c (c, ok_resp (handle_eth_address A api))
      else if p = ''/v1/eth/sign'' then on_method POST m c (c, handle_eth_sign A api body)
      else if p = ''/v1/eth/sign-tx'' then on_method POST m c (c, handle_eth_sign_tx A api body)
      else if p = ''/v1/random'' then on_method GET m c (c, handle_random A api)
      else if p = ''/v1/encryption/public_key'' then on_method GET m c (c, ok_resp (handle_encryption_public_key A api))
      else if p = ''/v1/encryption/decrypt'' then on_method POST m c (handle_encryption_decrypt A api c body)
      else if p = ''/v1/encryption/encrypt'' then on_method POST m c (c, handle_encryption_encrypt A api body)
      else if p = ''/v1/s3/get'' then on_method POST m c (c, s3_call api S3Get body)
      else if p = ''/v1/s3/put'' then on_method POST m c (c, s3_call api S3Put body)
      else if p = ''/v1/s3/delete'' then on_method POST m c (c, s3_call api S3Delete body)
      else if p = ''/v1/s3/list'' then on_method POST m c (c, s3_call api S3List body)
      else if p = ''/v1/kms/derive'' then on_method POST m c (c, kms_call api KmsDerive body)
      else if p = ''/v1/kms/kv/get'' then on_method POST m c (c, kms_call api KmsKvGet body)
      else if p = ''/v1/kms/kv/put'' then on_method POST m c (c, kms_call api KmsKvPut body)
      else if p = ''/v1/kms/kv/delete'' then on_method POST m c (c, kms_call api KmsKvDelete body)
      else if p = ''/v1/app-wallet/address'' then on_method GET m c (c, ok_resp (handle_app_wallet_address A api))
      else if p = ''/v1/app-wallet/sign'' then on_method POST m c (c, ok_resp (handle_app_wallet_sign A api body))
      else if p = ''/v1/app-wallet/sign-tx'' then on_method POST m c (c, ok_resp (handle_app_wallet_sign_tx A api body))
      else (c, ok_resp resp_not_found))"

definition api_handle ::
  "('k, 'sk, 'pk, 'v) api_env \<Rightarrow> ('k, 'sk, 'pk) capsule_api \<Rightarrow> nonce_replay_cache
     \<Rightarrow> http_method \<Rightarrow> string \<Rightarrow> bytes \<Rightarrow> nonce_replay_cache \<times> (api_failure, http_response) result" where
  "api_handle A api c m p body =
     (if length body > MAX_API_REQUEST_BODY_BYTES then
        (c, ok_resp (resp_payload_too_large (''Request body too large: '' @ show_nat (length body) @ '' bytes (max '' @
           show_nat MAX_API_REQUEST_BODY_BYTES @ '')'')))
      else api_handle_request A api c m p body)"

subsection \<open>Key set-up\<close>

definition weak_rng_fallback_enabled :: "string option \<Rightarrow> bool" where
  "weak_rng_fallback_enabled var =
     (case var of
        Some val \<Rightarrow> to_ascii_lowercase (trim val) \<in> {''1'', ''true'', ''yes'', ''on''}
      | None \<Rightarrow> False)"

text \<open>
  The choice of each key: from the security module's random numbers, from the system's generator
  when there is no module, and on failure only with the fallback variable set.
\<close>

definition ALLOW_WEAK_RNG_FALLBACK_ENV :: string where
  "ALLOW_WEAK_RNG_FALLBACK_ENV = ''CAPSULE_RUNTIME_ALLOW_WEAK_RNG_FALLBACK''"

definition seeded_key ::
  "string \<Rightarrow> string option \<Rightarrow> (nat \<Rightarrow> (string, bytes) result) option \<Rightarrow> (bytes \<Rightarrow> (string, 'key) result) \<Rightarrow> 'key
     \<Rightarrow> (string, 'key) result" where
  "seeded_key what var nsm from_entropy os_key =
     (case nsm of
        None \<Rightarrow> Inr os_key
      | Some src \<Rightarrow>
          (case rbind (collect_random_bytes src 32) from_entropy of
             Inr key \<Rightarrow> Inr key
           | Inl err \<Rightarrow> if weak_rng_fallback_enabled var then Inr os_key
               else Inl (''CRITICAL: Failed to derive '' @ what @ '' key from NSM RNG: '' @ err @
                 ''. Refusing to start with weak entropy. Set '' @ ALLOW_WEAK_RNG_FALLBACK_ENV @
                 ''=1 only for non-production fallback.'')))"

definition with_integrations ::
  "('k, 'sk, 'pk, 'v) api_env \<Rightarrow> string option \<Rightarrow> 'k \<Rightarrow> 'sk
     \<Rightarrow> (attestation_params \<Rightarrow> (string, bytes) result) \<Rightarrow> (nat \<Rightarrow> (string, bytes) result) option
     \<Rightarrow> (nat \<Rightarrow> (string, bytes) result) option
     \<Rightarrow> (s3_route \<Rightarrow> bytes \<Rightarrow> (api_failure, http_response) result) option \<Rightarrow> 'k kms_proxy option
     \<Rightarrow> (string, ('k, 'sk, 'pk) capsule_api \<times> nonce_replay_cache) result" where
  "with_integrations A var os_eth os_p384 attester nsm nsm_later s3 kms =
     rbind (seeded_key ''Ethereum'' var nsm (\<lambda>bs. map_err (ae_key_text A) (from_entropy_eth (ae_eth A) bs)) os_eth) (\<lambda>eth_key.
     rbind (seeded_key ''P-384'' var nsm_later (\<lambda>bs. map_err (ae_key_text A) (from_entropy_p384 (ae_p384 A) bs))
              (encryption_key_of (ae_p384 A) os_p384)) (\<lambda>encryption_key.
     Inr (\<lparr>ca_attester = attester, ca_eth_key = eth_key, ca_encryption_key = encryption_key,
           ca_nsm = nsm, ca_s3 = s3, ca_kms = kms\<rparr>,
          NonceReplayCache_new NONCE_REPLAY_CACHE_CAPACITY)))"

end
