(* ===== verification/Aux_Api.thy ===== *)
theory Aux_Api
  imports Capsule_Api
begin

text \<open>
  The auxiliary API (\<open>aux_api.rs\<close>): the part of the Capsule API that is offered to callers outside
  the application, by forwarding requests to it.  Forwarding is an argument: the request fails, or
  its answer breaks off, or there is a response.
\<close>

datatype upstream_answer = RequestFailed | BodyFailed string | Answer http_response

type_synonym upstream = "http_method \<Rightarrow> string \<Rightarrow> bytes \<Rightarrow> upstream_answer"

record aux_api =
  ax_url :: string
  ax_client :: upstream
  ax_uri_ok :: "string \<Rightarrow> bool"
  ax_json :: json_codec

definition AuxApiHandler_new :: "u16 \<Rightarrow> upstream \<Rightarrow> (string \<Rightarrow> bool) \<Rightarrow> json_codec \<Rightarrow> aux_api" where
  "AuxApiHandler_new port client uri_ok J =
     \<lparr>ax_url = ''http://127.0.0.1:'' @ show_nat (unat port), ax_client = client, ax_uri_ok = uri_ok, ax_json = J\<rparr>"

definition proxy_request ::
  "aux_api \<Rightarrow> http_method \<Rightarrow> string \<Rightarrow> bytes option \<Rightarrow> (api_failure, http_response) result" where
  "proxy_request x m p body =
     (if \<not> ax_uri_ok x (ax_url x @ p) then Inl (Failed ''invalid uri'')
      else (case ax_client x m p (unwrap_or [] body) of
              Answer resp \<Rightarrow> Inr resp
            | BodyFailed e \<Rightarrow> Inl (Failed e)
            | RequestFailed \<Rightarrow> Inr \<lparr>rs_status = 503, rs_headers = [(''content-type'', ''application/json'')],
                           rs_body = str_bytes (''{'' @ [CHR 0x22] @ ''error'' @ [CHR 0x22] @ '':'' @ [CHR 0x22] @
                             ''Capsule API service unavailable'' @ [CHR 0x22] @ ''}'')\<rparr>))"

definition aux_handle_eth_address :: "aux_api \<Rightarrow> (api_failure, http_response) result" where
  "aux_handle_eth_address x = proxy_request x GET ''/v1/eth/address'' None"

text \<open>The body that is forwarded: \<open>public_key\<close> is removed from an object.\<close>

definition sanitize_attestation_body :: "json_codec \<Rightarrow> bytes \<Rightarrow> bytes option" where
  "sanitize_attestation_body J body =
     (case js_parse J body of
        Inr (JObject m) \<Rightarrow> Some (js_bytes J (JObject (json_remove ''public_key'' m)))
      | Inr v \<Rightarrow> Some (js_bytes J v)
      | Inl _ \<Rightarrow> if body \<noteq> [] then None else Some (js_bytes J (JObject [])))"

definition aux_handle_attestation :: "aux_api \<Rightarrow> bytes \<Rightarrow> (api_failure, http_response) result" where
  "aux_handle_attestation x body =
     (case sanitize_attestation_body (ax_json x) body of
        None \<Rightarrow> Inr (resp_bad_request ''Invalid JSON in request body'')
      | Some sanitized \<Rightarrow> proxy_request x POST ''/v1/attestation'' (Some sanitized))"

definition cors_preflight_response :: http_response where
  "cors_preflight_response =
     \<lparr>rs_status = 204,
      rs_headers = [(''Access-Control-Allow-Origin'', ''*''),
                    (''Access-Control-Allow-Methods'', ''POST, OPTIONS''),
                    (''Access-Control-Allow-Headers'', ''Content-Type''),
                    (''Access-Control-Max-Age'', ''86400'')],
      rs_body = []\<rparr>"

definition add_cors_headers :: "http_response \<Rightarrow> http_response" where
  "add_cors_headers r =
     r\<lparr>rs_headers := filter (\<lambda>(n, _). \<not> eq_ignore_ascii_case n ''Access-Control-Allow-Origin'') (rs_headers r) @
                     [(''Access-Control-Allow-Origin'', ''*'')]\<rparr>"

definition aux_handle_attestation_with_cors :: "aux_api \<Rightarrow> bytes \<Rightarrow> (api_failure, http_response) result" where
  "aux_handle_attestation_with_cors x body =
     rbind (aux_handle_attestation x body) (\<lambda>r. Inr (add_cors_headers r))"

definition aux_handle_encryption_public_key :: "aux_api \<Rightarrow> (api_failure, http_response) result" where
  "aux_handle_encryption_public_key x = proxy_request x GET ''/v1/encryption/public_key'' None"

definition aux_handle_request ::
  "aux_api \<Rightarrow> http_method \<Rightarrow> string \<Rightarrow> bytes \<Rightarrow> (api_failure, http_response) result" where
  "aux_handle_request x m p body =
     (if p = ''/v1/eth/address'' then
        (if m = GET then aux_handle_eth_address x else Inr resp_method_not_allowed)
      else if p = ''/v1/attestation'' then
        (case m of
           OPTIONS \<Rightarrow> Inr cors_preflight_response
         | POST \<Rightarrow> aux_handle_attestation_with_cors x body
         | _ \<Rightarrow> Inr resp_method_not_allowed)
      else if p = ''/v1/encryption/public_key'' then
        (if m = GET then aux_handle_encryption_public_key x else Inr resp_method_not_allowed)
      else Inr resp_not_found)"

text \<open>
  The Capsule API as the upstream of the auxiliary API: a handler that fails or panics closes the
  connection without a response.
\<close>

definition api_upstream ::
  "('k, 'sk, 'pk, 'v) api_env \<Rightarrow> ('k, 'sk, 'pk) capsule_api \<Rightarrow> nonce_replay_cache \<Rightarrow> upstream" where
  "api_upstream A api c m p body =
     (case snd (api_handle A api c m p body) of Inr r \<Rightarrow> Answer r | Inl _ \<Rightarrow> RequestFailed)"

end
