(* ===== verification/Fs_Protocol.thy ===== *)
theory Fs_Protocol
  imports Wire_Framing
begin

text \<open>
  The hostfs wire protocol (\<open>fs_protocol.rs\<close>): the request and response messages as datatypes and
  the framed \<open>send_msg\<close>/\<open>recv_msg\<close>.  The JSON serialiser and parser (\<open>serde_json\<close>) are arguments
  \<open>enc\<close> and \<open>dec\<close>.  The codec is an instance of the frame interface, so whole conversations are
  received exactly as sent.
\<close>

subsection \<open>Messages\<close>

definition HOSTFS_PROTOCOL_VERSION :: u32 where
  "HOSTFS_PROTOCOL_VERSION = 1"

definition MAX_MSG_LEN :: nat where
  "MAX_MSG_LEN = 8 * 1024 * 1024"

record hello_request =
  hq_protocol_version :: u32
  hq_mount_name :: string

record hello_response =
  hp_protocol_version :: u32
  hp_mount_name :: string
  hp_read_only :: bool

record fs_proxy_error =
  fe_os_code :: "int option"
  fe_message :: string

definition FsProxyError_new :: "int option \<Rightarrow> string \<Rightarrow> fs_proxy_error" where
  "FsProxyError_new os_code message = \<lparr>fe_os_code = os_code, fe_message = message\<rparr>"

datatype fs_entry_type = EFile | EDirectory | ESymlink | EOther

record fs_metadata =
  md_entry_type :: fs_entry_type
  md_len :: u64
  md_read_only :: bool
  md_mtime_secs :: u64
  md_mtime_nsecs :: u32
  md_atime_secs :: u64
  md_atime_nsecs :: u32

record fs_dir_entry =
  de_name :: string
  de_entry_type :: fs_entry_type

record fs_stat =
  fst_total_bytes :: u64
  fst_available_bytes :: u64

datatype fs_request =
    ReqHello hello_request
  | ReqPing
  | ReqStatFs
  | ReqGetMetadata string
  | ReqReadDir string
  | ReqReadFile string u64 u32
  | ReqWriteFile string u64 bytes bool bool
  | ReqSetLen string u64
  | ReqMkdir string bool
  | ReqRemoveFile string
  | ReqRemoveDir string
  | ReqRename string string
  | ReqFsync string

datatype fs_response =
    RspHello hello_response
  | RspPong
  | RspStatFs fs_stat
  | RspMetadata fs_metadata
  | RspReadDir "fs_dir_entry list"
  | RspReadFile bytes
  | RspWriteFile u64
  | RspOk
  | RspError fs_proxy_error

subsection \<open>Framing\<close>

text \<open>
  The size check precedes the conversion to \<open>u32\<close>, whose failure branch is therefore the same
  error.
\<close>

definition send_payload :: "bytes \<Rightarrow> duplex \<Rightarrow> (transport_error, duplex) result" where
  "send_payload payload s =
     rbind (bail_if (length payload > MAX_MSG_LEN) (MessageTooLarge (length payload))) (\<lambda>_.
     rbind (bail_if (length payload \<ge> 2 ^ 32) (MessageTooLarge (length payload))) (\<lambda>_.
     rbind (write_all (to_le_bytes (of_nat (length payload))) s) (\<lambda>s1.
     write_all payload s1)))"

definition send_msg ::
  "('m \<Rightarrow> bytes option) \<Rightarrow> 'm \<Rightarrow> duplex \<Rightarrow> (transport_error, duplex) result" where
  "send_msg enc message s =
     rbind (ok_or JsonEncodeError (enc message)) (\<lambda>payload. send_payload payload s)"

definition recv_msg ::
  "(bytes \<Rightarrow> 'm option) \<Rightarrow> duplex \<Rightarrow> (transport_error, 'm \<times> duplex) result" where
  "recv_msg dec s =
     rbind (recv_le_frame MAX_MSG_LEN s) (\<lambda>(payload, s1).
     rbind (ok_or JsonDecodeError (dec payload)) (\<lambda>m. Inr (m, s1)))"

subsection \<open>The codec provides the frame interface\<close>

definition hostfs_fits :: "bytes \<Rightarrow> bool" where
  "hostfs_fits p \<longleftrightarrow> length p \<le> MAX_MSG_LEN"

interpretation hostfs: frame_codec send_payload "recv_le_frame MAX_MSG_LEN" le_frame hostfs_fits
proof unfold_locales
  fix p and s :: duplex
  assume "hostfs_fits p" "tx_error s = None"
  then show "send_payload p s = Inr (s\<lparr>tx := tx s @ le_frame p\<rparr>)"
    by (simp add: send_payload_def hostfs_fits_def MAX_MSG_LEN_def le_frame_def)
next
  fix p and s s' :: duplex
  assume "send_payload p s = Inr s'"
  then show "hostfs_fits p \<and> tx_error s = None"
    by (auto simp: send_payload_def hostfs_fits_def result_elims write_all_def split: option.splits)
next
  fix p rest and s :: duplex
  assume "hostfs_fits p" "rx s = le_frame p @ rest"
  then show "recv_le_frame MAX_MSG_LEN s = Inr (p, s\<lparr>rx := rest\<rparr>)"
    by (intro recv_le_frame_ok) (simp_all add: hostfs_fits_def MAX_MSG_LEN_def)
next
  fix p and s s' :: duplex
  assume "recv_le_frame MAX_MSG_LEN s = Inr (p, s')"
  then show "hostfs_fits p \<and> rx s = le_frame p @ rx s' \<and> s' = s\<lparr>rx := rx s'\<rparr>"
    unfolding hostfs_fits_def by (rule recv_le_frame_sound) (simp add: MAX_MSG_LEN_def)
qed

subsection \<open>Sequences of messages\<close>

fun send_all ::
  "('m \<Rightarrow> bytes option) \<Rightarrow> 'm list \<Rightarrow> duplex \<Rightarrow> (transport_error, duplex) result" where
  "send_all enc [] s = Inr s"
| "send_all enc (m # ms) s = rbind (send_msg enc m s) (send_all enc ms)"

fun recv_n ::
  "(bytes \<Rightarrow> 'm option) \<Rightarrow> nat \<Rightarrow> duplex \<Rightarrow> (transport_error, 'm list \<times> duplex) result" where
  "recv_n dec 0 s = Inr ([], s)"
| "recv_n dec (Suc n) s =
     rbind (recv_msg dec s) (\<lambda>(m, s1). rbind (recv_n dec n s1) (\<lambda>(ms, s2). Inr (m # ms, s2)))"

definition wire :: "('m \<Rightarrow> bytes option) \<Rightarrow> 'm list \<Rightarrow> bytes" where
  "wire enc ms = concat (map (\<lambda>m. le_frame (the (enc m))) ms)"

lemma send_msg_iff:
  "send_msg enc m s = Inr s' \<longleftrightarrow>
     (\<exists>p. enc m = Some p \<and> hostfs_fits p \<and> tx_error s = None \<and> s' = s\<lparr>tx := tx s @ le_frame p\<rparr>)"
  by (auto simp: send_msg_def result_elims hostfs.put_frame_iff)

lemma send_all_output:
  "send_all enc ms s = Inr s' \<Longrightarrow>
     list_all (\<lambda>m. \<exists>p. enc m = Some p \<and> hostfs_fits p) ms \<and> s' = s\<lparr>tx := tx s @ wire enc ms\<rparr>"
proof (induction ms arbitrary: s)
  case Nil
  then show ?case by (simp add: wire_def)
next
  case (Cons m ms)
  then obtain s1 where "send_msg enc m s = Inr s1" "send_all enc ms s1 = Inr s'"
    by (auto simp: result_elims)
  with Cons.IH [of s1] show ?case by (auto simp: send_msg_iff wire_def)
qed

lemma recv_msg_ok:
  assumes "dec p = Some m" "hostfs_fits p" "rx s = le_frame p @ rest"
  shows "recv_msg dec s = Inr (m, s\<lparr>rx := rest\<rparr>)"
  using assms hostfs.get_ok [of p s rest] by (simp add: recv_msg_def)

lemma recv_n_wire:
  assumes "\<And>m p. m \<in> set ms \<Longrightarrow> enc m = Some p \<Longrightarrow> dec p = Some m"
    and "list_all (\<lambda>m. \<exists>p. enc m = Some p \<and> hostfs_fits p) ms"
    and "rx s = wire enc ms @ rest"
  shows "recv_n dec (length ms) s = Inr (ms, s\<lparr>rx := rest\<rparr>)"
  using assms
proof (induction ms arbitrary: s)
  case Nil
  then show ?case by (simp add: wire_def)
next
  case (Cons m ms)
  from Cons.prems(2) obtain p where p: "enc m = Some p" "hostfs_fits p" by auto
  with Cons.prems(1) have "dec p = Some m" by simp
  then have "recv_msg dec s = Inr (m, s\<lparr>rx := wire enc ms @ rest\<rparr>)"
    using p Cons.prems(3) by (intro recv_msg_ok) (simp_all add: wire_def)
  moreover have "recv_n dec (length ms) (s\<lparr>rx := wire enc ms @ rest\<rparr>) = Inr (ms, s\<lparr>rx := rest\<rparr>)"
    using Cons.IH [of "s\<lparr>rx := wire enc ms @ rest\<rparr>"] Cons.prems by simp
  ultimately show ?case by simp
qed

subsection \<open>Main results\<close>

text \<open>
  C8. Any sequence of messages that \<open>send_msg\<close> accepts is received by the peer's \<open>recv_msg\<close> in the
  same order and unchanged, without consuming a byte of what follows, when the JSON codec reads back
  what it writes.
\<close>

theorem hostfs_messages_roundtrip:
  assumes json: "\<And>m p. enc m = Some p \<Longrightarrow> dec p = Some m"
    and sent: "send_all enc ms s = Inr s'"
    and pipe: "rx peer = drop (length (tx s)) (tx s') @ rest"
  shows "recv_n dec (length ms) peer = Inr (ms, peer\<lparr>rx := rest\<rparr>)"
proof -
  from send_all_output [OF sent]
  have "list_all (\<lambda>m. \<exists>p. enc m = Some p \<and> hostfs_fits p) ms" "rx peer = wire enc ms @ rest"
    using pipe by auto
  with json show ?thesis by (intro recv_n_wire) auto
qed

text \<open>A concrete codec of two messages, for the witnesses.\<close>

definition tiny_enc :: "bool \<Rightarrow> bytes option" where
  "tiny_enc b = Some (if b then [1] else [0, 0])"

definition tiny_dec :: "bytes \<Rightarrow> bool option" where
  "tiny_dec p = (if p = [1] then Some True else if p = [0, 0] then Some False else None)"

theorem hostfs_messages_roundtrip_witness:
  "recv_n tiny_dec (length [True, False])
     \<lparr>rx = [1, 0, 0, 0, 1, 2, 0, 0, 0, 0, 0, 7], tx = [], tx_error = None\<rparr> =
   Inr ([True, False], \<lparr>rx = [1, 0, 0, 0, 1, 2, 0, 0, 0, 0, 0, 7], tx = [], tx_error = None\<rparr>\<lparr>rx := [7]\<rparr>)"
  by (rule hostfs_messages_roundtrip [of tiny_enc tiny_dec _ "\<lparr>rx = [], tx = [], tx_error = None\<rparr>"
        "\<lparr>rx = [], tx = [1, 0, 0, 0, 1, 2, 0, 0, 0, 0, 0], tx_error = None\<rparr>"])
     (auto simp: tiny_enc_def tiny_dec_def send_msg_def send_payload_def MAX_MSG_LEN_def
        to_le_bytes_def split: if_splits)

text \<open>
  Receiving is bounded and strict: a received message was framed with its exact length, at most
  8 MiB were allocated for it, and a longer announced length or a short stream is an error.
\<close>

lemma recv_msg_spec:
  "(recv_msg dec s = Inr (m, s') \<longleftrightarrow>
      (\<exists>p. dec p = Some m \<and> length p \<le> MAX_MSG_LEN \<and> rx s = le_frame p @ rx s' \<and>
           s' = s\<lparr>rx := rx s'\<rparr>)) \<and>
   (recv_msg dec s = Inl UnexpectedEof \<longleftrightarrow>
      length (rx s) < 4 \<or>
      unat (from_le_bytes (take 4 (rx s))) \<le> MAX_MSG_LEN \<and>
      length (rx s) < 4 + unat (from_le_bytes (take 4 (rx s)))) \<and>
   (recv_msg dec s = Inl (MessageTooLarge n) \<longleftrightarrow>
      4 \<le> length (rx s) \<and> n = unat (from_le_bytes (take 4 (rx s))) \<and> MAX_MSG_LEN < n)"
proof (intro conjI)
  show "recv_msg dec s = Inr (m, s') \<longleftrightarrow>
      (\<exists>p. dec p = Some m \<and> length p \<le> MAX_MSG_LEN \<and> rx s = le_frame p @ rx s' \<and> s' = s\<lparr>rx := rx s'\<rparr>)"
  proof
    assume "recv_msg dec s = Inr (m, s')"
    then obtain p where "recv_le_frame MAX_MSG_LEN s = Inr (p, s')" "dec p = Some m"
      by (auto simp: recv_msg_def result_elims)
    with hostfs.get_sound show "\<exists>p. dec p = Some m \<and> length p \<le> MAX_MSG_LEN \<and>
        rx s = le_frame p @ rx s' \<and> s' = s\<lparr>rx := rx s'\<rparr>"
      unfolding hostfs_fits_def by blast
  next
    assume "\<exists>p. dec p = Some m \<and> length p \<le> MAX_MSG_LEN \<and> rx s = le_frame p @ rx s' \<and> s' = s\<lparr>rx := rx s'\<rparr>"
    then obtain p where "dec p = Some m" "hostfs_fits p" "rx s = le_frame p @ rx s'"
      and s': "s' = s\<lparr>rx := rx s'\<rparr>"
      by (auto simp: hostfs_fits_def)
    then have "recv_msg dec s = Inr (m, s\<lparr>rx := rx s'\<rparr>)" by (intro recv_msg_ok)
    with s' show "recv_msg dec s = Inr (m, s')" by simp
  qed
qed (auto simp: recv_msg_def recv_le_frame_def read_exact_def rbind_eq_Inl ok_or_def bail_if_def
      Let_def split: if_splits option.splits)

end
