(* ===== verification/Host_Fs.thy ===== *)
theory Host_Fs
  imports Rust_Std "HOL-Library.List_Lexorder" "HOL-Library.Char_ord"
begin

text \<open>
  The host's file system as \<open>std::fs\<close> shows it (Linux): a finite table from canonical locations to
  nodes, path resolution with symbolic links and the kernel's limit of 40 link traversals, and the
  calls the hostfs service and the loopback manager make.  The service is the only user while a
  call runs; permissions are those of root, and the device does not fail.  Nothing here models a
  file of the repository: it is the environment of \<open>Hostfs_Service\<close>.
\<close>

subsection \<open>Nodes and errors\<close>

text \<open>A canonical location is the list of names from the root directory.\<close>

type_synonym location = "string list"

datatype node =
    NFile bytes
  | NDir
  | NSymlink path
  | NOther

type_synonym nodes = "(location \<times> node) list"

record host_fs =
  hf_nodes :: nodes
  hf_cwd :: location

datatype io_error = OsError int | CustomError string

definition ENOENT :: int where "ENOENT = 2"
definition EIO :: int where "EIO = 5"
definition ENXIO :: int where "ENXIO = 6"
definition EBUSY :: int where "EBUSY = 16"
definition EEXIST :: int where "EEXIST = 17"
definition ENOTDIR :: int where "ENOTDIR = 20"
definition EISDIR :: int where "EISDIR = 21"
definition EINVAL :: int where "EINVAL = 22"
definition EFBIG :: int where "EFBIG = 27"
definition EROFS :: int where "EROFS = 30"
definition ENOTEMPTY :: int where "ENOTEMPTY = 39"
definition ELOOP :: int where "ELOOP = 40"

lemmas errno_defs =
  ENOENT_def EIO_def ENXIO_def EBUSY_def EEXIST_def ENOTDIR_def EISDIR_def EINVAL_def EFBIG_def
  EROFS_def ENOTEMPTY_def ELOOP_def

definition raw_os_error :: "io_error \<Rightarrow> int option" where
  "raw_os_error e = (case e of OsError c \<Rightarrow> Some c | CustomError _ \<Rightarrow> None)"

text \<open>The text of an \<open>io::Error\<close>: the C library's message and the code.\<close>

definition strerror :: "int \<Rightarrow> string" where
  "strerror c =
     (if c = ENOENT then ''No such file or directory''
      else if c = EIO then ''Input/output error''
      else if c = ENXIO then ''No such device or address''
      else if c = EBUSY then ''Device or resource busy''
      else if c = EEXIST then ''File exists''
      else if c = ENOTDIR then ''Not a directory''
      else if c = EISDIR then ''Is a directory''
      else if c = EINVAL then ''Invalid argument''
      else if c = EFBIG then ''File too large''
      else if c = EROFS then ''Read-only file system''
      else if c = ENOTEMPTY then ''Directory not empty''
      else if c = ELOOP then ''Too many levels of symbolic links''
      else ''Unknown error '' @ show_nat (nat c))"

definition io_error_text :: "io_error \<Rightarrow> string" where
  "io_error_text e =
     (case e of
        OsError c \<Rightarrow> strerror c @ '' (os error '' @ show_nat (nat c) @ '')''
      | CustomError t \<Rightarrow> t)"

definition lookup :: "host_fs \<Rightarrow> location \<Rightarrow> node option" where
  "lookup fs p = map_of (hf_nodes fs) p"

definition put_node :: "host_fs \<Rightarrow> location \<Rightarrow> node \<Rightarrow> host_fs" where
  "put_node fs p n = fs\<lparr>hf_nodes := (p, n) # filter (\<lambda>(q, _). q \<noteq> p) (hf_nodes fs)\<rparr>"

definition del_node :: "host_fs \<Rightarrow> location \<Rightarrow> host_fs" where
  "del_node fs p = fs\<lparr>hf_nodes := filter (\<lambda>(q, _). q \<noteq> p) (hf_nodes fs)\<rparr>"

definition abs_path :: "location \<Rightarrow> path" where
  "abs_path loc = RootDir # normal_path loc"

subsection \<open>Path resolution\<close>

text \<open>
  \<open>walk fs k cur cs follow\<close>: from the directory \<open>cur\<close> along the components \<open>cs\<close>, with \<open>k\<close> link
  traversals left; the last component is followed if it is a link and \<open>follow\<close> holds.  The result
  is the location of the last component, whether or not a node exists there, and the traversals left.
\<close>

function walk ::
  "host_fs \<Rightarrow> nat \<Rightarrow> location \<Rightarrow> path \<Rightarrow> bool \<Rightarrow> (io_error, location \<times> nat) result" where
  "walk fs k cur [] follow = Inr (cur, k)"
| "walk fs k cur (RootDir # cs) follow = walk fs k [] cs follow"
| "walk fs k cur (CurDir # cs) follow = walk fs k cur cs follow"
| "walk fs k cur (ParentDir # cs) follow = walk fs k (butlast cur) cs follow"
| "walk fs k cur (Normal n # cs) follow =
     (case lookup fs (cur @ [n]) of
        None \<Rightarrow> if cs = [] then Inr (cur @ [n], k) else Inl (OsError ENOENT)
      | Some NDir \<Rightarrow> walk fs k (cur @ [n]) cs follow
      | Some (NSymlink t) \<Rightarrow>
          if cs = [] \<and> \<not> follow then Inr (cur @ [n], k)
          else (case k of 0 \<Rightarrow> Inl (OsError ELOOP) | Suc k' \<Rightarrow> walk fs k' cur (t @ cs) follow)
      | Some _ \<Rightarrow> if cs = [] then Inr (cur @ [n], k) else Inl (OsError ENOTDIR))"
  by pat_completeness auto
termination
  by (relation "measures [\<lambda>(fs, k, cur, cs, follow). k, \<lambda>(fs, k, cur, cs, follow). length cs]") auto

definition MAXSYMLINKS :: nat where "MAXSYMLINKS = 40"

definition resolve :: "host_fs \<Rightarrow> path \<Rightarrow> bool \<Rightarrow> (io_error, location) result" where
  "resolve fs p follow =
     (if p = [] then Inl (OsError ENOENT)
      else rbind (walk fs MAXSYMLINKS (hf_cwd fs) p follow) (\<lambda>(loc, _). Inr loc))"

definition resolve_node :: "host_fs \<Rightarrow> path \<Rightarrow> bool \<Rightarrow> (io_error, location \<times> node) result" where
  "resolve_node fs p follow =
     rbind (resolve fs p follow) (\<lambda>loc.
     case lookup fs loc of None \<Rightarrow> Inl (OsError ENOENT) | Some n \<Rightarrow> Inr (loc, n))"

subsection \<open>The calls\<close>

definition canonicalize :: "host_fs \<Rightarrow> path \<Rightarrow> (io_error, path) result" where
  "canonicalize fs p = rbind (resolve_node fs p True) (\<lambda>(loc, _). Inr (abs_path loc))"

definition path_exists :: "host_fs \<Rightarrow> path \<Rightarrow> bool" where
  "path_exists fs p = is_ok (resolve_node fs p True)"

definition path_is_dir :: "host_fs \<Rightarrow> path \<Rightarrow> bool" where
  "path_is_dir fs p =
     (case resolve_node fs p True of Inr (_, NDir) \<Rightarrow> True | _ \<Rightarrow> False)"

definition symlink_metadata :: "host_fs \<Rightarrow> path \<Rightarrow> (io_error, location \<times> node) result" where
  "symlink_metadata fs p = resolve_node fs p False"

definition children :: "host_fs \<Rightarrow> location \<Rightarrow> (string \<times> node) list" where
  "children fs d =
     map (\<lambda>(q, n). (last q, n)) (filter (\<lambda>(q, _). q \<noteq> [] \<and> butlast q = d) (hf_nodes fs))"

definition read_dir :: "host_fs \<Rightarrow> path \<Rightarrow> (io_error, (string \<times> node) list) result" where
  "read_dir fs p =
     rbind (resolve_node fs p True) (\<lambda>(loc, n).
     case n of NDir \<Rightarrow> Inr (children fs loc) | _ \<Rightarrow> Inl (OsError ENOTDIR))"

text \<open>An open file is the location of its node.\<close>

definition open_read :: "host_fs \<Rightarrow> path \<Rightarrow> (io_error, location) result" where
  "open_read fs p =
     rbind (resolve_node fs p True) (\<lambda>(loc, n).
     case n of NOther \<Rightarrow> Inl (OsError ENXIO) | _ \<Rightarrow> Inr loc)"

definition open_at ::
  "host_fs \<Rightarrow> location \<Rightarrow> bool \<Rightarrow> bool \<Rightarrow> (io_error, host_fs \<times> location) result" where
  "open_at fs loc create trunc =
     (case lookup fs loc of
        None \<Rightarrow> if create then Inr (put_node fs loc (NFile []), loc) else Inl (OsError ENOENT)
      | Some NDir \<Rightarrow> Inl (OsError EISDIR)
      | Some NOther \<Rightarrow> Inl (OsError ENXIO)
      | Some (NSymlink _) \<Rightarrow> Inl (OsError ELOOP)
      | Some (NFile bs) \<Rightarrow> Inr (if trunc then put_node fs loc (NFile []) else fs, loc))"

definition open_write ::
  "host_fs \<Rightarrow> path \<Rightarrow> bool \<Rightarrow> bool \<Rightarrow> (io_error, host_fs \<times> location) result" where
  "open_write fs p create trunc =
     rbind (resolve fs p True) (\<lambda>loc. open_at fs loc create trunc)"

text \<open>\<open>seek(SeekFrom::Start(offset))\<close>: a \<open>u64\<close> offset reaches the kernel as a signed number.\<close>

definition seek_start :: "u64 \<Rightarrow> (io_error, nat) result" where
  "seek_start offset =
     rbind (bail_if (unat offset \<ge> 2 ^ 63) (OsError EINVAL)) (\<lambda>_. Inr (unat offset))"

definition read_at :: "host_fs \<Rightarrow> location \<Rightarrow> nat \<Rightarrow> nat \<Rightarrow> (io_error, bytes) result" where
  "read_at fs loc off len =
     (case lookup fs loc of
        Some (NFile bs) \<Rightarrow> Inr (take len (drop off bs))
      | _ \<Rightarrow> Inl (OsError EISDIR))"

definition overwrite :: "nat \<Rightarrow> bytes \<Rightarrow> bytes \<Rightarrow> bytes" where
  "overwrite off data bs =
     (if data = [] then bs
      else take off bs @ replicate (off - length bs) 0 @ data @ drop (off + length data) bs)"

definition write_at ::
  "host_fs \<Rightarrow> location \<Rightarrow> nat \<Rightarrow> bytes \<Rightarrow> (io_error, host_fs) result" where
  "write_at fs loc off data =
     (case lookup fs loc of
        Some (NFile bs) \<Rightarrow>
          if off + length data \<ge> 2 ^ 63 then Inl (OsError EFBIG)
          else Inr (put_node fs loc (NFile (overwrite off data bs)))
      | _ \<Rightarrow> Inl (OsError EINVAL))"

text \<open>\<open>File::set_len\<close> converts the size to a signed number before the system call.\<close>

definition set_len :: "host_fs \<Rightarrow> location \<Rightarrow> u64 \<Rightarrow> (io_error, host_fs) result" where
  "set_len fs loc sz =
     (if unat sz \<ge> 2 ^ 63
      then Inl (CustomError ''out of range integral type conversion attempted'')
      else (case lookup fs loc of
              Some (NFile bs) \<Rightarrow>
                Inr (put_node fs loc
                  (NFile (take (unat sz) bs @ replicate (unat sz - length bs) 0)))
            | _ \<Rightarrow> Inl (OsError EINVAL)))"

definition create_dir :: "host_fs \<Rightarrow> path \<Rightarrow> (io_error, host_fs) result" where
  "create_dir fs p =
     rbind (resolve fs p False) (\<lambda>loc.
     case lookup fs loc of
       None \<Rightarrow> Inr (put_node fs loc NDir)
     | Some _ \<Rightarrow> Inl (OsError EEXIST))"

text \<open>\<open>create_dir_all\<close> tries the directory itself, then its parents, then itself again.\<close>

function create_dir_all :: "host_fs \<Rightarrow> path \<Rightarrow> host_fs \<times> (io_error, unit) result" where
  "create_dir_all fs p =
     (if p = [] then (fs, Inr ())
      else (case create_dir fs p of
              Inr fs' \<Rightarrow> (fs', Inr ())
            | Inl e \<Rightarrow>
                if e \<noteq> OsError ENOENT then (fs, if path_is_dir fs p then Inr () else Inl e)
                else (case path_parent p of
                        None \<Rightarrow> (fs, Inl (CustomError ''failed to create whole tree''))
                      | Some parent \<Rightarrow>
                          (case create_dir_all fs parent of
                             (fs1, Inl e1) \<Rightarrow> (fs1, Inl e1)
                           | (fs1, Inr _) \<Rightarrow>
                               (case create_dir fs1 p of
                                  Inr fs2 \<Rightarrow> (fs2, Inr ())
                                | Inl e2 \<Rightarrow> (fs1, if path_is_dir fs1 p then Inr () else Inl e2))))))"
  by pat_completeness auto
termination
  by (relation "measure (\<lambda>(fs, p). length p)") (auto simp: path_parent_def split: if_splits)

declare create_dir_all.simps [simp del]

definition remove_file :: "host_fs \<Rightarrow> path \<Rightarrow> (io_error, host_fs) result" where
  "remove_file fs p =
     rbind (resolve_node fs p False) (\<lambda>(loc, n).
     case n of NDir \<Rightarrow> Inl (OsError EISDIR) | _ \<Rightarrow> Inr (del_node fs loc))"

definition remove_dir :: "host_fs \<Rightarrow> path \<Rightarrow> (io_error, host_fs) result" where
  "remove_dir fs p =
     rbind (resolve_node fs p False) (\<lambda>(loc, n).
     case n of
       NDir \<Rightarrow> if loc = [] then Inl (OsError EBUSY)
               else if children fs loc \<noteq> [] then Inl (OsError ENOTEMPTY)
               else Inr (del_node fs loc)
     | _ \<Rightarrow> Inl (OsError ENOTDIR))"

definition move_key :: "location \<Rightarrow> location \<Rightarrow> location \<Rightarrow> location" where
  "move_key a b q = (if prefix a q then b @ drop (length a) q else q)"

definition move_tree :: "host_fs \<Rightarrow> location \<Rightarrow> location \<Rightarrow> host_fs" where
  "move_tree fs a b =
     fs\<lparr>hf_nodes := map (\<lambda>(q, n). (move_key a b q, n)) (filter (\<lambda>(q, _). q \<noteq> b) (hf_nodes fs))\<rparr>"

definition rename_at :: "host_fs \<Rightarrow> location \<Rightarrow> node \<Rightarrow> location \<Rightarrow> (io_error, host_fs) result" where
  "rename_at fs a n b =
     (if a = b then Inr fs
      else if a = [] \<or> b = [] then Inl (OsError EBUSY)
      else if prefix a b then Inl (OsError EINVAL)
      else if prefix b a then Inl (OsError ENOTEMPTY)
      else (case lookup fs b of
              None \<Rightarrow> Inr (move_tree fs a b)
            | Some NDir \<Rightarrow>
                if n \<noteq> NDir then Inl (OsError EISDIR)
                else if children fs b \<noteq> [] then Inl (OsError ENOTEMPTY)
                else Inr (move_tree fs a b)
            | Some _ \<Rightarrow> if n = NDir then Inl (OsError ENOTDIR) else Inr (move_tree fs a b)))"

definition rename :: "host_fs \<Rightarrow> path \<Rightarrow> path \<Rightarrow> (io_error, host_fs) result" where
  "rename fs p q =
     rbind (resolve_node fs p False) (\<lambda>(a, n).
     rbind (resolve fs q False) (\<lambda>b. rename_at fs a n b))"

subsection \<open>Lookup after update\<close>

lemma lookup_put [simp]: "lookup (put_node fs p n) q = (if q = p then Some n else lookup fs q)"
  by (simp add: lookup_def put_node_def map_of_filter_key)

lemma lookup_del [simp]: "lookup (del_node fs p) q = (if q = p then None else lookup fs q)"
  by (simp add: lookup_def del_node_def map_of_filter_key)

lemma cwd_put [simp]: "hf_cwd (put_node fs p n) = hf_cwd fs"
  by (simp add: put_node_def)

lemma cwd_del [simp]: "hf_cwd (del_node fs p) = hf_cwd fs"
  by (simp add: del_node_def)

lemma cwd_move [simp]: "hf_cwd (move_tree fs a b) = hf_cwd fs"
  by (simp add: move_tree_def)

lemma children_iff: "children fs d = [] \<longleftrightarrow> (\<forall>n. lookup fs (d @ [n]) = None)"
proof -
  have "children fs d = [] \<longleftrightarrow> (\<forall>q \<in> fst ` set (hf_nodes fs). \<not> (q \<noteq> [] \<and> butlast q = d))"
    by (auto simp: children_def filter_empty_conv)
  also have "\<dots> \<longleftrightarrow> (\<forall>n. d @ [n] \<notin> fst ` set (hf_nodes fs))"
    by (metis append_butlast_last_id butlast_snoc snoc_eq_iff_butlast)
  also have "\<dots> \<longleftrightarrow> (\<forall>n. lookup fs (d @ [n]) = None)"
    by (simp add: lookup_def map_of_eq_None_iff)
  finally show ?thesis .
qed

subsection \<open>Well-formed file systems\<close>

text \<open>The root is a directory, and every node's parent is one.\<close>

definition fs_wf :: "host_fs \<Rightarrow> bool" where
  "fs_wf fs \<longleftrightarrow>
     lookup fs [] = Some NDir \<and>
     (\<forall>p n. lookup fs (p @ [n]) \<noteq> None \<longrightarrow> lookup fs p = Some NDir)"

lemma fs_wf_prefix_dir:
  assumes "fs_wf fs" "lookup fs (p @ q) \<noteq> None" "q \<noteq> []"
  shows "lookup fs p = Some NDir"
  using assms(2,3)
proof (induction q rule: rev_induct)
  case Nil
  then show ?case by simp
next
  case (snoc x q)
  then have "lookup fs (p @ q) = Some NDir"
    using assms(1) unfolding fs_wf_def by (metis append_assoc)
  with snoc show ?case by (cases "q = []") auto
qed

lemma fs_wf_butlast: "fs_wf fs \<Longrightarrow> lookup fs p = Some NDir \<Longrightarrow> lookup fs (butlast p) = Some NDir"
  by (cases p rule: rev_cases) (auto simp: fs_wf_def)

subsection \<open>Facts on path resolution\<close>

text \<open>Resolution stays among directories, and a followed result is never a link.\<close>

lemma walk_result:
  assumes "walk fs k cur cs follow = Inr (loc, k')" "fs_wf fs" "lookup fs cur = Some NDir"
  shows "(lookup fs loc = None \<longrightarrow> (\<exists>p n. loc = p @ [n] \<and> lookup fs p = Some NDir)) \<and>
         (follow \<longrightarrow> (\<forall>t. lookup fs loc \<noteq> Some (NSymlink t))) \<and> k' \<le> k"
  using assms
proof (induction fs k cur cs follow rule: walk.induct)
  case (1 fs k cur follow)
  then show ?case by simp
next
  case (2 fs k cur cs follow)
  then show ?case by (simp add: fs_wf_def)
next
  case (3 fs k cur cs follow)
  then show ?case by simp
next
  case (4 fs k cur cs follow)
  then show ?case by (simp add: fs_wf_butlast)
next
  case (5 fs k cur n cs follow)
  show ?case
  proof (cases "lookup fs (cur @ [n])")
    case None
    with 5 show ?thesis by (auto split: if_splits)
  next
    case (Some x)
    with 5 show ?thesis
      by (cases x) (fastforce split: if_splits nat.splits)+
  qed
qed

lemma walk_append:
  assumes "fs_wf fs" "lookup fs cur = Some NDir" "ds \<noteq> []"
  shows "walk fs k cur (cs @ ds) follow =
     rbind (walk fs k cur cs True) (\<lambda>(loc, k').
       case lookup fs loc of
         None \<Rightarrow> Inl (OsError ENOENT)
       | Some NDir \<Rightarrow> walk fs k' loc ds follow
       | Some _ \<Rightarrow> Inl (OsError ENOTDIR))"
  using assms
proof (induction fs k cur cs "True" rule: walk.induct)
  case (1 fs k cur)
  then show ?case by simp
next
  case (2 fs k cur cs)
  then show ?case by (simp add: fs_wf_def)
next
  case (3 fs k cur cs)
  then show ?case by simp
next
  case (4 fs k cur cs)
  then show ?case by (simp add: fs_wf_butlast)
next
  case (5 fs k cur n cs)
  show ?case
  proof (cases "lookup fs (cur @ [n])")
    case None
    with 5 show ?thesis by (simp split: if_splits)
  next
    case (Some x)
    with 5 show ?thesis
      by (cases x) (auto split: nat.splits)
  qed
qed

lemma walk_dirs:
  assumes "fs_wf fs" "lookup fs (cur @ ns) \<noteq> None"
    and "follow \<longrightarrow> (\<forall>t. lookup fs (cur @ ns) \<noteq> Some (NSymlink t))"
  shows "walk fs k cur (normal_path ns) follow = Inr (cur @ ns, k)"
  using assms(2,3)
proof (induction ns arbitrary: cur)
  case Nil
  then show ?case by (simp add: normal_path_def)
next
  case (Cons n ns)
  show ?case
  proof (cases "ns = []")
    case True
    with Cons.prems show ?thesis
      by (auto simp: normal_path_def split: node.splits)
  next
    case False
    then have "lookup fs (cur @ [n]) = Some NDir"
      using fs_wf_prefix_dir [OF assms(1), of "cur @ [n]" ns] Cons.prems(1) by simp
    with Cons.IH [of "cur @ [n]"] Cons.prems show ?thesis by (simp add: normal_path_def)
  qed
qed

text \<open>The canonical path of an existing node resolves to that node.\<close>

lemma resolve_abs:
  assumes "fs_wf fs" "lookup fs loc \<noteq> None" "follow \<longrightarrow> (\<forall>t. lookup fs loc \<noteq> Some (NSymlink t))"
  shows "resolve fs (abs_path loc) follow = Inr loc"
  using walk_dirs [of fs "[]" loc follow] assms by (simp add: resolve_def abs_path_def)

text \<open>A canonical path extended by one name.\<close>

lemma abs_path_snoc: "abs_path loc @ [Normal n] = abs_path (loc @ [n])"
  by (simp add: abs_path_def normal_path_def)

lemma walk_snoc_dir:
  assumes "fs_wf fs" "lookup fs loc = Some NDir" "lookup fs (loc @ [n]) = None \<or> \<not> follow"
  shows "resolve fs (abs_path loc @ [Normal n]) follow = Inr (loc @ [n])"
proof -
  have "walk fs MAXSYMLINKS [] (normal_path loc) True = Inr (loc, MAXSYMLINKS)"
    using walk_dirs [of fs "[]" loc True] assms by simp
  then have "walk fs MAXSYMLINKS [] (normal_path loc @ [Normal n]) follow =
      walk fs MAXSYMLINKS loc [Normal n] follow"
    using assms walk_append [of fs "[]" "[Normal n]" MAXSYMLINKS "normal_path loc" follow]
    by (simp add: fs_wf_def)
  moreover have "walk fs MAXSYMLINKS loc [Normal n] follow = Inr (loc @ [n], MAXSYMLINKS)"
    using assms(3) by (auto split: option.splits node.splits)
  ultimately show ?thesis by (simp add: resolve_def abs_path_def)
qed

lemma resolve_result:
  assumes "fs_wf fs" "is_absolute p" "resolve fs p follow = Inr loc"
  shows "lookup fs loc = None \<Longrightarrow> \<exists>q n. loc = q @ [n] \<and> lookup fs q = Some NDir"
    and "follow \<Longrightarrow> lookup fs loc \<noteq> Some (NSymlink t)"
proof -
  from assms(2) obtain cs where p: "p = RootDir # cs"
    by (auto simp: is_absolute_def split: list.splits)
  from assms p obtain k where "walk fs MAXSYMLINKS [] cs follow = Inr (loc, k)"
    by (auto simp: resolve_def result_elims)
  from walk_result [OF this assms(1)] assms(1)
  show "lookup fs loc = None \<Longrightarrow> \<exists>q n. loc = q @ [n] \<and> lookup fs q = Some NDir"
    and "follow \<Longrightarrow> lookup fs loc \<noteq> Some (NSymlink t)"
    by (auto simp: fs_wf_def)
qed

lemma is_absolute_abs_path [simp]: "is_absolute (abs_path loc)" "is_absolute (abs_path loc @ cs)"
  by (simp_all add: is_absolute_def abs_path_def)

subsection \<open>Moving a subtree\<close>

lemma map_of_rekey:
  assumes "\<And>q. q \<in> fst ` set xs \<Longrightarrow> f q = p \<longleftrightarrow> q = p'"
  shows "map_of (map (\<lambda>(q, n). (f q, n)) xs) p = map_of xs p'"
  using assms
proof (induction xs)
  case Nil
  then show ?case by simp
next
  case (Cons x xs)
  then have "f (fst x) = p \<longleftrightarrow> fst x = p'" by simp
  with Cons show ?case by (cases x) auto
qed

text \<open>After a rename the subtree is found under its new name and nowhere else.\<close>

lemma lookup_move:
  assumes ab: "\<not> prefix a b" "\<not> prefix b a"
    and empty: "\<And>r. r \<noteq> [] \<Longrightarrow> lookup fs (b @ r) = None"
  shows "lookup (move_tree fs a b) p =
     (if prefix b p then lookup fs (a @ drop (length b) p)
      else if prefix a p then None else lookup fs p)"
proof -
  let ?xs = "filter (\<lambda>(q, _). q \<noteq> b) (hf_nodes fs)"
  have keys: "q \<in> fst ` set ?xs \<Longrightarrow> lookup fs q \<noteq> None \<and> q \<noteq> b" for q
    by (force simp: lookup_def map_of_eq_None_iff)
  have old: "q \<noteq> b \<Longrightarrow> map_of ?xs q = lookup fs q" for q
    by (simp add: lookup_def map_of_filter_key)
  have new: "lookup (move_tree fs a b) p = map_of (map (\<lambda>(q, n). (move_key a b q, n)) ?xs) p"
    by (simp add: lookup_def move_tree_def)
  consider (target) "prefix b p" | (source) "\<not> prefix b p" "prefix a p"
    | (other) "\<not> prefix b p" "\<not> prefix a p" by blast
  then show ?thesis
  proof cases
    case target
    then obtain r where r: "p = b @ r" by (auto simp: prefix_def)
    have "move_key a b q = p \<longleftrightarrow> q = a @ r" if "q \<in> fst ` set ?xs" for q
      using keys [OF that] empty [of r] r
      by (cases "r = []") (auto simp: move_key_def prefix_def)
    then have "map_of (map (\<lambda>(q, n). (move_key a b q, n)) ?xs) p = map_of ?xs (a @ r)"
      by (rule map_of_rekey)
    moreover have "a @ r \<noteq> b" using ab(1) by (auto simp: prefix_def)
    ultimately show ?thesis using new old r target by simp
  next
    case source
    have "move_key a b q \<noteq> p" for q
      using source by (auto simp: move_key_def)
    then have "map_of (map (\<lambda>(q, n). (move_key a b q, n)) ?xs) p = None"
      by (auto simp: map_of_eq_None_iff) metis
    with new source show ?thesis by simp
  next
    case other
    have "move_key a b q = p \<longleftrightarrow> q = p" if "q \<in> fst ` set ?xs" for q
      using other by (auto simp: move_key_def)
    then have "map_of (map (\<lambda>(q, n). (move_key a b q, n)) ?xs) p = map_of ?xs p"
      by (rule map_of_rekey)
    moreover have "p \<noteq> b" using other by auto
    ultimately show ?thesis using new old other by simp
  qed
qed

subsection \<open>Every call keeps the file system well formed\<close>

lemma fs_wf_no_descendants:
  assumes "fs_wf fs" "lookup fs p \<noteq> Some NDir" "r \<noteq> []"
  shows "lookup fs (p @ r) = None"
proof (rule ccontr)
  assume "lookup fs (p @ r) \<noteq> None"
  from fs_wf_prefix_dir [OF assms(1) this assms(3)] assms(2) show False by simp
qed

lemma fs_wf_empty_dir:
  assumes "fs_wf fs" "children fs p = []" "r \<noteq> []"
  shows "lookup fs (p @ r) = None"
proof -
  obtain n r' where r: "r = n # r'" using assms(3) by (cases r) auto
  have "lookup fs (p @ [n]) = None" using assms(2) by (simp add: children_iff)
  then show ?thesis
    using fs_wf_no_descendants [OF assms(1), of "p @ [n]" r'] r by (cases "r' = []") auto
qed

lemma put_node_wf:
  assumes "fs_wf fs" "loc \<noteq> []" "lookup fs loc \<noteq> Some NDir"
    and "lookup fs loc = None \<Longrightarrow> lookup fs (butlast loc) = Some NDir"
  shows "fs_wf (put_node fs loc x)"
proof -
  have parent: "lookup fs (butlast loc) = Some NDir"
    using assms by (cases "lookup fs loc"; cases loc rule: rev_cases) (auto simp: fs_wf_def)
  have "lookup (put_node fs loc x) p = Some NDir"
    if ex: "lookup (put_node fs loc x) (p @ [n]) \<noteq> None" for p n
  proof (cases "p @ [n] = loc")
    case True
    with parent assms(3) show ?thesis by auto
  next
    case False
    with ex assms(1) have "lookup fs p = Some NDir" by (auto simp: fs_wf_def)
    with assms(3) show ?thesis by auto
  qed
  with assms(1,2) show ?thesis by (simp add: fs_wf_def)
qed

lemma del_node_wf:
  assumes "fs_wf fs" "loc \<noteq> []" "\<And>n. lookup fs (loc @ [n]) = None"
  shows "fs_wf (del_node fs loc)"
  using assms unfolding fs_wf_def by (auto split: if_splits)

lemma move_tree_wf:
  assumes wf: "fs_wf fs" and ab: "\<not> prefix a b" "\<not> prefix b a"
    and src: "lookup fs a \<noteq> None" and parent: "lookup fs (butlast b) = Some NDir"
    and empty: "\<And>r. r \<noteq> [] \<Longrightarrow> lookup fs (b @ r) = None"
  shows "fs_wf (move_tree fs a b)"
proof -
  note look = lookup_move [OF ab empty]
  have nonempty: "a \<noteq> []" "b \<noteq> []" using ab by auto
  have "lookup (move_tree fs a b) p = Some NDir"
    if ex: "lookup (move_tree fs a b) (p @ [n]) \<noteq> None" for p n
  proof (cases "prefix b (p @ [n])")
    case True
    show ?thesis
    proof (cases "b = p @ [n]")
      case eq: True
      then have "\<not> prefix b p" "\<not> prefix a p" using ab(1) by (auto simp: prefix_def)
      with parent eq look [of p] show ?thesis by simp
    next
      case False
      with True obtain r where r: "p = b @ r" by (auto simp: prefix_def) (metis append_butlast_last_id butlast_append butlast_snoc self_append_conv)
      with ex have "lookup fs ((a @ r) @ [n]) \<noteq> None" by (simp add: look)
      with wf have "lookup fs (a @ r) = Some NDir" unfolding fs_wf_def by blast
      with r show ?thesis by (simp add: look)
    qed
  next
    case False
    with ex have "\<not> prefix a (p @ [n])" "lookup fs (p @ [n]) \<noteq> None"
      by (auto simp: look split: if_splits)
    moreover from this False have "\<not> prefix a p" "\<not> prefix b p" by auto
    ultimately show ?thesis using wf look [of p] unfolding fs_wf_def by auto
  qed
  with wf nonempty show ?thesis by (simp add: fs_wf_def look)
qed

text \<open>
  The calls change the tree only at the location they resolve to, and keep it well formed.  The
  changes of a call are described by the set of locations whose node may differ afterwards.
\<close>

definition unchanged_outside :: "location \<Rightarrow> host_fs \<Rightarrow> host_fs \<Rightarrow> bool" where
  "unchanged_outside root fs fs' \<longleftrightarrow> (\<forall>p. \<not> prefix root p \<longrightarrow> lookup fs' p = lookup fs p)"

lemma unchanged_outside_refl [simp]: "unchanged_outside root fs fs"
  by (simp add: unchanged_outside_def)

lemma unchanged_outside_trans:
  "unchanged_outside root fs fs1 \<Longrightarrow> unchanged_outside root fs1 fs2 \<Longrightarrow> unchanged_outside root fs fs2"
  by (simp add: unchanged_outside_def)

lemma unchanged_outside_put: "prefix root loc \<Longrightarrow> unchanged_outside root fs (put_node fs loc n)"
  by (auto simp: unchanged_outside_def)

lemma unchanged_outside_del: "prefix root loc \<Longrightarrow> unchanged_outside root fs (del_node fs loc)"
  by (auto simp: unchanged_outside_def)

lemma resolved_parent:
  assumes "fs_wf fs" "is_absolute p" "resolve fs p follow = Inr loc" "loc \<noteq> []"
  shows "lookup fs (butlast loc) = Some NDir"
proof (cases "lookup fs loc")
  case None
  with resolve_result(1) [OF assms(1-3)] show ?thesis by auto
next
  case (Some n)
  with assms(1,4) show ?thesis
    by (cases loc rule: rev_cases) (auto simp: fs_wf_def)
qed

lemma root_is_dir: "fs_wf fs \<Longrightarrow> lookup fs loc \<noteq> Some NDir \<Longrightarrow> loc \<noteq> []"
  by (auto simp: fs_wf_def)

lemma open_write_effect:
  assumes "fs_wf fs" "is_absolute p" "open_write fs p create trunc = Inr (fs', loc)"
  shows "resolve fs p True = Inr loc \<and> fs_wf fs' \<and> (\<exists>bs. lookup fs' loc = Some (NFile bs)) \<and>
         (\<forall>q. q \<noteq> loc \<longrightarrow> lookup fs' q = lookup fs q)"
proof -
  obtain loc' where r': "resolve fs p True = Inr loc'" and o: "open_at fs loc' create trunc = Inr (fs', loc)"
    using assms(3) by (auto simp: open_write_def result_elims)
  from o have [simp]: "loc' = loc" and nd: "lookup fs loc \<noteq> Some NDir"
    by (cases "lookup fs loc'"; auto simp: open_at_def split: node.splits if_splits)+
  have r: "resolve fs p True = Inr loc" using r' by simp
  have "fs_wf (put_node fs loc x)" for x
    using put_node_wf [OF assms(1) root_is_dir [OF assms(1) nd] nd]
      resolved_parent [OF assms(1,2) r root_is_dir [OF assms(1) nd]] by blast
  with assms r o show ?thesis
    by (cases "lookup fs loc") (auto simp: open_at_def split: node.splits if_splits)
qed

lemma write_at_effect:
  assumes "fs_wf fs" "write_at fs loc off data = Inr fs'"
  shows "fs_wf fs' \<and> (\<exists>bs. lookup fs loc = Some (NFile bs) \<and>
           lookup fs' loc = Some (NFile (overwrite off data bs))) \<and>
         (\<forall>q. q \<noteq> loc \<longrightarrow> lookup fs' q = lookup fs q)"
  using assms put_node_wf [OF assms(1) root_is_dir [OF assms(1)], of loc]
  by (auto simp: write_at_def split: option.splits node.splits if_splits)

lemma set_len_effect:
  assumes "fs_wf fs" "set_len fs loc sz = Inr fs'"
  shows "fs_wf fs' \<and> (\<exists>bs. lookup fs loc = Some (NFile bs) \<and>
           lookup fs' loc = Some (NFile (take (unat sz) bs @ replicate (unat sz - length bs) 0))) \<and>
         (\<forall>q. q \<noteq> loc \<longrightarrow> lookup fs' q = lookup fs q)"
  using assms put_node_wf [OF assms(1) root_is_dir [OF assms(1)], of loc]
  by (auto simp: set_len_def split: option.splits node.splits if_splits)

lemma create_dir_effect:
  assumes "fs_wf fs" "is_absolute p" "create_dir fs p = Inr fs'"
  shows "\<exists>loc. resolve fs p False = Inr loc \<and> lookup fs loc = None \<and> fs_wf fs' \<and>
           fs' = put_node fs loc NDir"
proof -
  from assms(3) obtain loc where r: "resolve fs p False = Inr loc" "lookup fs loc = None"
    and fs': "fs' = put_node fs loc NDir"
    by (auto simp: create_dir_def result_elims split: option.splits)
  from r(2) have nd: "lookup fs loc \<noteq> Some NDir" by simp
  have "fs_wf fs'"
    unfolding fs' using put_node_wf [OF assms(1) root_is_dir [OF assms(1) nd] nd]
      resolved_parent [OF assms(1,2) r(1) root_is_dir [OF assms(1) nd]] by blast
  with r fs' show ?thesis by blast
qed

lemma remove_file_effect:
  assumes "fs_wf fs" "remove_file fs p = Inr fs'"
  shows "\<exists>loc n. resolve fs p False = Inr loc \<and> lookup fs loc = Some n \<and> n \<noteq> NDir \<and> fs_wf fs' \<and>
           fs' = del_node fs loc"
proof -
  from assms(2) obtain loc n where r: "resolve fs p False = Inr loc" "lookup fs loc = Some n" "n \<noteq> NDir"
    and fs': "fs' = del_node fs loc"
    by (auto simp: remove_file_def resolve_node_def result_elims split: option.splits node.splits)
  then have nd: "lookup fs loc \<noteq> Some NDir" by simp
  have "fs_wf fs'"
    unfolding fs' using fs_wf_no_descendants [OF assms(1) nd]
    by (intro del_node_wf [OF assms(1) root_is_dir [OF assms(1) nd]]) simp
  with r fs' show ?thesis by blast
qed

lemma remove_dir_effect:
  assumes "fs_wf fs" "remove_dir fs p = Inr fs'"
  shows "\<exists>loc. resolve fs p False = Inr loc \<and> lookup fs loc = Some NDir \<and> children fs loc = [] \<and>
           fs_wf fs' \<and> fs' = del_node fs loc"
proof -
  from assms(2) obtain loc where r: "resolve fs p False = Inr loc" "lookup fs loc = Some NDir"
    "children fs loc = []" "loc \<noteq> []" and fs': "fs' = del_node fs loc"
    by (auto simp: remove_dir_def resolve_node_def result_elims split: option.splits node.splits if_splits)
  then have "fs_wf fs'" using assms(1) by (auto simp: children_iff intro!: del_node_wf)
  with r fs' show ?thesis by blast
qed

lemma rename_effect:
  assumes "fs_wf fs" "is_absolute p" "is_absolute q" "rename fs p q = Inr fs'"
  shows "\<exists>a b n. resolve fs p False = Inr a \<and> resolve fs q False = Inr b \<and> lookup fs a = Some n \<and>
           fs_wf fs' \<and>
           (a = b \<and> fs' = fs \<or>
            (\<forall>l. lookup fs' l = (if prefix b l then lookup fs (a @ drop (length b) l)
                                 else if prefix a l then None else lookup fs l)))"
proof -
  from assms(4) obtain a b n where r: "resolve fs p False = Inr a" "lookup fs a = Some n"
      "resolve fs q False = Inr b" and at: "rename_at fs a n b = Inr fs'"
    by (auto simp: rename_def resolve_node_def result_elims split: option.splits)
  from at have cases: "a = b \<and> fs' = fs \<or>
      (b \<noteq> [] \<and> \<not> prefix a b \<and> \<not> prefix b a \<and> fs' = move_tree fs a b \<and>
       (lookup fs b \<noteq> Some NDir \<or> children fs b = []))"
    by (cases "lookup fs b") (auto simp: rename_at_def split: node.splits if_splits)
  show ?thesis
  proof (cases "a = b \<and> fs' = fs")
    case True
    with r assms(1) show ?thesis by blast
  next
    case False
    with cases have b: "b \<noteq> []" "\<not> prefix a b" "\<not> prefix b a" "fs' = move_tree fs a b"
      and e: "lookup fs b \<noteq> Some NDir \<or> children fs b = []" by auto
    have empty: "r \<noteq> [] \<Longrightarrow> lookup fs (b @ r) = None" for r
      using e fs_wf_no_descendants fs_wf_empty_dir assms(1) by blast
    have "fs_wf fs'"
      unfolding b(4) using r resolved_parent [OF assms(1,3) r(3) b(1)] empty
      by (intro move_tree_wf [OF assms(1) b(2,3)]) auto
    moreover have "\<forall>l. lookup fs' l = (if prefix b l then lookup fs (a @ drop (length b) l)
                                 else if prefix a l then None else lookup fs l)"
      unfolding b(4) using lookup_move [OF b(2,3) empty] by blast
    ultimately show ?thesis using r by blast
  qed
qed

end
