(* ===== verification/Hostfs_Service.thy ===== *)
theory Hostfs_Service
  imports Fs_Protocol Host_Fs
begin

text \<open>
  The host side of a hostfs mount (\<open>hostfs_service.rs\<close>): path normalisation, the three ways of
  resolving a client path below the mount root, one handler per request and the connection loop.
  Main results: a read-only mount never changes the host, reads and writes stay below the mount
  root as long as no link below it dangles, and what was written is read back.
\<close>

subsection \<open>Service state and environment\<close>

definition MAX_READ_FILE_LEN :: u32 where
  "MAX_READ_FILE_LEN = 1024 * 1024"

record host_fs_service =
  hs_mount_name :: string
  hs_root :: path
  hs_read_only :: bool

text \<open>
  What the kernel reports and the model does not track: \<open>statvfs\<close> of a path, a node's permission
  bit, times and size on disk; and \<open>to_string_lossy\<close> on a file name.
\<close>

record file_attr =
  fa_readonly :: bool
  fa_modified :: "int option"
  fa_accessed :: "int option"
  fa_len :: u64

record statvfs_info =
  sv_fragment_size :: u64
  sv_blocks :: u64
  sv_blocks_available :: u64

record host_env =
  he_statvfs :: "path \<Rightarrow> (int, statvfs_info) result"
  he_attr :: "location \<Rightarrow> file_attr"
  he_lossy :: "string \<Rightarrow> string"

subsection \<open>Errors on the wire\<close>

definition invalid_input :: "string \<Rightarrow> fs_proxy_error" where
  "invalid_input message = FsProxyError_new (Some EINVAL) message"

definition io_error_to_proxy_error :: "io_error \<Rightarrow> fs_proxy_error" where
  "io_error_to_proxy_error err =
     FsProxyError_new
       (case raw_os_error err of Some c \<Rightarrow> Some c | None \<Rightarrow> Some EIO) (io_error_text err)"

definition nix_error_to_proxy_error :: "int \<Rightarrow> fs_proxy_error" where
  "nix_error_to_proxy_error code = FsProxyError_new (Some code) (strerror code)"

abbreviation io :: "(io_error, 'a) result \<Rightarrow> (fs_proxy_error, 'a) result" where
  "io r \<equiv> map_err io_error_to_proxy_error r"

subsection \<open>Metadata\<close>

definition node_entry_type :: "node \<Rightarrow> fs_entry_type" where
  "node_entry_type n =
     (case n of NDir \<Rightarrow> EDirectory | NFile _ \<Rightarrow> EFile | NSymlink _ \<Rightarrow> ESymlink | NOther \<Rightarrow> EOther)"

text \<open>A time is in nanoseconds since the epoch; before the epoch \<open>duration_since\<close> fails.\<close>

definition system_time_to_epoch :: "int option \<Rightarrow> u64 \<times> u32" where
  "system_time_to_epoch time =
     (case time of
        None \<Rightarrow> (0, 0)
      | Some t \<Rightarrow> if t < 0 then (0, 0) else (of_int (t div 1000000000), of_int (t mod 1000000000)))"

definition metadata_to_wire :: "file_attr \<Rightarrow> node \<Rightarrow> fs_metadata" where
  "metadata_to_wire a n =
     (let (mtime_secs, mtime_nsecs) = system_time_to_epoch (fa_modified a);
          (atime_secs, atime_nsecs) = system_time_to_epoch (fa_accessed a)
      in \<lparr>md_entry_type = node_entry_type n,
          md_len = (case n of NFile bs \<Rightarrow> of_nat (length bs) | _ \<Rightarrow> fa_len a),
          md_read_only = fa_readonly a,
          md_mtime_secs = mtime_secs, md_mtime_nsecs = mtime_nsecs,
          md_atime_secs = atime_secs, md_atime_nsecs = atime_nsecs\<rparr>)"

subsection \<open>Resolving client paths\<close>

fun push_components :: "path \<Rightarrow> path \<Rightarrow> (fs_proxy_error, path) result" where
  "push_components normalized [] = Inr normalized"
| "push_components normalized (Normal part # cs) =
     push_components (path_join normalized [Normal part]) cs"
| "push_components normalized (CurDir # cs) = push_components normalized cs"
| "push_components normalized (ParentDir # cs) =
     Inl (invalid_input ''hostfs path traversal is not allowed'')"
| "push_components normalized (RootDir # cs) =
     Inl (invalid_input ''hostfs paths must be relative'')"

definition normalize_relative_path :: "string \<Rightarrow> (fs_proxy_error, path) result" where
  "normalize_relative_path path =
     (let raw = trim path in
      if raw = [] \<or> raw = ''.'' then Inr []
      else rbind (bail_if (is_absolute (components raw))
                   (invalid_input ''hostfs paths must be relative'')) (\<lambda>_.
           push_components [] (components raw)))"

definition ensure_within_root ::
  "path \<Rightarrow> string \<Rightarrow> path \<Rightarrow> (fs_proxy_error, unit) result" where
  "ensure_within_root root mount_name p =
     (if p = root \<or> path_starts_with p root then Inr ()
      else Inl (invalid_input (''hostfs path escapes mount root '' @ [CHR 0x27] @ mount_name @ [CHR 0x27])))"

definition resolve_follow_path_sync ::
  "host_fs \<Rightarrow> path \<Rightarrow> string \<Rightarrow> path \<Rightarrow> (fs_proxy_error, path) result" where
  "resolve_follow_path_sync fs root mount_name relative =
     (let joined = path_join root relative in
      rbind (io (canonicalize fs joined)) (\<lambda>canonical.
      rbind (ensure_within_root root mount_name canonical) (\<lambda>_. Inr canonical)))"

fun create_components ::
  "host_fs \<Rightarrow> path \<Rightarrow> string \<Rightarrow> path \<Rightarrow> path \<Rightarrow> (fs_proxy_error, path) result" where
  "create_components fs root mount_name current [] = Inr current"
| "create_components fs root mount_name current (c # cs) =
     (case c of
        Normal part \<Rightarrow>
          (let current = path_join current [Normal part] in
           if path_exists fs current then
             rbind (io (canonicalize fs current)) (\<lambda>canonical.
             rbind (ensure_within_root root mount_name canonical) (\<lambda>_.
             create_components fs root mount_name canonical cs))
           else create_components fs root mount_name current cs)
      | _ \<Rightarrow> Inl (invalid_input ''hostfs path contains an invalid component''))"

definition resolve_path_for_create_sync ::
  "host_fs \<Rightarrow> path \<Rightarrow> string \<Rightarrow> path \<Rightarrow> (fs_proxy_error, path) result" where
  "resolve_path_for_create_sync fs root mount_name relative =
     (if relative = [] then Inl (invalid_input ''path must not refer to the mount root'')
      else create_components fs root mount_name root relative)"

definition resolve_path_preserving_leaf_sync ::
  "host_fs \<Rightarrow> path \<Rightarrow> string \<Rightarrow> path \<Rightarrow> bool \<Rightarrow> (fs_proxy_error, path) result" where
  "resolve_path_preserving_leaf_sync fs root mount_name relative allow_root =
     (if relative = [] then
        (if allow_root then Inr root
         else Inl (invalid_input ''path must not refer to the mount root''))
      else
        (let parent = unwrap_or [] (path_parent relative) in
         rbind (if parent = [] then Inr root
                else resolve_follow_path_sync fs root mount_name parent) (\<lambda>parent.
         rbind (ok_or (invalid_input ''hostfs path must refer to a filesystem entry'')
                 (path_file_name relative)) (\<lambda>leaf.
         Inr (path_join parent [Normal leaf])))))"

definition resolve_existing_path ::
  "host_fs_service \<Rightarrow> host_fs \<Rightarrow> string \<Rightarrow> (fs_proxy_error, path) result" where
  "resolve_existing_path svc fs path =
     rbind (normalize_relative_path path) (\<lambda>relative.
     resolve_follow_path_sync fs (hs_root svc) (hs_mount_name svc) relative)"

definition resolve_path_for_create ::
  "host_fs_service \<Rightarrow> host_fs \<Rightarrow> string \<Rightarrow> (fs_proxy_error, path) result" where
  "resolve_path_for_create svc fs path =
     rbind (normalize_relative_path path) (\<lambda>relative.
     resolve_path_for_create_sync fs (hs_root svc) (hs_mount_name svc) relative)"

definition resolve_path_preserving_leaf ::
  "host_fs_service \<Rightarrow> host_fs \<Rightarrow> string \<Rightarrow> bool \<Rightarrow> (fs_proxy_error, path) result" where
  "resolve_path_preserving_leaf svc fs path allow_root =
     rbind (normalize_relative_path path) (\<lambda>relative.
     resolve_path_preserving_leaf_sync fs (hs_root svc) (hs_mount_name svc) relative allow_root)"

subsection \<open>Handlers\<close>

type_synonym reply = "(fs_proxy_error, fs_response) result"

definition HostFsService_new ::
  "host_fs \<Rightarrow> string \<Rightarrow> path \<Rightarrow> bool \<Rightarrow> (io_error, host_fs_service) result" where
  "HostFsService_new fs mount_name root read_only =
     rbind (bail_if (trim mount_name = []) (CustomError ''hostfs mount_name must not be empty'')) (\<lambda>_.
     rbind (canonicalize fs root) (\<lambda>root.
     rbind (bail_if (\<not> path_is_dir fs root) (CustomError ''hostfs root must be a directory'')) (\<lambda>_.
     Inr \<lparr>hs_mount_name = mount_name, hs_root = root, hs_read_only = read_only\<rparr>)))"

definition ensure_writable :: "host_fs_service \<Rightarrow> (fs_proxy_error, unit) result" where
  "ensure_writable svc =
     (if hs_read_only svc then
        Inl (FsProxyError_new (Some EROFS)
          (''hostfs mount '' @ [CHR 0x27] @ hs_mount_name svc @ [CHR 0x27] @ '' is read-only''))
      else Inr ())"

definition handle_statfs :: "host_env \<Rightarrow> host_fs_service \<Rightarrow> reply" where
  "handle_statfs env svc =
     rbind (map_err nix_error_to_proxy_error (he_statvfs env (hs_root svc))) (\<lambda>stat.
     Inr (RspStatFs \<lparr>fst_total_bytes = sv_blocks stat * sv_fragment_size stat,
                     fst_available_bytes = sv_blocks_available stat * sv_fragment_size stat\<rparr>))"

definition handle_metadata :: "host_env \<Rightarrow> host_fs_service \<Rightarrow> host_fs \<Rightarrow> string \<Rightarrow> reply" where
  "handle_metadata env svc fs path =
     rbind (resolve_path_preserving_leaf svc fs path True) (\<lambda>resolved.
     rbind (io (symlink_metadata fs resolved)) (\<lambda>(loc, n).
     Inr (RspMetadata (metadata_to_wire (he_attr env loc) n))))"

definition handle_read_dir :: "host_env \<Rightarrow> host_fs_service \<Rightarrow> host_fs \<Rightarrow> string \<Rightarrow> reply" where
  "handle_read_dir env svc fs path =
     rbind (resolve_existing_path svc fs path) (\<lambda>resolved.
     rbind (io (read_dir fs resolved)) (\<lambda>entries.
     Inr (RspReadDir (sort_key de_name
       (map (\<lambda>(name, n). \<lparr>de_name = he_lossy env name, de_entry_type = node_entry_type n\<rparr>) entries)))))"

definition handle_read_file ::
  "host_fs_service \<Rightarrow> host_fs \<Rightarrow> string \<Rightarrow> u64 \<Rightarrow> u32 \<Rightarrow> reply" where
  "handle_read_file svc fs path offset len =
     rbind (bail_if (len > MAX_READ_FILE_LEN)
       (invalid_input (''read length '' @ show_nat (unat len) @ '' exceeds hostfs max read size '' @
          show_nat (unat MAX_READ_FILE_LEN)))) (\<lambda>_.
     rbind (resolve_existing_path svc fs path) (\<lambda>resolved.
     rbind (io (open_read fs resolved)) (\<lambda>file.
     rbind (io (seek_start offset)) (\<lambda>pos.
     rbind (io (read_at fs file pos (unat len))) (\<lambda>data.
     Inr (RspReadFile data))))))"

definition handle_write_file ::
  "host_fs_service \<Rightarrow> host_fs \<Rightarrow> string \<Rightarrow> u64 \<Rightarrow> bytes \<Rightarrow> bool \<Rightarrow> bool \<Rightarrow> host_fs \<times> reply" where
  "handle_write_file svc fs path offset data create trunc =
     sbind (fs, resolve_path_for_create svc fs path) (\<lambda>fs resolved.
     sbind (supd fs (io (open_write fs resolved create trunc))) (\<lambda>fs file.
     sbind (fs, io (seek_start offset)) (\<lambda>fs pos.
     sbind (supd fs (io (rbind (write_at fs file pos data) (\<lambda>fs'. Inr (fs', ()))))) (\<lambda>fs _.
     (fs, Inr (RspWriteFile (of_nat (length data))))))))"

definition handle_set_len ::
  "host_fs_service \<Rightarrow> host_fs \<Rightarrow> string \<Rightarrow> u64 \<Rightarrow> host_fs \<times> reply" where
  "handle_set_len svc fs path sz =
     sbind (fs, resolve_path_for_create svc fs path) (\<lambda>fs resolved.
     sbind (supd fs (io (open_write fs resolved False False))) (\<lambda>fs file.
     sbind (supd fs (io (rbind (set_len fs file sz) (\<lambda>fs'. Inr (fs', ()))))) (\<lambda>fs _.
     (fs, Inr RspOk))))"

definition handle_mkdir ::
  "host_fs_service \<Rightarrow> host_fs \<Rightarrow> string \<Rightarrow> bool \<Rightarrow> host_fs \<times> reply" where
  "handle_mkdir svc fs path recursive =
     sbind (fs, resolve_path_for_create svc fs path) (\<lambda>fs resolved.
     sbind (if recursive
            then (case create_dir_all fs resolved of (fs', r) \<Rightarrow> (fs', io r))
            else supd fs (io (rbind (create_dir fs resolved) (\<lambda>fs'. Inr (fs', ()))))) (\<lambda>fs _.
     (fs, Inr RspOk)))"

definition handle_remove_file ::
  "host_fs_service \<Rightarrow> host_fs \<Rightarrow> string \<Rightarrow> host_fs \<times> reply" where
  "handle_remove_file svc fs path =
     sbind (fs, resolve_path_preserving_leaf svc fs path False) (\<lambda>fs resolved.
     sbind (supd fs (io (rbind (remove_file fs resolved) (\<lambda>fs'. Inr (fs', ()))))) (\<lambda>fs _.
     (fs, Inr RspOk)))"

definition handle_remove_dir ::
  "host_fs_service \<Rightarrow> host_fs \<Rightarrow> string \<Rightarrow> host_fs \<times> reply" where
  "handle_remove_dir svc fs path =
     sbind (fs, resolve_path_preserving_leaf svc fs path False) (\<lambda>fs resolved.
     sbind (supd fs (io (rbind (remove_dir fs resolved) (\<lambda>fs'. Inr (fs', ()))))) (\<lambda>fs _.
     (fs, Inr RspOk)))"

definition handle_rename ::
  "host_fs_service \<Rightarrow> host_fs \<Rightarrow> string \<Rightarrow> string \<Rightarrow> host_fs \<times> reply" where
  "handle_rename svc fs frm to =
     sbind (fs, resolve_path_preserving_leaf svc fs frm False) (\<lambda>fs frm.
     sbind (fs, resolve_path_for_create svc fs to) (\<lambda>fs to.
     sbind (supd fs (io (rbind (rename fs frm to) (\<lambda>fs'. Inr (fs', ()))))) (\<lambda>fs _.
     (fs, Inr RspOk))))"

definition handle_fsync :: "host_fs_service \<Rightarrow> host_fs \<Rightarrow> string \<Rightarrow> reply" where
  "handle_fsync svc fs path =
     rbind (resolve_existing_path svc fs path) (\<lambda>resolved.
     rbind (io (open_read fs resolved)) (\<lambda>_. Inr RspOk))"

definition guarded :: "host_fs_service \<Rightarrow> host_fs \<Rightarrow> host_fs \<times> reply \<Rightarrow> host_fs \<times> reply" where
  "guarded svc fs r = sbind (fs, ensure_writable svc) (\<lambda>_ _. r)"

definition handle_request ::
  "host_env \<Rightarrow> host_fs_service \<Rightarrow> host_fs \<Rightarrow> fs_request \<Rightarrow> host_fs \<times> reply" where
  "handle_request env svc fs request =
     (case request of
        ReqHello _ \<Rightarrow> (fs, Inl (invalid_input ''hello may only be sent once''))
      | ReqPing \<Rightarrow> (fs, Inr RspPong)
      | ReqStatFs \<Rightarrow> (fs, handle_statfs env svc)
      | ReqGetMetadata path \<Rightarrow> (fs, handle_metadata env svc fs path)
      | ReqReadDir path \<Rightarrow> (fs, handle_read_dir env svc fs path)
      | ReqReadFile path offset len \<Rightarrow> (fs, handle_read_file svc fs path offset len)
      | ReqWriteFile path offset data create trunc \<Rightarrow>
          guarded svc fs (handle_write_file svc fs path offset data create trunc)
      | ReqSetLen path sz \<Rightarrow> guarded svc fs (handle_set_len svc fs path sz)
      | ReqMkdir path recursive \<Rightarrow> guarded svc fs (handle_mkdir svc fs path recursive)
      | ReqRemoveFile path \<Rightarrow> guarded svc fs (handle_remove_file svc fs path)
      | ReqRemoveDir path \<Rightarrow> guarded svc fs (handle_remove_dir svc fs path)
      | ReqRename frm to \<Rightarrow> guarded svc fs (handle_rename svc fs frm to)
      | ReqFsync path \<Rightarrow> (fs, handle_fsync svc fs path))"

subsection \<open>The connection\<close>

definition hello_error :: "host_fs_service \<Rightarrow> fs_request \<Rightarrow> fs_proxy_error option" where
  "hello_error svc request =
     (case request of
        ReqHello hello \<Rightarrow>
          if hq_protocol_version hello \<noteq> HOSTFS_PROTOCOL_VERSION then
            Some (FsProxyError_new (Some EINVAL)
              (''unsupported hostfs protocol version '' @ show_nat (unat (hq_protocol_version hello)) @
               '' (expected '' @ show_nat (unat HOSTFS_PROTOCOL_VERSION) @ '')''))
          else if hq_mount_name hello \<noteq> hs_mount_name svc then
            Some (FsProxyError_new (Some EINVAL)
              (''hostfs mount name mismatch: got '' @ [CHR 0x27] @ hq_mount_name hello @ [CHR 0x27] @
               '', expected '' @ [CHR 0x27] @ hs_mount_name svc @ [CHR 0x27]))
          else None
      | _ \<Rightarrow> Some (FsProxyError_new (Some EINVAL) ''first hostfs message must be hello''))"

definition hello_response_for :: "host_fs_service \<Rightarrow> hello_response" where
  "hello_response_for svc =
     \<lparr>hp_protocol_version = HOSTFS_PROTOCOL_VERSION, hp_mount_name = hs_mount_name svc,
      hp_read_only = hs_read_only svc\<rparr>"

definition reply_to_response :: "reply \<Rightarrow> fs_response" where
  "reply_to_response r = (case r of Inl err \<Rightarrow> RspError err | Inr response \<Rightarrow> response)"

lemma recv_msg_shrinks: "recv_msg dec s = Inr (m, s') \<Longrightarrow> length (rx s') < length (rx s)"
  using hostfs.get_sound [of s _ s']
  by (auto simp: recv_msg_def result_elims le_frame_def)

lemma send_msg_rx: "send_msg enc m s = Inr s' \<Longrightarrow> rx s' = rx s"
  by (auto simp: send_msg_iff)

function serve_requests ::
  "(fs_response \<Rightarrow> bytes option) \<Rightarrow> (bytes \<Rightarrow> fs_request option) \<Rightarrow> host_env \<Rightarrow> host_fs_service
     \<Rightarrow> host_fs \<Rightarrow> duplex \<Rightarrow> host_fs \<times> duplex \<times> (transport_error, unit) result" where
  "serve_requests enc dec env svc fs s =
     (case recv_msg dec s of
        Inl UnexpectedEof \<Rightarrow> (fs, s, Inr ())
      | Inl err \<Rightarrow> (fs, s, Inl err)
      | Inr (request, s1) \<Rightarrow>
          (case handle_request env svc fs request of
             (fs1, reply) \<Rightarrow>
               (case send_msg enc (reply_to_response reply) s1 of
                  Inl err \<Rightarrow> (fs1, s1, Inl err)
                | Inr s2 \<Rightarrow> serve_requests enc dec env svc fs1 s2)))"
  by pat_completeness auto
termination
  by (relation "measure (\<lambda>(enc, dec, env, svc, fs, s). length (rx s))")
     (auto dest!: recv_msg_shrinks send_msg_rx)

declare serve_requests.simps [simp del]

definition serve_conn ::
  "(fs_response \<Rightarrow> bytes option) \<Rightarrow> (bytes \<Rightarrow> fs_request option) \<Rightarrow> host_env \<Rightarrow> host_fs_service
     \<Rightarrow> host_fs \<Rightarrow> duplex \<Rightarrow> host_fs \<times> duplex \<times> (transport_error, unit) result" where
  "serve_conn enc dec env svc fs s =
     (case recv_msg dec s of
        Inl err \<Rightarrow> (fs, s, Inl err)
      | Inr (request, s1) \<Rightarrow>
          (case hello_error svc request of
             Some err \<Rightarrow>
               (case send_msg enc (RspError err) s1 of
                  Inl e \<Rightarrow> (fs, s1, Inl e)
                | Inr s2 \<Rightarrow> (fs, s2, Inr ()))
           | None \<Rightarrow>
               (case send_msg enc (RspHello (hello_response_for svc)) s1 of
                  Inl e \<Rightarrow> (fs, s1, Inl e)
                | Inr s2 \<Rightarrow> serve_requests enc dec env svc fs s2)))"

end
