(* ===== verification/Hostfs_Client.thy ===== *)
theory Hostfs_Client
  imports Hostfs_Service
begin

text \<open>
  The enclave side of the hostfs protocol (\<open>hostfs_client.rs\<close>).  \<open>HostFsClient\<close> is generic in its
  stream; correspondingly the typed operations take the untyped request function as an argument,
  which is \<open>request\<close> on a byte stream (as in the source) or a call of the service itself.  The main
  result says that the two agree: a client on a byte stream sees exactly what the service answers.
\<close>

subsection \<open>Errors\<close>

datatype client_error =
    Transport transport_error
  | Proxy fs_proxy_error
  | UnexpectedResponse string

definition errno :: "client_error \<Rightarrow> int" where
  "errno err =
     (case err of
        Proxy e \<Rightarrow> unwrap_or EIO (fe_os_code e)
      | Transport e \<Rightarrow> (case e of WriteFailed code \<Rightarrow> code | _ \<Rightarrow> EIO)
      | UnexpectedResponse _ \<Rightarrow> EIO)"

text \<open>The text shown to the user; a transport error's own text is an argument.\<close>

definition client_error_text :: "(transport_error \<Rightarrow> string) \<Rightarrow> client_error \<Rightarrow> string" where
  "client_error_text transport_text err =
     (case err of
        Transport e \<Rightarrow> transport_text e
      | Proxy e \<Rightarrow> fe_message e
      | UnexpectedResponse message \<Rightarrow> message)"

definition decode_response :: "fs_response \<Rightarrow> (client_error, fs_response) result" where
  "decode_response response =
     (case response of RspError err \<Rightarrow> Inl (Proxy err) | _ \<Rightarrow> Inr response)"

definition expect_ok :: "fs_response \<Rightarrow> string \<Rightarrow> (client_error, unit) result" where
  "expect_ok response unexpected_message =
     (case response of RspOk \<Rightarrow> Inr () | _ \<Rightarrow> Inl (UnexpectedResponse unexpected_message))"

subsection \<open>Requests on a byte stream\<close>

record host_fs_client =
  cl_stream :: duplex
  cl_hello :: hello_response

definition stream_request ::
  "(fs_request \<Rightarrow> bytes option) \<Rightarrow> (bytes \<Rightarrow> fs_response option) \<Rightarrow> duplex \<Rightarrow> fs_request
     \<Rightarrow> duplex \<times> (client_error, fs_response) result" where
  "stream_request enc dec s req =
     sbind (supd s (map_err Transport (rbind (send_msg enc req s) (\<lambda>s1. Inr (s1, ()))))) (\<lambda>s _.
     supd s (map_err Transport (rbind (recv_msg dec s) (\<lambda>(m, s1). Inr (s1, m)))))"

definition request ::
  "(fs_request \<Rightarrow> bytes option) \<Rightarrow> (bytes \<Rightarrow> fs_response option) \<Rightarrow> host_fs_client \<Rightarrow> fs_request
     \<Rightarrow> host_fs_client \<times> (client_error, fs_response) result" where
  "request enc dec c req =
     (case stream_request enc dec (cl_stream c) req of
        (s, r) \<Rightarrow> (c\<lparr>cl_stream := s\<rparr>, rbind r decode_response))"

definition check_hello :: "string \<Rightarrow> fs_response \<Rightarrow> (client_error, hello_response) result" where
  "check_hello mount_name response =
     rbind (decode_response response) (\<lambda>response.
     case response of
       RspHello hello \<Rightarrow>
         if hp_mount_name hello \<noteq> mount_name
         then Inl (UnexpectedResponse ''hostfs hello returned the wrong mount name'')
         else if hp_protocol_version hello \<noteq> HOSTFS_PROTOCOL_VERSION
         then Inl (UnexpectedResponse ''hostfs hello returned an unexpected protocol version'')
         else Inr hello
     | _ \<Rightarrow> Inl (UnexpectedResponse ''hostfs hello did not return a hello response''))"

definition client_hello :: "string \<Rightarrow> fs_request" where
  "client_hello mount_name =
     ReqHello \<lparr>hq_protocol_version = HOSTFS_PROTOCOL_VERSION, hq_mount_name = mount_name\<rparr>"

definition connect ::
  "(fs_request \<Rightarrow> bytes option) \<Rightarrow> (bytes \<Rightarrow> fs_response option) \<Rightarrow> duplex \<Rightarrow> string
     \<Rightarrow> (client_error, host_fs_client) result" where
  "connect enc dec s mount_name =
     (case stream_request enc dec s (client_hello mount_name) of
        (s1, r) \<Rightarrow>
          rbind r (\<lambda>response.
          rbind (check_hello mount_name response) (\<lambda>hello.
          Inr \<lparr>cl_stream = s1, cl_hello = hello\<rparr>)))"

definition client_read_only :: "host_fs_client \<Rightarrow> bool" where
  "client_read_only c = hp_read_only (cl_hello c)"

definition hello :: "host_fs_client \<Rightarrow> hello_response" where
  "hello c = cl_hello c"

subsection \<open>Typed operations\<close>

text \<open>\<open>rq\<close> sends one request from a state \<open>'c\<close> and returns the decoded response.\<close>

type_synonym 'c requester = "'c \<Rightarrow> fs_request \<Rightarrow> 'c \<times> (client_error, fs_response) result"

definition typed ::
  "'c requester \<Rightarrow> 'c \<Rightarrow> fs_request \<Rightarrow> (fs_response \<Rightarrow> 'a option) \<Rightarrow> string \<Rightarrow> 'c \<times> (client_error, 'a) result" where
  "typed rq c req sel unexpected =
     sbind (rq c req) (\<lambda>c response. (c, ok_or (UnexpectedResponse unexpected) (sel response)))"

definition ping :: "'c requester \<Rightarrow> 'c \<Rightarrow> 'c \<times> (client_error, unit) result" where
  "ping rq c = typed rq c ReqPing
     (\<lambda>r. case r of RspPong \<Rightarrow> Some () | _ \<Rightarrow> None) ''hostfs ping did not return pong''"

definition statfs :: "'c requester \<Rightarrow> 'c \<Rightarrow> 'c \<times> (client_error, fs_stat) result" where
  "statfs rq c = typed rq c ReqStatFs
     (\<lambda>r. case r of RspStatFs stat \<Rightarrow> Some stat | _ \<Rightarrow> None)
     ''hostfs statfs did not return filesystem stats''"

definition metadata :: "'c requester \<Rightarrow> 'c \<Rightarrow> string \<Rightarrow> 'c \<times> (client_error, fs_metadata) result" where
  "metadata rq c path = typed rq c (ReqGetMetadata path)
     (\<lambda>r. case r of RspMetadata md \<Rightarrow> Some md | _ \<Rightarrow> None)
     ''hostfs metadata did not return entry metadata''"

definition client_read_dir ::
  "'c requester \<Rightarrow> 'c \<Rightarrow> string \<Rightarrow> 'c \<times> (client_error, fs_dir_entry list) result" where
  "client_read_dir rq c path = typed rq c (ReqReadDir path)
     (\<lambda>r. case r of RspReadDir entries \<Rightarrow> Some entries | _ \<Rightarrow> None)
     ''hostfs readdir did not return directory entries''"

definition read_file ::
  "'c requester \<Rightarrow> 'c \<Rightarrow> string \<Rightarrow> u64 \<Rightarrow> u32 \<Rightarrow> 'c \<times> (client_error, bytes) result" where
  "read_file rq c path offset len = typed rq c (ReqReadFile path offset len)
     (\<lambda>r. case r of RspReadFile data \<Rightarrow> Some data | _ \<Rightarrow> None) ''hostfs read did not return file data''"

definition write_file ::
  "'c requester \<Rightarrow> 'c \<Rightarrow> string \<Rightarrow> u64 \<Rightarrow> bytes \<Rightarrow> bool \<Rightarrow> bool \<Rightarrow> 'c \<times> (client_error, u64) result" where
  "write_file rq c path offset data create trunc =
     typed rq c (ReqWriteFile path offset data create trunc)
     (\<lambda>r. case r of RspWriteFile written \<Rightarrow> Some written | _ \<Rightarrow> None)
     ''hostfs write did not return a byte count''"

definition expecting_ok ::
  "'c requester \<Rightarrow> 'c \<Rightarrow> fs_request \<Rightarrow> string \<Rightarrow> 'c \<times> (client_error, unit) result" where
  "expecting_ok rq c req unexpected =
     sbind (rq c req) (\<lambda>c response. (c, expect_ok response unexpected))"

definition client_set_len :: "'c requester \<Rightarrow> 'c \<Rightarrow> string \<Rightarrow> u64 \<Rightarrow> 'c \<times> (client_error, unit) result" where
  "client_set_len rq c path sz =
     expecting_ok rq c (ReqSetLen path sz) ''hostfs set_len did not return success''"

definition mkdir :: "'c requester \<Rightarrow> 'c \<Rightarrow> string \<Rightarrow> bool \<Rightarrow> 'c \<times> (client_error, unit) result" where
  "mkdir rq c path recursive =
     expecting_ok rq c (ReqMkdir path recursive) ''hostfs mkdir did not return success''"

definition client_remove_file :: "'c requester \<Rightarrow> 'c \<Rightarrow> string \<Rightarrow> 'c \<times> (client_error, unit) result" where
  "client_remove_file rq c path =
     expecting_ok rq c (ReqRemoveFile path) ''hostfs remove_file did not return success''"

definition client_remove_dir :: "'c requester \<Rightarrow> 'c \<Rightarrow> string \<Rightarrow> 'c \<times> (client_error, unit) result" where
  "client_remove_dir rq c path =
     expecting_ok rq c (ReqRemoveDir path) ''hostfs remove_dir did not return success''"

definition client_rename ::
  "'c requester \<Rightarrow> 'c \<Rightarrow> string \<Rightarrow> string \<Rightarrow> 'c \<times> (client_error, unit) result" where
  "client_rename rq c frm to =
     expecting_ok rq c (ReqRename frm to) ''hostfs rename did not return success''"

definition fsync :: "'c requester \<Rightarrow> 'c \<Rightarrow> string \<Rightarrow> 'c \<times> (client_error, unit) result" where
  "fsync rq c path =
     expecting_ok rq c (ReqFsync path) ''hostfs fsync did not return success''"

lemmas client_ops_defs =
  ping_def statfs_def metadata_def client_read_dir_def read_file_def write_file_def
  client_set_len_def mkdir_def client_remove_file_def client_remove_dir_def client_rename_def fsync_def

subsection \<open>The service as seen through a connection\<close>

text \<open>The service's own handling of one request, decoded as the client does.\<close>

definition service_request :: "host_env \<Rightarrow> host_fs_service \<Rightarrow> host_fs requester" where
  "service_request env svc fs req =
     (case handle_request env svc fs req of
        (fs', reply) \<Rightarrow> (fs', decode_response (reply_to_response reply)))"

text \<open>The service's side of a handshake.\<close>

definition service_hello :: "host_fs_service \<Rightarrow> string \<Rightarrow> (client_error, hello_response) result" where
  "service_hello svc mount_name =
     check_hello mount_name
       (case hello_error svc (client_hello mount_name) of
          Some err \<Rightarrow> RspError err
        | None \<Rightarrow> RspHello (hello_response_for svc))"

lemma service_hello_iff:
  "service_hello svc n = Inr h \<longleftrightarrow> n = hs_mount_name svc \<and> h = hello_response_for svc"
  by (auto simp: service_hello_def check_hello_def client_hello_def hello_error_def decode_response_def
      hello_response_for_def)

lemma serve_requests_step:
  assumes "hostfs_fits p" "decq p = Some req"
    and "handle_request env svc fs req = (fs1, reply)"
    and "encr (reply_to_response reply) = Some q" "hostfs_fits q" "tx_error s = None"
    and "rx s = le_frame p @ rest"
  shows "serve_requests encr decq env svc fs s =
    serve_requests encr decq env svc fs1 (s\<lparr>rx := rest, tx := tx s @ le_frame q\<rparr>)"
proof -
  have "recv_msg decq s = Inr (req, s\<lparr>rx := rest\<rparr>)"
    using assms by (intro recv_msg_ok)
  moreover have "send_msg encr (reply_to_response reply) (s\<lparr>rx := rest\<rparr>) =
      Inr (s\<lparr>rx := rest, tx := tx s @ le_frame q\<rparr>)"
    using assms by (subst send_msg_iff) auto
  ultimately show ?thesis
    using assms by (subst serve_requests.simps) simp
qed

subsection \<open>Main results\<close>

text \<open>
  C9. Client and service agree across the wire: if the bytes the client sends for a request are what
  the service reads, and the bytes the service writes for it are what the client then reads, then the
  service executes exactly that request and the client's result is the service's answer, decoded.
\<close>

theorem client_service_agree:
  assumes json: "encq req = Some p" "decq p = Some req"
      "encr (reply_to_response reply) = Some q" "decr q = Some (reply_to_response reply)"
    and fits: "length p \<le> MAX_MSG_LEN" "length q \<le> MAX_MSG_LEN"
    and service: "handle_request env svc fs req = (fs1, reply)"
    and client_rx: "rx (cl_stream c) = le_frame q @ later"
    and open_ends: "tx_error (cl_stream c) = None" "tx_error s = None"
    and service_rx: "rx s = le_frame p @ rest"
  shows "snd (request encq decr c req) = snd (service_request env svc fs req) \<and>
         serve_requests encr decq env svc fs s =
           serve_requests encr decq env svc fs1 (s\<lparr>rx := rest, tx := tx s @ le_frame q\<rparr>) \<and>
         rx (cl_stream (fst (request encq decr c req))) = later \<and>
         tx (cl_stream (fst (request encq decr c req))) = tx (cl_stream c) @ le_frame p"
proof -
  have f: "hostfs_fits p" "hostfs_fits q" using fits by (simp_all add: hostfs_fits_def)
  let ?s1 = "cl_stream c\<lparr>tx := tx (cl_stream c) @ le_frame p\<rparr>"
  have "send_msg encq req (cl_stream c) = Inr ?s1"
    using json f open_ends by (subst send_msg_iff) auto
  moreover have "recv_msg decr ?s1 = Inr (reply_to_response reply, ?s1\<lparr>rx := later\<rparr>)"
    using json f client_rx by (intro recv_msg_ok) auto
  ultimately have "stream_request encq decr (cl_stream c) req =
      (?s1\<lparr>rx := later\<rparr>, Inr (reply_to_response reply))"
    by (simp add: stream_request_def)
  moreover have "serve_requests encr decq env svc fs s =
      serve_requests encr decq env svc fs1 (s\<lparr>rx := rest, tx := tx s @ le_frame q\<rparr>)"
    using serve_requests_step f json service open_ends(2) service_rx by blast
  ultimately show ?thesis using service by (simp add: request_def service_request_def)
qed

text \<open>A service on an empty host, for the witness.\<close>

definition ping_svc :: host_fs_service where
  "ping_svc = \<lparr>hs_mount_name = ''m'', hs_root = abs_path [], hs_read_only = False\<rparr>"

definition ping_env :: host_env where
  "ping_env = \<lparr>he_statvfs = (\<lambda>_. Inl 5),
     he_attr = (\<lambda>_. \<lparr>fa_readonly = False, fa_modified = None, fa_accessed = None, fa_len = 0\<rparr>),
     he_lossy = id\<rparr>"

definition ping_fs :: host_fs where
  "ping_fs = \<lparr>hf_nodes = [([], NDir)], hf_cwd = []\<rparr>"

theorem client_service_agree_witness:
  "snd (request (\<lambda>_. Some [1]) (\<lambda>_. Some RspPong)
      \<lparr>cl_stream = \<lparr>rx = [1, 0, 0, 0, 2], tx = [], tx_error = None\<rparr>,
       cl_hello = hello_response_for ping_svc\<rparr> ReqPing) =
    snd (service_request ping_env ping_svc ping_fs ReqPing)"
proof -
  have frame: "le_frame [2] = [1, 0, 0, 0, 2]" by (simp add: le_frame_def to_le_bytes_def)
  have h: "handle_request ping_env ping_svc ping_fs ReqPing = (ping_fs, Inr RspPong)"
    by (simp add: handle_request_def)
  show ?thesis
    by (rule client_service_agree [THEN conjunct1, of "\<lambda>_. Some [1]" ReqPing "[1]" "\<lambda>_. Some ReqPing"
          "\<lambda>_. Some [2]" "Inr RspPong" "[2]" "\<lambda>_. Some RspPong" ping_env ping_svc ping_fs ping_fs _ "[]"
          "\<lparr>rx = le_frame [1], tx = [], tx_error = None\<rparr>" "[]"])
       (simp_all add: h frame reply_to_response_def MAX_MSG_LEN_def)
qed

text \<open>
  The handshake: \<open>connect\<close> succeeds exactly when the response is a hello for this mount name and
  protocol version; in particular, against the service it succeeds exactly for the service's own
  mount name, and the client then knows whether the mount is read-only.
\<close>

lemma hello_agrees:
  "(check_hello n response = Inr h \<longleftrightarrow>
      response = RspHello h \<and> hp_mount_name h = n \<and> hp_protocol_version h = HOSTFS_PROTOCOL_VERSION) \<and>
   (service_hello svc n = Inr h' \<longleftrightarrow>
      n = hs_mount_name svc \<and>
      h' = \<lparr>hp_protocol_version = HOSTFS_PROTOCOL_VERSION, hp_mount_name = n, hp_read_only = hs_read_only svc\<rparr>)"
  by (auto simp: check_hello_def decode_response_def result_elims service_hello_iff
      hello_response_for_def split: fs_response.splits if_splits)

end
