(* ===== verification/Hostfs_Confinement.thy ===== *)
theory Hostfs_Confinement
  imports Hostfs_Service
begin

text \<open>
  What the hostfs service promises the host.  The lemmas follow a client path through
  normalisation and the three resolvers to the location the kernel acts on; the properties say
  that this location is below the mount root, request by request and over whole connections.
\<close>

subsection \<open>Normalised paths\<close>

lemma push_components_normal:
  "push_components (normal_path ns) cs = Inr p \<Longrightarrow> \<exists>ms. p = normal_path ms"
proof (induction "normal_path ns" cs arbitrary: ns rule: push_components.induct)
  case (2 part cs)
  have "path_join (normal_path ns) [Normal part] = normal_path (ns @ [part])"
    by (cases ns) (simp_all add: path_join_def normal_path_def is_absolute_def)
  with 2 show ?case by auto
qed auto

lemma normalize_relative_path_normal:
  "normalize_relative_path s = Inr p \<Longrightarrow> \<exists>ns. p = normal_path ns"
  using push_components_normal [of "[]"]
  by (auto simp: normalize_relative_path_def result_elims Let_def normal_path_def split: if_splits)

lemma path_join_abs [simp]:
  "path_join (abs_path loc @ cs) [Normal n] = abs_path loc @ cs @ [Normal n]"
  "path_join (abs_path loc) [Normal n] = abs_path loc @ [Normal n]"
  "path_join (abs_path loc) (normal_path ns) = abs_path loc @ normal_path ns"
  by (cases ns; simp add: path_join_def abs_path_def is_absolute_def normal_path_def filter_id_conv)+

lemma prefix_abs_path [simp]: "prefix (abs_path a) (abs_path b) \<longleftrightarrow> prefix a b"
  by (auto simp: abs_path_def normal_path_def prefix_def)
     (metis append_eq_map_conv component.inject inj_onI inj_map_eq_map injI)+

lemma abs_path_inject [simp]: "abs_path a = abs_path b \<longleftrightarrow> a = b"
  by (metis prefix_abs_path prefix_order.eq_iff)

lemma within_root_iff:
  "ensure_within_root (abs_path R) m (abs_path C) = Inr () \<longleftrightarrow> prefix R C"
  by (auto simp: ensure_within_root_def path_starts_with_def)

subsection \<open>Existing locations\<close>

text \<open>A canonical location below the root: it exists and is not a link.\<close>

definition canonical_in :: "host_fs \<Rightarrow> location \<Rightarrow> location \<Rightarrow> bool" where
  "canonical_in fs R C \<longleftrightarrow>
     prefix R C \<and> lookup fs C \<noteq> None \<and> (\<forall>t. lookup fs C \<noteq> Some (NSymlink t))"

lemma canonicalize_result:
  assumes "fs_wf fs" "is_absolute p" "canonicalize fs p = Inr c"
    and "ensure_within_root (abs_path R) m c = Inr ()"
  shows "\<exists>C. c = abs_path C \<and> canonical_in fs R C \<and> resolve fs p True = Inr C"
proof -
  from assms(3) obtain C where C: "c = abs_path C" "resolve fs p True = Inr C" "lookup fs C \<noteq> None"
    by (auto simp: canonicalize_def resolve_node_def result_elims split: option.splits)
  from resolve_result(2) [OF assms(1,2) C(2)] have "lookup fs C \<noteq> Some (NSymlink t)" for t by simp
  with C assms(4) show ?thesis by (auto simp: canonical_in_def within_root_iff)
qed

lemma resolve_canonical:
  "fs_wf fs \<Longrightarrow> canonical_in fs R C \<Longrightarrow> resolve fs (abs_path C) follow = Inr C"
  by (rule resolve_abs) (auto simp: canonical_in_def)

lemma resolve_follow_path_sync_result:
  assumes "fs_wf fs" "resolve_follow_path_sync fs (abs_path R) m (normal_path ns) = Inr p"
  shows "\<exists>C. p = abs_path C \<and> canonical_in fs R C \<and>
    resolve fs (abs_path R @ normal_path ns) True = Inr C"
proof -
  from assms(2) have c: "canonicalize fs (abs_path R @ normal_path ns) = Inr p"
    and e: "ensure_within_root (abs_path R) m p = Inr ()"
    by (auto simp: resolve_follow_path_sync_def result_elims Let_def)
  from canonicalize_result [OF assms(1) _ c e] show ?thesis by auto
qed

text \<open>Reads: the resolved path is the canonical path of an existing node below the root.\<close>

lemma resolve_existing_path_result:
  assumes "fs_wf fs" "hs_root svc = abs_path R" "resolve_existing_path svc fs s = Inr p"
  shows "\<exists>C. p = abs_path C \<and> canonical_in fs R C"
proof -
  from assms(3) obtain rel where r: "normalize_relative_path s = Inr rel"
    and p: "resolve_follow_path_sync fs (abs_path R) (hs_mount_name svc) rel = Inr p"
    by (auto simp: resolve_existing_path_def result_elims assms(2))
  from normalize_relative_path_normal [OF r] obtain ns where "rel = normal_path ns" by auto
  with p resolve_follow_path_sync_result [OF assms(1)] show ?thesis by blast
qed

text \<open>Removals and metadata: the parent is canonical below the root, the leaf is not followed.\<close>

lemma resolve_path_preserving_leaf_result:
  assumes "fs_wf fs" "hs_root svc = abs_path R" "canonical_in fs R R"
    and "resolve_path_preserving_leaf svc fs s allow_root = Inr p"
  shows "(allow_root \<and> p = abs_path R) \<or> (\<exists>C n. p = abs_path C @ [Normal n] \<and> canonical_in fs R C)"
proof -
  from assms(4) obtain rel where r: "normalize_relative_path s = Inr rel"
    and p: "resolve_path_preserving_leaf_sync fs (abs_path R) (hs_mount_name svc) rel allow_root = Inr p"
    by (auto simp: resolve_path_preserving_leaf_def result_elims assms(2))
  from normalize_relative_path_normal [OF r] obtain ns where ns: "rel = normal_path ns" by auto
  show ?thesis
  proof (cases ns rule: rev_cases)
    case Nil
    with p ns show ?thesis
      by (auto simp: resolve_path_preserving_leaf_sync_def normal_path_def split: if_splits)
  next
    case (snoc ms n)
    have "path_parent rel = Some (normal_path ms)" "path_file_name rel = Some n" "rel \<noteq> []"
      by (simp_all add: ns snoc path_parent_def path_file_name_def normal_path_def)
    with p obtain par where
      par: "(if normal_path ms = [] then Inr (abs_path R)
             else resolve_follow_path_sync fs (abs_path R) (hs_mount_name svc) (normal_path ms)) = Inr par"
      and p': "p = path_join par [Normal n]"
      by (auto simp: resolve_path_preserving_leaf_sync_def result_elims Let_def)
    have "\<exists>C. par = abs_path C \<and> canonical_in fs R C"
    proof (cases "ms = []")
      case True
      with par assms(3) show ?thesis by (auto simp: normal_path_def)
    next
      case False
      with par have "resolve_follow_path_sync fs (abs_path R) (hs_mount_name svc) (normal_path ms) = Inr par"
        by (simp add: normal_path_def)
      from resolve_follow_path_sync_result [OF assms(1) this] show ?thesis by blast
    qed
    with p' show ?thesis by auto
  qed
qed

lemma resolve_leaf:
  assumes "fs_wf fs" "canonical_in fs R C" "resolve fs (abs_path C @ [Normal n]) False = Inr loc"
  shows "loc = C @ [n] \<and> lookup fs C = Some NDir"
proof -
  have "walk fs MAXSYMLINKS [] (normal_path C) True = Inr (C, MAXSYMLINKS)"
    using assms(2) walk_dirs [OF assms(1), of "[]" C True] by (auto simp: canonical_in_def)
  moreover have "walk fs MAXSYMLINKS [] (normal_path C @ [Normal n]) False = Inr (loc, k) \<Longrightarrow>
      lookup fs C = Some NDir" for k
    using assms walk_append [of fs "[]" "[Normal n]" MAXSYMLINKS "normal_path C" False] calculation
    by (auto simp: fs_wf_def split: option.splits node.splits)
  ultimately have "lookup fs C = Some NDir"
    using assms(3) by (auto simp: resolve_def abs_path_def result_elims)
  with walk_snoc_dir [OF assms(1) this, of n False] assms(3) show ?thesis by simp
qed

subsection \<open>Paths to be created\<close>

text \<open>
  The path built by \<open>resolve_path_for_create_sync\<close> is either canonical, or a canonical path followed
  by names the first of which does not resolve.
\<close>

definition creatable :: "host_fs \<Rightarrow> location \<Rightarrow> path \<Rightarrow> bool" where
  "creatable fs R p \<longleftrightarrow>
     (\<exists>C. canonical_in fs R C \<and>
        (p = abs_path C \<or>
         (\<exists>n ns. p = abs_path C @ normal_path (n # ns) \<and> \<not> path_exists fs (abs_path C @ [Normal n]))))"

lemma push_missing:
  assumes "fs_wf fs" "is_absolute p" "\<not> path_exists fs p"
  shows "\<exists>e. resolve fs (p @ [Normal n]) follow = Inl e"
proof -
  from assms(2) obtain cs where p: "p = RootDir # cs"
    by (auto simp: is_absolute_def split: list.splits)
  show ?thesis
  proof (cases "walk fs MAXSYMLINKS [] cs True")
    case (Inl e)
    then show ?thesis
      using assms(1) walk_append [of fs "[]" "[Normal n]" MAXSYMLINKS cs follow]
      by (simp add: p resolve_def fs_wf_def)
  next
    case (Inr x)
    then obtain loc k where x: "walk fs MAXSYMLINKS [] cs True = Inr (loc, k)" by (cases x) auto
    with assms(3) have "lookup fs loc = None"
      by (auto simp: path_exists_def resolve_node_def resolve_def p split: option.splits)
    with x show ?thesis
      using assms(1) walk_append [of fs "[]" "[Normal n]" MAXSYMLINKS cs follow]
      by (simp add: p resolve_def fs_wf_def)
  qed
qed

lemma missing_suffix:
  assumes "fs_wf fs" "is_absolute p" "\<not> path_exists fs p"
  shows "\<not> path_exists fs (p @ normal_path ns)"
proof (induction ns rule: rev_induct)
  case Nil
  then show ?case using assms(3) by (simp add: normal_path_def)
next
  case (snoc n ns)
  have "is_absolute (p @ normal_path ns)"
    using assms(2) by (auto simp: is_absolute_def split: list.splits)
  then obtain e where "resolve fs ((p @ normal_path ns) @ [Normal n]) True = Inl e"
    using push_missing [OF assms(1) _ snoc, of n True] by auto
  then show ?case by (simp add: path_exists_def resolve_node_def normal_path_def)
qed

lemma create_components_creatable:
  assumes "fs_wf fs" "creatable fs R cur"
    and "create_components fs (abs_path R) m cur (normal_path ms) = Inr p"
  shows "creatable fs R p"
  using assms(2,3)
proof (induction ms arbitrary: cur)
  case Nil
  then show ?case by (simp add: normal_path_def)
next
  case (Cons part ms)
  from Cons.prems(1) obtain C ns where C: "canonical_in fs R C" and cur: "cur = abs_path C @ normal_path ns"
    and miss: "ns \<noteq> [] \<longrightarrow> \<not> path_exists fs (abs_path C @ [Normal (hd ns)])"
    unfolding creatable_def by (fastforce simp: normal_path_def)
  let ?cur = "abs_path C @ normal_path (ns @ [part])"
  have join: "path_join cur [Normal part] = ?cur"
    by (simp add: cur normal_path_def)
  show ?case
  proof (cases "path_exists fs ?cur")
    case True
    with Cons.prems(2) join obtain c where "canonicalize fs ?cur = Inr c"
      "ensure_within_root (abs_path R) m c = Inr ()"
      and rest: "create_components fs (abs_path R) m c (normal_path ms) = Inr p"
      by (auto simp: normal_path_def result_elims Let_def)
    with canonicalize_result [OF assms(1), of ?cur c R m] obtain C' where
      "c = abs_path C'" "canonical_in fs R C'" by auto
    then have "creatable fs R c" by (auto simp: creatable_def)
    with Cons.IH rest show ?thesis by blast
  next
    case False
    with Cons.prems(2) join have rest: "create_components fs (abs_path R) m ?cur (normal_path ms) = Inr p"
      by (simp add: normal_path_def Let_def)
    have "\<not> path_exists fs (abs_path C @ [Normal (hd (ns @ [part]))])"
      using miss False by (cases ns) (auto simp: normal_path_def)
    moreover have "normal_path (ns @ [part]) = normal_path (hd (ns @ [part]) # tl (ns @ [part]))"
      by simp
    ultimately have "creatable fs R ?cur"
      unfolding creatable_def using C by metis
    with Cons.IH rest show ?thesis by blast
  qed
qed

lemma resolve_path_for_create_result:
  assumes "fs_wf fs" "hs_root svc = abs_path R" "canonical_in fs R R"
    and "resolve_path_for_create svc fs s = Inr p"
  shows "creatable fs R p"
proof -
  from assms(4) obtain rel where r: "normalize_relative_path s = Inr rel"
    and p: "resolve_path_for_create_sync fs (abs_path R) (hs_mount_name svc) rel = Inr p"
    by (auto simp: resolve_path_for_create_def result_elims assms(2))
  from normalize_relative_path_normal [OF r] obtain ns where "rel = normal_path ns" by auto
  moreover have "creatable fs R (abs_path R)" using assms(3) by (auto simp: creatable_def)
  ultimately show ?thesis
    using p create_components_creatable [OF assms(1)]
    by (auto simp: resolve_path_for_create_sync_def split: if_splits)
qed

lemma creatable_absolute: "creatable fs R p \<Longrightarrow> is_absolute p"
  by (auto simp: creatable_def)

text \<open>Where the kernel ends up on such a path.\<close>

lemma creatable_resolve:
  assumes "fs_wf fs" "creatable fs R p" "resolve fs p follow = Inr loc"
  shows "canonical_in fs R loc \<and> p = abs_path loc \<or>
    (\<exists>C n. p = abs_path C @ [Normal n] \<and> canonical_in fs R C \<and> \<not> path_exists fs p \<and>
           lookup fs C = Some NDir \<and> (loc = C @ [n] \<or> follow \<and> lookup fs (C @ [n]) \<noteq> None))"
proof -
  from assms(2) obtain C where C: "canonical_in fs R C"
    and p: "p = abs_path C \<or> (\<exists>n ns. p = abs_path C @ normal_path (n # ns) \<and>
              \<not> path_exists fs (abs_path C @ [Normal n]))"
    by (auto simp: creatable_def)
  show ?thesis
  proof (cases "p = abs_path C")
    case True
    with assms(3) resolve_canonical [OF assms(1) C] C show ?thesis by auto
  next
    case False
    with p obtain n ns where p: "p = abs_path C @ normal_path (n # ns)"
      and miss: "\<not> path_exists fs (abs_path C @ [Normal n])" by auto
    have "ns = []"
    proof (rule ccontr)
      assume "ns \<noteq> []"
      then obtain ms m where ns: "ns = ms @ [m]" by (cases ns rule: rev_cases) auto
      have "\<not> path_exists fs ((abs_path C @ [Normal n]) @ normal_path ms)"
        by (rule missing_suffix [OF assms(1) _ miss]) simp
      from push_missing [OF assms(1) _ this, of m follow] assms(3) p ns show False
        by (simp add: normal_path_def)
    qed
    with p have p: "p = abs_path C @ [Normal n]" by (simp add: normal_path_def)
    have dir: "lookup fs C = Some NDir"
    proof (rule ccontr)
      assume nd: "lookup fs C \<noteq> Some NDir"
      have "walk fs MAXSYMLINKS [] (normal_path C) True = Inr (C, MAXSYMLINKS)"
        using C walk_dirs [OF assms(1), of "[]" C True] by (auto simp: canonical_in_def)
      then show False
        using assms(1,3) nd walk_append [of fs "[]" "[Normal n]" MAXSYMLINKS "normal_path C" follow]
        by (auto simp: p resolve_def abs_path_def result_elims fs_wf_def split: option.splits node.splits)
    qed
    show ?thesis
    proof (cases "lookup fs (C @ [n]) = None \<or> \<not> follow")
      case True
      with walk_snoc_dir [OF assms(1) dir True] assms(3) p have "loc = C @ [n]" by simp
      with p C miss dir show ?thesis by auto
    next
      case False
      with p C miss dir show ?thesis by auto
    qed
  qed
qed

subsection \<open>Creating directories\<close>

text \<open>
  \<open>create_dir_all\<close> on a path whose first new name does not resolve either changes nothing or adds
  exactly the chain of directories.
\<close>

lemma path_is_dir_exists: "path_is_dir fs p \<Longrightarrow> path_exists fs p"
  by (auto simp: path_is_dir_def path_exists_def split: sum.splits prod.splits)

lemma create_dir_snoc:
  assumes "fs_wf fs" "lookup fs C = Some NDir" "lookup fs (C @ [n]) = None"
  shows "create_dir fs (abs_path C @ [Normal n]) = Inr (put_node fs (C @ [n]) NDir)"
  using walk_snoc_dir [OF assms(1,2), of n False] assms(3) by (simp add: create_dir_def)

definition chain_added :: "location \<Rightarrow> string \<Rightarrow> string list \<Rightarrow> host_fs \<Rightarrow> host_fs \<Rightarrow> bool" where
  "chain_added C n ns fs fs' \<longleftrightarrow>
     (\<forall>l. lookup fs' l =
        (if prefix (C @ [n]) l \<and> prefix l (C @ n # ns) then Some NDir else lookup fs l))"

lemma chain_added_snoc:
  assumes "chain_added C n ns fs fs1"
  shows "chain_added C n (ns @ [m]) fs (put_node fs1 (C @ n # ns @ [m]) NDir)"
proof -
  have "prefix l (C @ n # ns @ [m]) \<longleftrightarrow> prefix l (C @ n # ns) \<or> l = C @ n # ns @ [m]" for l
    using prefix_snoc [of l "C @ n # ns" m] by auto
  with assms show ?thesis by (auto simp: chain_added_def)
qed

text \<open>A name below a canonical location is either created or fails, but never for a missing parent.\<close>

lemma create_leaf_not_missing:
  assumes "fs_wf fs" "canonical_in fs R C"
  shows "create_dir fs (abs_path C @ [Normal n]) \<noteq> Inl (OsError ENOENT)"
proof
  let ?p = "abs_path C @ [Normal n]"
  assume e: "create_dir fs ?p = Inl (OsError ENOENT)"
  show False
  proof (cases "lookup fs C = Some NDir")
    case True
    with walk_snoc_dir [OF assms(1) True, of n False] e show False
      by (auto simp: create_dir_def errno_defs split: option.splits)
  next
    case False
    have "walk fs MAXSYMLINKS [] (normal_path C) True = Inr (C, MAXSYMLINKS)"
      using assms(2) walk_dirs [OF assms(1), of "[]" C True] by (auto simp: canonical_in_def)
    with False assms walk_append [of fs "[]" "[Normal n]" MAXSYMLINKS "normal_path C" False]
    have "resolve fs ?p False = Inl (OsError ENOTDIR)"
      by (auto simp: resolve_def abs_path_def canonical_in_def fs_wf_def
          split: option.splits node.splits)
    with e show False by (simp add: create_dir_def errno_defs)
  qed
qed

lemma chain_added_single: "chain_added C n [] fs (put_node fs (C @ [n]) NDir)"
proof -
  have "prefix (C @ [n]) l \<and> prefix l (C @ [n]) \<longleftrightarrow> l = C @ [n]" for l
    by (auto intro: prefix_order.antisym)
  then show ?thesis by (simp add: chain_added_def)
qed

definition chain_outcome :: "location \<Rightarrow> string \<Rightarrow> string list \<Rightarrow> host_fs \<Rightarrow> host_fs \<Rightarrow> (io_error, unit) result \<Rightarrow> bool" where
  "chain_outcome C n ns fs fs' r \<longleftrightarrow>
     (fs' = fs \<and> r \<noteq> Inr ()) \<or>
     (r = Inr () \<and> fs_wf fs' \<and> lookup fs C = Some NDir \<and> chain_added C n ns fs fs')"

lemma create_dir_all_leaf:
  assumes "fs_wf fs" "canonical_in fs R C" "\<not> path_exists fs (abs_path C @ [Normal n])"
    and all: "create_dir_all fs (abs_path C @ [Normal n]) = (fs', r)"
  shows "chain_outcome C n [] fs fs' r"
proof (cases "create_dir fs (abs_path C @ [Normal n])")
  case (Inr fs1)
  from create_dir_effect [OF assms(1) _ Inr] obtain loc where
    loc: "resolve fs (abs_path C @ [Normal n]) False = Inr loc" "lookup fs loc = None" "fs_wf fs1" "fs1 = put_node fs loc NDir"
    by auto
  from resolve_leaf [OF assms(1,2) loc(1)] have "loc = C @ [n]" "lookup fs C = Some NDir" by auto
  moreover have "fs' = fs1 \<and> r = Inr ()"
    using all Inr by (simp add: create_dir_all.simps [of fs "abs_path C @ [Normal n]"])
  ultimately show ?thesis using loc chain_added_single by (simp add: chain_outcome_def)
next
  case (Inl e)
  have "e \<noteq> OsError ENOENT" using create_leaf_not_missing [OF assms(1,2), of n] Inl by auto
  moreover have "\<not> path_is_dir fs (abs_path C @ [Normal n])" using assms(3) path_is_dir_exists by blast
  ultimately show ?thesis
    using Inl all by (auto simp: create_dir_all.simps [of fs "abs_path C @ [Normal n]"] chain_outcome_def)
qed

text \<open>One more name after a chain that was added.\<close>

lemma create_dir_after_chain:
  assumes "fs_wf fs" "\<not> path_exists fs (abs_path C @ [Normal n])" "fs_wf fs1" "chain_added C n ns fs fs1"
  shows "create_dir fs1 ((abs_path C @ normal_path (n # ns)) @ [Normal m]) = Inr (put_node fs1 (C @ n # ns @ [m]) NDir) \<and>
         fs_wf (put_node fs1 (C @ n # ns @ [m]) NDir)"
proof -
  have "lookup fs (C @ [n]) \<noteq> Some NDir"
    using assms(2) resolve_abs [OF assms(1), of "C @ [n]" True]
    by (auto simp: path_exists_def resolve_node_def abs_path_snoc)
  from fs_wf_no_descendants [OF assms(1) this, of "ns @ [m]"]
  have free: "lookup fs1 ((C @ n # ns) @ [m]) = None"
    using assms(4) by (auto simp: chain_added_def prefix_def)
  have "lookup fs1 (C @ n # ns) = Some NDir" using assms(4) by (auto simp: chain_added_def)
  with create_dir_snoc [OF assms(3) this free]
  have mk: "create_dir fs1 ((abs_path C @ normal_path (n # ns)) @ [Normal m]) = Inr (put_node fs1 (C @ n # ns @ [m]) NDir)"
    by (simp add: normal_path_def abs_path_def)
  then show ?thesis using create_dir_effect [OF assms(3) _ mk] by auto
qed

lemma create_dir_all_chain:
  assumes "fs_wf fs" "canonical_in fs R C" "\<not> path_exists fs (abs_path C @ [Normal n])"
    and "create_dir_all fs (abs_path C @ normal_path (n # ns)) = (fs', r)"
  shows "chain_outcome C n ns fs fs' r"
  using assms(4)
proof (induction ns arbitrary: fs' r rule: rev_induct)
  case Nil
  then show ?case using create_dir_all_leaf [OF assms(1-3)] by (simp add: normal_path_def)
next
  case (snoc m ns)
  define q where "q = abs_path C @ normal_path (n # ns)"
  define p where "p = q @ [Normal m]"
  have p: "abs_path C @ normal_path (n # ns @ [m]) = p" "p \<noteq> []"
    by (simp_all add: p_def q_def normal_path_def)
  have abs: "is_absolute q" by (simp add: q_def)
  have miss: "\<not> path_exists fs q"
    using missing_suffix [OF assms(1) _ assms(3), of ns] by (simp add: q_def normal_path_def)
  then obtain e where e: "resolve fs p False = Inl e"
    using push_missing [OF assms(1) abs miss, of m False] by (auto simp: p_def)
  have nd: "\<not> path_is_dir fs p"
    using path_is_dir_exists missing_suffix [OF assms(1) abs miss, of "[m]"]
    by (auto simp: p_def normal_path_def)
  have par: "path_parent p = Some q" by (simp add: p_def path_parent_def)
  obtain fs1 r1 where rec: "create_dir_all fs q = (fs1, r1)" by (cases "create_dir_all fs q")
  note IH = snoc.IH [OF rec [unfolded q_def], unfolded chain_outcome_def]
  show ?case
  proof (cases "e = OsError ENOENT \<and> r1 = Inr ()")
    case False
    with e nd par rec p snoc.prems IH show ?thesis
      by (cases r1) (auto simp: create_dir_all.simps [of fs p] create_dir_def chain_outcome_def split: if_splits)
  next
    case True
    with IH have 1: "fs_wf fs1" "lookup fs C = Some NDir" "chain_added C n ns fs fs1" by auto
    from create_dir_after_chain [OF assms(1,3) 1(1,3), of m, folded q_def, folded p_def]
    show ?thesis using True e par rec p snoc.prems chain_added_snoc [OF 1(3)] 1(2)
      by (auto simp: create_dir_all.simps [of fs p] create_dir_def chain_outcome_def)
  qed
qed

lemma chain_added_outside:
  "prefix R C \<Longrightarrow> chain_added C n ns fs fs' \<Longrightarrow> unchanged_outside R fs fs'"
  by (auto simp: chain_added_def unchanged_outside_def)
     (meson append_prefixD prefix_order.trans)

subsection \<open>Confined changes\<close>

definition no_symlinks :: "host_fs \<Rightarrow> location \<Rightarrow> bool" where
  "no_symlinks fs R \<longleftrightarrow> (\<forall>p t. prefix R p \<longrightarrow> lookup fs p \<noteq> Some (NSymlink t))"

definition no_dangling :: "host_fs \<Rightarrow> location \<Rightarrow> bool" where
  "no_dangling fs R \<longleftrightarrow>
     (\<forall>p t. prefix R p \<and> lookup fs p = Some (NSymlink t) \<longrightarrow> path_exists fs (abs_path p))"

definition service_ok :: "host_fs_service \<Rightarrow> location \<Rightarrow> host_fs \<Rightarrow> bool" where
  "service_ok svc R fs \<longleftrightarrow> fs_wf fs \<and> hs_root svc = abs_path R \<and> lookup fs R = Some NDir"

definition confined :: "location \<Rightarrow> host_fs \<Rightarrow> host_fs \<Rightarrow> bool" where
  "confined R fs fs' \<longleftrightarrow>
     fs_wf fs' \<and> unchanged_outside R fs fs' \<and> lookup fs' R = Some NDir \<and>
     (no_symlinks fs R \<longrightarrow> no_symlinks fs' R)"

lemma no_symlinks_no_dangling: "no_symlinks fs R \<Longrightarrow> no_dangling fs R"
  by (auto simp: no_symlinks_def no_dangling_def)

lemma confined_refl: "fs_wf fs \<Longrightarrow> lookup fs R = Some NDir \<Longrightarrow> confined R fs fs"
  by (simp add: confined_def)

lemma confined_trans: "confined R fs fs1 \<Longrightarrow> confined R fs1 fs2 \<Longrightarrow> confined R fs fs2"
  unfolding confined_def by (blast intro: unchanged_outside_trans)

lemma confined_point:
  assumes "fs_wf fs'" "prefix R loc" "loc \<noteq> R" "lookup fs R = Some NDir"
    and "\<And>q. q \<noteq> loc \<Longrightarrow> lookup fs' q = lookup fs q" "\<And>t. lookup fs' loc \<noteq> Some (NSymlink t)"
  shows "confined R fs fs'"
  using assms unfolding confined_def unchanged_outside_def no_symlinks_def by metis

lemma service_ok_canonical: "service_ok svc R fs \<Longrightarrow> canonical_in fs R R"
  by (auto simp: service_ok_def canonical_in_def)

lemma service_ok_confined: "service_ok svc R fs \<Longrightarrow> confined R fs fs' \<Longrightarrow> service_ok svc R fs'"
  by (simp add: service_ok_def confined_def)

lemma prefix_snoc_not_root: "prefix R C \<Longrightarrow> C @ [n] \<noteq> R"
  by (auto simp: prefix_def)

lemma existing_resolves:
  assumes "fs_wf fs" "no_dangling fs R" "prefix R l" "lookup fs l \<noteq> None"
  shows "path_exists fs (abs_path l)"
proof (cases "\<exists>t. lookup fs l = Some (NSymlink t)")
  case True
  with assms(2,3) show ?thesis by (auto simp: no_dangling_def)
next
  case False
  with resolve_abs [OF assms(1,4), of True] assms(4) show ?thesis
    by (auto simp: path_exists_def resolve_node_def)
qed

text \<open>Where the kernel may write: below the root, except through a dangling link.\<close>

lemma creatable_follow:
  assumes "service_ok svc R fs" "no_dangling fs R" "creatable fs R p" "resolve fs p True = Inr loc"
  shows "prefix R loc"
proof -
  have wf: "fs_wf fs" using assms(1) by (simp add: service_ok_def)
  from creatable_resolve [OF wf assms(3,4)] show ?thesis
  proof (elim disjE exE conjE)
    assume "canonical_in fs R loc" "p = abs_path loc"
    then show ?thesis by (simp add: canonical_in_def)
  next
    fix C n
    assume C: "canonical_in fs R C" and "loc = C @ [n]"
    then show ?thesis by (auto simp: canonical_in_def)
  next
    fix C n
    assume p: "p = abs_path C @ [Normal n]" and C: "canonical_in fs R C"
      and miss: "\<not> path_exists fs p" and ex: "lookup fs (C @ [n]) \<noteq> None"
    have "prefix R (C @ [n])" using C by (auto simp: canonical_in_def)
    from existing_resolves [OF wf assms(2) this ex] miss p show ?thesis
      by (simp add: abs_path_snoc)
  qed
qed

lemma creatable_nofollow:
  assumes "fs_wf fs" "creatable fs R p" "resolve fs p False = Inr loc"
  shows "prefix R loc"
  using creatable_resolve [OF assms] by (auto simp: canonical_in_def)

lemma open_write_confined:
  assumes ok: "service_ok svc R fs" and c: "creatable fs R p"
    and o: "open_write fs p create trunc = Inr (fs', loc)"
    and d: "create \<Longrightarrow> no_dangling fs R"
  shows "confined R fs fs' \<and> prefix R loc \<and> loc \<noteq> R"
proof -
  have wf: "fs_wf fs" "lookup fs R = Some NDir" using ok by (auto simp: service_ok_def)
  from open_write_effect [OF wf(1) creatable_absolute [OF c] o]
  have e: "resolve fs p True = Inr loc" "fs_wf fs'" "\<exists>bs. lookup fs' loc = Some (NFile bs)"
    "\<And>q. q \<noteq> loc \<Longrightarrow> lookup fs' q = lookup fs q" by auto
  have nd: "lookup fs loc \<noteq> Some NDir" and ex: "lookup fs loc = None \<Longrightarrow> create"
    using o e(1) by (cases "lookup fs loc"; auto simp: open_write_def open_at_def split: if_splits)+
  have "prefix R loc"
  proof (cases create)
    case True
    with creatable_follow [OF ok _ c e(1)] d show ?thesis by simp
  next
    case False
    with ex have "path_exists fs p"
      using e(1) by (auto simp: path_exists_def resolve_node_def split: option.splits)
    with creatable_resolve [OF wf(1) c e(1)] show ?thesis by (auto simp: canonical_in_def)
  qed
  moreover have "loc \<noteq> R" using nd wf(2) by auto
  ultimately show ?thesis using e wf by (auto intro!: confined_point [of fs' R loc])
qed

lemma file_update_confined:
  assumes "fs_wf fs'" "lookup fs R = Some NDir" "prefix R loc" "loc \<noteq> R"
    and "\<exists>bs. lookup fs loc = Some (NFile bs) \<and> lookup fs' loc = Some (NFile (f bs))"
    and "\<forall>q. q \<noteq> loc \<longrightarrow> lookup fs' q = lookup fs q"
  shows "confined R fs fs'"
  using assms by (intro confined_point [of fs' R loc]) auto

lemma handle_write_file_confined:
  assumes ok: "service_ok svc R fs" and d: "create \<Longrightarrow> no_dangling fs R"
    and h: "handle_write_file svc fs path off data create trunc = (fs', r)"
  shows "confined R fs fs'"
proof (cases "resolve_path_for_create svc fs path")
  case (Inl e)
  with h ok show ?thesis by (auto simp: handle_write_file_def service_ok_def confined_refl)
next
  case (Inr p)
  have wf: "fs_wf fs" "lookup fs R = Some NDir" "hs_root svc = abs_path R"
    using ok by (auto simp: service_ok_def)
  have c: "creatable fs R p"
    using resolve_path_for_create_result [OF wf(1,3) service_ok_canonical [OF ok] Inr] .
  show ?thesis
  proof (cases "open_write fs p create trunc")
    case (Inl e)
    with h Inr wf show ?thesis by (auto simp: handle_write_file_def confined_refl)
  next
    case op: (Inr x)
    then obtain fs1 loc where x: "open_write fs p create trunc = Inr (fs1, loc)" by (cases x) auto
    from open_write_confined [OF ok c x d]
    have 1: "confined R fs fs1" "prefix R loc" "loc \<noteq> R" by auto
    then have 2: "fs_wf fs1" "lookup fs1 R = Some NDir" by (auto simp: confined_def)
    have "confined R fs1 fs'"
    proof (cases "\<exists>pos fs2. seek_start off = Inr pos \<and> write_at fs1 loc pos data = Inr fs2")
      case True
      then obtain pos fs2 where 3: "seek_start off = Inr pos" "write_at fs1 loc pos data = Inr fs2"
        by auto
      with h Inr x have "fs' = fs2" by (simp add: handle_write_file_def)
      with write_at_effect [OF 2(1) 3(2)] 1 2 show ?thesis
        by (auto intro!: file_update_confined [of fs2 fs1 R loc "overwrite pos data"])
    next
      case False
      with h Inr x have "fs' = fs1"
        by (cases "seek_start off"; cases "write_at fs1 loc (projr (seek_start off)) data")
           (auto simp: handle_write_file_def)
      with 2 show ?thesis by (simp add: confined_refl)
    qed
    with 1(1) show ?thesis by (rule confined_trans)
  qed
qed

lemma handle_set_len_confined:
  assumes ok: "service_ok svc R fs" and h: "handle_set_len svc fs path sz = (fs', r)"
  shows "confined R fs fs'"
proof (cases "resolve_path_for_create svc fs path")
  case (Inl e)
  with h ok show ?thesis by (auto simp: handle_set_len_def service_ok_def confined_refl)
next
  case (Inr p)
  have wf: "fs_wf fs" "lookup fs R = Some NDir" "hs_root svc = abs_path R"
    using ok by (auto simp: service_ok_def)
  have c: "creatable fs R p"
    using resolve_path_for_create_result [OF wf(1,3) service_ok_canonical [OF ok] Inr] .
  show ?thesis
  proof (cases "open_write fs p False False")
    case (Inl e)
    with h Inr wf show ?thesis by (auto simp: handle_set_len_def confined_refl)
  next
    case op: (Inr x)
    then obtain fs1 loc where x: "open_write fs p False False = Inr (fs1, loc)" by (cases x) auto
    from open_write_confined [OF ok c x]
    have 1: "confined R fs fs1" "prefix R loc" "loc \<noteq> R" by auto
    then have 2: "fs_wf fs1" "lookup fs1 R = Some NDir" by (auto simp: confined_def)
    have "confined R fs1 fs'"
    proof (cases "set_len fs1 loc sz")
      case 3: (Inr fs2)
      with h Inr x have "fs' = fs2" by (simp add: handle_set_len_def)
      with set_len_effect [OF 2(1) 3] 1 2 show ?thesis
        by (auto intro!: file_update_confined
            [of fs2 fs1 R loc "\<lambda>bs. take (unat sz) bs @ replicate (unat sz - length bs) 0"])
    next
      case Inl
      with h Inr x have "fs' = fs1" by (simp add: handle_set_len_def)
      with 2 show ?thesis by (simp add: confined_refl)
    qed
    with 1(1) show ?thesis by (rule confined_trans)
  qed
qed

lemma create_dir_confined:
  assumes "fs_wf fs" "lookup fs R = Some NDir" "creatable fs R p" and mk: "create_dir fs p = Inr fs1"
  shows "confined R fs fs1"
proof -
  from create_dir_effect [OF assms(1) creatable_absolute [OF assms(3)] mk] obtain loc where
    loc: "resolve fs p False = Inr loc" "lookup fs loc = None" "fs_wf fs1" "fs1 = put_node fs loc NDir"
    by auto
  have "prefix R loc" using creatable_nofollow [OF assms(1,3) loc(1)] .
  moreover have "loc \<noteq> R" using loc(2) assms(2) by auto
  ultimately show ?thesis using loc assms(1,2) by (intro confined_point [of fs1 R loc]) auto
qed

lemma chain_outcome_confined:
  assumes "fs_wf fs" "lookup fs R = Some NDir" "prefix R C" "chain_outcome C n ns fs fs1 r1"
  shows "confined R fs fs1"
  using assms(4) [unfolded chain_outcome_def]
proof (elim disjE conjE)
  assume "fs1 = fs"
  with assms show ?thesis by (simp add: confined_refl)
next
  assume 1: "fs_wf fs1" "chain_added C n ns fs fs1"
  have "no_symlinks fs R \<Longrightarrow> no_symlinks fs1 R"
    using 1(2) unfolding no_symlinks_def chain_added_def by auto
  moreover have "lookup fs1 R = Some NDir"
    using 1(2) assms(2) by (auto simp: chain_added_def)
  ultimately show ?thesis
    using 1 chain_added_outside [OF assms(3) 1(2)] by (simp add: confined_def)
qed

lemma create_dir_all_confined:
  assumes "fs_wf fs" "lookup fs R = Some NDir" "creatable fs R p" and all: "create_dir_all fs p = (fs1, r1)"
  shows "confined R fs fs1"
proof -
  from assms(3) obtain C where C: "canonical_in fs R C"
    and p: "p = abs_path C \<or> (\<exists>n ns. p = abs_path C @ normal_path (n # ns) \<and>
            \<not> path_exists fs (abs_path C @ [Normal n]))"
    by (auto simp: creatable_def)
  show ?thesis
  proof (cases "p = abs_path C")
    case True
    have "create_dir fs p = Inl (OsError EEXIST)" "p \<noteq> []"
      using resolve_canonical [OF assms(1) C, of False] C
      by (auto simp: True create_dir_def canonical_in_def abs_path_def)
    with all have "fs1 = fs" by (simp add: create_dir_all.simps [of fs p] errno_defs)
    with assms show ?thesis by (simp add: confined_refl)
  next
    case False
    with p obtain n ns where p: "p = abs_path C @ normal_path (n # ns)"
      and miss: "\<not> path_exists fs (abs_path C @ [Normal n])" by auto
    have "prefix R C" using C by (simp add: canonical_in_def)
    from chain_outcome_confined [OF assms(1,2) this create_dir_all_chain [OF assms(1) C miss all [unfolded p]]]
    show ?thesis .
  qed
qed

lemma handle_mkdir_confined:
  assumes ok: "service_ok svc R fs" and h: "handle_mkdir svc fs path recursive = (fs', r)"
  shows "confined R fs fs'"
proof (cases "resolve_path_for_create svc fs path")
  case (Inl e)
  with h ok show ?thesis by (auto simp: handle_mkdir_def service_ok_def confined_refl)
next
  case (Inr p)
  have wf: "fs_wf fs" "lookup fs R = Some NDir" "hs_root svc = abs_path R"
    using ok by (auto simp: service_ok_def)
  have c: "creatable fs R p"
    using resolve_path_for_create_result [OF wf(1,3) service_ok_canonical [OF ok] Inr] .
  obtain fs1 r1 where all: "create_dir_all fs p = (fs1, r1)" by (cases "create_dir_all fs p")
  show ?thesis
    using h Inr create_dir_all_confined [OF wf(1,2) c all] create_dir_confined [OF wf(1,2) c] confined_refl [OF wf(1,2)] all
    by (cases recursive; cases r1; cases "create_dir fs p") (auto simp: handle_mkdir_def)
qed

lemma leaf_location:
  assumes ok: "service_ok svc R fs" and l: "resolve_path_preserving_leaf svc fs path False = Inr p"
    and r: "resolve fs p False = Inr loc"
  shows "prefix R loc \<and> loc \<noteq> R \<and> is_absolute p"
proof -
  have wf: "fs_wf fs" "hs_root svc = abs_path R" using ok by (auto simp: service_ok_def)
  from resolve_path_preserving_leaf_result [OF wf service_ok_canonical [OF ok] l]
  obtain C n where p: "p = abs_path C @ [Normal n]" and C: "canonical_in fs R C" by auto
  with resolve_leaf [OF wf(1) C] r have loc: "loc = C @ [n]" by auto
  have "prefix R C" using C by (simp add: canonical_in_def)
  then show ?thesis using loc p prefix_snoc_not_root [of R C n] by (auto intro: prefix_prefix)
qed

lemma del_node_confined:
  assumes "service_ok svc R fs" "fs_wf (del_node fs loc)" "prefix R loc" "loc \<noteq> R"
  shows "confined R fs (del_node fs loc)"
  using assms by (intro confined_point [of _ R loc]) (auto simp: service_ok_def)

lemma handle_remove_file_confined:
  assumes ok: "service_ok svc R fs" and h: "handle_remove_file svc fs path = (fs', r)"
  shows "confined R fs fs'"
proof (cases "\<exists>p fs1. resolve_path_preserving_leaf svc fs path False = Inr p \<and> remove_file fs p = Inr fs1")
  case True
  then obtain p fs1 where 1: "resolve_path_preserving_leaf svc fs path False = Inr p"
    "remove_file fs p = Inr fs1" by auto
  with h have "fs' = fs1" by (simp add: handle_remove_file_def)
  moreover from remove_file_effect [OF _ 1(2)] ok obtain loc where
    "resolve fs p False = Inr loc" "fs_wf fs1" "fs1 = del_node fs loc" by (auto simp: service_ok_def)
  ultimately show ?thesis
    using del_node_confined [OF ok] leaf_location [OF ok 1(1)] by blast
next
  case False
  with h have "fs' = fs"
    by (cases "resolve_path_preserving_leaf svc fs path False"
        ; cases "remove_file fs (projr (resolve_path_preserving_leaf svc fs path False))")
       (auto simp: handle_remove_file_def)
  with ok show ?thesis by (simp add: service_ok_def confined_refl)
qed

lemma handle_remove_dir_confined:
  assumes ok: "service_ok svc R fs" and h: "handle_remove_dir svc fs path = (fs', r)"
  shows "confined R fs fs'"
proof (cases "\<exists>p fs1. resolve_path_preserving_leaf svc fs path False = Inr p \<and> remove_dir fs p = Inr fs1")
  case True
  then obtain p fs1 where 1: "resolve_path_preserving_leaf svc fs path False = Inr p"
    "remove_dir fs p = Inr fs1" by auto
  with h have "fs' = fs1" by (simp add: handle_remove_dir_def)
  moreover from remove_dir_effect [OF _ 1(2)] ok obtain loc where
    "resolve fs p False = Inr loc" "fs_wf fs1" "fs1 = del_node fs loc" by (auto simp: service_ok_def)
  ultimately show ?thesis
    using del_node_confined [OF ok] leaf_location [OF ok 1(1)] by blast
next
  case False
  with h have "fs' = fs"
    by (cases "resolve_path_preserving_leaf svc fs path False"
        ; cases "remove_dir fs (projr (resolve_path_preserving_leaf svc fs path False))")
       (auto simp: handle_remove_dir_def)
  with ok show ?thesis by (simp add: service_ok_def confined_refl)
qed

lemma move_confined:
  assumes "fs_wf fs'" "lookup fs R = Some NDir" "prefix R a" "prefix R b" "a \<noteq> R" "b \<noteq> R"
    and "\<forall>l. lookup fs' l = (if prefix b l then lookup fs (a @ drop (length b) l)
                              else if prefix a l then None else lookup fs l)"
  shows "confined R fs fs'"
proof -
  have out: "\<not> prefix a l" "\<not> prefix b l" if "\<not> prefix R l" for l
    using that assms(3,4) by (meson prefix_order.trans)+
  have root: "\<not> prefix a R" "\<not> prefix b R"
    using assms(3-6) by (auto dest: prefix_order.antisym)
  have "prefix R (a @ l)" for l using assms(3) by (simp add: prefix_prefix)
  then have "no_symlinks fs R \<Longrightarrow> no_symlinks fs' R"
    using assms(7) unfolding no_symlinks_def by simp
  with assms out root show ?thesis by (simp add: confined_def unchanged_outside_def)
qed

lemma handle_rename_confined:
  assumes ok: "service_ok svc R fs" and h: "handle_rename svc fs frm to = (fs', r)"
  shows "confined R fs fs'"
proof (cases "\<exists>p q fs1. resolve_path_preserving_leaf svc fs frm False = Inr p \<and>
    resolve_path_for_create svc fs to = Inr q \<and> rename fs p q = Inr fs1")
  case True
  then obtain p q fs1 where 1: "resolve_path_preserving_leaf svc fs frm False = Inr p"
    "resolve_path_for_create svc fs to = Inr q" and 2: "rename fs p q = Inr fs1" by auto
  with h have fs': "fs' = fs1" by (simp add: handle_rename_def)
  have wf: "fs_wf fs" "lookup fs R = Some NDir" "hs_root svc = abs_path R"
    using ok by (auto simp: service_ok_def)
  have c: "creatable fs R q"
    using resolve_path_for_create_result [OF wf(1,3) service_ok_canonical [OF ok] 1(2)] .
  from 2 obtain a where "resolve fs p False = Inr a"
    by (auto simp: rename_def resolve_node_def result_elims)
  with leaf_location [OF ok 1(1)] have pa: "is_absolute p" by blast
  from rename_effect [OF wf(1) pa creatable_absolute [OF c] 2] obtain a b where
    a: "resolve fs p False = Inr a" and b: "resolve fs q False = Inr b" and wf1: "fs_wf fs1"
    and eff: "a = b \<and> fs1 = fs \<or> (\<forall>l. lookup fs1 l = (if prefix b l then lookup fs (a @ drop (length b) l)
                              else if prefix a l then None else lookup fs l))"
    by blast
  have aR: "prefix R a" "a \<noteq> R" using leaf_location [OF ok 1(1) a] by auto
  have bR: "prefix R b" using creatable_nofollow [OF wf(1) c b] .
  show ?thesis
  proof (cases "a = b \<and> fs1 = fs \<or> b = R")
    case True
    then have "fs1 = fs"
    proof
      assume bR': "b = R"
      with 2 a b aR show ?thesis
        by (auto simp: rename_def resolve_node_def rename_at_def result_elims
            dest: prefix_order.antisym split: option.splits if_splits)
    qed simp
    with wf fs' show ?thesis by (simp add: confined_refl)
  next
    case False
    with eff aR bR wf wf1 fs' show ?thesis by (intro move_confined [of fs' fs R a b]) auto
  qed
next
  case False
  with h have "fs' = fs"
    by (cases "resolve_path_preserving_leaf svc fs frm False"
        ; cases "resolve_path_for_create svc fs to"
        ; cases "rename fs (projr (resolve_path_preserving_leaf svc fs frm False))
                   (projr (resolve_path_for_create svc fs to))")
       (auto simp: handle_rename_def)
  with ok show ?thesis by (simp add: service_ok_def confined_refl)
qed

subsection \<open>Whole requests and connections\<close>

lemma guarded_cases:
  "guarded svc fs h = (fs', r) \<Longrightarrow> fs' = fs \<or> (\<not> hs_read_only svc \<and> h = (fs', r))"
  by (auto simp: guarded_def ensure_writable_def split: if_splits)

lemmas handlers_confined =
  handle_set_len_confined handle_mkdir_confined handle_remove_file_confined
  handle_remove_dir_confined handle_rename_confined

lemma request_confined:
  assumes ok: "service_ok svc R fs" and d: "no_dangling fs R"
    and h: "handle_request env svc fs request = (fs', r)"
  shows "confined R fs fs'"
proof -
  have refl: "confined R fs fs" using ok by (simp add: service_ok_def confined_refl)
  show ?thesis
    using h refl handlers_confined [OF ok] handle_write_file_confined [OF ok d]
    by (cases request) (auto simp: handle_request_def dest!: guarded_cases)
qed

lemma serve_requests_confined:
  assumes "service_ok svc R fs" "no_symlinks fs R"
    and "serve_requests enc dec env svc fs s = (fs', s', r)"
  shows "confined R fs fs' \<and> no_symlinks fs' R"
  using assms
proof (induction enc dec env svc fs s rule: serve_requests.induct)
  case (1 enc dec env svc fs s)
  have refl: "confined R fs fs" using 1(2) by (simp add: service_ok_def confined_refl)
  show ?case
  proof (cases "recv_msg dec s")
    case (Inl e)
    with 1(3,4) refl show ?thesis
      by (cases e) (auto simp: serve_requests.simps [of enc dec env svc fs s])
  next
    case (Inr x)
    then obtain request s1 where x: "recv_msg dec s = Inr (request, s1)" by (cases x) auto
    obtain fs1 reply where h: "handle_request env svc fs request = (fs1, reply)"
      by (cases "handle_request env svc fs request")
    have c: "confined R fs fs1"
      using request_confined [OF 1(2) no_symlinks_no_dangling [OF 1(3)] h] .
    then have n: "no_symlinks fs1 R" using 1(3) by (simp add: confined_def)
    show ?thesis
    proof (cases "send_msg enc (reply_to_response reply) s1")
      case (Inl e)
      with 1(4) x h c n show ?thesis by (auto simp: serve_requests.simps [of enc dec env svc fs s])
    next
      case (Inr s2)
      with 1(4) x h have "serve_requests enc dec env svc fs1 s2 = (fs', s', r)"
        by (simp add: serve_requests.simps [of enc dec env svc fs s])
      with 1(1) x h Inr service_ok_confined [OF 1(2) c] n c show ?thesis
        by (metis (no_types, lifting) confined_trans)
    qed
  qed
qed

lemma serve_requests_read_only:
  assumes "hs_read_only svc" "serve_requests enc dec env svc fs s = (fs', s', r)"
  shows "fs' = fs"
  using assms
proof (induction enc dec env svc fs s rule: serve_requests.induct)
  case (1 enc dec env svc fs s)
  have ro: "fst (handle_request env svc fs request) = fs" for request
    using 1(2) by (cases request) (auto simp: handle_request_def guarded_def ensure_writable_def)
  show ?case
  proof (cases "recv_msg dec s")
    case (Inl e)
    with 1(3) show ?thesis by (cases e) (auto simp: serve_requests.simps [of enc dec env svc fs s])
  next
    case (Inr x)
    then obtain request s1 where x: "recv_msg dec s = Inr (request, s1)" by (cases x) auto
    obtain reply where h: "handle_request env svc fs request = (fs, reply)"
      using ro [of request] by (cases "handle_request env svc fs request") auto
    show ?thesis
    proof (cases "send_msg enc (reply_to_response reply) s1")
      case (Inl e)
      with 1(3) x h show ?thesis by (auto simp: serve_requests.simps [of enc dec env svc fs s])
    next
      case (Inr s2)
      with 1(3) x h have "serve_requests enc dec env svc fs s2 = (fs', s', r)"
        by (simp add: serve_requests.simps [of enc dec env svc fs s])
      with 1(1,2) x h Inr show ?thesis by metis
    qed
  qed
qed

subsection \<open>Paths without links\<close>

lemma walk_no_links:
  assumes "walk fs k cur (normal_path ns) follow = Inr (loc, k')"
    and "\<And>q t. prefix q (cur @ ns) \<Longrightarrow> length cur < length q \<Longrightarrow> lookup fs q \<noteq> Some (NSymlink t)"
  shows "loc = cur @ ns"
  using assms
proof (induction ns arbitrary: cur)
  case Nil
  then show ?case by (simp add: normal_path_def)
next
  case (Cons n ns)
  have nl: "lookup fs (cur @ [n]) \<noteq> Some (NSymlink t)" for t
    using Cons.prems(2) [of "cur @ [n]" t] by simp
  have step: "loc = (cur @ [n]) @ ns" if "walk fs k (cur @ [n]) (normal_path ns) follow = Inr (loc, k')"
    using Cons.IH [OF that] Cons.prems(2) by simp
  show ?case
  proof (cases "lookup fs (cur @ [n])")
    case None
    with Cons.prems(1) show ?thesis by (auto simp: normal_path_def split: if_splits)
  next
    case (Some x)
    with Cons.prems(1) nl step show ?thesis
      by (cases x) (auto simp: normal_path_def split: if_splits)
  qed
qed

lemma resolve_no_links:
  assumes "service_ok svc R fs" "no_symlinks fs R" "prefix R L"
    and "resolve fs (abs_path L) follow = Inr loc"
  shows "loc = L"
proof -
  have wf: "fs_wf fs" "lookup fs R = Some NDir" using assms(1) by (auto simp: service_ok_def)
  have "lookup fs q \<noteq> Some (NSymlink t)" if "prefix q L" for q t
  proof (cases "prefix R q")
    case True
    with assms(2) show ?thesis by (simp add: no_symlinks_def)
  next
    case False
    with that assms(3) have "prefix q R" by (metis prefix_same_cases)
    then obtain r where r: "R = q @ r" by (auto simp: prefix_def)
    with False have "r \<noteq> []" by auto
    with fs_wf_prefix_dir [OF wf(1), of q r] r wf(2) show ?thesis by simp
  qed
  then show ?thesis
    using assms(4) walk_no_links [of fs MAXSYMLINKS "[]" L follow loc]
    by (auto simp: resolve_def abs_path_def result_elims)
qed

lemma create_components_no_links:
  assumes "service_ok svc R fs" "no_symlinks fs R" "prefix R L"
    and "create_components fs (abs_path R) m (abs_path L) (normal_path ns) = Inr p"
  shows "p = abs_path (L @ ns)"
  using assms(3,4)
proof (induction ns arbitrary: L)
  case Nil
  then show ?case by (simp add: normal_path_def)
next
  case (Cons n ns)
  have LR: "prefix R (L @ [n])" using Cons.prems(1) by (simp add: prefix_prefix)
  have "create_components fs (abs_path R) m (abs_path (L @ [n])) (normal_path ns) = Inr p"
  proof (cases "path_exists fs (abs_path (L @ [n]))")
    case True
    with Cons.prems(2) obtain c where c: "canonicalize fs (abs_path (L @ [n])) = Inr c"
      and rest: "create_components fs (abs_path R) m c (normal_path ns) = Inr p"
      by (auto simp: normal_path_def abs_path_snoc result_elims Let_def)
    from c obtain loc where "c = abs_path loc" "resolve fs (abs_path (L @ [n])) True = Inr loc"
      by (auto simp: canonicalize_def resolve_node_def result_elims split: option.splits)
    moreover from this have "loc = L @ [n]" by (intro resolve_no_links [OF assms(1,2) LR])
    ultimately show ?thesis using rest by simp
  next
    case False
    with Cons.prems(2) show ?thesis by (simp add: normal_path_def abs_path_snoc Let_def)
  qed
  with Cons.IH [OF LR] show ?case by simp
qed

lemma resolve_path_for_create_no_links:
  assumes "service_ok svc R fs" "no_symlinks fs R" "resolve_path_for_create svc fs s = Inr p"
  shows "\<exists>ns. normalize_relative_path s = Inr (normal_path ns) \<and> p = abs_path (R @ ns)"
proof -
  have root: "hs_root svc = abs_path R" using assms(1) by (simp add: service_ok_def)
  from assms(3) obtain rel where r: "normalize_relative_path s = Inr rel"
    and p: "resolve_path_for_create_sync fs (abs_path R) (hs_mount_name svc) rel = Inr p"
    by (auto simp: resolve_path_for_create_def result_elims root)
  from normalize_relative_path_normal [OF r] obtain ns where "rel = normal_path ns" by auto
  with r p create_components_no_links [OF assms(1,2), of R] show ?thesis
    by (auto simp: resolve_path_for_create_sync_def split: if_splits)
qed

lemma take_drop_overwrite: "take (length data) (drop off (overwrite off data bs)) = data"
  by (simp add: overwrite_def)

subsection \<open>A small host\<close>

text \<open>Two directories, \<open>/r\<close> (exported) and \<open>/out\<close> (not exported), for the witnesses.\<close>

definition demo_fs :: host_fs where
  "demo_fs = \<lparr>hf_nodes = [([], NDir), ([''r''], NDir), ([''out''], NDir)], hf_cwd = []\<rparr>"

definition demo_svc :: "bool \<Rightarrow> host_fs_service" where
  "demo_svc ro = \<lparr>hs_mount_name = ''m'', hs_root = abs_path [''r''], hs_read_only = ro\<rparr>"

definition demo_env :: host_env where
  "demo_env = \<lparr>he_statvfs = (\<lambda>_. Inl 5),
     he_attr = (\<lambda>_. \<lparr>fa_readonly = False, fa_modified = None, fa_accessed = None, fa_len = 0\<rparr>),
     he_lossy = id\<rparr>"

lemma demo_wf: "fs_wf demo_fs"
  by (auto simp: fs_wf_def demo_fs_def lookup_def append_eq_Cons_conv split: if_splits)

lemma demo_service_ok: "service_ok (demo_svc ro) [''r''] demo_fs"
  using demo_wf by (simp add: service_ok_def demo_svc_def demo_fs_def lookup_def)

lemma demo_no_symlinks: "no_symlinks demo_fs R"
  by (auto simp: no_symlinks_def demo_fs_def lookup_def)

text \<open>Evaluation of concrete requests.\<close>

lemma MAXSYMLINKS_Suc: "MAXSYMLINKS = Suc 39"
  by (simp add: MAXSYMLINKS_def)

lemma normalize_f: "normalize_relative_path ''f'' = Inr [Normal ''f'']"
  by (simp add: normalize_relative_path_def trim_visible visible_ascii_def components_def
      is_absolute_def part_component_def starts_with_def path_join_def)

lemmas fs_eval =
  resolve_def resolve_node_def abs_path_def normal_path_def lookup_def MAXSYMLINKS_Suc
  canonicalize_def path_exists_def path_join_def is_absolute_def put_node_def open_write_def
  open_at_def open_read_def seek_start_def write_at_def read_at_def overwrite_def
  resolve_path_for_create_def resolve_path_for_create_sync_def resolve_existing_path_def
  resolve_follow_path_sync_def ensure_within_root_def path_starts_with_def MAX_READ_FILE_LEN_def
  normalize_f demo_svc_def demo_fs_def

definition demo_file_fs :: host_fs where
  "demo_file_fs = \<lparr>hf_nodes = [([''r'', ''f''], NFile [1, 2, 3]), ([], NDir), ([''r''], NDir),
     ([''out''], NDir)], hf_cwd = []\<rparr>"

lemma demo_file_ok: "service_ok (demo_svc ro) [''r''] demo_file_fs"
  by (auto simp: service_ok_def fs_wf_def demo_svc_def demo_file_fs_def lookup_def append_eq_Cons_conv
      split: if_splits)

subsection \<open>Main results\<close>

text \<open>
  C1. Confinement: on a well-formed host where every link below the mount root resolves, no request
  changes any node outside the mount root; the tree stays well formed and the root stays a directory.
\<close>

theorem handle_request_confined:
  assumes "service_ok svc R fs" and "no_dangling fs R"
    and "handle_request env svc fs request = (fs', r)"
  shows "unchanged_outside R fs fs' \<and> service_ok svc R fs'"
  using request_confined [OF assms] service_ok_confined [OF assms(1)]
  by (auto simp: confined_def)

theorem handle_request_confined_witness:
  "unchanged_outside [''r''] demo_fs (fst (handle_request demo_env (demo_svc False) demo_fs
      (ReqWriteFile ''a'' 0 [1] True False))) \<and>
   service_ok (demo_svc False) [''r''] (fst (handle_request demo_env (demo_svc False) demo_fs
      (ReqWriteFile ''a'' 0 [1] True False)))"
  using handle_request_confined [OF demo_service_ok no_symlinks_no_dangling [OF demo_no_symlinks] prod.collapse [symmetric]] .

text \<open>
  Over a whole connection (any bytes from the client), a mount whose tree has no symbolic links
  keeps everything outside the mount root unchanged and stays free of symbolic links.
\<close>

lemma serve_conn_confined:
  assumes "service_ok svc R fs" and "no_symlinks fs R"
    and "serve_conn enc dec env svc fs s = (fs', s', r)"
  shows "unchanged_outside R fs fs' \<and> no_symlinks fs' R \<and> service_ok svc R fs'"
proof -
  have refl: "confined R fs fs" using assms(1) by (simp add: service_ok_def confined_refl)
  have "confined R fs fs' \<and> no_symlinks fs' R"
    using assms(2,3) refl serve_requests_confined [OF assms(1,2)]
    by (auto simp: serve_conn_def split: sum.splits prod.splits option.splits)
  then show ?thesis using service_ok_confined [OF assms(1)] by (auto simp: confined_def)
qed

text \<open>
  C6. A read-only mount never changes the host: whatever the client sends, the file system after the
  connection is the one before it.
\<close>

theorem serve_conn_read_only:
  assumes "hs_read_only svc"
  shows "fst (serve_conn enc dec env svc fs s) = fs"
  using assms serve_requests_read_only [of svc enc dec env fs]
  by (auto simp: serve_conn_def split: sum.splits prod.splits option.splits)
     (metis prod.collapse)

theorem serve_conn_read_only_witness:
  "hs_read_only (demo_svc True) \<and>
   fst (serve_conn (\<lambda>_. Some [0]) (\<lambda>_. Some (ReqRemoveDir ''x'')) demo_env (demo_svc True) demo_fs
     \<lparr>rx = [0, 0, 0, 0], tx = [], tx_error = None\<rparr>) = demo_fs"
  using serve_conn_read_only [of "demo_svc True"] by (simp add: demo_svc_def)

text \<open>
  What a client reads is the requested part, at most 1 MiB, of a regular file below the mount
  root, whatever links the tree contains.
\<close>

lemma handle_read_file_confined:
  assumes "service_ok svc R fs" and "handle_read_file svc fs path off len = Inr rsp"
  shows "\<exists>loc bs. prefix R loc \<and> lookup fs loc = Some (NFile bs) \<and>
           rsp = RspReadFile (take (unat len) (drop (unat off) bs)) \<and> unat len \<le> 1048576"
proof -
  have wf: "fs_wf fs" "hs_root svc = abs_path R" using assms(1) by (auto simp: service_ok_def)
  from assms(2) obtain p h pos data where
    len: "\<not> MAX_READ_FILE_LEN < len" and p: "resolve_existing_path svc fs path = Inr p"
    and f: "open_read fs p = Inr h" and pos: "seek_start off = Inr pos"
    and d: "read_at fs h pos (unat len) = Inr data" and rsp: "rsp = RspReadFile data"
    by (auto simp: handle_read_file_def result_elims)
  from resolve_existing_path_result [OF wf p] obtain C where
    C: "p = abs_path C" "canonical_in fs R C" by auto
  from f resolve_canonical [OF wf(1) C(2), of True] C(1) have "h = C"
    by (auto simp: open_read_def resolve_node_def result_elims split: option.splits node.splits)
  with d obtain bs where "lookup fs C = Some (NFile bs)" "data = take (unat len) (drop pos bs)"
    by (auto simp: read_at_def split: option.splits node.splits)
  moreover have "pos = unat off" using pos by (auto simp: seek_start_def result_elims)
  moreover have "unat len \<le> 1048576"
    using len by (simp add: MAX_READ_FILE_LEN_def word_less_nat_alt)
  ultimately show ?thesis using C(2) rsp by (auto simp: canonical_in_def)
qed

text \<open>
  Round trip: after a successful write through a link-free mount, reading as many bytes at the
  same offset of the same path returns exactly the written data.
\<close>

lemma write_then_read:
  assumes ok: "service_ok svc R fs" and nl: "no_symlinks fs R"
    and w: "handle_write_file svc fs path off data create trunc = (fs', Inr rsp)"
    and len: "length data \<le> 1048576"
  shows "handle_read_file svc fs' path off (of_nat (length data)) = Inr (RspReadFile data)"
proof -
  from w obtain p where p: "resolve_path_for_create svc fs path = Inr p"
    by (cases "resolve_path_for_create svc fs path") (auto simp: handle_write_file_def)
  from resolve_path_for_create_no_links [OF ok nl p] obtain ns where
    ns: "normalize_relative_path path = Inr (normal_path ns)" "p = abs_path (R @ ns)" by auto
  from w p obtain fs1 loc where o: "open_write fs p create trunc = Inr (fs1, loc)"
    by (cases "open_write fs p create trunc") (auto simp: handle_write_file_def)
  from w p o obtain pos where pos: "seek_start off = Inr pos"
    by (cases "seek_start off") (auto simp: handle_write_file_def)
  from w p o pos have wr: "write_at fs1 loc pos data = Inr fs'"
    by (cases "write_at fs1 loc pos data") (auto simp: handle_write_file_def)
  have wf: "fs_wf fs" using ok by (simp add: service_ok_def)
  from open_write_effect [OF wf _ o] ns(2) have
    r: "resolve fs (abs_path (R @ ns)) True = Inr loc" and wf1: "fs_wf fs1" by auto
  from resolve_no_links [OF ok nl _ r] have loc: "loc = R @ ns" by simp
  from write_at_effect [OF wf1 wr] obtain bs where
    wf': "fs_wf fs'" and node: "lookup fs' loc = Some (NFile (overwrite pos data bs))" by auto
  have "resolve fs' (abs_path loc) True = Inr loc"
    using wf' node by (intro resolve_abs) auto
  then have rn: "resolve_node fs' (abs_path loc) True = Inr (loc, NFile (overwrite pos data bs))"
    by (simp add: resolve_node_def node)
  have root: "hs_root svc = abs_path R" using ok by (simp add: service_ok_def)
  have join: "abs_path R @ normal_path ns = abs_path loc"
    by (simp add: loc abs_path_def normal_path_def)
  have within: "ensure_within_root (abs_path R) (hs_mount_name svc) (abs_path (R @ ns)) = Inr ()"
    by (simp add: within_root_iff)
  have "resolve_existing_path svc fs' path = Inr (abs_path loc)"
    using rn by (simp add: Let_def resolve_existing_path_def ns(1) resolve_follow_path_sync_def
        canonicalize_def root join) (simp add: loc within)
  moreover have l: "unat (of_nat (length data) :: u32) = length data"
    using len by (intro unat_of_nat_u32) simp
  moreover have "\<not> MAX_READ_FILE_LEN < of_nat (length data)"
    using len l by (simp add: MAX_READ_FILE_LEN_def word_less_nat_alt)
  ultimately show ?thesis
    by (simp add: handle_read_file_def open_read_def rn pos read_at_def node l take_drop_overwrite)
qed

definition leaky_fs :: host_fs where
  "leaky_fs = \<lparr>hf_nodes = [([], NDir), ([''r''], NDir), ([''out''], NDir),
     ([''r'', ''f''], NSymlink (abs_path [''out'', ''x'']))], hf_cwd = []\<rparr>"

text \<open>
  The confinement theorem needs its hypothesis: below a mount root that contains one dangling
  link to a missing file outside, a write with \<open>create\<close> through that link creates the file outside
  the root, because \<open>exists()\<close> does not see the link and the path is opened unresolved.
\<close>

lemma dangling_link_escapes:
  "lookup leaky_fs [''out'', ''x''] = None \<and>
   lookup (fst (handle_request demo_env (demo_svc False) leaky_fs
     (ReqWriteFile ''f'' 0 [7] True False))) [''out'', ''x''] = Some (NFile [7])"
proof
  show "lookup leaky_fs [''out'', ''x''] = None" by (simp add: leaky_fs_def lookup_def)
  show "lookup (fst (handle_request demo_env (demo_svc False) leaky_fs
     (ReqWriteFile ''f'' 0 [7] True False))) [''out'', ''x''] = Some (NFile [7])"
    by (simp add: handle_request_def guarded_def ensure_writable_def handle_write_file_def
        leaky_fs_def fs_eval)
qed

text \<open>
  The handshake comes first: when the first message is not a hello with the right version and
  mount name, the only answer is an error with \<open>EINVAL\<close>, and no request is executed.
\<close>

lemma serve_conn_requires_hello:
  assumes "recv_msg dec s = Inr (request, s1)" and "hello_error svc request = Some err"
  shows "fe_os_code err = Some EINVAL \<and>
    serve_conn enc dec env svc fs s =
      (case send_msg enc (RspError err) s1 of
         Inl e \<Rightarrow> (fs, s1, Inl e) | Inr s2 \<Rightarrow> (fs, s2, Inr ())) \<and>
    request \<noteq>
      ReqHello \<lparr>hq_protocol_version = HOSTFS_PROTOCOL_VERSION, hq_mount_name = hs_mount_name svc\<rparr>"
  using assms
  by (auto simp: serve_conn_def hello_error_def FsProxyError_new_def split: fs_request.splits if_splits)

end
