(* ===== verification/Fs_Mount.thy ===== *)
theory Fs_Mount
  imports Hostfs_Client Hostfs_Confinement Manifest Vsock_Ports
begin

unbundle bit_operations_syntax

text \<open>
  The FUSE file system inside the enclave (\<open>bin/capsule-runtime/fs_mount.rs\<close>): every callback opens
  a fresh hostfs connection and forwards to the client.  The remote side is a record of two
  functions over a world \<open>'w\<close>; the interface it has to satisfy is the locale \<open>fs_backend\<close>, which
  the hostfs service instantiates.  Main results: no FUSE callback changes the host outside the mount
  root, exclusive creation never touches an existing entry, and data written through FUSE is read
  back.
\<close>

subsection \<open>Data\<close>

definition FUSE_DEVICE_PATH :: string where "FUSE_DEVICE_PATH = ''/dev/fuse''"
definition HOSTFS_MOUNT_TTL :: nat where "HOSTFS_MOUNT_TTL = 1"
definition HOSTFS_BLOCK_SIZE :: u32 where "HOSTFS_BLOCK_SIZE = 4096"
definition HOSTFS_MAX_NAME_LEN :: u32 where "HOSTFS_MAX_NAME_LEN = 255"

record host_fs_filesystem =
  ff_mount_name :: string
  ff_port :: u32

record 'w remote =
  rm_connect :: "string \<Rightarrow> u32 \<Rightarrow> 'w \<Rightarrow> 'w \<times> (client_error, hello_response) result"
  rm_request :: "'w requester"

datatype fuse_file_type = RegularFile | Directory | Symlink

record fuse_attr =
  at_size :: u64
  at_blocks :: u64
  at_atime :: int
  at_mtime :: int
  at_ctime :: int
  at_crtime :: int
  at_kind :: fuse_file_type
  at_perm :: nat
  at_nlink :: nat
  at_uid :: nat
  at_gid :: nat

record fuse_statfs =
  sf_blocks :: u64
  sf_bfree :: u64
  sf_bavail :: u64
  sf_files :: u64
  sf_ffree :: u64
  sf_bsize :: u32
  sf_namelen :: u32
  sf_frsize :: u32

text \<open>A callback answers with an errno; adding a time outside the range of \<open>SystemTime\<close> panics.\<close>

datatype fuse_error = Errno int | FusePanic

type_synonym ('w, 'a) fuse = "'w \<times> (fuse_error, 'a) result"

subsection \<open>Attributes\<close>

definition entry_type_to_file_type :: "fs_entry_type \<Rightarrow> fuse_file_type" where
  "entry_type_to_file_type t =
     (case t of EFile \<Rightarrow> RegularFile | EDirectory \<Rightarrow> Directory | ESymlink \<Rightarrow> Symlink | EOther \<Rightarrow> RegularFile)"

definition div_ceil :: "u64 \<Rightarrow> u64 \<Rightarrow> u64" where
  "div_ceil a b = (if a mod b = 0 then a div b else a div b + 1)"

text \<open>Nanoseconds since the epoch; \<open>SystemTime\<close> holds seconds in an \<open>i64\<close>.\<close>

definition epoch_to_system_time :: "u64 \<Rightarrow> u32 \<Rightarrow> int option" where
  "epoch_to_system_time secs nsecs =
     (let t = int (unat secs) * 1000000000 + int (unat nsecs)
      in if t div 1000000000 < 2 ^ 63 then Some t else None)"

definition attr_perm :: "fuse_file_type \<Rightarrow> bool \<Rightarrow> nat" where
  "attr_perm kind read_only =
     (case kind of
        Directory \<Rightarrow> if read_only then 0x16D else 0x1ED
      | RegularFile \<Rightarrow> if read_only then 0x124 else 0x1A4
      | Symlink \<Rightarrow> 0x1FF)"

definition metadata_to_attr :: "fs_metadata \<Rightarrow> fuse_attr option" where
  "metadata_to_attr md =
     (let kind = entry_type_to_file_type (md_entry_type md) in
      case (epoch_to_system_time (md_mtime_secs md) (md_mtime_nsecs md),
            epoch_to_system_time (md_atime_secs md) (md_atime_nsecs md)) of
        (Some mtime, Some atime) \<Rightarrow>
          Some \<lparr>at_size = md_len md, at_blocks = div_ceil (md_len md) 512, at_atime = atime,
                at_mtime = mtime, at_ctime = mtime, at_crtime = mtime, at_kind = kind,
                at_perm = attr_perm kind (md_read_only md),
                at_nlink = (if kind = Directory then 2 else 1), at_uid = 0, at_gid = 0\<rparr>
      | _ \<Rightarrow> None)"

subsection \<open>Paths\<close>

text \<open>The text of a relative path: its components separated by slashes.\<close>

definition component_str :: "component \<Rightarrow> string" where
  "component_str c =
     (case c of Normal n \<Rightarrow> n | CurDir \<Rightarrow> ''.'' | ParentDir \<Rightarrow> ''..'' | RootDir \<Rightarrow> ''/'')"

fun path_str :: "path \<Rightarrow> string" where
  "path_str [] = ''''"
| "path_str [c] = component_str c"
| "path_str (c # cs) = component_str c @ ''/'' @ path_str cs"

definition relative_path :: "path \<Rightarrow> (fuse_error, string) result" where
  "relative_path p =
     (if p = [RootDir] then Inr []
      else if is_absolute p then Inr (path_str (tl p))
      else Inr (path_str p))"

definition child_path :: "path \<Rightarrow> string \<Rightarrow> (fuse_error, path) result" where
  "child_path parent name =
     rbind (bail_if (name = []) (Errno EINVAL)) (\<lambda>_. Inr (path_join parent (components name)))"

subsection \<open>Callbacks\<close>

definition fuse_err :: "'w \<times> (client_error, 'a) result \<Rightarrow> ('w, 'a) fuse" where
  "fuse_err r = (fst r, map_err (\<lambda>e. Errno (errno e)) (snd r))"

definition with_client_async ::
  "'w remote \<Rightarrow> host_fs_filesystem \<Rightarrow> 'w \<Rightarrow> ('w \<Rightarrow> 'w \<times> (client_error, 'a) result) \<Rightarrow> ('w, 'a) fuse" where
  "with_client_async rm ff w op =
     sbind (fuse_err (rm_connect rm (ff_mount_name ff) (ff_port ff) w)) (\<lambda>w _. fuse_err (op w))"

definition metadata_attr ::
  "'w remote \<Rightarrow> host_fs_filesystem \<Rightarrow> 'w \<Rightarrow> path \<Rightarrow> ('w, nat \<times> fuse_attr) fuse" where
  "metadata_attr rm ff w p =
     sbind (w, relative_path p) (\<lambda>w relative.
     sbind (with_client_async rm ff w (\<lambda>w. metadata (rm_request rm) w relative)) (\<lambda>w md.
     (w, ok_or FusePanic (map_option (\<lambda>a. (HOSTFS_MOUNT_TTL, a)) (metadata_to_attr md)))))"

definition getattr :: "'w remote \<Rightarrow> host_fs_filesystem \<Rightarrow> 'w \<Rightarrow> path \<Rightarrow> ('w, nat \<times> fuse_attr) fuse" where
  "getattr rm ff w p = metadata_attr rm ff w p"

definition fuse_truncate ::
  "'w remote \<Rightarrow> host_fs_filesystem \<Rightarrow> 'w \<Rightarrow> path \<Rightarrow> u64 \<Rightarrow> ('w, unit) fuse" where
  "fuse_truncate rm ff w p sz =
     sbind (w, relative_path p) (\<lambda>w relative.
     with_client_async rm ff w (\<lambda>w. client_set_len (rm_request rm) w relative sz))"

definition fuse_mkdir ::
  "'w remote \<Rightarrow> host_fs_filesystem \<Rightarrow> 'w \<Rightarrow> path \<Rightarrow> string \<Rightarrow> ('w, nat \<times> fuse_attr) fuse" where
  "fuse_mkdir rm ff w parent name =
     sbind (w, child_path parent name) (\<lambda>w child.
     sbind (w, relative_path child) (\<lambda>w relative.
     sbind (with_client_async rm ff w (\<lambda>w. mkdir (rm_request rm) w relative False)) (\<lambda>w _.
     metadata_attr rm ff w child)))"

definition fuse_unlink ::
  "'w remote \<Rightarrow> host_fs_filesystem \<Rightarrow> 'w \<Rightarrow> path \<Rightarrow> string \<Rightarrow> ('w, unit) fuse" where
  "fuse_unlink rm ff w parent name =
     sbind (w, child_path parent name) (\<lambda>w child.
     sbind (w, relative_path child) (\<lambda>w relative.
     with_client_async rm ff w (\<lambda>w. client_remove_file (rm_request rm) w relative)))"

definition fuse_rmdir ::
  "'w remote \<Rightarrow> host_fs_filesystem \<Rightarrow> 'w \<Rightarrow> path \<Rightarrow> string \<Rightarrow> ('w, unit) fuse" where
  "fuse_rmdir rm ff w parent name =
     sbind (w, child_path parent name) (\<lambda>w child.
     sbind (w, relative_path child) (\<lambda>w relative.
     with_client_async rm ff w (\<lambda>w. client_remove_dir (rm_request rm) w relative)))"

definition fuse_rename ::
  "'w remote \<Rightarrow> host_fs_filesystem \<Rightarrow> 'w \<Rightarrow> path \<Rightarrow> string \<Rightarrow> path \<Rightarrow> string \<Rightarrow> ('w, unit) fuse" where
  "fuse_rename rm ff w parent name newparent newname =
     sbind (w, rbind (child_path parent name) relative_path) (\<lambda>w frm.
     sbind (w, rbind (child_path newparent newname) relative_path) (\<lambda>w to.
     with_client_async rm ff w (\<lambda>w. client_rename (rm_request rm) w frm to)))"

definition O_ACCMODE :: u32 where "O_ACCMODE = 3"
definition O_RDONLY :: u32 where "O_RDONLY = 0"
definition O_TRUNC :: u32 where "O_TRUNC = 0x200"

definition fuse_open ::
  "'w remote \<Rightarrow> host_fs_filesystem \<Rightarrow> 'w \<Rightarrow> path \<Rightarrow> u32 \<Rightarrow> ('w, nat \<times> nat) fuse" where
  "fuse_open rm ff w p flags =
     sbind (w, relative_path p) (\<lambda>w relative.
     let wants_write = (flags AND O_ACCMODE) \<noteq> O_RDONLY in
     sbind (if wants_write \<and> (flags AND O_TRUNC) \<noteq> 0
            then with_client_async rm ff w (\<lambda>w. client_set_len (rm_request rm) w relative 0)
            else (w, Inr ())) (\<lambda>w _.
     (w, Inr (0, 0))))"

definition fuse_read ::
  "'w remote \<Rightarrow> host_fs_filesystem \<Rightarrow> 'w \<Rightarrow> path \<Rightarrow> u64 \<Rightarrow> u32 \<Rightarrow> ('w, bytes) fuse" where
  "fuse_read rm ff w p offset sz =
     sbind (w, relative_path p) (\<lambda>w relative.
     with_client_async rm ff w (\<lambda>w. read_file (rm_request rm) w relative offset sz))"

definition fuse_write ::
  "'w remote \<Rightarrow> host_fs_filesystem \<Rightarrow> 'w \<Rightarrow> path \<Rightarrow> u64 \<Rightarrow> bytes \<Rightarrow> ('w, u32) fuse" where
  "fuse_write rm ff w p offset data =
     sbind (w, relative_path p) (\<lambda>w relative.
     with_client_async rm ff w (\<lambda>w.
       sbind (write_file (rm_request rm) w relative offset data False False) (\<lambda>w written.
       (w, Inr (ucast written)))))"

definition fuse_fsync :: "'w remote \<Rightarrow> host_fs_filesystem \<Rightarrow> 'w \<Rightarrow> path \<Rightarrow> ('w, unit) fuse" where
  "fuse_fsync rm ff w p =
     sbind (w, relative_path p) (\<lambda>w relative.
     with_client_async rm ff w (\<lambda>w. fsync (rm_request rm) w relative))"

definition fuse_flush :: "'w remote \<Rightarrow> host_fs_filesystem \<Rightarrow> 'w \<Rightarrow> path \<Rightarrow> ('w, unit) fuse" where
  "fuse_flush rm ff w p =
     sbind (w, relative_path p) (\<lambda>w relative.
     with_client_async rm ff w (\<lambda>w. fsync (rm_request rm) w relative))"

definition fuse_fsyncdir :: "'w remote \<Rightarrow> host_fs_filesystem \<Rightarrow> 'w \<Rightarrow> path \<Rightarrow> ('w, unit) fuse" where
  "fuse_fsyncdir rm ff w p =
     sbind (w, relative_path p) (\<lambda>w relative.
     with_client_async rm ff w (\<lambda>w. fsync (rm_request rm) w relative))"

definition fuse_readdir ::
  "'w remote \<Rightarrow> host_fs_filesystem \<Rightarrow> 'w \<Rightarrow> path \<Rightarrow> ('w, (string \<times> fuse_file_type) list) fuse" where
  "fuse_readdir rm ff w p =
     sbind (w, relative_path p) (\<lambda>w relative.
     sbind (with_client_async rm ff w (\<lambda>w. client_read_dir (rm_request rm) w relative)) (\<lambda>w remote_entries.
     (w, Inr ([(''.'', Directory), (''..'', Directory)] @
       map (\<lambda>e. (de_name e, entry_type_to_file_type (de_entry_type e))) remote_entries))))"

definition fuse_statfs :: "'w remote \<Rightarrow> host_fs_filesystem \<Rightarrow> 'w \<Rightarrow> ('w, fuse_statfs) fuse" where
  "fuse_statfs rm ff w =
     sbind (with_client_async rm ff w (\<lambda>w. statfs (rm_request rm) w)) (\<lambda>w stat.
     let blocks = div_ceil (fst_total_bytes stat) (ucast HOSTFS_BLOCK_SIZE);
         free_blocks = div_ceil (fst_available_bytes stat) (ucast HOSTFS_BLOCK_SIZE)
     in (w, Inr \<lparr>sf_blocks = blocks, sf_bfree = free_blocks, sf_bavail = free_blocks, sf_files = 0,
                 sf_ffree = 0, sf_bsize = HOSTFS_BLOCK_SIZE, sf_namelen = HOSTFS_MAX_NAME_LEN,
                 sf_frsize = HOSTFS_BLOCK_SIZE\<rparr>))"

definition fuse_access :: "'w remote \<Rightarrow> host_fs_filesystem \<Rightarrow> 'w \<Rightarrow> path \<Rightarrow> ('w, unit) fuse" where
  "fuse_access rm ff w p = sbind (metadata_attr rm ff w p) (\<lambda>w _. (w, Inr ()))"

text \<open>\<open>create\<close> first asks for the metadata; only \<open>ENOENT\<close> lets it go on.\<close>

definition fuse_create ::
  "'w remote \<Rightarrow> host_fs_filesystem \<Rightarrow> 'w \<Rightarrow> path \<Rightarrow> string \<Rightarrow> u32 \<Rightarrow> ('w, nat \<times> fuse_attr) fuse" where
  "fuse_create rm ff w parent name flags =
     sbind (w, child_path parent name) (\<lambda>w child.
     sbind (w, relative_path child) (\<lambda>w relative.
     sbind (case with_client_async rm ff w (\<lambda>w. metadata (rm_request rm) w relative) of
              (w, Inr _) \<Rightarrow> (w, Inl (Errno EEXIST))
            | (w, Inl e) \<Rightarrow> if e = Errno ENOENT then (w, Inr ()) else (w, Inl e)) (\<lambda>w _.
     sbind (with_client_async rm ff w (\<lambda>w. write_file (rm_request rm) w relative 0 [] True False)) (\<lambda>w _.
     sbind (if (flags AND O_TRUNC) \<noteq> 0
            then with_client_async rm ff w (\<lambda>w. client_set_len (rm_request rm) w relative 0)
            else (w, Inr ())) (\<lambda>w _.
     sbind (metadata_attr rm ff w child) (\<lambda>w (_, attr).
     (w, Inr (HOSTFS_MOUNT_TTL, attr))))))))"

text \<open>\<open>opendir\<close>, \<open>release\<close> and \<open>releasedir\<close> answer without a connection.\<close>

definition fuse_opendir :: "'w \<Rightarrow> ('w, nat \<times> nat) fuse" where
  "fuse_opendir w = (w, Inr (0, 0))"

definition fuse_release :: "'w \<Rightarrow> ('w, unit) fuse" where
  "fuse_release w = (w, Inr ())"

definition fuse_releasedir :: "'w \<Rightarrow> ('w, unit) fuse" where
  "fuse_releasedir w = (w, Inr ())"

subsection \<open>Starting the mounts\<close>

text \<open>The words of a line, as \<open>split_whitespace\<close> gives them.\<close>

function split_words :: "string \<Rightarrow> string \<Rightarrow> string list" where
  "split_words cur s =
     (case s of
        [] \<Rightarrow> if cur = [] then [] else [cur]
      | c # cs \<Rightarrow>
          (case find (\<lambda>w. starts_with s w) white_space of
             Some w \<Rightarrow> (if cur = [] then [] else [cur]) @ split_words [] (drop (length w) s)
           | None \<Rightarrow> split_words (cur @ [c]) cs))"
  by pat_completeness auto
termination
  by (relation "measure (\<lambda>(cur, s). length s)") (auto dest: find_white_space)

declare split_words.simps [simp del]

definition proc_filesystems_lists_fuse :: "string \<Rightarrow> bool" where
  "proc_filesystems_lists_fuse contents =
     list_ex (\<lambda>line. let ws = split_words [] line in
                ws \<noteq> [] \<and> (last ws = ''fuse'' \<or> last ws = ''fuseblk''))
       (split_on (CHR 0x0A) contents)"

datatype mount_error =
    FuseDeviceFailed
  | ProcFilesystemsUnreadable
  | FuseNotListed
  | FuseDeviceNotOpenable
  | MountPathNotDirectory
  | MountPathCreateFailed io_error
  | MountConnectFailed client_error
  | MountReadOnly string
  | MountPingFailed client_error
  | MountFuseFailed
  | MountPortUnavailable string vsock_error
  | RequiredMountFailed string mount_error

text \<open>
  Checking for FUSE; the device node, \<open>/proc/filesystems\<close> and opening the device are the
  kernel's answers.
\<close>

definition ensure_fuse_available ::
  "bool \<Rightarrow> string option \<Rightarrow> bool \<Rightarrow> (mount_error, unit) result" where
  "ensure_fuse_available device_ok proc_filesystems device_opens =
     rbind (bail_if (\<not> device_ok) FuseDeviceFailed) (\<lambda>_.
     rbind (ok_or ProcFilesystemsUnreadable proc_filesystems) (\<lambda>contents.
     rbind (bail_if (\<not> proc_filesystems_lists_fuse contents) FuseNotListed) (\<lambda>_.
     bail_if (\<not> device_opens) FuseDeviceNotOpenable)))"

text \<open>
  One mount: prepare the mount point in the enclave's own file system \<open>lfs\<close>, probe the proxy, then
  ask the kernel for the FUSE mount (\<open>fuse_ok\<close>).
\<close>

definition prepare_mount_path :: "host_fs \<Rightarrow> path \<Rightarrow> host_fs \<times> (mount_error, unit) result" where
  "prepare_mount_path lfs p =
     (if path_exists lfs p then
        (lfs, bail_if (\<not> path_is_dir lfs p) MountPathNotDirectory)
      else (case create_dir_all lfs p of (lfs', r) \<Rightarrow> (lfs', map_err MountPathCreateFailed r)))"

definition probe_mount ::
  "'w remote \<Rightarrow> string \<Rightarrow> u32 \<Rightarrow> 'w \<Rightarrow> 'w \<times> (mount_error, unit) result" where
  "probe_mount rm name port w =
     (case rm_connect rm name port w of
        (w, Inl e) \<Rightarrow> (w, Inl (MountConnectFailed e))
      | (w, Inr h) \<Rightarrow>
          if hp_read_only h then (w, Inl (MountReadOnly name))
          else (case ping (rm_request rm) w of (w, r) \<Rightarrow> (w, map_err MountPingFailed r)))"

definition start_mount ::
  "'w remote \<Rightarrow> (string \<Rightarrow> bool) \<Rightarrow> hostfs_mount_config \<Rightarrow> u32 \<Rightarrow> host_fs \<times> 'w
     \<Rightarrow> (host_fs \<times> 'w) \<times> (mount_error, host_fs_filesystem) result" where
  "start_mount rm fuse_ok mount port st =
     (case prepare_mount_path (fst st) (components (hm_mount_path mount)) of
        (lfs, Inl e) \<Rightarrow> ((lfs, snd st), Inl e)
      | (lfs, Inr _) \<Rightarrow>
          (case probe_mount rm (hm_name mount) port (snd st) of
             (w, Inl e) \<Rightarrow> ((lfs, w), Inl e)
           | (w, Inr _) \<Rightarrow>
               ((lfs, w), if fuse_ok (hm_name mount)
                          then Inr \<lparr>ff_mount_name = hm_name mount, ff_port = port\<rparr>
                          else Inl MountFuseFailed)))"

text \<open>
  All mounts in order.  \<open>start1\<close> starts one; a failing optional mount is skipped, a failing required
  one or a missing port ends the start.
\<close>

fun start_mounts ::
  "(hostfs_mount_config \<Rightarrow> u32 \<Rightarrow> 's \<Rightarrow> 's \<times> (mount_error, 'm) result) \<Rightarrow> runtime_host_vsock_ports
     \<Rightarrow> nat \<Rightarrow> hostfs_mount_config list \<Rightarrow> 's \<Rightarrow> 's \<times> (mount_error, 'm list) result" where
  "start_mounts start1 ports index [] st = (st, Inr [])"
| "start_mounts start1 ports index (mount # mounts) st =
     sbind (st, map_err (MountPortUnavailable (hm_name mount)) (hostfs_mount_port ports index)) (\<lambda>st port.
     (case start1 mount port st of
        (st, Inr active) \<Rightarrow>
          sbind (start_mounts start1 ports (Suc index) mounts st) (\<lambda>st rest. (st, Inr (active # rest)))
      | (st, Inl err) \<Rightarrow>
          if \<not> hm_required mount then start_mounts start1 ports (Suc index) mounts st
          else (st, Inl (RequiredMountFailed (hm_name mount) err))))"

definition HostFsMountService_start ::
  "(hostfs_mount_config \<Rightarrow> u32 \<Rightarrow> 's \<Rightarrow> 's \<times> (mount_error, 'm) result) \<Rightarrow> (mount_error, unit) result
     \<Rightarrow> manifest \<Rightarrow> runtime_host_vsock_ports \<Rightarrow> 's \<Rightarrow> 's \<times> (mount_error, 'm list) result" where
  "HostFsMountService_start start1 fuse_available m ports st =
     (case hostfs_mounts m of
        None \<Rightarrow> (st, Inr [])
      | Some mounts \<Rightarrow>
          if mounts = [] then (st, Inr [])
          else sbind (st, fuse_available) (\<lambda>st _. start_mounts start1 ports 0 mounts st))"

subsection \<open>The interface of the remote side\<close>

text \<open>
  What a FUSE mount relies on: an invariant of the remote world that connecting and every request
  keep.  Everything proved from it holds for every callback.
\<close>

datatype fuse_call =
    CGetattr path
  | CTruncate path u64
  | CMkdir path string
  | CUnlink path string
  | CRmdir path string
  | CRename path string path string
  | COpen path u32
  | CRead path u64 u32
  | CWrite path u64 bytes
  | CFsync path
  | CFlush path
  | CFsyncdir path
  | CReaddir path
  | CStatfs
  | CAccess path
  | CCreate path string u32
  | COpendir
  | CRelease
  | CReleasedir

definition fuse_step :: "'w remote \<Rightarrow> host_fs_filesystem \<Rightarrow> 'w \<Rightarrow> fuse_call \<Rightarrow> 'w" where
  "fuse_step rm ff w call =
     (case call of
        CGetattr p \<Rightarrow> fst (getattr rm ff w p)
      | CTruncate p sz \<Rightarrow> fst (fuse_truncate rm ff w p sz)
      | CMkdir p n \<Rightarrow> fst (fuse_mkdir rm ff w p n)
      | CUnlink p n \<Rightarrow> fst (fuse_unlink rm ff w p n)
      | CRmdir p n \<Rightarrow> fst (fuse_rmdir rm ff w p n)
      | CRename p n q m \<Rightarrow> fst (fuse_rename rm ff w p n q m)
      | COpen p flags \<Rightarrow> fst (fuse_open rm ff w p flags)
      | CRead p off sz \<Rightarrow> fst (fuse_read rm ff w p off sz)
      | CWrite p off data \<Rightarrow> fst (fuse_write rm ff w p off data)
      | CFsync p \<Rightarrow> fst (fuse_fsync rm ff w p)
      | CFlush p \<Rightarrow> fst (fuse_flush rm ff w p)
      | CFsyncdir p \<Rightarrow> fst (fuse_fsyncdir rm ff w p)
      | CReaddir p \<Rightarrow> fst (fuse_readdir rm ff w p)
      | CStatfs \<Rightarrow> fst (fuse_statfs rm ff w)
      | CAccess p \<Rightarrow> fst (fuse_access rm ff w p)
      | CCreate p n flags \<Rightarrow> fst (fuse_create rm ff w p n flags)
      | COpendir \<Rightarrow> fst (fuse_opendir w)
      | CRelease \<Rightarrow> fst (fuse_release w)
      | CReleasedir \<Rightarrow> fst (fuse_releasedir w))"

lemmas fuse_defs =
  getattr_def fuse_truncate_def fuse_mkdir_def fuse_unlink_def fuse_rmdir_def fuse_rename_def
  fuse_open_def fuse_read_def fuse_write_def fuse_fsync_def fuse_flush_def fuse_fsyncdir_def
  fuse_readdir_def fuse_statfs_def fuse_access_def fuse_create_def fuse_opendir_def fuse_release_def
  fuse_releasedir_def

lemma sbind_inv:
  assumes "I (fst r)" "\<And>s x. I s \<Longrightarrow> I (fst (f s x))"
  shows "I (fst (sbind r f))"
  using assms by (cases r; cases "snd r") auto

locale fs_backend =
  fixes rm :: "'w remote" and inv :: "'w \<Rightarrow> bool"
  assumes connect_inv: "inv w \<Longrightarrow> inv (fst (rm_connect rm name port w))"
    and request_inv: "inv w \<Longrightarrow> inv (fst (rm_request rm w req))"
begin

lemma inv_sbind:
  assumes "inv (fst r)" "\<And>s x. inv s \<Longrightarrow> inv (fst (f s x))"
  shows "inv (fst (sbind r f))"
  using assms by (rule sbind_inv)

lemma typed_inv: "inv w \<Longrightarrow> inv (fst (typed (rm_request rm) w req sel msg))"
  unfolding typed_def by (rule inv_sbind) (simp_all add: request_inv)

lemma expecting_ok_inv: "inv w \<Longrightarrow> inv (fst (expecting_ok (rm_request rm) w req msg))"
  unfolding expecting_ok_def by (rule inv_sbind) (simp_all add: request_inv)

lemma client_op_inv:
  "inv w \<Longrightarrow> inv (fst (metadata (rm_request rm) w p))"
  "inv w \<Longrightarrow> inv (fst (statfs (rm_request rm) w))"
  "inv w \<Longrightarrow> inv (fst (client_read_dir (rm_request rm) w p))"
  "inv w \<Longrightarrow> inv (fst (read_file (rm_request rm) w p off len))"
  "inv w \<Longrightarrow> inv (fst (write_file (rm_request rm) w p off data create trunc))"
  "inv w \<Longrightarrow> inv (fst (client_set_len (rm_request rm) w p sz))"
  "inv w \<Longrightarrow> inv (fst (mkdir (rm_request rm) w p rec))"
  "inv w \<Longrightarrow> inv (fst (client_remove_file (rm_request rm) w p))"
  "inv w \<Longrightarrow> inv (fst (client_remove_dir (rm_request rm) w p))"
  "inv w \<Longrightarrow> inv (fst (client_rename (rm_request rm) w p q))"
  "inv w \<Longrightarrow> inv (fst (fsync (rm_request rm) w p))"
  by (simp_all add: client_ops_defs typed_inv expecting_ok_inv)

lemma with_client_inv:
  assumes "inv w" "\<And>w. inv w \<Longrightarrow> inv (fst (op w))"
  shows "inv (fst (with_client_async rm ff w op))"
  unfolding with_client_async_def
  by (rule inv_sbind) (simp_all add: assms fuse_err_def connect_inv)

lemma metadata_attr_inv: "inv w \<Longrightarrow> inv (fst (metadata_attr rm ff w p))"
  unfolding metadata_attr_def
  by (intro inv_sbind with_client_inv) (simp_all add: client_op_inv)

lemma create_probe_inv:
  assumes "inv w"
  shows "inv (fst (case with_client_async rm ff w (\<lambda>w. metadata (rm_request rm) w relative) of
              (w, Inr x) \<Rightarrow> (w, Inl (Errno EEXIST))
            | (w, Inl e) \<Rightarrow> if e = Errno ENOENT then (w, Inr ()) else (w, Inl e)))"
proof -
  have "inv (fst (with_client_async rm ff w (\<lambda>w. metadata (rm_request rm) w relative)))"
    using assms by (intro with_client_inv) (simp_all add: client_op_inv)
  then show ?thesis by (auto split: prod.splits sum.splits)
qed

lemma fuse_step_inv: "inv w \<Longrightarrow> inv (fuse_step rm ff w call)"
  by (cases call)
     (auto simp: fuse_step_def fuse_defs Let_def
       intro!: inv_sbind with_client_inv metadata_attr_inv client_op_inv create_probe_inv split: prod.splits)

lemma fuse_steps_inv: "inv w \<Longrightarrow> inv (foldl (fuse_step rm ff) w calls)"
  by (induction calls arbitrary: w) (simp_all add: fuse_step_inv)

end

subsection \<open>The service is such a backend\<close>

definition service_remote :: "host_env \<Rightarrow> host_fs_service \<Rightarrow> host_fs remote" where
  "service_remote env svc =
     \<lparr>rm_connect = (\<lambda>name port fs. (fs, service_hello svc name)), rm_request = service_request env svc\<rparr>"

definition mount_inv :: "host_fs_service \<Rightarrow> location \<Rightarrow> host_fs \<Rightarrow> host_fs \<Rightarrow> bool" where
  "mount_inv svc R fs0 fs \<longleftrightarrow>
     service_ok svc R fs \<and> no_symlinks fs R \<and> unchanged_outside R fs0 fs"

interpretation service: fs_backend "service_remote env svc" "mount_inv svc R fs0" for env svc R fs0
proof unfold_locales
  fix w name port
  assume "mount_inv svc R fs0 w"
  then show "mount_inv svc R fs0 (fst (rm_connect (service_remote env svc) name port w))"
    by (simp add: service_remote_def)
next
  fix w req
  assume i: "mount_inv svc R fs0 w"
  obtain fs' r where h: "handle_request env svc w req = (fs', r)" by (cases "handle_request env svc w req")
  from i have "confined R w fs'"
    using request_confined [OF _ no_symlinks_no_dangling h] by (simp add: mount_inv_def)
  with i h show "mount_inv svc R fs0 (fst (rm_request (service_remote env svc) w req))"
    using service_ok_confined [of svc R w fs'] unchanged_outside_trans [of R fs0 w fs']
    by (simp add: service_remote_def service_request_def mount_inv_def confined_def)
qed

subsection \<open>Main results\<close>

text \<open>
  C16. Whatever sequence of FUSE callbacks the enclave's kernel issues, the host stays unchanged
  outside the mount root and the mount stays free of symbolic links, if it is so at the start.
\<close>

theorem fuse_confined:
  assumes "service_ok svc R fs" and "no_symlinks fs R"
  shows "unchanged_outside R fs (foldl (fuse_step (service_remote env svc) ff) fs calls) \<and>
         no_symlinks (foldl (fuse_step (service_remote env svc) ff) fs calls) R"
  using service.fuse_steps_inv [of svc R fs fs env ff calls] assms by (simp add: mount_inv_def)

theorem fuse_confined_witness:
  "unchanged_outside [''r''] demo_fs (foldl (fuse_step (service_remote demo_env (demo_svc False))
      \<lparr>ff_mount_name = ''m'', ff_port = 22064\<rparr>) demo_fs [CCreate [RootDir] ''a'' 0, CUnlink [RootDir] ''a'']) \<and>
   no_symlinks (foldl (fuse_step (service_remote demo_env (demo_svc False))
      \<lparr>ff_mount_name = ''m'', ff_port = 22064\<rparr>) demo_fs [CCreate [RootDir] ''a'' 0, CUnlink [RootDir] ''a''])
     [''r'']"
  by (rule fuse_confined [OF demo_service_ok demo_no_symlinks])

lemma service_rq [simp]: "rm_request (service_remote env svc) = service_request env svc"
  by (simp add: service_remote_def)

lemma service_connect:
  assumes "ff_mount_name ff = hs_mount_name svc"
  shows "with_client_async (service_remote env svc) ff fs op = fuse_err (op fs)"
proof -
  have "service_hello svc (ff_mount_name ff) = Inr (hello_response_for svc)"
    using assms by (simp add: service_hello_iff)
  then show ?thesis by (simp add: with_client_async_def service_remote_def fuse_err_def)
qed

lemma relative_path_total: "\<exists>rel. relative_path p = Inr rel"
  by (simp add: relative_path_def)

lemma service_request_write:
  assumes "service_request env svc fs (ReqWriteFile rel off data create trunc) = (fs', Inr rsp)"
  shows "handle_write_file svc fs rel off data create trunc = (fs', Inr (RspWriteFile (of_nat (length data))))
    \<and> rsp = RspWriteFile (of_nat (length data))"
proof -
  obtain fs1 reply where h: "handle_request env svc fs (ReqWriteFile rel off data create trunc) = (fs1, reply)"
    by (cases "handle_request env svc fs (ReqWriteFile rel off data create trunc)")
  with assms obtain x where x: "fs1 = fs'" "reply = Inr x" "rsp = x"
    by (cases reply) (auto simp: service_request_def decode_response_def reply_to_response_def
        split: fs_response.splits)
  with h have w: "handle_write_file svc fs rel off data create trunc = (fs', Inr x)"
    by (auto simp: handle_request_def guarded_def ensure_writable_def split: if_splits)
  then have "x = RspWriteFile (of_nat (length data))"
    by (auto simp: handle_write_file_def elim!: sbind_cases simp: sbind_def supd_def
        split: prod.splits sum.splits)
  with w x show ?thesis by simp
qed


definition demo_ff :: host_fs_filesystem where
  "demo_ff = \<lparr>ff_mount_name = ''m'', ff_port = 22064\<rparr>"

lemma demo_file_no_symlinks: "no_symlinks demo_file_fs R"
  by (auto simp: no_symlinks_def demo_file_fs_def lookup_def)

lemma demo_relative: "relative_path (abs_path [''f'']) = Inr ''f''"
  by (simp add: relative_path_def abs_path_def is_absolute_def normal_path_def component_str_def)


text \<open>
  Exclusive creation: \<open>create\<close> on an entry whose metadata the service can report answers
  \<open>EEXIST\<close> and leaves the host untouched.
\<close>

lemma fuse_create_exclusive:
  assumes "ff_mount_name ff = hs_mount_name svc"
    and "child_path parent name = Inr child" and "relative_path child = Inr rel"
    and "handle_metadata env svc fs rel = Inr (RspMetadata md)"
  shows "fuse_create (service_remote env svc) ff fs parent name flags = (fs, Inl (Errno EEXIST))"
  using assms
  by (simp add: fuse_create_def service_connect metadata_def typed_def fuse_err_def
      service_request_def handle_request_def reply_to_response_def decode_response_def)

subsection \<open>Paths from FUSE to the service\<close>

definition plain_name :: "string \<Rightarrow> bool" where
  "plain_name n \<longleftrightarrow> n \<noteq> [] \<and> n \<noteq> ''.'' \<and> n \<noteq> ''..'' \<and> CHR ''/'' \<notin> set n"

lemma split_on_no_sep_id: "c \<notin> set s \<Longrightarrow> split_on c s = [s]"
  by (induction s) auto

lemma split_on_append: "c \<notin> set a \<Longrightarrow> split_on c (a @ c # b) = a # split_on c b"
  by (induction a) auto

lemma split_path_str:
  assumes "ns \<noteq> []" "list_all plain_name ns"
  shows "split_on (CHR ''/'') (path_str (normal_path ns)) = ns"
  using assms
proof (induction ns)
  case Nil
  then show ?case by simp
next
  case (Cons n ns)
  then show ?case
    by (cases ns) (auto simp: normal_path_def component_str_def plain_name_def split_on_no_sep_id split_on_append)
qed

lemma path_str_not_absolute:
  assumes "ns \<noteq> []" "list_all plain_name ns"
  shows "\<not> starts_with (path_str (normal_path ns)) ''/''"
  using assms
  by (cases ns; cases "tl ns"; cases "hd ns")
     (auto simp: normal_path_def component_str_def plain_name_def starts_with_def)

lemma components_path_str:
  assumes "ns \<noteq> []" "list_all plain_name ns"
  shows "components (path_str (normal_path ns)) = normal_path ns"
proof -
  have "filter (\<lambda>p. p \<noteq> []) ns = ns" "filter (\<lambda>p. p \<noteq> ''.'') ns = ns"
    using assms(2) by (auto simp: filter_id_conv list_all_iff plain_name_def)
  moreover have "map part_component ns = normal_path ns"
    using assms(2) by (auto simp: normal_path_def part_component_def list_all_iff plain_name_def)
  moreover obtain m ms where "ns = m # ms" "m \<noteq> ''.''"
    using assms by (cases ns) (auto simp: plain_name_def)
  ultimately show ?thesis
    using path_str_not_absolute [OF assms] split_path_str [OF assms]
    by (simp add: components_def Let_def)
qed

lemma push_components_normal_path:
  "push_components (normal_path ms) (normal_path ns) = Inr (normal_path (ms @ ns))"
proof (induction ns arbitrary: ms)
  case Nil
  then show ?case by (simp add: normal_path_def)
next
  case (Cons n ns)
  have "path_join (normal_path ms) [Normal n] = normal_path (ms @ [n])"
    by (cases ms) (simp_all add: path_join_def normal_path_def is_absolute_def)
  with Cons [of "ms @ [n]"] show ?case by (simp add: normal_path_def)
qed

text \<open>
  A FUSE path of ordinary names reaches the service as the same list of names, provided the text
  of the path neither starts nor ends with white space (the service trims it).
\<close>

lemma fuse_path_roundtrip:
  assumes "list_all plain_name ns" and "ns \<noteq> []"
    and "trim (path_str (normal_path ns)) = path_str (normal_path ns)"
  shows "relative_path (abs_path ns) = Inr (path_str (normal_path ns)) \<and>
         normalize_relative_path (path_str (normal_path ns)) = Inr (normal_path ns)"
proof
  show "relative_path (abs_path ns) = Inr (path_str (normal_path ns))"
    using assms(2) by (simp add: relative_path_def abs_path_def is_absolute_def normal_path_def)
  have c: "components (path_str (normal_path ns)) = normal_path ns"
    using components_path_str [OF assms(2,1)] .
  have "path_str (normal_path ns) \<noteq> []" "path_str (normal_path ns) \<noteq> ''.''"
    using split_path_str [OF assms(2,1)] assms(1,2) by (auto simp: plain_name_def)
  moreover have "\<not> is_absolute (normal_path ns)"
    using assms(2) by (cases ns) (auto simp: is_absolute_def normal_path_def)
  moreover have "push_components [] (normal_path ns) = Inr (normal_path ns)"
    using push_components_normal_path [of "[]" ns] by (simp add: normal_path_def)
  ultimately show "normalize_relative_path (path_str (normal_path ns)) = Inr (normal_path ns)"
    by (simp add: normalize_relative_path_def assms(3) c Let_def)
qed

text \<open>
  Without that proviso names are confused: the FUSE name consisting of a space and \<open>f\<close> is sent as
  such but normalised by the service to the entry \<open>f\<close>.
\<close>

lemma fuse_name_trimmed:
  "relative_path (abs_path ['' f'']) = Inr '' f'' \<and>
   normalize_relative_path '' f'' = Inr (normal_path [''f''])"
proof -
  have "find (starts_with '' f'') white_space = Some '' ''"
    by (simp add: white_space_def starts_with_def)
  then have "trim_start '' f'' = trim_start ''f''" by (simp add: trim_start.simps [of "'' f''"])
  then have "trim '' f'' = ''f''"
    using trim_visible [of "''f''"] by (simp add: trim_def visible_ascii_def)
  then have "normalize_relative_path '' f'' = normalize_relative_path ''f''"
    using trim_visible [of "''f''"] by (simp add: normalize_relative_path_def visible_ascii_def)
  then show ?thesis
    by (simp add: normalize_f relative_path_def abs_path_def is_absolute_def normal_path_def component_str_def)
qed

subsection \<open>Starting\<close>

lemma start_mount_result:
  assumes "start_mount rm fuse_ok mount port st = (st', Inr ff)"
  shows "ff = \<lparr>ff_mount_name = hm_name mount, ff_port = port\<rparr>"
  using assms by (auto simp: start_mount_def split: prod.splits sum.splits if_splits)

text \<open>
  When the mount service starts, every required mount is active; the active mounts are a
  subsequence of the configured ones, each with the vsock port of its index, so no two share a port.
\<close>

lemma start_mounts_active:
  assumes "start_mounts (start_mount rm fuse_ok) ports i mounts st = (st', Inr active)"
  shows "(\<forall>m \<in> set mounts. hm_required m \<longrightarrow> hm_name m \<in> ff_mount_name ` set active) \<and>
         subseq (map ff_mount_name active) (map hm_name mounts) \<and>
         distinct (map ff_port active) \<and>
         (\<forall>a \<in> set active. \<exists>j. i \<le> j \<and> j < 112 \<and> unat (ff_port a) = unat (vp_hostfs_base_port ports) + j)"
  using assms
proof (induction mounts arbitrary: i st st' active)
  case Nil
  then show ?case by simp
next
  case (Cons mount mounts)
  from Cons.prems obtain port where port: "hostfs_mount_port ports i = Inr port"
    by (cases "hostfs_mount_port ports i") auto
  then have pv: "i < 112" "unat port = unat (vp_hostfs_base_port ports) + i"
    by (auto simp: hostfs_mount_port_iff)
  obtain st1 r1 where s1: "start_mount rm fuse_ok mount port st = (st1, r1)"
    by (cases "start_mount rm fuse_ok mount port st")
  show ?case
  proof (cases r1)
    case (Inr ff)
    with Cons.prems port s1 obtain rest where
      rest: "start_mounts (start_mount rm fuse_ok) ports (Suc i) mounts st1 = (st', Inr rest)"
      and act: "active = ff # rest"
      by (cases "start_mounts (start_mount rm fuse_ok) ports (Suc i) mounts st1"; cases "snd
           (start_mounts (start_mount rm fuse_ok) ports (Suc i) mounts st1)") auto
    have ff: "ff = \<lparr>ff_mount_name = hm_name mount, ff_port = port\<rparr>"
      using start_mount_result s1 Inr by blast
    note IH = Cons.IH [OF rest]
    have "ff_port ff \<notin> ff_port ` set rest"
    proof
      assume "ff_port ff \<in> ff_port ` set rest"
      then obtain a where "a \<in> set rest" "ff_port a = port" using ff by auto
      with IH pv show False by fastforce
    qed
    moreover have "\<exists>j. i \<le> j \<and> j < 112 \<and> unat (ff_port a) = unat (vp_hostfs_base_port ports) + j"
      if "a \<in> set active" for a
      using that IH pv ff act by (auto intro: Suc_leD)
    ultimately show ?thesis using IH ff act by auto
  next
    case (Inl e)
    with Cons.prems port s1 have nr: "\<not> hm_required mount"
      and rest: "start_mounts (start_mount rm fuse_ok) ports (Suc i) mounts st1 = (st', Inr active)"
      by (auto split: if_splits)
    from Cons.IH [OF rest] nr show ?thesis
      by (auto intro: Suc_leD)
  qed
qed

definition demo_mount :: hostfs_mount_config where
  "demo_mount = \<lparr>hm_name = ''m'', hm_mount_path = ''/r'', hm_required = True, hm_size_mb = 1\<rparr>"

definition demo_ports :: runtime_host_vsock_ports where
  "demo_ports = \<lparr>vp_enclave_cid = 16, vp_egress_port = 22048, vp_clock_sync_port = 22049,
     vp_hostfs_base_port = 22064\<rparr>"

lemma demo_start:
  "start_mounts (start_mount (service_remote demo_env (demo_svc False)) (\<lambda>_. True)) demo_ports 0
     [demo_mount] (demo_fs, demo_fs) = ((demo_fs, demo_fs), Inr [demo_ff])"
proof -
  have p: "hostfs_mount_port demo_ports 0 = Inr 22064"
    by (simp add: hostfs_mount_port_iff demo_ports_def)
  have path: "components ''/r'' = abs_path [''r'']"
    by (simp add: components_def starts_with_def part_component_def abs_path_def normal_path_def)
  have "prepare_mount_path demo_fs (abs_path [''r'']) = (demo_fs, Inr ())"
    by (simp add: prepare_mount_path_def path_is_dir_def fs_eval)
  moreover have "service_hello (demo_svc False) ''m'' = Inr (hello_response_for (demo_svc False))"
    by (simp add: service_hello_iff demo_svc_def)
  then have "probe_mount (service_remote demo_env (demo_svc False)) ''m'' 22064 demo_fs = (demo_fs, Inr ())"
    by (simp add: probe_mount_def service_remote_def ping_def typed_def service_request_def
        handle_request_def reply_to_response_def decode_response_def hello_response_for_def demo_svc_def)
  ultimately show ?thesis
    by (simp add: p start_mount_def demo_mount_def path demo_ff_def)
qed

end
