(* ===== verification/Watch_Stream.thy ===== *)
theory Watch_Stream
  imports Capsule_Prelude
begin

text \<open>
  The broadcast mechanism of the console (\<open>WatchSet\<close> of \<open>bin/capsule-runtime/console.rs\<close>) and the
  streaming loop that the log and the status share: register a watch, deliver what there is, wait for
  the watch to change, deliver again.  Tasks interleave at their critical sections, so a run is a
  sequence of steps: a client connects, the watched object is updated and the watches notified, a
  client executes one round of its loop, wakes up, or hangs up.  The locale states what an object and
  its clients promise, and proves once that no wake-up is lost.
\<close>

subsection \<open>Watch sets\<close>

text \<open>A watch is one \<open>tokio::sync::watch\<close> channel; \<open>wa_changed\<close> is an unseen \<open>send\<close>.\<close>

record watch =
  wa_id :: nat
  wa_changed :: bool

type_synonym watch_set = "watch list"

definition WatchSet_new :: watch_set where
  "WatchSet_new = []"

definition WatchSet_add :: "nat \<Rightarrow> watch_set \<Rightarrow> watch_set" where
  "WatchSet_add i ws = ws @ [\<lparr>wa_id = i, wa_changed = False\<rparr>]"

definition notify :: "(nat \<Rightarrow> bool) \<Rightarrow> watch_set \<Rightarrow> watch_set" where
  "notify is_closed ws =
     map (\<lambda>w. w\<lparr>wa_changed := True\<rparr>) (filter (\<lambda>w. \<not> is_closed (wa_id w)) ws)"

text \<open>\<open>Receiver::changed\<close> returning: the change is marked as seen.\<close>

definition mark_seen :: "nat \<Rightarrow> watch_set \<Rightarrow> watch_set" where
  "mark_seen i ws = map (\<lambda>w. if wa_id w = i then w\<lparr>wa_changed := False\<rparr> else w) ws"

subsection \<open>Streaming to clients\<close>

datatype pc = Draining | Waiting

record 'c client =
  cl_pc :: pc
  cl_open :: bool
  cl_data :: 'c

record ('s, 'c) server =
  sv_obj :: 's
  sv_watches :: watch_set
  sv_clients :: "'c client list"

definition closed_client :: "'c client list \<Rightarrow> nat \<Rightarrow> bool" where
  "closed_client cs i \<longleftrightarrow> \<not> (i < length cs \<and> cl_open (cs ! i))"

text \<open>
  The runs of a server: \<open>upd\<close> is the update of the object (\<open>None\<close> a panic), \<open>round\<close> one critical
  section of the client's loop with whether it goes on to wait, \<open>fresh\<close> the data of a new client.
  The first argument lists the updates made so far.
\<close>

inductive stream_run ::
  "('u \<Rightarrow> 's \<Rightarrow> 's option) \<Rightarrow> ('s \<Rightarrow> 'c \<Rightarrow> ('c \<times> bool) option) \<Rightarrow> 'c \<Rightarrow> 's
     \<Rightarrow> 'u list \<Rightarrow> ('s, 'c) server \<Rightarrow> bool"
  for upd round fresh obj0 where
  start: "stream_run upd round fresh obj0 [] \<lparr>sv_obj = obj0, sv_watches = WatchSet_new, sv_clients = []\<rparr>"
| connects: "stream_run upd round fresh obj0 us \<lparr>sv_obj = s, sv_watches = ws, sv_clients = cs\<rparr> \<Longrightarrow>
    stream_run upd round fresh obj0 us
      \<lparr>sv_obj = s, sv_watches = WatchSet_add (length cs) ws,
       sv_clients = cs @ [\<lparr>cl_pc = Draining, cl_open = True, cl_data = fresh\<rparr>]\<rparr>"
| updates: "stream_run upd round fresh obj0 us \<lparr>sv_obj = s, sv_watches = ws, sv_clients = cs\<rparr> \<Longrightarrow>
    upd u s = Some s' \<Longrightarrow>
    stream_run upd round fresh obj0 (us @ [u])
      \<lparr>sv_obj = s', sv_watches = notify (closed_client cs) ws, sv_clients = cs\<rparr>"
| delivers: "stream_run upd round fresh obj0 us \<lparr>sv_obj = s, sv_watches = ws, sv_clients = cs\<rparr> \<Longrightarrow>
    i < length cs \<Longrightarrow> cl_open (cs ! i) \<Longrightarrow> cl_pc (cs ! i) = Draining \<Longrightarrow>
    round s (cl_data (cs ! i)) = Some (c', waits) \<Longrightarrow>
    stream_run upd round fresh obj0 us
      \<lparr>sv_obj = s, sv_watches = ws,
       sv_clients = cs[i := \<lparr>cl_pc = (if waits then Waiting else Draining), cl_open = True, cl_data = c'\<rparr>]\<rparr>"
| wakes: "stream_run upd round fresh obj0 us \<lparr>sv_obj = s, sv_watches = ws, sv_clients = cs\<rparr> \<Longrightarrow>
    i < length cs \<Longrightarrow> cl_open (cs ! i) \<Longrightarrow> cl_pc (cs ! i) = Waiting \<Longrightarrow>
    w \<in> set ws \<Longrightarrow> wa_id w = i \<Longrightarrow> wa_changed w \<Longrightarrow>
    stream_run upd round fresh obj0 us
      \<lparr>sv_obj = s, sv_watches = mark_seen i ws, sv_clients = cs[i := (cs ! i)\<lparr>cl_pc := Draining\<rparr>]\<rparr>"
| hangs_up: "stream_run upd round fresh obj0 us \<lparr>sv_obj = s, sv_watches = ws, sv_clients = cs\<rparr> \<Longrightarrow>
    i < length cs \<Longrightarrow>
    stream_run upd round fresh obj0 us
      \<lparr>sv_obj = s, sv_watches = ws, sv_clients = cs[i := (cs ! i)\<lparr>cl_open := False\<rparr>]\<rparr>"

text \<open>The watch of a client, if the set still holds its sender, and whether it has an unseen change.\<close>

definition watched :: "nat \<Rightarrow> watch_set \<Rightarrow> bool" where
  "watched i ws \<longleftrightarrow> i \<in> wa_id ` set ws"

definition pending :: "nat \<Rightarrow> watch_set \<Rightarrow> bool" where
  "pending i ws \<longleftrightarrow> (\<exists>w \<in> set ws. wa_id w = i \<and> wa_changed w)"

lemma mark_seen_ids [simp]: "wa_id ` set (mark_seen j ws) = wa_id ` set ws"
  by (induction ws) (auto simp: mark_seen_def)

lemma notify_ids [simp]: "wa_id ` set (notify cl ws) = {i \<in> wa_id ` set ws. \<not> cl i}"
  by (induction ws) (auto simp: notify_def)

lemma watched_simps [simp]:
  "watched i (WatchSet_add j ws) \<longleftrightarrow> i = j \<or> watched i ws"
  "watched i (notify cl ws) \<longleftrightarrow> watched i ws \<and> \<not> cl i"
  "watched i (mark_seen j ws) \<longleftrightarrow> watched i ws"
  by (auto simp: watched_def WatchSet_add_def)

lemma pending_simps [simp]:
  "pending i (WatchSet_add j ws) \<longleftrightarrow> pending i ws"
  "pending i (notify cl ws) \<longleftrightarrow> watched i ws \<and> \<not> cl i"
  "pending i (mark_seen j ws) \<longleftrightarrow> i \<noteq> j \<and> pending i ws"
  by (auto simp: pending_def watched_def WatchSet_add_def notify_def mark_seen_def)

subsection \<open>The contract of a watched object\<close>

text \<open>
  \<open>obj_ok us s\<close>: the object after the updates \<open>us\<close>; \<open>cl_ok us s c\<close>: what a client's data promises;
  \<open>current s c\<close>: the client has delivered everything.
\<close>

locale watched_stream =
  fixes upd :: "'u \<Rightarrow> 's \<Rightarrow> 's option"
    and round :: "'s \<Rightarrow> 'c \<Rightarrow> ('c \<times> bool) option"
    and fresh :: 'c
    and obj_ok :: "'u list \<Rightarrow> 's \<Rightarrow> bool"
    and cl_ok :: "'u list \<Rightarrow> 's \<Rightarrow> 'c \<Rightarrow> bool"
    and current :: "'s \<Rightarrow> 'c \<Rightarrow> bool"
  assumes upd_obj: "obj_ok us s \<Longrightarrow> upd u s = Some s' \<Longrightarrow> obj_ok (us @ [u]) s'"
    and upd_client: "obj_ok us s \<Longrightarrow> cl_ok us s c \<Longrightarrow> upd u s = Some s' \<Longrightarrow> cl_ok (us @ [u]) s' c"
    and fresh_client: "obj_ok us s \<Longrightarrow> cl_ok us s fresh"
    and round_client: "obj_ok us s \<Longrightarrow> cl_ok us s c \<Longrightarrow> round s c = Some (c', waits) \<Longrightarrow>
      cl_ok us s c' \<and> (waits \<longrightarrow> current s c')"
begin

definition client_inv :: "'u list \<Rightarrow> ('s, 'c) server \<Rightarrow> bool" where
  "client_inv us st \<longleftrightarrow> (\<forall>i < length (sv_clients st).
     cl_ok us (sv_obj st) (cl_data (sv_clients st ! i)) \<and>
     (cl_open (sv_clients st ! i) \<longrightarrow> watched i (sv_watches st) \<and>
        (cl_pc (sv_clients st ! i) = Waiting \<longrightarrow> pending i (sv_watches st) \<or>
           current (sv_obj st) (cl_data (sv_clients st ! i)))))"

lemma run_inv:
  assumes "stream_run upd round fresh obj0 us st" and "obj_ok [] obj0"
  shows "obj_ok us (sv_obj st) \<and> client_inv us st"
  using assms(1)
proof induction
  case start
  then show ?case using assms(2) by (simp add: client_inv_def)
next
  case (connects us s ws cs)
  then show ?case by (auto simp: client_inv_def nth_append less_Suc_eq fresh_client)
next
  case (updates us s ws cs u s')
  then show ?case by (auto simp: client_inv_def closed_client_def intro: upd_obj upd_client)
next
  case (delivers us s ws cs i c' waits)
  then show ?case
    using round_client [of us s "cl_data (cs ! i)" c' waits] by (auto simp: client_inv_def nth_list_update)
next
  case (wakes us s ws cs i w)
  then show ?case by (auto simp: client_inv_def nth_list_update)
next
  case (hangs_up us s ws cs i)
  then show ?case by (auto simp: client_inv_def nth_list_update)
qed

lemma run_object: "stream_run upd round fresh obj0 us st \<Longrightarrow> obj_ok [] obj0 \<Longrightarrow> obj_ok us (sv_obj st)"
  using run_inv by blast

lemma run_client:
  "stream_run upd round fresh obj0 us st \<Longrightarrow> obj_ok [] obj0 \<Longrightarrow> i < length (sv_clients st) \<Longrightarrow>
   cl_ok us (sv_obj st) (cl_data (sv_clients st ! i))"
  using run_inv unfolding client_inv_def by blast

text \<open>No lost wake-up: a client that waits without an unseen change has delivered everything.\<close>

lemma no_lost_wakeup:
  "stream_run upd round fresh obj0 us st \<Longrightarrow> obj_ok [] obj0 \<Longrightarrow> i < length (sv_clients st) \<Longrightarrow>
   cl_open (sv_clients st ! i) \<Longrightarrow> cl_pc (sv_clients st ! i) = Waiting \<Longrightarrow>
   watched i (sv_watches st) \<and>
   (pending i (sv_watches st) \<or> current (sv_obj st) (cl_data (sv_clients st ! i)))"
  using run_inv unfolding client_inv_def by blast

end

end
