(* ===== verification/Launcher.thy ===== *)
theory Launcher
  imports Rust_Std
begin

text \<open>
  Running the entrypoint and reaping zombies (\<open>bin/capsule-runtime/launcher.rs\<close>).  The successive
  answers of \<open>waitpid\<close> are a list; an exhausted list means that the loop is still blocked in
  \<open>waitpid\<close> (\<open>None\<close>).
\<close>

type_synonym pid = int

record credentials =
  cr_uid :: u32
  cr_gid :: u32

datatype exit_status = Exited int | Signaled string

datatype wait_status = WExited pid int | WSignaled pid string bool | WOther

datatype launch_error = EmptyArgv | SpawnFailed int | WaitpidFailed int

definition exit_status_text :: "exit_status \<Rightarrow> string" where
  "exit_status_text st =
     (case st of
        Exited code \<Rightarrow> ''exited with '' @ show_int code
      | Signaled sig \<Rightarrow> ''terminated by '' @ sig)"

fun reap :: "pid \<Rightarrow> (int, wait_status) result list \<Rightarrow> (launch_error, exit_status) result option" where
  "reap sentinel [] = None"
| "reap sentinel (Inl e # ws) = Some (Inl (WaitpidFailed e))"
| "reap sentinel (Inr w # ws) =
     (case w of
        WExited pid status \<Rightarrow> if pid = sentinel then Some (Inr (Exited status)) else reap sentinel ws
      | WSignaled pid sig _ \<Rightarrow> if pid = sentinel then Some (Inr (Signaled sig)) else reap sentinel ws
      | WOther \<Rightarrow> reap sentinel ws)"

text \<open>
  \<open>run_child\<close>: indexing an empty argument vector panics; spawning and the wait statuses are the
  kernel's answers.
\<close>

definition run_child ::
  "string list \<Rightarrow> credentials \<Rightarrow> path option
     \<Rightarrow> (string \<Rightarrow> string list \<Rightarrow> u32 \<Rightarrow> u32 \<Rightarrow> path option \<Rightarrow> (int, pid) result)
     \<Rightarrow> (int, wait_status) result list \<Rightarrow> (launch_error, exit_status) result option" where
  "run_child argv creds work_dir spawn ws =
     (case argv of
        [] \<Rightarrow> Some (Inl EmptyArgv)
      | prog # args \<Rightarrow>
          (case spawn prog args (cr_uid creds) (cr_gid creds) work_dir of
             Inl e \<Rightarrow> Some (Inl (SpawnFailed e))
           | Inr child_pid \<Rightarrow> reap child_pid ws))"

text \<open>The end of a process, as reported by one wait status.\<close>

definition ends :: "pid \<Rightarrow> wait_status \<Rightarrow> exit_status option" where
  "ends p w =
     (case w of
        WExited q status \<Rightarrow> if q = p then Some (Exited status) else None
      | WSignaled q sig _ \<Rightarrow> if q = p then Some (Signaled sig) else None
      | WOther \<Rightarrow> None)"

text \<open>
  C22. \<open>reap\<close> returns the status of the sentinel process itself: it skips every other report, however
  many zombies there are, and returns at the sentinel's own first report unless \<open>waitpid\<close> fails before.
\<close>

theorem reap_returns_sentinel:
  assumes "\<forall>w \<in> set others. \<exists>s. w = Inr s \<and> ends sentinel s = None"
    and "ends sentinel final = Some st"
  shows "reap sentinel (others @ Inr final # later) = Some (Inr st)"
  using assms(1)
proof (induction others)
  case Nil
  then show ?case using assms(2) by (auto simp: ends_def split: wait_status.splits if_splits)
next
  case (Cons w ws)
  then obtain s where "w = Inr s" "ends sentinel s = None" by auto
  with Cons show ?case by (cases s) (auto simp: ends_def split: if_splits)
qed

theorem reap_returns_sentinel_witness:
  "reap 7 ([Inr (WExited 9 0), Inr WOther] @ Inr (WSignaled 7 ''SIGKILL'' False) # []) =
     Some (Inr (Signaled ''SIGKILL''))"
  by (rule reap_returns_sentinel) (simp_all add: ends_def)

end
