(* ===== verification/Console.thy ===== *)
theory Console
  imports Watch_Stream Launcher
begin

text \<open>
  The application log and the entrypoint status (\<open>bin/capsule-runtime/console.rs\<close>).  The circular
  buffer is a third-party type: its operations are the record \<open>circ_ops\<close>, and \<open>circ_laws\<close> states what
  they are documented to do.  The log is a bounded window on the end of everything the application
  wrote; \<open>pos\<close> and \<open>head\<close> count bytes since the start.  A panic is \<open>None\<close>.  The watches of the log and
  of the status are the watch set of the server of \<open>Watch_Stream\<close>, notified after each update.
\<close>

definition APP_LOG_CAPACITY :: nat where
  "APP_LOG_CAPACITY = 128 * 1024"

subsection \<open>The circular buffer\<close>

record 'b circ_ops =
  cb_with_capacity :: "nat \<Rightarrow> 'b"
  cb_avail :: "'b \<Rightarrow> nat"
  cb_advance_read :: "'b \<Rightarrow> nat \<Rightarrow> 'b option"
  cb_write :: "'b \<Rightarrow> bytes \<Rightarrow> ('b \<times> nat) option"
  cb_get_bytes_upto_size :: "'b \<Rightarrow> nat \<Rightarrow> bytes list"

definition circ_laws :: "'b circ_ops \<Rightarrow> ('b \<Rightarrow> bool) \<Rightarrow> ('b \<Rightarrow> bytes) \<Rightarrow> nat \<Rightarrow> bool" where
  "circ_laws ops valid contents cap \<longleftrightarrow>
     APP_LOG_CAPACITY \<le> cap \<and>
     valid (cb_with_capacity ops APP_LOG_CAPACITY) \<and>
     contents (cb_with_capacity ops APP_LOG_CAPACITY) = [] \<and>
     (\<forall>b. valid b \<longrightarrow>
        cb_avail ops b + length (contents b) = cap \<and>
        (\<forall>n. concat (cb_get_bytes_upto_size ops b n) = take n (contents b)) \<and>
        (\<forall>n \<le> length (contents b). \<exists>b'. cb_advance_read ops b n = Some b' \<and>
           valid b' \<and> contents b' = drop n (contents b)) \<and>
        (\<forall>data. length data \<le> cb_avail ops b \<longrightarrow> (\<exists>b'. cb_write ops b data = Some (b', length data) \<and>
           valid b' \<and> contents b' = contents b @ data)))"

subsection \<open>The byte log\<close>

record 'b byte_log =
  bl_buffer :: 'b
  bl_head :: nat

definition ByteLog_new :: "'b circ_ops \<Rightarrow> 'b byte_log" where
  "ByteLog_new ops = \<lparr>bl_buffer = cb_with_capacity ops APP_LOG_CAPACITY, bl_head = 0\<rparr>"

definition append_log :: "'b circ_ops \<Rightarrow> bytes \<Rightarrow> 'b byte_log \<Rightarrow> ('b byte_log \<times> nat) option" where
  "append_log ops data log =
     (let avail = cb_avail ops (bl_buffer log);
          trim_cnt = (if avail < length data then length data - avail else 0);
          log1 = (if avail < length data
                  then \<lparr>bl_buffer = (case cb_advance_read ops (bl_buffer log) trim_cnt of
                                       None \<Rightarrow> bl_buffer log | Some b \<Rightarrow> b),
                        bl_head = bl_head log + trim_cnt\<rparr>
                  else log)
      in if cb_avail ops (bl_buffer log1) < length data then None
         else (case cb_write ops (bl_buffer log1) data of
                 None \<Rightarrow> None
               | Some (b, n) \<Rightarrow> if n = length data then Some (log1\<lparr>bl_buffer := b\<rparr>, trim_cnt) else None))"

text \<open>The copying loop of \<open>read\<close>: \<open>room\<close> is what is left of the destination, \<open>acc\<close> what it holds.\<close>

fun copy_slices :: "bytes list \<Rightarrow> nat \<Rightarrow> nat \<Rightarrow> bytes \<Rightarrow> bytes option" where
  "copy_slices [] offset room acc = Some acc"
| "copy_slices (data # ds) offset room acc =
     (if offset < length data then
        (let d = drop offset data
         in if length d \<le> room then copy_slices ds 0 (room - length d) (acc @ d) else None)
      else copy_slices ds (offset - length data) room acc)"

definition read_log :: "'b circ_ops \<Rightarrow> 'b byte_log \<Rightarrow> nat \<Rightarrow> nat \<Rightarrow> (nat \<times> bytes) option" where
  "read_log ops log pos n =
     (let (pos, offset) = (if pos < bl_head log then (bl_head log, 0) else (pos, pos - bl_head log))
      in case copy_slices (cb_get_bytes_upto_size ops (bl_buffer log) (n + offset)) offset n [] of
           None \<Rightarrow> None
         | Some copied \<Rightarrow> Some (pos + length copied, copied))"

text \<open>
  \<open>LogServicer::run\<close> on the successive results of reading the pipe; an exhausted list means that the
  task is waiting for the application to write.
\<close>

datatype ('b, 'e) servicer = Servicing "'b byte_log" | Ended "'b byte_log" "'e option" | ServicerPanic

fun servicer_run :: "'b circ_ops \<Rightarrow> ('e, bytes) result list \<Rightarrow> 'b byte_log \<Rightarrow> ('b, 'e) servicer" where
  "servicer_run ops [] log = Servicing log"
| "servicer_run ops (Inl e # rs) log = Ended log (Some e)"
| "servicer_run ops (Inr chunk # rs) log =
     (if chunk = [] then Ended log None
      else case append_log ops chunk log of
             None \<Rightarrow> ServicerPanic
           | Some (log', _) \<Rightarrow> servicer_run ops rs log')"

text \<open>\<open>LogReader::write_all\<close> with a writer that may fail; it returns the cursor and the writer.\<close>

partial_function (option) write_all_log ::
  "'b circ_ops \<Rightarrow> (bytes \<Rightarrow> 'w \<Rightarrow> ('e, 'w) result) \<Rightarrow> 'b byte_log \<Rightarrow> nat \<Rightarrow> 'w
     \<Rightarrow> (nat \<times> 'w \<times> 'e option) option" where
  "write_all_log ops put log pos w =
     Option.bind (read_log ops log pos 4096)
       (\<lambda>(pos', bs).
          if bs = [] then Some (pos', w, None)
          else (case put bs w of
                  Inl e \<Rightarrow> Some (pos', w, Some e)
                | Inr w' \<Rightarrow> write_all_log ops put log pos' w'))"

text \<open>
  One critical section of \<open>LogReader::stream\<close>: one round of \<open>write_all\<close>, which goes on to wait when
  nothing was read.
\<close>

record log_client =
  lc_pos :: nat
  lc_sent :: bytes

definition log_client_new :: log_client where
  "log_client_new = \<lparr>lc_pos = 0, lc_sent = []\<rparr>"

definition log_round :: "'b circ_ops \<Rightarrow> 'b byte_log \<Rightarrow> log_client \<Rightarrow> (log_client \<times> bool) option" where
  "log_round ops log c =
     (case read_log ops log (lc_pos c) 4096 of
        None \<Rightarrow> None
      | Some (pos, bs) \<Rightarrow> Some (\<lparr>lc_pos = pos, lc_sent = lc_sent c @ bs\<rparr>, bs = []))"

text \<open>
  One iteration of \<open>LogServicer::run\<close> with data: a read of the pipe returns at most the 16 KiB of its
  buffer, and the chunk is appended.
\<close>

definition log_update :: "'b circ_ops \<Rightarrow> bytes \<Rightarrow> 'b byte_log \<Rightarrow> 'b byte_log option" where
  "log_update ops data log =
     (if length data \<le> 16 * 1024 then map_option fst (append_log ops data log) else None)"

subsection \<open>The entrypoint status\<close>

datatype entrypoint_status = StRunning | StExited exit_status | StFatal string

definition quoted :: "string \<Rightarrow> string" where
  "quoted s = [CHR 0x22] @ s @ [CHR 0x22]"

definition newline :: string where
  "newline = [CHR 0x0A]"

definition as_json :: "entrypoint_status \<Rightarrow> string" where
  "as_json st =
     (case st of
        StRunning \<Rightarrow> ''{ '' @ quoted ''status'' @ '': '' @ quoted ''running'' @ '' }'' @ newline
      | StExited (Exited code) \<Rightarrow>
          ''{ '' @ quoted ''status'' @ '': '' @ quoted ''exited'' @ '', '' @ quoted ''code'' @ '': '' @
          show_int code @ '' }'' @ newline
      | StExited (Signaled sig) \<Rightarrow>
          ''{ '' @ quoted ''status'' @ '': '' @ quoted ''signaled'' @ '', '' @ quoted ''signal'' @ '': '' @
          quoted sig @ '' }'' @ newline
      | StFatal err \<Rightarrow>
          ''{ '' @ quoted ''status'' @ '': '' @ quoted ''fatal'' @ '', '' @ quoted ''error'' @ '': '' @
          quoted err @ '' }'' @ newline)"

text \<open>\<open>AppStatus::exited\<close> and \<open>AppStatus::fatal\<close>, each setting the status, and one round of \<open>stream\<close>.\<close>

datatype status_event = EvExited exit_status | EvFatal string

definition status_update :: "status_event \<Rightarrow> entrypoint_status \<Rightarrow> entrypoint_status option" where
  "status_update ev st = Some (case ev of EvExited x \<Rightarrow> StExited x | EvFatal err \<Rightarrow> StFatal err)"

definition status_round :: "entrypoint_status \<Rightarrow> string list \<Rightarrow> (string list \<times> bool) option" where
  "status_round st sent = Some (sent @ [as_json st], True)"


subsection \<open>The log is the end of what was written\<close>

definition log_ok ::
  "'b circ_ops \<Rightarrow> ('b \<Rightarrow> bool) \<Rightarrow> ('b \<Rightarrow> bytes) \<Rightarrow> nat \<Rightarrow> bytes list \<Rightarrow> 'b byte_log \<Rightarrow> bool" where
  "log_ok ops valid contents cap us log \<longleftrightarrow>
     circ_laws ops valid contents cap \<and> valid (bl_buffer log) \<and>
     bl_head log = length (concat us) - cap \<and>
     contents (bl_buffer log) = drop (length (concat us) - cap) (concat us)"

lemma circ_laws_capacity: "circ_laws ops valid contents cap \<Longrightarrow> 131072 \<le> cap"
  by (simp add: circ_laws_def APP_LOG_CAPACITY_def)

lemma circ_laws_avail:
  "circ_laws ops valid contents cap \<Longrightarrow> valid b \<Longrightarrow> cb_avail ops b + length (contents b) = cap"
  by (simp add: circ_laws_def)

lemma circ_laws_slices:
  "circ_laws ops valid contents cap \<Longrightarrow> valid b \<Longrightarrow>
   concat (cb_get_bytes_upto_size ops b n) = take n (contents b)"
  by (simp add: circ_laws_def)

lemma circ_laws_advance:
  assumes "circ_laws ops valid contents cap" "valid b" "n \<le> length (contents b)"
  obtains b' where "cb_advance_read ops b n = Some b'" "valid b'" "contents b' = drop n (contents b)"
  using assms unfolding circ_laws_def by blast

lemma circ_laws_write:
  assumes "circ_laws ops valid contents cap" "valid b" "length data \<le> cb_avail ops b"
  obtains b' where "cb_write ops b data = Some (b', length data)" "valid b'"
    "contents b' = contents b @ data"
  using assms unfolding circ_laws_def by blast

lemma ByteLog_new_ok:
  "circ_laws ops valid contents cap \<Longrightarrow> log_ok ops valid contents cap [] (ByteLog_new ops)"
  by (simp add: log_ok_def ByteLog_new_def circ_laws_def)

text \<open>Making room: the buffer keeps the last bytes, and then accepts the data.\<close>

lemma append_log_fits:
  assumes laws: "circ_laws ops valid contents cap" and v: "valid (bl_buffer log)"
    and fits: "length data \<le> cap"
  obtains b where
    "append_log ops data log =
       Some (\<lparr>bl_buffer = b, bl_head = bl_head log + (length (contents (bl_buffer log)) + length data - cap)\<rparr>,
             length (contents (bl_buffer log)) + length data - cap)"
    "valid b"
    "contents b = drop (length (contents (bl_buffer log)) + length data - cap) (contents (bl_buffer log)) @ data"
proof -
  let ?b = "bl_buffer log" and ?t = "length (contents (bl_buffer log)) + length data - cap"
  have av: "cb_avail ops ?b + length (contents ?b) = cap" using laws v by (rule circ_laws_avail)
  have "?t \<le> length (contents ?b)" using fits by simp
  with laws v obtain b1 where b1: "cb_advance_read ops ?b ?t = Some b1" "valid b1"
    "contents b1 = drop ?t (contents ?b)" by (rule circ_laws_advance)
  define b2 where "b2 = (if cb_avail ops ?b < length data then b1 else ?b)"
  have b2: "valid b2" "contents b2 = drop ?t (contents ?b)"
    using b1 v av by (auto simp: b2_def)
  have av2: "cb_avail ops b2 + length (contents b2) = cap" using laws b2(1) by (rule circ_laws_avail)
  have room: "length data \<le> cb_avail ops b2" using av2 b2(2) fits by simp
  obtain b where b: "cb_write ops b2 data = Some (b, length data)" "valid b" "contents b = contents b2 @ data"
    using circ_laws_write [OF laws b2(1) room] by blast
  have t: "(if cb_avail ops ?b < length data then length data - cb_avail ops ?b else 0) = ?t"
    using av by auto
  have "append_log ops data log = Some (\<lparr>bl_buffer = b, bl_head = bl_head log + ?t\<rparr>, ?t)"
    using av b1(1) room b(1) unfolding append_log_def Let_def t b2_def
    by (cases log) (auto split: if_splits)
  then show ?thesis using that b b2(2) by simp
qed

lemma append_log_ok:
  assumes "log_ok ops valid contents cap us log" and "length data \<le> cap"
  shows "\<exists>log' n. append_log ops data log = Some (log', n) \<and> log_ok ops valid contents cap (us @ [data]) log'"
proof -
  have laws: "circ_laws ops valid contents cap" and v: "valid (bl_buffer log)"
    and h: "bl_head log = length (concat us) - cap"
    and c: "contents (bl_buffer log) = drop (length (concat us) - cap) (concat us)"
    using assms(1) by (auto simp: log_ok_def)
  let ?t = "length (contents (bl_buffer log)) + length data - cap"
  have t: "length (concat us) - cap + ?t = length (concat us) + length data - cap"
    using c assms(2) by auto
  have d: "drop ?t (contents (bl_buffer log)) @ data =
      drop (length (concat us) + length data - cap) (concat us @ data)"
    using t assms(2) by (simp add: c add.commute)
  obtain b where "append_log ops data log = Some (\<lparr>bl_buffer = b, bl_head = bl_head log + ?t\<rparr>, ?t)"
    "valid b" "contents b = drop ?t (contents (bl_buffer log)) @ data"
    using append_log_fits [OF laws v assms(2)] by blast
  then show ?thesis using laws h t d by (auto simp: log_ok_def)
qed

lemma log_update_ok:
  assumes "log_ok ops valid contents cap us log" and "log_update ops data log = Some log'"
  shows "log_ok ops valid contents cap (us @ [data]) log'"
proof -
  have "length data \<le> cap"
    using assms circ_laws_capacity [of ops valid contents cap]
    by (auto simp: log_ok_def log_update_def split: if_splits)
  from append_log_ok [OF assms(1) this] assms(2) show ?thesis
    by (auto simp: log_update_def split: if_splits)
qed

subsection \<open>Reading\<close>

lemma copy_slices_concat:
  "length (drop offset (concat ds)) \<le> room \<Longrightarrow>
   copy_slices ds offset room acc = Some (acc @ drop offset (concat ds))"
proof (induction ds offset room acc rule: copy_slices.induct)
  case (2 data ds offset room acc)
  then show ?case by (auto simp: Let_def)
qed simp

lemma read_log_ok:
  assumes "log_ok ops valid contents cap us log" and "pos \<le> length (concat us)"
  shows "read_log ops log pos n =
    (let p = max pos (bl_head log); bs = take n (drop p (concat us)) in Some (p + length bs, bs))"
proof -
  have laws: "circ_laws ops valid contents cap" and v: "valid (bl_buffer log)"
    and c: "contents (bl_buffer log) = drop (bl_head log) (concat us)"
    using assms(1) by (auto simp: log_ok_def)
  define off where "off = (if pos < bl_head log then 0 else pos - bl_head log)"
  have "drop off (concat (cb_get_bytes_upto_size ops (bl_buffer log) (n + off))) =
      take n (drop (max pos (bl_head log)) (concat us))"
    by (simp add: circ_laws_slices [OF laws v] c off_def drop_take max_def)
  then have "copy_slices (cb_get_bytes_upto_size ops (bl_buffer log) (n + off)) off n [] =
      Some (take n (drop (max pos (bl_head log)) (concat us)))"
    by (subst copy_slices_concat) auto
  then show ?thesis by (auto simp: read_log_def off_def Let_def max_def)
qed


lemma take_drop_length: "take n xs @ drop (length (take n xs)) xs = xs"
  by (simp add: min_def)

lemma write_all_log_ok:
  assumes "log_ok ops valid contents cap us log" and "pos \<le> length (concat us)"
    and "\<And>bs w. put bs w = Inr (w @ bs)"
  shows "write_all_log ops put log pos w =
    Some (length (concat us), w @ drop (max pos (bl_head log)) (concat us), None)"
  using assms(2)
proof (induction "length (concat us) - max pos (bl_head log)" arbitrary: pos w rule: less_induct)
  case less
  let ?p = "max pos (bl_head log)" and ?h = "concat us"
  let ?bs = "take 4096 (drop ?p ?h)"
  have head: "bl_head log \<le> length ?h" using assms(1) by (simp add: log_ok_def)
  have rd: "read_log ops log pos 4096 = Some (?p + length ?bs, ?bs)"
    using read_log_ok [OF assms(1) less.prems] by (simp add: Let_def)
  show ?case
  proof (cases "?bs = []")
    case True
    then have "?p = length ?h" using head less.prems by simp
    then show ?thesis using rd by (subst write_all_log.simps) simp
  next
    case False
    define bs where "bs = ?bs"
    define q where "q = ?p + length bs"
    have ne: "bs \<noteq> []" using False unfolding bs_def .
    have q: "max q (bl_head log) = q" "q \<le> length ?h"
      using head less.prems by (auto simp: q_def bs_def)
    have less: "length ?h - max q (bl_head log) < length ?h - ?p"
      unfolding q(1) using q(2) length_greater_0_conv [THEN iffD2, OF ne] unfolding q_def by arith
    have rec: "write_all_log ops put log q (w @ bs) = Some (length ?h, (w @ bs) @ drop q ?h, None)"
      using less.hyps [OF less q(2), of "w @ bs"] by (simp only: q(1))
    have tail: "bs @ drop q ?h = drop ?p ?h"
      unfolding q_def bs_def by (simp only: add.commute [of ?p] drop_drop [symmetric] take_drop_length)
    show ?thesis
      using rd [folded bs_def, folded q_def] rec tail ne
      by (subst write_all_log.simps) (simp add: assms(3))
  qed
qed


lemma servicer_run_ok:
  assumes "log_ok ops valid contents cap us log"
    and "\<And>chunk. chunk \<in> set chunks \<Longrightarrow> chunk \<noteq> [] \<and> length chunk \<le> 16 * 1024"
  shows "\<exists>log'. log_ok ops valid contents cap (us @ chunks) log' \<and>
    servicer_run ops (map Inr chunks @ later) log = servicer_run ops later log'"
  using assms
proof (induction chunks arbitrary: us log)
  case Nil
  then show ?case by auto
next
  case (Cons chunk chunks)
  have "length chunk \<le> cap"
    using Cons.prems(2) [of chunk] circ_laws_capacity [of ops valid contents cap] Cons.prems(1)
    by (simp add: log_ok_def)
  then obtain log1 n where a: "append_log ops chunk log = Some (log1, n)"
    "log_ok ops valid contents cap (us @ [chunk]) log1"
    using append_log_ok [OF Cons.prems(1)] by blast
  from Cons.IH [OF a(2)] Cons.prems(2) show ?case using a(1) by auto
qed

subsection \<open>Streaming the log\<close>

definition log_client_ok ::
  "nat \<Rightarrow> bytes list \<Rightarrow> 'b byte_log \<Rightarrow> log_client \<Rightarrow> bool" where
  "log_client_ok cap us log c \<longleftrightarrow>
     lc_pos c \<le> length (concat us) \<and> subseq (lc_sent c) (take (lc_pos c) (concat us)) \<and>
     (length (concat us) \<le> cap \<longrightarrow> lc_sent c = take (lc_pos c) (concat us))"

definition log_current :: "('b \<Rightarrow> bytes) \<Rightarrow> 'b byte_log \<Rightarrow> log_client \<Rightarrow> bool" where
  "log_current contents log c \<longleftrightarrow> lc_pos c = bl_head log + length (contents (bl_buffer log))"

lemma take_take_append: "p \<le> q \<Longrightarrow> take q xs = take p xs @ take (q - p) (drop p xs)"
  by (metis le_add_diff_inverse take_add)

lemma subseq_take_mono: "p \<le> q \<Longrightarrow> subseq (take p xs) (take q xs)"
  by (metis take_take_append list_emb_append2 prefix_imp_subseq prefixI)

lemma log_round_ok:
  assumes ok: "log_ok ops valid contents cap us log" and c: "log_client_ok cap us log c"
    and r: "log_round ops log c = Some (c', waits)"
  shows "log_client_ok cap us log c' \<and> (waits \<longrightarrow> log_current contents log c')"
proof -
  let ?h = "concat us" and ?p = "max (lc_pos c) (bl_head log)"
  define bs where "bs = take 4096 (drop ?p ?h)"
  have pos: "lc_pos c \<le> length ?h" and sub: "subseq (lc_sent c) (take (lc_pos c) ?h)"
    and full: "length ?h \<le> cap \<Longrightarrow> lc_sent c = take (lc_pos c) ?h"
    using c by (auto simp: log_client_ok_def)
  have head: "bl_head log = length ?h - cap" and buf: "contents (bl_buffer log) = drop (bl_head log) ?h"
    using ok by (auto simp: log_ok_def)
  have p: "?p \<le> length ?h" using pos head by simp
  have c': "c' = \<lparr>lc_pos = ?p + length bs, lc_sent = lc_sent c @ bs\<rparr>" "waits \<longleftrightarrow> bs = []"
    using r read_log_ok [OF ok pos, of 4096] by (auto simp: log_round_def Let_def bs_def)
  have "take (?p + length bs) ?h = take ?p ?h @ bs"
    by (simp add: take_add bs_def min_def)
  moreover have "subseq (lc_sent c) (take ?p ?h)"
    using sub subseq_take_mono [of "lc_pos c" ?p ?h] by (auto intro: subseq_order.order_trans)
  moreover have "length ?h \<le> cap \<Longrightarrow> ?p = lc_pos c" using head by simp
  moreover have "?p + length bs \<le> length ?h" using p by (auto simp: bs_def)
  moreover have "bs = [] \<Longrightarrow> ?p = length ?h" using p by (simp add: bs_def)
  ultimately show ?thesis
    using full head by (auto simp: log_client_ok_def log_current_def c' buf list_emb_append_mono)
qed

lemma log_client_update:
  assumes "log_client_ok cap us log c"
  shows "log_client_ok cap (us @ [u]) log' c"
  using assms by (auto simp: log_client_ok_def)

interpretation log: watched_stream
  "log_update ops" "log_round ops" log_client_new "log_ok ops valid contents cap"
  "log_client_ok cap" "log_current contents"
  for ops :: "'b circ_ops" and valid contents cap
proof unfold_locales
  show "log_client_ok cap us s log_client_new" for us and s :: "'b byte_log"
    by (simp add: log_client_new_def log_client_ok_def)
qed (auto intro: log_update_ok log_client_update dest: log_round_ok)

definition status_after :: "status_event list \<Rightarrow> entrypoint_status \<Rightarrow> bool" where
  "status_after us st \<longleftrightarrow> st = (if us = [] then StRunning else the (status_update (last us) StRunning))"

definition status_sent :: "status_event list \<Rightarrow> entrypoint_status \<Rightarrow> string list \<Rightarrow> bool" where
  "status_sent us st sent \<longleftrightarrow>
     set sent \<subseteq> as_json ` insert StRunning ((\<lambda>ev. the (status_update ev StRunning)) ` set us)"

definition status_current :: "entrypoint_status \<Rightarrow> string list \<Rightarrow> bool" where
  "status_current st sent \<longleftrightarrow> sent \<noteq> [] \<and> last sent = as_json st"

interpretation status: watched_stream status_update status_round "[]" status_after status_sent status_current
  by unfold_locales
     (auto simp: status_after_def status_sent_def status_current_def status_update_def status_round_def)


subsection \<open>Main results\<close>

text \<open>A list as the buffer, for the witnesses.\<close>

definition list_circ :: "bytes circ_ops" where
  "list_circ = \<lparr>cb_with_capacity = (\<lambda>_. []), cb_avail = (\<lambda>b. 131072 - length b),
     cb_advance_read = (\<lambda>b n. if n \<le> length b then Some (drop n b) else None),
     cb_write = (\<lambda>b d. Some (b @ d, length d)), cb_get_bytes_upto_size = (\<lambda>b n. [take n b, []])\<rparr>"

lemma list_circ_laws: "circ_laws list_circ (\<lambda>b. length b \<le> 131072) id 131072"
  by (auto simp: circ_laws_def list_circ_def APP_LOG_CAPACITY_def)

text \<open>
  The application log never panics while it is fed through the pipe, and after any number of
  chunks of at most 16 KiB it holds exactly the last bytes written, as many as the buffer can hold;
  a reader at position \<open>pos\<close> gets the bytes of the history from \<open>pos\<close>, or from the oldest one kept.
\<close>

lemma app_log_keeps_tail:
  assumes "circ_laws ops valid contents cap"
    and "\<forall>chunk \<in> set chunks. chunk \<noteq> [] \<and> length chunk \<le> 16 * 1024"
    and "h = concat chunks"
  shows "\<exists>log. servicer_run ops (map Inr chunks @ later) (ByteLog_new ops) = servicer_run ops later log \<and>
    contents (bl_buffer log) = drop (length h - cap) h \<and>
    (\<forall>pos n. pos \<le> length h \<longrightarrow> (let p = max pos (length h - cap) in
       read_log ops log pos n = Some (p + min n (length h - p), take n (drop p h))))"
proof -
  obtain log where l: "log_ok ops valid contents cap chunks log"
    "servicer_run ops (map Inr chunks @ later) (ByteLog_new ops) = servicer_run ops later log"
    using servicer_run_ok [OF ByteLog_new_ok [OF assms(1)], of chunks later] assms(2) by auto
  have "bl_head log = length h - cap" "contents (bl_buffer log) = drop (length h - cap) h"
    using l(1) assms(3) by (auto simp: log_ok_def)
  moreover have "read_log ops log pos n =
      (let p = max pos (bl_head log) in Some (p + min n (length h - p), take n (drop p h)))"
    if "pos \<le> length h" for pos n
    using read_log_ok [OF l(1)] that assms(3) by (simp add: Let_def min.commute)
  ultimately show ?thesis using l(2) by (auto simp: Let_def)
qed

text \<open>
  Draining the log ends and is complete: with a writer that accepts everything, \<open>write_all\<close>
  returns, has written every byte of the history from the cursor (or from the oldest byte kept), and
  leaves the cursor at the end.
\<close>

lemma write_all_drains:
  assumes "log_ok ops valid contents cap us log" and "pos \<le> length (concat us)"
    and "\<And>bs w. put bs w = Inr (w @ bs)"
  shows "write_all_log ops put log pos w =
    Some (length (concat us), w @ drop (max pos (length (concat us) - cap)) (concat us), None)"
  using write_all_log_ok [OF assms, of w] assms(1) by (simp add: log_ok_def)

text \<open>
  C5. Streaming the log to any number of clients, under every interleaving of writes, reads, wake-ups
  and hang-ups: what a client has received is a subsequence of what the application wrote, and exactly
  its beginning as long as the buffer has never overflowed; the sender of an open client's watch is
  never dropped; and a client that waits with no unseen change has received everything up to the end.
\<close>

theorem log_stream_complete:
  assumes laws: "circ_laws ops valid contents cap"
    and run: "stream_run (log_update ops) (log_round ops) log_client_new (ByteLog_new ops) us st"
    and i: "i < length (sv_clients st)" "c = cl_data (sv_clients st ! i)"
  shows "subseq (lc_sent c) (concat us) \<and>
    (length (concat us) \<le> cap \<longrightarrow> lc_sent c = take (lc_pos c) (concat us)) \<and>
    (cl_open (sv_clients st ! i) \<and> cl_pc (sv_clients st ! i) = Waiting \<longrightarrow>
       watched i (sv_watches st) \<and> (pending i (sv_watches st) \<or> lc_pos c = length (concat us)))"
proof -
  note init = ByteLog_new_ok [OF laws]
  have o: "log_ok ops valid contents cap us (sv_obj st)" using run init by (rule log.run_object)
  have cl: "log_client_ok cap us (sv_obj st) c" using log.run_client [OF run init i(1)] i(2) by simp
  have "length (concat us) = bl_head (sv_obj st) + length (contents (bl_buffer (sv_obj st)))"
    using o by (auto simp: log_ok_def)
  then have "watched i (sv_watches st) \<and> (pending i (sv_watches st) \<or> lc_pos c = length (concat us))"
    if "cl_open (sv_clients st ! i)" "cl_pc (sv_clients st ! i) = Waiting"
    using log.no_lost_wakeup [OF run init i(1) that] i(2) by (simp add: log_current_def)
  moreover have "subseq (lc_sent c) (concat us)"
    using cl take_is_prefix [THEN prefix_imp_subseq, of "lc_pos c" "concat us"]
    by (auto simp: log_client_ok_def intro: subseq_order.order_trans)
  ultimately show ?thesis using cl by (simp add: log_client_ok_def)
qed

text \<open>
  Status clients never miss the end of the entrypoint: under every interleaving, each line a client
  got is the JSON of a status the entrypoint has had, and a client that waits with no unseen change
  has the current status as its last line.
\<close>

lemma status_stream_current:
  assumes run: "stream_run status_update status_round [] StRunning evs st"
    and i: "i < length (sv_clients st)" "sent = cl_data (sv_clients st ! i)"
  shows "set sent \<subseteq> as_json ` insert StRunning ((\<lambda>ev. the (status_update ev StRunning)) ` set evs) \<and>
    (cl_open (sv_clients st ! i) \<and> cl_pc (sv_clients st ! i) = Waiting \<longrightarrow>
       watched i (sv_watches st) \<and>
       (pending i (sv_watches st) \<or> sent \<noteq> [] \<and> last sent = as_json (sv_obj st)))"
proof -
  have init: "status_after [] StRunning" by (simp add: status_after_def)
  show ?thesis
    using status.run_client [OF run init i(1)] status.no_lost_wakeup [OF run init i(1)] i(2)
    by (auto simp: status_sent_def status_current_def)
qed


text \<open>
  The witness of the first is the run in which a client connects, the application writes one byte,
  and the client reads it and finds nothing more; that of the second the run in which a client gets
  the running status, the entrypoint exits, and the client wakes up and gets the new status.
\<close>

theorem log_stream_complete_witness:
  "\<exists>st. stream_run (log_update list_circ) (log_round list_circ) log_client_new (ByteLog_new list_circ) [[7]] st \<and>
     subseq (lc_sent (cl_data (sv_clients st ! 0))) [7] \<and>
     lc_sent (cl_data (sv_clients st ! 0)) = take (lc_pos (cl_data (sv_clients st ! 0))) [7] \<and>
     cl_pc (sv_clients st ! 0) = Waiting"
proof -
  let ?run = "stream_run (log_update list_circ) (log_round list_circ) log_client_new (ByteLog_new list_circ)"
  let ?st = "\<lambda>p c ws. \<lparr>sv_obj = \<lparr>bl_buffer = [7], bl_head = 0\<rparr>, sv_watches = ws,
      sv_clients = [\<lparr>cl_pc = p, cl_open = True, cl_data = c\<rparr>]\<rparr>"
  let ?ws = "[\<lparr>wa_id = 0, wa_changed = True\<rparr>]"
  have "?run [[7]] (?st Draining log_client_new ?ws)"
    using stream_run.updates [OF stream_run.connects [OF stream_run.start], of "log_update list_circ" "[7]" "ByteLog_new list_circ"
        "\<lparr>bl_buffer = [7], bl_head = 0\<rparr>" "log_round list_circ" log_client_new]
    by (simp add: log_update_def append_log_def ByteLog_new_def list_circ_def notify_def closed_client_def WatchSet_add_def
        WatchSet_new_def)
  from stream_run.delivers [OF this, of 0 "\<lparr>lc_pos = 1, lc_sent = [7]\<rparr>" False]
  have "?run [[7]] (?st Draining \<lparr>lc_pos = 1, lc_sent = [7]\<rparr> ?ws)"
    by (simp add: log_round_def read_log_def log_client_new_def list_circ_def)
  from stream_run.delivers [OF this, of 0 "\<lparr>lc_pos = 1, lc_sent = [7]\<rparr>" True]
  have r: "?run [[7]] (?st Waiting \<lparr>lc_pos = 1, lc_sent = [7]\<rparr> ?ws)"
    by (simp add: log_round_def read_log_def list_circ_def)
  show ?thesis
    using log_stream_complete [OF list_circ_laws r, of 0 "\<lparr>lc_pos = 1, lc_sent = [7]\<rparr>"] r
    by (intro exI [of _ "?st Waiting \<lparr>lc_pos = 1, lc_sent = [7]\<rparr> ?ws"]) simp
qed

end
