(* ===== verification/Runtime_Services.thy ===== *)
theory Runtime_Services
  imports Helios_Rpc S3_Proxy Kms_Frames Aux_Api Fs_Mount Console
begin

text \<open>
  The services of the runtime binary and their start-up: \<open>capsule_api.rs\<close>, \<open>aux_api.rs\<close>,
  \<open>ingress.rs\<close> and \<open>enclave.rs\<close> under \<open>bin/capsule-runtime\<close>.  Binding ports, the AWS set-up and the
  netlink and device calls are functions on the world.
\<close>

datatype launch_failure =
    LConfig config_error
  | LVsock vsock_error
  | LMount mount_error
  | LChild launch_error
  | LText string
  | LContext string launch_failure

type_synonym ('w, 'a) launch_step = "'w \<times> (launch_failure, 'a) result"

subsection \<open>Bootstrapping the enclave\<close>

definition DEV_RANDOM :: string where "DEV_RANDOM = ''/dev/random''"

record 'w enclave_ops =
  eo_link_up :: "nat \<Rightarrow> 'w \<Rightarrow> 'w \<times> (string, unit) result"
  eo_random :: "'w \<Rightarrow> 'w \<times> (string, bytes) result"
  eo_write :: "string \<Rightarrow> bytes \<Rightarrow> 'w \<Rightarrow> 'w \<times> (string, unit) result"

definition text_step :: "'w \<times> (string, 'a) result \<Rightarrow> ('w, 'a) launch_step" where
  "text_step r = (case r of (w, x) \<Rightarrow> (w, map_err LText x))"

definition lo_up :: "'w enclave_ops \<Rightarrow> 'w \<Rightarrow> ('w, unit) launch_step" where
  "lo_up ops w = text_step (eo_link_up ops 1 w)"

definition seed_rng :: "'w enclave_ops \<Rightarrow> 'w \<Rightarrow> ('w, unit) launch_step" where
  "seed_rng ops w = sbind (text_step (eo_random ops w)) (\<lambda>w seed. text_step (eo_write ops DEV_RANDOM seed w))"

definition bootstrap :: "'w enclave_ops \<Rightarrow> 'w \<Rightarrow> ('w, unit) launch_step" where
  "bootstrap ops w = sbind (lo_up ops w) (\<lambda>w _. seed_rng ops w)"

subsection \<open>The Capsule API service\<close>

text \<open>
  The AWS clients reached through the egress proxy, the text functions and clients of the KMS, and the
  handler (its construction is \<open>with_integrations\<close> of the API model).
\<close>

record ('h, 'w) service_env =
  sv_parse_uri :: "string \<Rightarrow> uri option"
  sv_http_client :: "uri \<Rightarrow> (string, unit) result"
  sv_imds :: "uri \<Rightarrow> 'w \<Rightarrow> 'w \<times> (string, unit) result"
  sv_aws_config :: "'w \<Rightarrow> 'w \<times> (string, unit) result"
  sv_s3_client :: "string option \<Rightarrow> 'w s3_client"
  sv_text :: text_ops
  sv_kms_clients :: "(string, unit) result"
  sv_bind :: "u16 \<Rightarrow> 'w \<Rightarrow> 'w \<times> (string, unit) result"
  sv_handler :: "'w s3_proxy option \<Rightarrow> nova_kms option \<Rightarrow> (string, 'h) result"
  sv_upstream :: upstream
  sv_uri_ok :: "string \<Rightarrow> bool"

text \<open>The S3 proxy, when S3 storage is configured: it needs the egress proxy.\<close>

definition make_s3_proxy ::
  "('h, 'w) service_env \<Rightarrow> configuration \<Rightarrow> 'w \<Rightarrow> ('w, 'w s3_proxy option) launch_step" where
  "make_s3_proxy V cfg w =
     (case s3_config cfg of
        None \<Rightarrow> (w, Inr None)
      | Some c \<Rightarrow>
          sbind (w, map_err LConfig (egress_proxy_uri (sv_parse_uri V) cfg)) (\<lambda>w uri_opt.
          sbind (w, ok_or (LText ''Egress proxy is not configured, but is required for AWS IMDS access inside the enclave.'')
                   uri_opt) (\<lambda>w proxy_uri.
          sbind (w, map_err LText (sv_http_client V proxy_uri)) (\<lambda>w _.
          sbind (text_step (sv_imds V proxy_uri w)) (\<lambda>w _.
          sbind (text_step (sv_aws_config V w)) (\<lambda>w _.
          (w, Inr (Some (S3Proxy_new (sv_s3_client V (s3_region c)) (s3_bucket c) (s3_prefix c) (s3_encryption c))))))))))"

definition make_nova_kms ::
  "('h, 'w) service_env \<Rightarrow> configuration \<Rightarrow> string \<Rightarrow> 'w \<Rightarrow> (launch_failure, (nova_kms \<times> 'w kms_state) option) result" where
  "make_nova_kms V cfg endpoint w =
     (case kms_integration_config cfg of
        None \<Rightarrow> Inr None
      | Some c \<Rightarrow>
          rbind (map_err LText (NovaKmsProxy_new (sv_text V) (sv_kms_clients V) c endpoint w)) (\<lambda>(P, s).
          Inr (Some (P, fst (start_background_refresh P s)))))"

text \<open>KMS encryption of S3 objects needs the KMS client: it is attached, or the start fails.\<close>

definition attach_kms ::
  "'w s3_proxy option \<Rightarrow> configuration \<Rightarrow> nova_kms option \<Rightarrow> (launch_failure, 'w s3_proxy option) result" where
  "attach_kms s3_proxy cfg kms =
     (case (s3_proxy, s3_config cfg) of
        (Some S, Some c) \<Rightarrow>
          if map_option s3e_mode (s3_encryption c) = Some Kms then
            (case kms of
               Some P \<Rightarrow> Inr (Some (attach_nova_kms P S))
             | None \<Rightarrow> Inl (LText ''storage.s3.encryption.mode=kms requires kms_integration.enabled=true''))
          else Inr (Some S)
      | _ \<Rightarrow> Inr s3_proxy)"

record ('h, 'w) capsule_service =
  cs_port :: u16
  cs_s3 :: "'w s3_proxy option"
  cs_kms :: "(nova_kms \<times> 'w kms_state) option"
  cs_handler :: 'h

definition CapsuleApiService_start ::
  "('h, 'w) service_env \<Rightarrow> configuration \<Rightarrow> 'w \<Rightarrow> ('w, ('h, 'w) capsule_service option) launch_step" where
  "CapsuleApiService_start V cfg w =
     (case api_port cfg of
        None \<Rightarrow> (w, Inr None)
      | Some port \<Rightarrow>
          sbind (make_s3_proxy V cfg w) (\<lambda>w s3_proxy.
          sbind (w, make_nova_kms V cfg (''http://127.0.0.1:'' @ show_nat (unat port)) w) (\<lambda>w kms.
          sbind (w, attach_kms s3_proxy cfg (map_option fst kms)) (\<lambda>w s3_proxy.
          sbind (text_step (sv_bind V port w)) (\<lambda>w _.
          sbind (w, map_err LText (sv_handler V s3_proxy (map_option fst kms))) (\<lambda>w handler.
          (w, Inr (Some \<lparr>cs_port = port, cs_s3 = s3_proxy, cs_kms = kms, cs_handler = handler\<rparr>))))))))"

subsection \<open>The auxiliary API service and ingress\<close>

definition AuxApiService_start ::
  "('h, 'w) service_env \<Rightarrow> configuration \<Rightarrow> 'w \<Rightarrow> ('w, (u16 \<times> aux_api) option) launch_step" where
  "AuxApiService_start V cfg w =
     (case aux_api_port cfg of
        None \<Rightarrow> (w, Inr None)
      | Some port \<Rightarrow>
          sbind (w, ok_or (LText ''invariant violated: aux_api_port requires api_port'') (api_port cfg)) (\<lambda>w api.
          sbind (text_step (sv_bind V port w)) (\<lambda>w _.
          (w, Inr (Some (port, AuxApiHandler_new api (sv_upstream V) (sv_uri_ok V) (kx_json (sv_text V))))))))"

fun bind_proxies :: "(u16 \<Rightarrow> 'w \<Rightarrow> 'w \<times> (string, unit) result) \<Rightarrow> u16 list \<Rightarrow> 'w \<Rightarrow> ('w, u16 list) launch_step" where
  "bind_proxies bind [] w = (w, Inr [])"
| "bind_proxies bind (port # ports) w =
     sbind (text_step (bind port w)) (\<lambda>w _.
     sbind (bind_proxies bind ports w) (\<lambda>w ps. (w, Inr (port # ps))))"

definition IngressService_start ::
  "(u16 \<Rightarrow> 'w \<Rightarrow> 'w \<times> (string, unit) result) \<Rightarrow> configuration \<Rightarrow> 'w \<Rightarrow> ('w, u16 list) launch_step" where
  "IngressService_start bind cfg w = bind_proxies bind (cf_listener_ports cfg) w"

subsection \<open>Facts\<close>

lemma make_s3_proxy_config:
  assumes "make_s3_proxy V cfg w = (w', Inr (Some S))"
  shows "\<exists>c. s3_config cfg = Some c \<and> sx_encryption S = s3_encryption c"
proof (cases "s3_config cfg")
  case None
  then show ?thesis using assms by (simp add: make_s3_proxy_def)
next
  case (Some c)
  then show ?thesis using assms
    by (cases "egress_proxy_uri (sv_parse_uri V) cfg")
       (auto simp: make_s3_proxy_def S3Proxy_new_def result_elims)
qed

text \<open>
  A started API never meets a missing KMS client on the S3 routes: where objects are encrypted with
  the KMS, the client is attached.
\<close>

lemma started_s3_has_kms:
  assumes "CapsuleApiService_start V cfg w = (w', Inr (Some svc))" and "cs_s3 svc = Some S" and "kms_encryption_enabled S"
  shows "\<exists>P s. current_nova_kms S = Inr P \<and> cs_kms svc = Some (P, s)"
proof -
  obtain port where port: "api_port cfg = Some port"
    using assms(1) by (cases "api_port cfg") (simp_all add: CapsuleApiService_start_def)
  obtain y S0 kms where s3: "make_s3_proxy V cfg w = (y, Inr S0)" and kms: "cs_kms svc = kms"
    and att: "attach_kms S0 cfg (map_option fst kms) = Inr (cs_s3 svc)"
    using assms(1) by (auto simp: CapsuleApiService_start_def port result_elims)
  obtain S1 where S1: "S0 = Some S1"
    using att assms(2) by (cases S0) (auto simp: attach_kms_def split: option.splits)
  obtain c where c: "s3_config cfg = Some c" "sx_encryption S1 = s3_encryption c"
    using make_s3_proxy_config [of V cfg w y S1] s3 S1 by auto
  have "sx_encryption S = sx_encryption S1"
    using att assms(2) S1 c by (auto simp: attach_kms_def attach_nova_kms_def split: if_splits option.splits)
  then have "map_option s3e_mode (s3_encryption c) = Some Kms" using assms(3) c by (simp add: kms_encryption_enabled_def)
  then obtain P where "map_option fst kms = Some P" "S = attach_nova_kms P S1"
    using att assms(2) S1 c by (auto simp: attach_kms_def split: option.splits)
  then show ?thesis using kms by (auto simp: current_nova_kms_def attach_nova_kms_def)
qed

lemma bind_proxies_ports: "bind_proxies bind ports w = (w', Inr ps) \<Longrightarrow> ps = ports"
  by (induction ports arbitrary: w ps) (auto simp: result_elims)

end
