(* ===== verification/Helios_Safety.thy ===== *)
theory Helios_Safety
  imports Helios_Rpc Kms_Frames "HOL-Library.Multiset"
begin

text \<open>
  What the light-client service guarantees: the checkpoint it starts from is the block root of a recent
  sync-committee period, the execution RPC is the configured one or one that was probed, and waiting
  for a port reports on the task of that port.
\<close>

subsection \<open>The checkpoint\<close>

lemma checkpoint_loop_found:
  assumes "checkpoint_loop H base current offsets w = (w', Some root)"
  shows "\<exists>pre offset post u. offsets = pre @ offset # post \<and> offset \<le> current \<and>
    checkpoint_of_period H base (current - offset) u = (w', Some root) \<and>
    (\<forall>p \<in> set pre. \<exists>x y. checkpoint_of_period H base (current - p) x = (y, None))"
  using assms
proof (induction offsets arbitrary: w)
  case Nil
  then show ?case by simp
next
  case (Cons offset offsets)
  then have le: "\<not> current < offset" by (auto split: if_splits)
  obtain u r where r: "checkpoint_of_period H base (current - offset) w = (u, r)" by fastforce
  show ?case
  proof (cases r)
    case None
    then have "checkpoint_loop H base current offsets u = (w', Some root)" using Cons.prems le r by simp
    then obtain pre o' post u' where "offsets = pre @ o' # post" "o' \<le> current"
      "checkpoint_of_period H base (current - o') u' = (w', Some root)"
      "\<forall>p \<in> set pre. \<exists>x y. checkpoint_of_period H base (current - p) x = (y, None)"
      using Cons.IH by blast
    then show ?thesis using r None
      by - (rule exI [of _ "offset # pre"], rule exI [of _ o'], rule exI [of _ post], rule exI [of _ u'], auto)
  next
    case (Some root')
    then show ?thesis using Cons.prems le r by (auto intro!: exI [of _ "[]"])
  qed
qed

lemma lookback_offsets_eq: "lookback_offsets = [1, 2, 3, 4]"
  by (simp add: lookback_offsets_def CHECKPOINT_LOOKBACK_PERIODS_def upt_rec)

lemma lookback_split:
  assumes "lookback_offsets = pre @ offset # post"
  shows "\<exists>n. 1 \<le> n \<and> n \<le> 4 \<and> offset = of_nat n \<and> (\<forall>k. 1 \<le> k \<and> k < n \<longrightarrow> of_nat k \<in> set pre)"
proof -
  define i where "i = length pre"
  have len: "i < 4" using arg_cong [OF assms, of length] by (simp add: i_def lookback_offsets_eq)
  have nth: "lookback_offsets ! k = of_nat (Suc k)" if "k < 4" for k
    using that by (simp add: lookback_offsets_def CHECKPOINT_LOOKBACK_PERIODS_def nth_append del: upt_Suc)
  have "offset = of_nat (Suc i)" using nth [OF len] by (simp add: assms i_def nth_append)
  moreover have "of_nat k \<in> set pre" if k: "1 \<le> k" "k < Suc i" for k
  proof -
    obtain j where j: "k = Suc j" "j < i" using k by (cases k) auto
    then have "pre ! j = of_nat k" using nth [of j] len by (simp add: assms i_def nth_append)
    then show ?thesis using j by (metis i_def nth_mem)
  qed
  ultimately show ?thesis using len by (intro exI [of _ "Suc i"]) auto
qed

text \<open>
  A checkpoint found through the consensus RPC is the block root that the RPC gives for one of the four
  sync-committee periods before the one of the finalised slot, and the latest of them for which it
  gives one; the period is computed without wrap-around, also near the genesis of the chain.
\<close>

lemma helios_checkpoint_recent:
  assumes "resolve_ethereum_checkpoint H rpc w = (w', Inr root)"
  shows "\<exists>slot body n u period. extract_finalized_slot_from_finality_update H body = Inr slot \<and>
    1 \<le> n \<and> n \<le> 4 \<and> n \<le> unat slot div 8192 \<and> unat period = unat slot div 8192 - n \<and>
    checkpoint_of_period H (trim_end_char (CHR ''/'') rpc) period u = (w', Some root) \<and>
    (\<forall>k. 1 \<le> k \<and> k < n \<longrightarrow> (\<exists>x y. checkpoint_of_period H (trim_end_char (CHR ''/'') rpc) (period + of_nat (n - k)) x = (y, None)))"
proof -
  let ?base = "trim_end_char (CHR ''/'') rpc"
  obtain body slot y where slot: "extract_finalized_slot_from_finality_update H body = Inr slot"
    and "(case checkpoint_loop H ?base (slot div SLOTS_PER_SYNC_COMMITTEE_PERIOD) lookback_offsets y of
        (w, Some root) \<Rightarrow> (w, Inr root)
      | (w, None) \<Rightarrow>
          (w, Inl (''Unable to derive checkpoint from consensus RPC '' @ rpc @ '' across last '' @
                   show_nat (unat CHECKPOINT_LOOKBACK_PERIODS) @ '' sync-committee periods''))) = (w', Inr root)"
    using assms unfolding resolve_ethereum_checkpoint_def Let_def by (auto simp only: result_elims prod.inject)
  then have loop: "checkpoint_loop H ?base (slot div SLOTS_PER_SYNC_COMMITTEE_PERIOD) lookback_offsets y = (w', Some root)"
    by (cases "checkpoint_loop H ?base (slot div SLOTS_PER_SYNC_COMMITTEE_PERIOD) lookback_offsets y") (auto split: option.splits)
  obtain pre offset post u where split: "lookback_offsets = pre @ offset # post"
    and le: "offset \<le> slot div SLOTS_PER_SYNC_COMMITTEE_PERIOD"
    and found: "checkpoint_of_period H ?base (slot div SLOTS_PER_SYNC_COMMITTEE_PERIOD - offset) u = (w', Some root)"
    and earlier: "\<forall>p \<in> set pre. \<exists>x y. checkpoint_of_period H ?base (slot div SLOTS_PER_SYNC_COMMITTEE_PERIOD - p) x = (y, None)"
    using checkpoint_loop_found [OF loop] by blast
  obtain n where n: "1 \<le> n" "n \<le> 4" "offset = of_nat n" and pre: "\<And>k. 1 \<le> k \<Longrightarrow> k < n \<Longrightarrow> of_nat k \<in> set pre"
    using lookback_split [OF split] by blast
  define period where "period = slot div SLOTS_PER_SYNC_COMMITTEE_PERIOD - offset"
  have cur: "unat (slot div SLOTS_PER_SYNC_COMMITTEE_PERIOD) = unat slot div 8192"
    by (simp add: SLOTS_PER_SYNC_COMMITTEE_PERIOD_def unat_div)
  have off: "unat offset = n" using n by (simp add: unat_of_nat)
  have nle: "n \<le> unat slot div 8192" using le off cur by (metis word_le_nat_alt)
  have per: "unat period = unat slot div 8192 - n"
    using le off cur by (simp add: period_def unat_sub)
  have "slot div SLOTS_PER_SYNC_COMMITTEE_PERIOD - of_nat k = period + of_nat (n - k)" if "k < n" for k
    using that n by (simp add: period_def of_nat_diff)
  then have "\<exists>x y. checkpoint_of_period H ?base (period + of_nat (n - k)) x = (y, None)" if "1 \<le> k" "k < n" for k
    using earlier pre [OF that] that(2) by metis
  with slot n nle per found show ?thesis unfolding period_def [symmetric] by blast
qed

subsection \<open>The execution RPC\<close>

lemma push_missing_set: "set (push_missing cs fs) = set cs \<union> set fs"
  by (induction cs fs rule: push_missing.induct) auto

lemma probe_candidates_found:
  "probe_candidates H cs w = (w', Some c) \<Longrightarrow>
     c \<in> set cs \<and> (\<exists>u u' i. probe_execution_chain_id H c u = (u', Inr i) \<and> eq_ignore_ascii_case i ETHEREUM_MAINNET_CHAIN_ID)"
proof (induction cs arbitrary: w)
  case (Cons x cs)
  obtain u r where r: "probe_execution_chain_id H x w = (u, r)" by fastforce
  then show ?case using Cons by (cases r) (auto split: if_splits)
qed simp

lemma candidates_off_mainnet:
  "\<not> eq_ignore_ascii_case network ''mainnet'' \<Longrightarrow> length (ethereum_execution_rpc_candidates network c) \<le> 1"
  by (simp add: ethereum_execution_rpc_candidates_def Let_def)

text \<open>
  Another endpoint than the configured one is only ever used on mainnet, and only one of the two
  fall-backs (or the configured one without white space) that answered with the chain id of mainnet.
\<close>

lemma execution_rpc_selected:
  assumes "select_ethereum_execution_rpc H network configured w = (w', url)"
  shows "url = configured \<or>
    eq_ignore_ascii_case network ''mainnet'' \<and>
    (url = trim configured \<or> url \<in> set ETHEREUM_MAINNET_EXECUTION_RPC_FALLBACKS) \<and>
    (\<exists>u u' i. probe_execution_chain_id H url u = (u', Inr i) \<and> eq_ignore_ascii_case i ETHEREUM_MAINNET_CHAIN_ID)"
proof (cases "length (ethereum_execution_rpc_candidates network configured) \<le> 1")
  case False
  then have main: "eq_ignore_ascii_case network ''mainnet''" using candidates_off_mainnet by blast
  then have cands: "set (ethereum_execution_rpc_candidates network configured) \<subseteq>
      insert (trim configured) (set ETHEREUM_MAINNET_EXECUTION_RPC_FALLBACKS)"
    by (auto simp: ethereum_execution_rpc_candidates_def Let_def push_missing_set ETHEREUM_MAINNET_EXECUTION_RPC_FALLBACKS_def)
  show ?thesis using assms False main cands
    by (auto simp: select_ethereum_execution_rpc_def Let_def dest!: probe_candidates_found split: sum.splits prod.splits option.splits)
qed (use assms in \<open>simp add: select_ethereum_execution_rpc_def\<close>)

subsection \<open>Readiness\<close>

lemma mset_swap_remove:
  assumes "i < length xs"
  shows "mset (swap_remove i xs) = mset xs - {#xs ! i#}"
proof -
  obtain ys y where xs: "xs = ys @ [y]" using assms by (cases xs rule: rev_cases) auto
  show ?thesis
    using assms by (auto simp: swap_remove_def xs nth_append mset_update less_Suc_eq)
qed

definition tracked :: "(u16 \<times> nat) list \<Rightarrow> bool" where
  "tracked rxs \<longleftrightarrow> distinct (map fst rxs)"

lemma port_position_found:
  assumes "tracked rxs" "(port, ch) \<in> set rxs"
  shows "\<exists>i. port_position port rxs = Some i \<and> i < length rxs \<and> rxs ! i = (port, ch)"
proof -
  define i where "i = length (takeWhile (\<lambda>(t, _). t \<noteq> port) rxs)"
  have "i < length rxs" using assms(2) unfolding i_def
    by (metis (mono_tags, lifting) case_prod_conv length_takeWhile_le nat_less_le takeWhile_eq_all_conv takeWhile_eq_take take_all)
  moreover from this have "fst (rxs ! i) = port"
    using nth_length_takeWhile [of "\<lambda>(t, _). t \<noteq> port" rxs] by (auto simp: i_def split: prod.splits)
  ultimately have "rxs ! i = (port, ch)"
    using assms unfolding tracked_def by (metis eq_key_imp_eq_value nth_mem prod.collapse)
  then show ?thesis using \<open>i < length rxs\<close> by (simp add: port_position_def i_def Let_def)
qed

lemma wait_for_tracked_port:
  assumes "tracked (hs_ready_rxs svc)" "(port, ch) \<in> set (hs_ready_rxs svc)"
  shows "snd (helios_wait_ready_for_port report port svc) = unwrap_or False (report ch)"
  using port_position_found [OF assms] assms(2) by (auto simp: helios_wait_ready_for_port_def)

lemma wait_for_other_port:
  assumes "tracked (hs_ready_rxs svc)" "(port, ch) \<in> set (hs_ready_rxs svc)" "other \<noteq> port"
  shows "tracked (hs_ready_rxs (fst (helios_wait_ready_for_port report other svc))) \<and>
    (port, ch) \<in> set (hs_ready_rxs (fst (helios_wait_ready_for_port report other svc)))"
proof (cases "port_position other (hs_ready_rxs svc)")
  case None
  then show ?thesis using assms by (auto simp: helios_wait_ready_for_port_def)
next
  case (Some i)
  let ?rxs = "hs_ready_rxs svc"
  have i: "i < length ?rxs" using Some by (auto simp: port_position_def Let_def split: if_splits)
  have "fst (?rxs ! i) = other"
    using nth_length_takeWhile [of "\<lambda>(t, _). t \<noteq> other" ?rxs] Some
    by (auto simp: port_position_def Let_def split: if_splits prod.splits)
  then have ne: "?rxs ! i \<noteq> (port, ch)" using assms(3) by auto
  have m: "mset (swap_remove i ?rxs) = mset ?rxs - {#?rxs ! i#}" by (rule mset_swap_remove [OF i])
  have "(port, ch) \<in># mset (swap_remove i ?rxs)" unfolding m using assms(2) ne [symmetric] by (metis in_multiset_in_set insert_DiffM insert_noteq_member nth_mem_mset [OF i])
  moreover have "mset (?rxs ! i # swap_remove i ?rxs) = mset ?rxs" using i by (simp add: m)
  then have "mset (map fst (?rxs ! i # swap_remove i ?rxs)) = mset (map fst ?rxs)" by (metis mset_map)
  then have "distinct (map fst (?rxs ! i # swap_remove i ?rxs))"
    using assms(1) mset_eq_imp_distinct_iff unfolding tracked_def by blast
  then have "tracked (swap_remove i ?rxs)" by (simp add: tracked_def)
  moreover have "?rxs \<noteq> []" using i by auto
  ultimately show ?thesis using Some by (simp add: helios_wait_ready_for_port_def)
qed

lemma started_tracked:
  assumes "distinct (map hrc_listen_port (helios_configs cfg))"
  shows "tracked (hs_ready_rxs (HeliosRpcService_start cfg))"
  using assms by (simp add: tracked_def HeliosRpcService_start_def Let_def)

lemma started_rx:
  assumes "i < length (helios_configs cfg)"
  shows "(hrc_listen_port (helios_configs cfg ! i), i) \<in> set (hs_ready_rxs (HeliosRpcService_start cfg))"
  using assms by (auto simp: HeliosRpcService_start_def Let_def set_zip intro!: exI [of _ i])

text \<open>
  A port that has been waited for is forgotten; once the last one is, every port counts as ready,
  even one whose task has just been reported to have failed.
\<close>

lemma failed_port_ready_when_asked_again:
  assumes "hs_ready_rxs svc = [(port, ch)]" and "report ch = Some False"
  shows "snd (helios_wait_ready_for_port report port svc) = False \<and>
    snd (helios_wait_ready_for_port report port (fst (helios_wait_ready_for_port report port svc))) = True"
  using assms by (simp add: helios_wait_ready_for_port_def port_position_def swap_remove_def)

subsection \<open>A concrete consensus RPC\<close>

definition demo_slot :: "string \<Rightarrow> json_value" where
  "demo_slot slot = JObject [(''data'', JObject [(''finalized_header'', JObject [(''beacon'', JObject [(''slot'', JString slot)])])])]"

text \<open>The finalised slot 40000 is in period 4; the RPC has an update for period 2 only.\<close>

definition demo_http :: "unit helios_http" where
  "demo_http = \<lparr>hh_client = (\<lambda>_. Inr ()),
     hh_get = (\<lambda>url w. (w, Inr (200, Inr (
        if url = ''c/eth/v1/beacon/light_client/finality_update'' then ''f''
        else if url = ''c/eth/v1/beacon/light_client/updates?start_period=2&count=1'' then ''u''
        else if url = ''c/eth/v1/beacon/blocks/24000/root'' then ''r'' else ''x'')))),
     hh_post = (\<lambda>_ _ w. (w, Inl [])), hh_status_text = (\<lambda>_. []),
     hh_json = \<lparr>js_parse = (\<lambda>bs.
        if bs = str_bytes ''f'' then Inr (demo_slot ''40000'')
        else if bs = str_bytes ''u'' then Inr (JArray [demo_slot ''24000''])
        else if bs = str_bytes ''r'' then Inr (JObject [(''data'', JObject [(''root'', JString ''0x7'')])])
        else Inl []), js_bytes = (\<lambda>_. [])\<rparr>,
     hh_b256 = (\<lambda>_. Inr [7]), hh_lowercase = (\<lambda>t. t)\<rparr>"

lemma demo_get:
  "http_get_text demo_http url w = (w, Inr (
        if url = ''c/eth/v1/beacon/light_client/finality_update'' then ''f''
        else if url = ''c/eth/v1/beacon/light_client/updates?start_period=2&count=1'' then ''u''
        else if url = ''c/eth/v1/beacon/blocks/24000/root'' then ''r'' else ''x''))"
  by (simp add: http_get_text_def demo_http_def answer_text_def is_success_def)

lemma demo_beacon_slot: "beacon_slot (demo_slot s) = Some s"
  by (simp add: beacon_slot_def demo_slot_def json_get_def as_str_def)

lemma demo_parse: "parse_u64 ''40000'' = Inr 40000" "parse_u64 ''24000'' = Inr 24000"
  by (simp_all add: parse_u64_def parse_unsigned_def digit_value_def)

lemma demo_extract:
  "extract_finalized_slot_from_finality_update demo_http ''f'' = Inr 40000"
  "extract_checkpoint_slot_from_updates demo_http ''u'' = Inr (Some 24000)"
  "extract_checkpoint_slot_from_updates demo_http ''x'' = Inl ''invalid JSON for light-client updates: ''"
  "extract_block_root demo_http ''r'' = Inr [7]"
  by (simp_all add: extract_finalized_slot_from_finality_update_def extract_checkpoint_slot_from_updates_def
      extract_block_root_def demo_beacon_slot demo_parse demo_http_def str_bytes_def json_get_def as_str_def)

lemma demo_show: "show_nat 2 = ''2''" "show_nat 3 = ''3''" "show_nat 24000 = ''24000''"
  by (simp_all add: show_nat.simps char_of_eq_iff)

lemma demo_period:
  "checkpoint_of_period demo_http ''c'' 3 w = (w, None)" "checkpoint_of_period demo_http ''c'' 2 w = (w, Some [7])"
  by (simp_all add: checkpoint_of_period_def demo_get demo_extract demo_show)

lemma demo_checkpoint: "resolve_ethereum_checkpoint demo_http ''c/'' () = ((), Inr [7])"
proof -
  have "trim_end_char (CHR ''/'') ''c/'' = ''c''" by simp
  moreover have "(40000 :: u64) div SLOTS_PER_SYNC_COMMITTEE_PERIOD = 4" by (simp add: SLOTS_PER_SYNC_COMMITTEE_PERIOD_def)
  moreover have "hh_client demo_http n = Inr ()" for n by (simp add: demo_http_def)
  ultimately show ?thesis
    unfolding resolve_ethereum_checkpoint_def by (simp add: Let_def demo_get demo_extract lookback_offsets_eq demo_period)
qed

end
