(* ===== verification/Kms_Witnesses.thy ===== *)
theory Kms_Witnesses
  imports Kms_Safety
begin

text \<open>
  A concrete KMS world: one registered node that answers every request, a registry that admits the
  instance, and toy codecs and keys. The results about the client are applied in it.
\<close>

subsection \<open>The world\<close>

definition demo_wallet :: string where "demo_wallet = ''0x'' @ replicate 40 (CHR ''a'')"
definition demo_answer :: json_value where
  "demo_answer = JObject
     [(''address'', JString demo_wallet), (''signature'', JString ''s''), (''public_key_der'', JString ''0xbb''),
      (''nonce'', JString ''n''), (''encrypted_data'', JString ''e''), (''plaintext'', JString ''p''),
      (''sender_tee_pubkey'', JString (replicate 40 (CHR ''a''))), (''key'', JString ''k''), (''value'', JString ''v''),
      (''node'', JObject [(''tee_wallet'', JString demo_wallet), (''tee_pubkey'', JString (replicate 40 (CHR ''a'')))])]"

definition demo_text :: text_ops where
  "demo_text = \<lparr>kx_lowercase = (\<lambda>t. t), kx_hex = (\<lambda>bs. replicate (if length bs = 12 then 24 else 40) (CHR ''a'')),
     kx_unhex = (\<lambda>t. Inr (replicate (if length t = 24 then 12 else 20) 0)),
     kx_base64 = (\<lambda>_. ''b''), kx_unbase64 = (\<lambda>_. Inr (replicate 32 0)), kx_utf8 = (\<lambda>_. Inr demo_wallet),
     kx_url_host = (\<lambda>_. Some (Some ''h'')), kx_json = \<lparr>js_parse = (\<lambda>_. Inr demo_answer), js_bytes = (\<lambda>_. [])\<rparr>,
     kx_sha256 = (\<lambda>bs. bs), kx_urlencode = (\<lambda>_. ''u'')\<rparr>"

definition demo_keys :: "u8 eth_ops" where
  "demo_keys = \<lparr>et_from_bytes = (\<lambda>_. Some 1), et_to_bytes = (\<lambda>_. []), et_public_point = (\<lambda>_. [4]),
     et_sign_recoverable = (\<lambda>_ _. (replicate 64 0, 0)), et_recover = (\<lambda>_ _ _. Some [4]), et_keccak = (\<lambda>_. replicate 32 0),
     et_hex = (\<lambda>_. replicate 40 (CHR ''a'')), et_unhex = (\<lambda>t. Some (replicate (if t = ''s'' then 65 else 32) 0)), et_lowercase = (\<lambda>t. t)\<rparr>"

definition demo_abi :: abi_ops where
  "demo_abi = \<lparr>ab_encode = (\<lambda>_ _. Inr []), ab_decode = (\<lambda>fn _. Inr
       (if af_name fn = ''getActiveInstances'' then [TArray [TAddress (replicate 20 0)]]
        else if af_name fn = ''getApp''
        then [TTuple [TUint 7, TAddress [], TFixedBytes [], TAddress [], TString [], TUint 0, TUint 0, TUint 0, TAddress []]]
        else [TTuple [TUint 1, TUint 7, TUint 0, TAddress [], TString ''h'', TBytes [1], TAddress [], TBool True, TUint 0, TUint 0]])),
     ab_show = (\<lambda>_. []), ab_show_opt = (\<lambda>_. [])\<rparr>"

definition demo_kms :: "(u8, unit) kms_env" where
  "demo_kms = \<lparr>ke_text = demo_text, ke_eth = demo_keys, ke_abi = demo_abi, ke_millis = (\<lambda>w. (w, 0)), ke_secs = (\<lambda>w. (w, 0)),
     ke_sleep = (\<lambda>_ w. w), ke_send = (\<lambda>_ _ w. (w, Inr \<lparr>kr_status = 200, kr_signature = Some ''s'', kr_text = Inr []\<rparr>)),
     ke_key_text = (\<lambda>_. []), ke_status_error = (\<lambda>_ _. []),
     ke_rpc_response = (\<lambda>_. Inr \<lparr>rp_result = Some ''0x'', rp_error = None\<rparr>), ke_new_key = (\<lambda>w. (w, 1)),
     ke_derive_request = (\<lambda>_. Inl []), ke_key_request = (\<lambda>_. Inr ''app''), ke_put_request = (\<lambda>_. Inl [])\<rparr>"

definition demo_config :: kms_integration where
  "demo_config = \<lparr>kms_enabled = True, kms_use_app_wallet = True, kms_app_id = Some 7, kms_nova_app_registry = Some demo_wallet\<rparr>"

definition demo_registry :: registry_discovery where
  "demo_registry = \<lparr>rd_kms_app_id = 7, rd_registry_address = demo_wallet, rd_rpc_url = DEFAULT_REGISTRY_CHAIN_RPC,
     rd_ttl_ms = DEFAULT_KMS_DISCOVERY_TTL_MS\<rparr>"

definition demo_proxy :: nova_kms where
  "demo_proxy = \<lparr>nk_endpoint = ''c'', nk_use_app_wallet = True, nk_max_retries = 3, nk_require_mutual_signature = True,
     nk_reserved = DEFAULT_KMS_RESERVED_DERIVE_PREFIXES, nk_discovery = Some demo_registry\<rparr>"

definition demo_start :: "unit kms_state" where
  "demo_start = \<lparr>ks_world = (), ks_discovery = None, ks_refresh_started = False, ks_identity = Map.empty,
     ks_authz = None, ks_wallet = None\<rparr>"

subsection \<open>Its steps\<close>

lemma trim_demo: "trim demo_wallet = demo_wallet"
  by (rule trim_visible) (simp add: demo_wallet_def visible_ascii_def list_all_iff)

lemma canonical_demo: "canonical_wallet demo_text demo_wallet = Inr demo_wallet"
proof -
  have "strip_prefix ''0x'' demo_wallet = Some (replicate 40 (CHR ''a''))"
    unfolding demo_wallet_def by (rule strip_prefix_append)
  then show ?thesis unfolding canonical_wallet_def by (simp add: trim_demo demo_text_def Let_def) (simp add: demo_wallet_def)
qed

lemma demo_init_at:
  "NovaKmsProxy_new demo_text (Inr ()) demo_config e () = Inr (demo_proxy\<lparr>nk_endpoint := e\<rparr>, demo_start)"
proof -
  have "demo_wallet \<noteq> []" by (simp add: demo_wallet_def)
  then show ?thesis
  by (simp add: NovaKmsProxy_new_def build_registry_discovery_def demo_config_def canonical_demo trim_demo demo_proxy_def
      demo_start_def demo_registry_def DEFAULT_KMS_MAX_ATTEMPTS_def DEFAULT_KMS_REQUIRE_MUTUAL_SIGNATURE_def)
qed

lemma demo_init:
  "NovaKmsProxy_new demo_text (Inr ()) demo_config ''c'' () = Inr (demo_proxy, demo_start)"
  by (simp add: demo_init_at) (simp add: demo_proxy_def)

lemma unit_state [simp]: "s\<lparr>ks_world := ()\<rparr> = (s :: unit kms_state)"
  by (cases s) simp

lemma trim_0x_a: "trim_0x (replicate n (CHR ''a'')) = replicate n (CHR ''a'')"
  by (cases n) (simp_all add: trim_0x_def trim_start_matches.simps starts_with_def)

lemma trim_0x_Nil: "trim_0x ''0x'' = []"
  by (simp add: trim_0x_def trim_start_matches.simps starts_with_def)

lemma demo_millis [simp]: "current_unix_millis demo_kms s = (s, 0)"
  "current_unix_timestamp demo_kms s = (s, 0)"
  by (simp_all add: current_unix_millis_def current_unix_timestamp_def demo_kms_def)

lemma demo_send [simp]: "http_send demo_kms c q s = (s, Inr \<lparr>kr_status = 200, kr_signature = Some ''s'', kr_text = Inr []\<rparr>)"
  by (simp add: http_send_def demo_kms_def)

lemma demo_fields [simp]:
  "ke_text demo_kms = demo_text" "ke_eth demo_kms = demo_keys" "ke_abi demo_kms = demo_abi"
  "js_parse (kx_json demo_text) bs = Inr demo_answer" "js_bytes (kx_json demo_text) v = []"
  "kx_hex demo_text bs = replicate (if length bs = 12 then 24 else 40) (CHR ''a'')"
  "kx_unhex demo_text t = Inr (replicate (if length t = 24 then 12 else 20) 0)"
  "nk_discovery demo_proxy = Some demo_registry" "nk_require_mutual_signature demo_proxy"
  by (simp_all add: demo_kms_def demo_text_def demo_proxy_def)

lemma demo_preview [simp]: "preview_json_for_log (kx_json demo_text) v = Inr []" "preview_text_for_log (kx_json demo_text) t = Inr []"
  by (simp_all add: preview_json_for_log_def preview_text_for_log_def json_text_def truncate_for_log_def bytes_str_def)

lemma demo_call [simp]: "capsule_api_call demo_kms P m name path payload s = (s, Inr demo_answer)"
  by (simp add: capsule_api_call_def Let_def is_success_def lift_res_def)

lemma demo_json [simp]: "json_str ''address'' demo_answer = Some demo_wallet" "json_str ''signature'' demo_answer = Some ''s''"
  "json_str ''public_key_der'' demo_answer = Some ''0xbb''" "json_str ''nonce'' demo_answer = Some ''n''"
  "json_str ''encrypted_data'' demo_answer = Some ''e''" "json_str ''plaintext'' demo_answer = Some ''p''"
  "json_str ''sender_tee_pubkey'' demo_answer = Some (replicate 40 (CHR ''a''))" "json_str ''value'' demo_answer = Some ''v''"
  by (simp_all add: demo_answer_def json_str_def json_get_def)

lemma demo_eth_call [simp]: "registry_eth_call demo_kms d cd s = (s, Inr (replicate 20 0))"
proof -
  have five: "(5 :: nat) = Suc 4" by simp
  have "eth_call_attempt demo_kms d cd s = (s, Inr (replicate 20 0))"
    by (simp add: eth_call_attempt_def Let_def is_success_def)
       (simp add: demo_kms_def lift_res_def trim_0x_Nil)
  then show ?thesis
    unfolding registry_eth_call_def DEFAULT_REGISTRY_ETH_CALL_MAX_ATTEMPTS_def five eth_call_loop.simps by simp
qed

lemma demo_identity: "identity_of_status demo_text demo_answer = Inr \<lparr>ni_wallet = demo_wallet, ni_tee_pubkey = replicate 40 (CHR ''a'')\<rparr>"
proof -
  have "trim (replicate 40 (CHR ''a'')) \<noteq> []"
    by (subst trim_visible) (simp_all add: visible_ascii_def list_all_iff)
  then show ?thesis
   by (simp add: identity_of_status_def canonical_demo trim_0x_a) (simp add: demo_answer_def json_get_def json_str_def canonical_demo trim_0x_a)
qed

definition demo_instance :: registry_instance where
  "demo_instance = \<lparr>ri_app_id = 7, ri_instance_url = ''h'', ri_tee_pubkey = replicate 40 (CHR ''a''), ri_zk_verified = True, ri_status = 0\<rparr>"

definition demo_node :: kms_node where
  "demo_node = KmsNodeCacheEntry_new demo_wallet ''https://h'' (replicate 40 (CHR ''a''))"

lemma demo_parse_h160: "parse_h160 demo_text demo_wallet = Inr (replicate 20 0)"
proof -
  have "trim_0x demo_wallet = replicate 40 (CHR ''a'')"
    by (simp add: demo_wallet_def trim_0x_def trim_start_matches.simps starts_with_def)
  then show ?thesis by (simp add: parse_h160_def Let_def)
qed

lemma demo_get_instance [simp]: "registry_get_instance_by_wallet demo_kms d demo_wallet s = (s, Inr demo_instance)"
  by (simp add: registry_get_instance_by_wallet_def demo_parse_h160 registry_call_def lift_res_def)
     (simp add: demo_abi_def registry_fn_get_instance_by_wallet_def instance_of_def extract_single_tuple_def instance_indices
      token_to_u64_def token_to_string_def token_to_bytes_def token_to_bool_def demo_instance_def max_u64)

lemma demo_get_app [simp]: "registry_get_app demo_kms d i s = (s, Inr \<lparr>ra_status = 0, ra_app_wallet = demo_wallet\<rparr>)"
  by (simp add: registry_get_app_def registry_call_def lift_res_def)
     (simp add: demo_abi_def registry_fn_get_app_def app_of_def extract_single_tuple_def GET_APP_TUPLE_MIN_LEN_def
      GET_APP_STATUS_IDX_def GET_APP_APP_WALLET_IDX_def token_to_u64_def token_to_address_def demo_wallet_def max_u64)

lemma demo_active [simp]: "registry_get_active_instances demo_kms d i s = (s, Inr [demo_wallet])"
  by (simp add: registry_get_active_instances_def registry_call_def lift_res_def)
     (simp add: demo_abi_def registry_fn_get_active_instances_def active_instances_of_def token_to_address_def demo_wallet_def)

lemma demo_url: "normalize_base_url demo_text ''h'' = Some ''https://h''"
  by (subst normalize_base_url_def) (simp add: trim_visible visible_ascii_def starts_with_def demo_text_def Let_def)

lemma demo_discover: "discover_kms_nodes_from_registry demo_kms demo_registry s = (s, Inr [demo_node])"
  by (simp add: discover_kms_nodes_from_registry_def canonical_demo lift_res_def eligible_url_def demo_url trim_0x_a)
     (simp add: demo_instance_def demo_registry_def demo_url trim_0x_a demo_node_def)

lemma demo_verify: "verify_message demo_keys ''s'' msg demo_wallet"
  by (simp add: verify_message_def demo_keys_def strip_prefix_def starts_with_def point_address_def demo_wallet_def)

definition demo_ident :: kms_node_identity where
  "demo_ident = \<lparr>ni_wallet = demo_wallet, ni_tee_pubkey = replicate 40 (CHR ''a'')\<rparr>"

definition demo_nodes :: "kms_node list \<Rightarrow> bool" where
  "demo_nodes ns \<longleftrightarrow> ns \<noteq> [] \<and> set (map node_id ns) = {node_id demo_node}"

definition demo_good :: "unit kms_state \<Rightarrow> bool" where
  "demo_good s \<longleftrightarrow> (\<forall>c. ks_discovery s = Some c \<longrightarrow> demo_nodes (dc_nodes c)) \<and>
     (\<forall>e. ks_identity s ''https://h'' = Some e \<longrightarrow> ci_identity e = demo_ident)"

lemma demo_nodes_ids: "map node_id ns = map node_id ns' \<Longrightarrow> demo_nodes ns = demo_nodes ns'"
  unfolding demo_nodes_def by (metis map_is_Nil_conv)

lemma demo_discovered:
  assumes "demo_good s"
  shows "\<exists>u ns. resolve_discovered_nodes demo_kms demo_proxy s = (u, Inr ns) \<and> demo_nodes ns \<and> demo_good u"
proof (cases "cached_nodes 0 s")
  case None
  define ns where "ns = merge_discovered_nodes_with_previous [demo_node] (ks_discovery s) 0"
  have "demo_nodes ns"
    using demo_nodes_ids [of ns "[demo_node]"] by (simp add: demo_nodes_def ns_def)
  moreover have "resolve_discovered_nodes demo_kms demo_proxy s =
      (s\<lparr>ks_discovery := Some \<lparr>dc_nodes = ns, dc_expires_at_ms = saturating_add 0 (rd_ttl_ms demo_registry)\<rparr>\<rparr>, Inr ns)"
    by (simp add: resolve_discovered_nodes_def lift_res_def demo_discover Let_def None ns_def)
  ultimately show ?thesis using assms by (simp add: demo_good_def)
next
  case (Some ns)
  then have "demo_nodes ns" using assms
    by (auto simp: cached_nodes_def demo_good_def split: option.splits if_splits)
  then show ?thesis using assms Some by (simp add: resolve_discovered_nodes_def lift_res_def)
qed

lemma demo_candidates:
  assumes "demo_good s"
  shows "\<exists>s' n ns. resolve_node_candidates demo_kms demo_proxy s = (s', Inr (n # ns)) \<and>
    node_id n = node_id demo_node \<and> demo_good s'"
proof -
  obtain u ns where ns: "resolve_discovered_nodes demo_kms demo_proxy s = (u, Inr ns)" "demo_nodes ns" "demo_good u"
    using demo_discovered [OF assms] by blast
  define cs where "cs = (if resolve_connectable_nodes 0 ns \<noteq> [] then resolve_connectable_nodes 0 ns else ns)"
  have "cs \<noteq> []" "set cs \<subseteq> set ns"
    using ns(2) resolve_connectable_nodes_subset [of 0 ns] by (auto simp: cs_def demo_nodes_def)
  then obtain n cs' where "cs = n # cs'" "n \<in> set ns" by (cases cs) auto
  then show ?thesis using ns
    by (auto simp: resolve_node_candidates_def Let_def cs_def demo_nodes_def split: if_splits)
qed

lemma demo_resolve_identity:
  assumes "demo_good s" "node_id n = node_id demo_node"
  shows "\<exists>s'. resolve_node_identity demo_kms n s = (s', Inr demo_ident) \<and> demo_good s'"
proof -
  have url: "kd_base_url n = ''https://h''" using assms(2) by (simp add: node_id_def demo_node_def KmsNodeCacheEntry_new_def)
  have "fetch_node_identity demo_kms url u = (u, Inr demo_ident)" for url u
    by (simp add: fetch_node_identity_def fetch_json_def lift_res_def demo_identity demo_ident_def)
  note fetched = this
  show ?thesis
  proof (cases "\<exists>e. ks_identity s ''https://h'' = Some e \<and> 0 < ci_expires_at_ms e")
    case True
    then show ?thesis using assms(1)
      by (elim exE) (simp add: resolve_node_identity_def cached_node_identity_def demo_good_def url)
  next
    case False
    then have "\<exists>u. cached_node_identity ''https://h'' 0 s = (u, None) \<and> ks_discovery u = ks_discovery s"
      by (cases "ks_identity s ''https://h''") (simp_all add: cached_node_identity_def)
    then show ?thesis using assms(1)
      by (elim exE) (simp add: resolve_node_identity_def url fetched cache_node_identity_def demo_good_def)
  qed
qed

lemma demo_sealed: "\<exists>body. sealed_payload demo_kms demo_proxy payload key u = (u, Inr body)"
  by (cases payload)
     (simp_all add: sealed_payload_def encrypt_payload_for_node_def local_tee_pubkey_def capsule_api_get_def
       capsule_api_post_def lift_res_def)

lemma demo_node_call:
  assumes "demo_good s" "node_id n = node_id demo_node"
  shows "\<exists>s'. call_kms_on_node demo_kms demo_proxy n m path payload s = (s', Inr demo_answer) \<and> demo_good s'"
proof -
  have n: "kd_base_url n = ''https://h''" "kd_wallet n = demo_wallet" "kd_tee_pubkey n = replicate 40 (CHR ''a'')"
    using assms(2) by (simp_all add: node_id_def demo_node_def KmsNodeCacheEntry_new_def trim_0x_a)
  obtain s1 where id: "resolve_node_identity demo_kms n s = (s1, Inr demo_ident)" and g: "demo_good s1"
    using demo_resolve_identity [OF assms] by blast
  have bind: "verify_node_identity_binding demo_text n demo_ident = Inr (replicate 40 (CHR ''a''))"
    by (simp add: verify_node_identity_binding_def canonical_demo trim_0x_a Let_def n demo_ident_def)
  have dec: "decrypt_envelope demo_kms demo_proxy demo_answer (replicate 40 (CHR ''a'')) u = (u, Inr demo_answer)" for u
    by (simp add: decrypt_envelope_def check_sender_def trim_0x_a Let_def lift_res_def capsule_api_post_def)
  have acc: "accept_response demo_kms demo_proxy n csig (replicate 40 (CHR ''a''))
      \<lparr>kr_status = 200, kr_signature = Some ''s'', kr_text = Inr []\<rparr> u = (u, Inr demo_answer)" for csig u
    by (simp add: accept_response_def Let_def lift_res_def is_success_def verify_mutual_response_signature_def
        canonical_demo demo_verify dec n)
  obtain body where "sealed_payload demo_kms demo_proxy payload (replicate 40 (CHR ''a'')) s1 = (s1, Inr body)"
    using demo_sealed by blast
  then show ?thesis using g
    by (simp add: call_kms_on_node_def Let_def id lift_res_def bind fetch_nonce_def fetch_json_def canonical_demo n
        local_sign_message_def local_eth_address_def capsule_api_get_def capsule_api_post_def acc)
qed

lemma demo_kms_call:
  assumes "demo_good s"
  shows "\<exists>s'. call_kms_json_internal demo_kms demo_proxy m path payload s = (s', Inr demo_answer) \<and> demo_good s'"
proof -
  obtain u n ns where c: "resolve_node_candidates demo_kms demo_proxy s = (u, Inr (n # ns))"
    and n: "node_id n = node_id demo_node" and u: "demo_good u" using demo_candidates [OF assms] by blast
  obtain v where v: "call_kms_on_node demo_kms demo_proxy n m path payload u = (v, Inr demo_answer)" "demo_good v"
    using demo_node_call [OF u n] by blast
  have "demo_nodes (update_first url (mark_reachability r e st er t) ns) = demo_nodes ns" for url r e st er t ns
    by (rule demo_nodes_ids) simp
  then have "demo_good (update_node_reachability_cache demo_kms url r st er v)" for url r st er
    using v(2)
    by (auto simp: demo_good_def update_node_reachability_cache_def update_node_reachability_def Let_def split: option.splits)
  moreover have max: "nk_max_retries demo_proxy = Suc 2" by (simp add: demo_proxy_def)
  ultimately show ?thesis
    unfolding call_kms_json_internal_def c sbind_simps max try_attempts.simps try_nodes.simps
    using v by (cases payload) (simp_all add: Let_def)
qed

lemma demo_start_good: "demo_good demo_start"
  by (simp add: demo_good_def demo_start_def)

lemma demo_kv_get:
  assumes "demo_good s" and "key = trim key" "key \<noteq> []"
  shows "\<exists>s'. kv_get demo_kms demo_proxy key s = (s', Inr (Some ''v'')) \<and> demo_good s'"
proof -
  obtain s' where "call_kms_json_internal demo_kms demo_proxy MGet (''/kms/data/'' @ kx_urlencode demo_text (str_bytes key)) None s =
      (s', Inr demo_answer)" "demo_good s'" using demo_kms_call [OF assms(1)] by blast
  then show ?thesis using assms(2,3) by (simp add: kv_get_def)
qed

subsection \<open>The results in this world\<close>

theorem kms_answers_authenticated_witness:
  "\<exists>d node. nk_discovery demo_proxy = Some d \<and> registered demo_kms d node \<and>
     node_authenticated demo_kms demo_proxy node demo_answer"
proof -
  obtain s' where "call_kms_json_internal demo_kms demo_proxy MGet ''/kms/data/u'' None demo_start = (s', Inr demo_answer)"
    using demo_kms_call [OF demo_start_good] by blast
  then show ?thesis by (rule kms_answers_authenticated [OF demo_init kms_reach.start])
qed

theorem kms_handlers_authorized_witness:
  "\<exists>d u ctx. nk_discovery demo_proxy = Some d \<and> resolve_authz_context demo_kms demo_proxy demo_start = (u, Inr ctx) \<and>
     granted demo_kms demo_proxy d ctx"
proof -
  have "\<exists>u ctx. ensure_kms_access_authorized demo_kms demo_proxy demo_start = (u, Inr ctx) \<and> demo_good u"
    by (simp add: ensure_kms_access_authorized_def resolve_authz_context_def cached_authz_context_def lift_res_def
        local_eth_address_def capsule_api_get_def canonical_demo check_instance_def Let_def)
       (simp add: demo_instance_def demo_good_def demo_start_def)
  then obtain u ctx where u: "ensure_kms_access_authorized demo_kms demo_proxy demo_start = (u, Inr ctx)" "demo_good u" by blast
  obtain s' where "kv_get demo_kms demo_proxy ''app'' u = (s', Inr (Some ''v''))"
    using demo_kv_get [OF u(2), of "''app''"] by (auto simp: trim_visible visible_ascii_def)
  then have h: "handle_kv_get demo_kms demo_proxy [] demo_start =
      (s', Inr (ok_json (kx_json demo_text) (JObject [(''found'', JBool True), (''value'', JString ''v'')])))"
    using u(1) by (simp add: handle_kv_get_def authorized_def responding_def) (simp add: demo_kms_def)
  show ?thesis
    by (rule kms_handlers_authorized [OF demo_init kms_reach.start, of _ "[]", OF disjI2 [OF disjI1 [OF h]]])
       (simp add: ok_json_def json_response_def)
qed

lemma demo_key: "new_from_bytes demo_keys demo_wallet = Inr 1"
proof -
  have "length (replicate 40 (CHR ''a'')) \<noteq> length ''s''" by simp
  then have "replicate 40 (CHR ''a'') \<noteq> ''s''" by metis
  then show ?thesis
    by (simp add: new_from_bytes_def demo_wallet_def) (simp add: demo_keys_def strip_prefix_def starts_with_def)
qed

lemma demo_material:
  "material_of_records demo_kms (Some ''v'') (Some ''v'') =
     Inr \<lparr>wm_private_key_hex = demo_wallet, wm_address = demo_wallet\<rparr>"
proof -
  have "address demo_keys k = demo_wallet" for k by (simp add: address_def demo_keys_def demo_wallet_def)
  moreover have "decode_kms_private_key_hex demo_text ''v'' = Inr demo_wallet"
    by (simp add: decode_kms_private_key_hex_def demo_wallet_def) (simp add: demo_text_def)
  moreover have "decode_kms_wallet_address demo_text ''v'' = Inr demo_wallet"
    by (simp add: decode_kms_wallet_address_def canonical_demo) (simp add: demo_text_def canonical_demo [unfolded demo_text_def])
  ultimately show ?thesis
    by (simp add: material_of_records_def decode_app_wallet_material_def local_key_def canonical_demo demo_key)
qed

theorem app_wallet_key_has_address_witness:
  "canonical_wallet demo_text (address demo_keys (1 :: u8)) = Inr demo_wallet"
proof -
  have keys: "APP_WALLET_KV_PRIVATE_KEY = trim APP_WALLET_KV_PRIVATE_KEY" "APP_WALLET_KV_PRIVATE_KEY \<noteq> []"
    "APP_WALLET_KV_ADDRESS = trim APP_WALLET_KV_ADDRESS" "APP_WALLET_KV_ADDRESS \<noteq> []"
    by (simp_all add: APP_WALLET_KV_PRIVATE_KEY_def APP_WALLET_KV_ADDRESS_def trim_visible visible_ascii_def)
  define m where "m = \<lparr>wm_private_key_hex = demo_wallet, wm_address = demo_wallet\<rparr>"
  obtain s1 where s1: "kv_get demo_kms demo_proxy APP_WALLET_KV_PRIVATE_KEY demo_start = (s1, Inr (Some ''v''))" "demo_good s1"
    using demo_kv_get [OF demo_start_good keys(1,2)] by blast
  obtain s2 where s2: "kv_get demo_kms demo_proxy APP_WALLET_KV_ADDRESS s1 = (s2, Inr (Some ''v''))"
    using demo_kv_get [OF s1(2) keys(3,4)] by blast
  define t where "t = cache_app_wallet_material demo_kms m s2"
  have start: "cached_app_wallet_material demo_kms demo_start = (demo_start, None)"
    by (simp add: cached_app_wallet_material_def) (simp add: demo_start_def)
  have again: "cached_app_wallet_material demo_kms t = (t, Some m)"
    by (simp add: cached_app_wallet_material_def t_def cache_app_wallet_material_def APP_WALLET_CACHE_TTL_MS_def saturating_add_def)
  have use: "nk_use_app_wallet demo_proxy" by (simp add: demo_proxy_def)
  have "app_wallet_address demo_kms demo_proxy demo_start = (t, Inr demo_wallet)"
    by (simp add: app_wallet_address_def resolve_app_wallet_material_def start s1(1) s2 demo_material lift_res_def use t_def m_def)
  moreover have "app_wallet_key demo_kms demo_proxy t = (t, Inr 1)"
    by (simp add: app_wallet_key_def resolve_app_wallet_material_def again lift_res_def use m_def local_key_def
        demo_key)
  ultimately show ?thesis
    using app_wallet_key_has_address [OF demo_init kms_reach.start, of demo_kms t demo_wallet t 1]
    by (simp add: t_def cache_app_wallet_material_def APP_WALLET_CACHE_TTL_MS_def saturating_add_def)
qed

theorem preview_hides_secrets_witness:
  "preview_json_for_log (kx_json demo_text)
     (scrub (\<lambda>_ v. case v of JString t \<Rightarrow> JString (rev t) | _ \<Rightarrow> v) (JObject [(''value'', JString ''secret''), (''key'', JString ''k'')])) =
   preview_json_for_log (kx_json demo_text) (JObject [(''value'', JString ''secret''), (''key'', JString ''k'')])"
  by (rule preview_hides_secrets) (simp add: approx_len_def split: json_value.split)

end
