(* ===== verification/Runtime_Launch.thy ===== *)
theory Runtime_Launch
  imports Runtime_Services Helios_Safety Kms_Witnesses
begin

text \<open>
  The main program of the runtime (\<open>bin/capsule-runtime/main.rs\<close>): the order in which services start,
  the entrypoint, and the shutdown of whatever was started.  The state keeps a trace of what was
  started and stopped.
\<close>

record cli_args =
  ar_no_bootstrap :: bool
  ar_no_console :: bool
  ar_config_dir :: string
  ar_work_dir :: "path option"
  ar_entrypoint :: "string list"
  ar_verbosity :: u8

datatype service_kind = SHostfs | SEgress | SClockSync | SHelios | SCapsuleApi | SAuxApi | SIngress

datatype launch_event = Start service_kind | Stop service_kind | Waited u16 bool | Entrypoint

record ('m, 'net, 'h, 'w) started_services =
  ss_hostfs_mounts :: "'m list option"
  ss_egress :: "'net egress_service option option"
  ss_clock_sync :: "clock_sync_cfg option option"
  ss_helios_rpc :: "helios_service option"
  ss_capsule_api :: "('h, 'w) capsule_service option option"
  ss_aux_api :: "(u16 \<times> aux_api) option option"
  ss_ingress :: "u16 list option"

record ('m, 'net, 'h, 'w) launch_state =
  la_world :: 'w
  la_services :: "('m, 'net, 'h, 'w) started_services"
  la_trace :: "launch_event list"

text \<open>
  The rest of the outside: the mounts (\<open>start_mount\<close> of the mount model for one mount), whether FUSE is
  there, the network parser, the local CID, what the Helios tasks report, and how the entrypoint ends
  (\<open>run_child\<close> of the launcher model, once it returns).
\<close>

record ('m, 'net, 'h, 'w) launch_env =
  le_enclave :: "'w enclave_ops"
  le_services :: "('h, 'w) service_env"
  le_start_mount :: "hostfs_mount_config \<Rightarrow> u32 \<Rightarrow> 'w \<Rightarrow> 'w \<times> (mount_error, 'm) result"
  le_fuse :: "(mount_error, unit) result"
  le_parse_net :: "string \<Rightarrow> 'net option"
  le_egress_bind :: "u16 \<Rightarrow> bool"
  le_local_cid :: "u32 option"
  le_report :: "nat \<Rightarrow> bool option"
  le_child :: "string list \<Rightarrow> credentials \<Rightarrow> path option \<Rightarrow> 'w \<Rightarrow> 'w \<times> (launch_error, exit_status) result"

type_synonym ('m, 'net, 'h, 'w, 'a) launching = "('m, 'net, 'h, 'w) launch_state \<times> (launch_failure, 'a) result"

definition no_services :: "('m, 'net, 'h, 'w) started_services" where
  "no_services = \<lparr>ss_hostfs_mounts = None, ss_egress = None, ss_clock_sync = None, ss_helios_rpc = None,
     ss_capsule_api = None, ss_aux_api = None, ss_ingress = None\<rparr>"

subsection \<open>Shutdown\<close>

text \<open>The services that are running, in the order in which they are stopped.\<close>

definition running :: "('m, 'net, 'h, 'w) started_services \<Rightarrow> service_kind list" where
  "running ss =
     (if ss_ingress ss \<noteq> None then [SIngress] else []) @ (if ss_aux_api ss \<noteq> None then [SAuxApi] else []) @
     (if ss_capsule_api ss \<noteq> None then [SCapsuleApi] else []) @ (if ss_helios_rpc ss \<noteq> None then [SHelios] else []) @
     (if ss_clock_sync ss \<noteq> None then [SClockSync] else []) @ (if ss_egress ss \<noteq> None then [SEgress] else []) @
     (if ss_hostfs_mounts ss \<noteq> None then [SHostfs] else [])"

definition shutdown :: "('m, 'net, 'h, 'w) launch_state \<Rightarrow> ('m, 'net, 'h, 'w) launch_state" where
  "shutdown st =
     st\<lparr>la_services := no_services, la_trace := la_trace st @ map Stop (running (la_services st))\<rparr>"

subsection \<open>Starting\<close>

text \<open>A service that started is recorded; one that did not leaves only its effect on the world.\<close>

definition started ::
  "service_kind \<Rightarrow> ('x \<Rightarrow> ('m, 'net, 'h, 'w) started_services \<Rightarrow> ('m, 'net, 'h, 'w) started_services)
     \<Rightarrow> ('w, 'x) launch_step \<Rightarrow> ('m, 'net, 'h, 'w) launch_state \<Rightarrow> ('m, 'net, 'h, 'w, unit) launching" where
  "started k upd r st =
     (case r of
        (w, Inl e) \<Rightarrow> (st\<lparr>la_world := w\<rparr>, Inl e)
      | (w, Inr x) \<Rightarrow>
          (st\<lparr>la_world := w, la_services := upd x (la_services st), la_trace := la_trace st @ [Start k]\<rparr>, Inr ()))"

definition start_capsule_api_stack ::
  "('m, 'net, 'h, 'w) launch_env \<Rightarrow> configuration \<Rightarrow> ('m, 'net, 'h, 'w) launch_state \<Rightarrow> ('m, 'net, 'h, 'w, unit) launching" where
  "start_capsule_api_stack N cfg st =
     (case CapsuleApiService_start (le_services N) cfg (la_world st) of
        (w, Inl e) \<Rightarrow> (st\<lparr>la_world := w\<rparr>, Inl e)
      | (w, Inr capsule_api) \<Rightarrow>
          (case AuxApiService_start (le_services N) cfg w of
             (w, Inr aux_api) \<Rightarrow>
               (st\<lparr>la_world := w, la_trace := la_trace st @ [Start SCapsuleApi, Start SAuxApi],
                   la_services := (la_services st)\<lparr>ss_capsule_api := Some capsule_api, ss_aux_api := Some aux_api\<rparr>\<rparr>, Inr ())
           | (w, Inl err) \<Rightarrow>
               (st\<lparr>la_world := w, la_trace := la_trace st @ [Start SCapsuleApi, Stop SCapsuleApi]\<rparr>,
                Inl (LContext ''failed to start Aux API after the Capsule API was already running'' err))))"

text \<open>Waiting for the chain of the registry when the KMS uses it.\<close>

definition kms_needs_helios :: "configuration \<Rightarrow> bool" where
  "kms_needs_helios cfg = unwrap_or False (map_option registry_discovery_configured (kms_integration_config cfg))"

definition wait_for_helios ::
  "(nat \<Rightarrow> bool option) \<Rightarrow> configuration \<Rightarrow> ('m, 'net, 'h, 'w) launch_state \<Rightarrow> ('m, 'net, 'h, 'w, unit) launching" where
  "wait_for_helios report cfg st =
     (if kms_needs_helios cfg then
        (case ss_helios_rpc (la_services st) of
           None \<Rightarrow> (st, Inl (LText ''invariant violated: Helios service missing after successful start''))
         | Some helios \<Rightarrow>
             (case helios_wait_ready_for_port report KMS_REGISTRY_HELIOS_PORT helios of
                (helios', ready) \<Rightarrow>
                  (st\<lparr>la_services := (la_services st)\<lparr>ss_helios_rpc := Some helios'\<rparr>,
                      la_trace := la_trace st @ [Waited KMS_REGISTRY_HELIOS_PORT ready]\<rparr>,
                   if ready then Inr ()
                   else Inl (LText (''Helios auth-chain RPC failed to become ready on local port '' @
                                    show_nat (unat KMS_REGISTRY_HELIOS_PORT))))))
      else (st, Inr ()))"

definition start_services ::
  "('m, 'net, 'h, 'w) launch_env \<Rightarrow> configuration \<Rightarrow> runtime_host_vsock_ports \<Rightarrow> ('m, 'net, 'h, 'w) launch_state
     \<Rightarrow> ('m, 'net, 'h, 'w, unit) launching" where
  "start_services N cfg ports st =
     (let V = le_services N in
      sbind (started SHostfs (\<lambda>x ss. ss\<lparr>ss_hostfs_mounts := Some x\<rparr>)
        (case HostFsMountService_start (le_start_mount N) (le_fuse N) (cf_manifest cfg) ports (la_world st) of
           (w, r) \<Rightarrow> (w, map_err LMount r)) st) (\<lambda>st _.
      sbind (started SEgress (\<lambda>x ss. ss\<lparr>ss_egress := Some x\<rparr>)
        (la_world st, map_err LConfig (EgressService_start (sv_parse_uri V) (le_parse_net N) (le_egress_bind N) cfg ports)) st) (\<lambda>st _.
      sbind (started SClockSync (\<lambda>x ss. ss\<lparr>ss_clock_sync := Some x\<rparr>)
        (la_world st, Inr (clock_sync_config (cf_manifest cfg))) st) (\<lambda>st _.
      sbind (started SHelios (\<lambda>x ss. ss\<lparr>ss_helios_rpc := Some x\<rparr>)
        (la_world st, Inr (HeliosRpcService_start cfg)) st) (\<lambda>st _.
      sbind (wait_for_helios (le_report N) cfg st) (\<lambda>st _.
      sbind (start_capsule_api_stack N cfg st) (\<lambda>st _.
      started SIngress (\<lambda>x ss. ss\<lparr>ss_ingress := Some x\<rparr>) (IngressService_start (sv_bind V) cfg (la_world st)) st)))))))"

definition run_entrypoint ::
  "('m, 'net, 'h, 'w) launch_env \<Rightarrow> cli_args \<Rightarrow> ('m, 'net, 'h, 'w) launch_state \<Rightarrow> ('m, 'net, 'h, 'w, exit_status) launching" where
  "run_entrypoint N args st =
     (case le_child N (ar_entrypoint args) \<lparr>cr_uid = 0, cr_gid = 0\<rparr> (ar_work_dir args) (la_world st) of
        (w, r) \<Rightarrow> (st\<lparr>la_world := w, la_trace := la_trace st @ [Entrypoint]\<rparr>, map_err LChild r))"

text \<open>The plan is only logged, but computing it can fail.\<close>

fun plan_mounts :: "runtime_host_vsock_ports \<Rightarrow> nat \<Rightarrow> hostfs_mount_config list \<Rightarrow> (launch_failure, unit) result" where
  "plan_mounts ports i [] = Inr ()"
| "plan_mounts ports i (m # ms) =
     rbind (map_err (\<lambda>err. LContext (''hostfs mount '' @ [CHR 0x27] @ hm_name m @ [CHR 0x27] @ '' cannot be assigned a vsock port'')
              (LVsock err)) (hostfs_mount_port ports i)) (\<lambda>_. plan_mounts ports (Suc i) ms)"

definition log_launch_plan ::
  "(string \<Rightarrow> uri option) \<Rightarrow> configuration \<Rightarrow> runtime_host_vsock_ports \<Rightarrow> (launch_failure, unit) result" where
  "log_launch_plan parse_uri cfg ports =
     rbind (map_err LConfig (egress_proxy_uri parse_uri cfg)) (\<lambda>_.
     rbind (if api_port cfg \<noteq> None
            then bail_if (aux_api_port cfg = None) (LText ''api.listen_port requires a valid Aux API port'')
            else Inr ()) (\<lambda>_.
     plan_mounts ports 0 (unwrap_or [] (hostfs_mounts (cf_manifest cfg)))))"

definition launch ::
  "('m, 'net, 'h, 'w) launch_env \<Rightarrow> cli_args \<Rightarrow> configuration \<Rightarrow> 'w \<Rightarrow> ('m, 'net, 'h, 'w, exit_status) launching" where
  "launch N args cfg w =
     (let st0 = \<lparr>la_world = w, la_services = no_services, la_trace = []\<rparr> in
      case (if ar_no_bootstrap args then (w, Inr ()) else bootstrap (le_enclave N) w) of
        (w, Inl e) \<Rightarrow> (st0\<lparr>la_world := w\<rparr>, Inl e)
      | (w, Inr _) \<Rightarrow>
          (let st = st0\<lparr>la_world := w\<rparr> in
           sbind (st, map_err LVsock (for_local_enclave (le_local_cid N))) (\<lambda>st ports.
           sbind (st, log_launch_plan (sv_parse_uri (le_services N)) cfg ports) (\<lambda>st _.
           case sbind (start_services N cfg ports st) (\<lambda>st _. run_entrypoint N args st) of
             (st, launch_result) \<Rightarrow> (shutdown st, launch_result)))))"

text \<open>The status that is reported at the end.\<close>

definition run_status :: "(launch_failure \<Rightarrow> string) \<Rightarrow> (launch_failure, exit_status) result \<Rightarrow> entrypoint_status" where
  "run_status format_fatal_error r = (case r of Inr e \<Rightarrow> StExited e | Inl err \<Rightarrow> StFatal (format_fatal_error err))"

text \<open>The process: it exits with 1 when the configuration or the proxy variables are wrong.\<close>

definition main_runtime ::
  "('m, 'net, 'h, 'w) launch_env \<Rightarrow> (launch_failure \<Rightarrow> string) \<Rightarrow> (uri \<Rightarrow> string) \<Rightarrow> cli_args
     \<Rightarrow> (bytes \<Rightarrow> (manifest_error, manifest) result) \<Rightarrow> (string \<Rightarrow> bytes option) \<Rightarrow> 'w
     \<Rightarrow> nat + ((string \<times> string) list \<times> ('m, 'net, 'h, 'w) launch_state \<times> entrypoint_status)" where
  "main_runtime N format_fatal_error uri_text args parse readf w =
     (case load_blocking parse readf (ar_config_dir args) of
        Inl _ \<Rightarrow> Inl 1
      | Inr cfg \<Rightarrow>
          (case egress_proxy_env_vars (sv_parse_uri (le_services N)) uri_text cfg of
             Inl _ \<Rightarrow> Inl 1
           | Inr env \<Rightarrow>
               (case launch N args cfg w of (st, r) \<Rightarrow> Inr (env, st, run_status format_fatal_error r))))"

subsection \<open>Traces\<close>

definition starts :: "launch_event list \<Rightarrow> service_kind list" where
  "starts t = List.map_filter (\<lambda>e. case e of Start k \<Rightarrow> Some k | _ \<Rightarrow> None) t"

definition stops :: "launch_event list \<Rightarrow> service_kind list" where
  "stops t = List.map_filter (\<lambda>e. case e of Stop k \<Rightarrow> Some k | _ \<Rightarrow> None) t"

lemma starts_simps [simp]:
  "starts [] = []" "starts (Start k # t) = k # starts t" "starts (Stop k # t) = starts t"
  "starts (Waited p b # t) = starts t" "starts (Entrypoint # t) = starts t" "starts (t @ t') = starts t @ starts t'"
  by (simp_all add: starts_def List.map_filter_def)

lemma stops_simps [simp]:
  "stops [] = []" "stops (Start k # t) = stops t" "stops (Stop k # t) = k # stops t"
  "stops (Waited p b # t) = stops t" "stops (Entrypoint # t) = stops t" "stops (t @ t') = stops t @ stops t'"
  by (simp_all add: stops_def List.map_filter_def)

lemma map_Stop [simp]: "starts (map Stop ks) = []" "stops (map Stop ks) = ks"
  by (induction ks) simp_all

text \<open>
  The trace agrees with the services that run: undoing what was rolled back, they were started in the
  reverse of the order in which they are stopped.
\<close>

fun live :: "launch_event list \<Rightarrow> service_kind list \<Rightarrow> service_kind list option" where
  "live [] ks = Some ks"
| "live (Start k # t) ks = (if k \<in> set ks then None else live t (k # ks))"
| "live (Stop k # t) ks = (case ks of k' # ks' \<Rightarrow> if k' = k then live t ks' else None | [] \<Rightarrow> None)"
| "live (e # t) ks = live t ks"

lemma live_append: "live (t @ t') ks = Option.bind (live t ks) (live t')"
  by (induction t ks rule: live.induct) (auto split: list.splits)

definition consistent :: "('m, 'net, 'h, 'w) launch_state \<Rightarrow> bool" where
  "consistent st \<longleftrightarrow> live (la_trace st) [] = Some (running (la_services st))"

lemma sbindI:
  assumes "\<And>s e. r = (s, Inl e) \<Longrightarrow> Q (s, Inl e)" and "\<And>s y. r = (s, Inr y) \<Longrightarrow> Q (f s y)"
  shows "Q (sbind r f)"
  using assms by (cases r; cases "snd r") auto

lemma started_failed: "started k upd r st = (st', Inl e) \<Longrightarrow> la_trace st' = la_trace st \<and> la_services st' = la_services st"
  by (auto simp: started_def split: prod.splits sum.splits)

lemma started_ok:
  "started k upd r st = (st', Inr u) \<Longrightarrow>
     \<exists>x. snd r = Inr x \<and> la_trace st' = la_trace st @ [Start k] \<and> la_services st' = upd x (la_services st)"
  by (auto simp: started_def split: prod.splits sum.splits)

definition base_trace :: "launch_event list" where
  "base_trace = [Start SHostfs, Start SEgress, Start SClockSync, Start SHelios]"

definition wait_trace :: "configuration \<Rightarrow> launch_event list" where
  "wait_trace cfg = (if kms_needs_helios cfg then [Waited KMS_REGISTRY_HELIOS_PORT True] else [])"

definition full_trace :: "configuration \<Rightarrow> launch_event list" where
  "full_trace cfg = base_trace @ wait_trace cfg @ [Start SCapsuleApi, Start SAuxApi, Start SIngress]"

definition helios_ready :: "(nat \<Rightarrow> bool option) \<Rightarrow> configuration \<Rightarrow> bool" where
  "helios_ready report cfg \<longleftrightarrow>
     (kms_needs_helios cfg \<longrightarrow>
        snd (helios_wait_ready_for_port report KMS_REGISTRY_HELIOS_PORT (HeliosRpcService_start cfg)))"

text \<open>What holds when the start-up ends, however it ends.\<close>

definition start_outcome ::
  "('m, 'net, 'h, 'w) launch_env \<Rightarrow> configuration \<Rightarrow> ('m, 'net, 'h, 'w, unit) launching \<Rightarrow> bool" where
  "start_outcome N cfg out \<longleftrightarrow>
     (case out of (st, r) \<Rightarrow>
        consistent st \<and> Entrypoint \<notin> set (la_trace st) \<and>
        (Start SCapsuleApi \<in> set (la_trace st) \<longrightarrow> helios_ready (le_report N) cfg) \<and>
        (r = Inr () \<longrightarrow> la_trace st = full_trace cfg \<and> helios_ready (le_report N) cfg))"

lemma wait_for_helios_outcome:
  assumes "wait_for_helios report cfg st = (st', r)" and "la_trace st = base_trace"
    and "ss_helios_rpc (la_services st) = Some (HeliosRpcService_start cfg)"
  shows "running (la_services st') = running (la_services st) \<and>
    (\<exists>b. la_trace st' = base_trace @ (if kms_needs_helios cfg then [Waited KMS_REGISTRY_HELIOS_PORT b] else [])) \<and>
    (r = Inr () \<longrightarrow> la_trace st' = base_trace @ wait_trace cfg \<and> helios_ready report cfg)"
proof (cases "kms_needs_helios cfg")
  case True
  obtain helios' ready where w:
    "helios_wait_ready_for_port report KMS_REGISTRY_HELIOS_PORT (HeliosRpcService_start cfg) = (helios', ready)" by fastforce
  have st': "st' = st\<lparr>la_services := (la_services st)\<lparr>ss_helios_rpc := Some helios'\<rparr>,
      la_trace := base_trace @ [Waited KMS_REGISTRY_HELIOS_PORT ready]\<rparr>" and r: "r = Inr () \<longrightarrow> ready"
    using assms True w by (auto simp: wait_for_helios_def split: if_splits)
  have "running (la_services st') = running (la_services st)" using assms(3) by (simp add: st' running_def)
  then show ?thesis using r True w by (simp add: st' wait_trace_def helios_ready_def)
next
  case False
  then show ?thesis using assms by (simp add: wait_for_helios_def wait_trace_def helios_ready_def)
qed

lemma stack_outcome:
  assumes "start_capsule_api_stack N cfg st = (st', r)" and "la_trace st = base_trace @ wait_trace cfg"
    and "running (la_services st) = [SHelios, SClockSync, SEgress, SHostfs]"
  shows "consistent st' \<and> Entrypoint \<notin> set (la_trace st') \<and>
    (r = Inr () \<longrightarrow> la_trace st' = base_trace @ wait_trace cfg @ [Start SCapsuleApi, Start SAuxApi] \<and>
       running (la_services st') = [SAuxApi, SCapsuleApi, SHelios, SClockSync, SEgress, SHostfs])"
proof -
  let ?ss = "la_services st"
  have none: "ss_ingress ?ss = None" "ss_aux_api ?ss = None" "ss_capsule_api ?ss = None" "ss_helios_rpc ?ss \<noteq> None"
    "ss_clock_sync ?ss \<noteq> None" "ss_egress ?ss \<noteq> None" "ss_hostfs_mounts ?ss \<noteq> None"
    using assms(3) by (auto simp: running_def split: if_splits)
  have live: "live (base_trace @ wait_trace cfg @ t) [] = live t [SHelios, SClockSync, SEgress, SHostfs]" for t
    by (simp add: base_trace_def wait_trace_def)
  obtain w1 r1 where r1: "CapsuleApiService_start (le_services N) cfg (la_world st) = (w1, r1)" by fastforce
  show ?thesis
  proof (cases r1)
    case (Inl e)
    then show ?thesis using assms r1 live [of "[]"]
      by (auto simp: start_capsule_api_stack_def consistent_def base_trace_def wait_trace_def)
  next
    case (Inr capsule_api)
    obtain w2 r2 where r2: "AuxApiService_start (le_services N) cfg w1 = (w2, r2)" by fastforce
    show ?thesis
    proof (cases r2)
      case (Inl e)
      then show ?thesis using assms r1 r2 Inr live [of "[Start SCapsuleApi, Stop SCapsuleApi]"]
        by (auto simp: start_capsule_api_stack_def consistent_def base_trace_def wait_trace_def)
    next
      case aux: (Inr aux_api)
      define ss where "ss = ?ss\<lparr>ss_capsule_api := Some capsule_api, ss_aux_api := Some aux_api\<rparr>"
      have "running ss = [SAuxApi, SCapsuleApi, SHelios, SClockSync, SEgress, SHostfs]"
        using none by (simp add: running_def ss_def)
      moreover have "st' = st\<lparr>la_world := w2, la_trace := base_trace @ wait_trace cfg @ [Start SCapsuleApi, Start SAuxApi],
          la_services := ss\<rparr>"
        using assms(1,2) r1 r2 Inr aux by (simp add: start_capsule_api_stack_def ss_def)
      ultimately show ?thesis using live [of "[Start SCapsuleApi, Start SAuxApi]"]
        by (auto simp: consistent_def base_trace_def wait_trace_def)
    qed
  qed
qed

text \<open>The first four services, with the rest of the start-up as a continuation.\<close>

definition base_started :: "configuration \<Rightarrow> ('m, 'net, 'h, 'w) launch_state \<Rightarrow> bool" where
  "base_started cfg st \<longleftrightarrow> la_trace st = base_trace \<and>
     ss_helios_rpc (la_services st) = Some (HeliosRpcService_start cfg) \<and>
     running (la_services st) = [SHelios, SClockSync, SEgress, SHostfs]"

lemma base_services_outcome:
  assumes "la_trace st = []" and "la_services st = no_services"
    and rest: "\<And>s. base_started cfg s \<Longrightarrow> start_outcome N cfg (f s)"
  shows "start_outcome N cfg
    (sbind (started SHostfs (\<lambda>x ss. ss\<lparr>ss_hostfs_mounts := Some x\<rparr>) mounts st) (\<lambda>st _.
     sbind (started SEgress (\<lambda>x ss. ss\<lparr>ss_egress := Some x\<rparr>) (egress st) st) (\<lambda>st _.
     sbind (started SClockSync (\<lambda>x ss. ss\<lparr>ss_clock_sync := Some x\<rparr>) (la_world st, Inr clock) st) (\<lambda>st _.
     sbind (started SHelios (\<lambda>x ss. ss\<lparr>ss_helios_rpc := Some x\<rparr>)
       (la_world st, Inr (HeliosRpcService_start cfg)) st) (\<lambda>st _. f st)))))"
proof (rule sbindI, goal_cases)
  case (1 s e)
  then show ?case using assms(1,2)
    by (auto dest!: started_failed simp: start_outcome_def consistent_def running_def no_services_def)
next
  case (2 s1 y)
  then obtain ms where s1: "la_trace s1 = [Start SHostfs]" "la_services s1 = no_services\<lparr>ss_hostfs_mounts := Some ms\<rparr>"
    using assms(1,2) by (auto dest!: started_ok)
  show ?case
  proof (rule sbindI, goal_cases)
    case (1 s e)
    then show ?case using s1
      by (auto dest!: started_failed simp: start_outcome_def consistent_def running_def no_services_def)
  next
    case (2 s2 y)
    then obtain x where s2: "la_trace s2 = [Start SHostfs, Start SEgress]"
      "la_services s2 = no_services\<lparr>ss_hostfs_mounts := Some ms, ss_egress := Some x\<rparr>"
      using s1 by (auto dest!: started_ok)
    let ?s = "s2\<lparr>la_services := (la_services s2)\<lparr>ss_clock_sync := Some clock, ss_helios_rpc := Some (HeliosRpcService_start cfg)\<rparr>,
      la_trace := base_trace\<rparr>"
    have "base_started cfg ?s" using s2 by (simp add: base_started_def running_def no_services_def)
    then show ?case using s2 rest [of ?s] by (simp add: started_def base_trace_def)
  qed
qed

lemma ingress_outcome:
  assumes "consistent s6" and "Entrypoint \<notin> set (la_trace s6)" and ready: "helios_ready (le_report N) cfg"
    and t: "la_trace s6 = base_trace @ wait_trace cfg @ [Start SCapsuleApi, Start SAuxApi]"
    and "running (la_services s6) = [SAuxApi, SCapsuleApi, SHelios, SClockSync, SEgress, SHostfs]"
  shows "start_outcome N cfg (started SIngress (\<lambda>x ss. ss\<lparr>ss_ingress := Some x\<rparr>) i s6)"
proof -
  obtain s7 r where r: "started SIngress (\<lambda>x ss. ss\<lparr>ss_ingress := Some x\<rparr>) i s6 = (s7, r)" by fastforce
  show ?thesis
  proof (cases r)
    case (Inl e)
    have same: "la_trace s7 = la_trace s6" "la_services s7 = la_services s6" using started_failed [OF r [unfolded Inl]] by simp_all
    then have "consistent s7" "Entrypoint \<notin> set (la_trace s7)" using assms(1,2) by (simp_all add: consistent_def)
    then show ?thesis using Inl r ready by (auto simp: start_outcome_def)
  next
    case (Inr u)
    from started_ok [OF r [unfolded Inr]] obtain ps where "la_trace s7 = la_trace s6 @ [Start SIngress]"
      "la_services s7 = (la_services s6)\<lparr>ss_ingress := Some ps\<rparr>" by blast
    moreover have "consistent s7" using calculation assms(1,5)
      by (auto simp: consistent_def live_append running_def split: if_splits)
    ultimately show ?thesis using r Inr assms
      by (auto simp: start_outcome_def full_trace_def base_trace_def wait_trace_def)
  qed
qed

lemma start_services_outcome:
  assumes "la_trace st = []" and "la_services st = no_services"
  shows "start_outcome N cfg (start_services N cfg ports st)"
  unfolding start_services_def Let_def
proof (rule base_services_outcome [OF assms], goal_cases)
  case (1 s4)
  then have s4: "la_trace s4 = base_trace" "ss_helios_rpc (la_services s4) = Some (HeliosRpcService_start cfg)"
    "running (la_services s4) = [SHelios, SClockSync, SEgress, SHostfs]" by (simp_all add: base_started_def)
  show ?case
  proof (rule sbindI, goal_cases)
    case (1 s e)
    from wait_for_helios_outcome [OF 1 s4(1,2)] show ?case
      by (auto simp: start_outcome_def consistent_def s4(3) base_trace_def)
  next
    case (2 s5 y)
    note w = wait_for_helios_outcome [OF 2 s4(1,2)]
    have s5: "la_trace s5 = base_trace @ wait_trace cfg" "running (la_services s5) = [SHelios, SClockSync, SEgress, SHostfs]"
      and ready: "helios_ready (le_report N) cfg" using w s4(3) by auto
    show ?case
    proof (rule sbindI, goal_cases)
      case (1 s e)
      from stack_outcome [OF 1 s5] show ?case by (simp add: start_outcome_def ready)
    next
      case (2 s6 y)
      from stack_outcome [OF 2 s5] show ?case by (intro ingress_outcome) (auto simp: ready)
    qed
  qed
qed

subsection \<open>Main results\<close>

lemma launch_cases:
  assumes "launch N args cfg w = (st, r)"
  shows "la_trace st = [] \<and> la_services st = no_services \<and> (\<exists>e. r = Inl e) \<or>
    (\<exists>ports st0 st1 r1. la_trace st0 = [] \<and> la_services st0 = no_services \<and>
       sbind (start_services N cfg ports st0) (\<lambda>st _. run_entrypoint N args st) = (st1, r1) \<and> st = shutdown st1 \<and> r = r1)"
proof -
  obtain w1 r1 where b: "(if ar_no_bootstrap args then (w, Inr ()) else bootstrap (le_enclave N) w) = (w1, r1)" by fastforce
  let ?st = "\<lparr>la_world = w1, la_services = no_services, la_trace = []\<rparr>"
  show ?thesis
  proof (cases r1)
    case (Inl e)
    then show ?thesis using assms b by (auto simp: launch_def Let_def)
  next
    case (Inr u)
    show ?thesis
    proof (cases "\<exists>ports. for_local_enclave (le_local_cid N) = Inr ports \<and>
        log_launch_plan (sv_parse_uri (le_services N)) cfg ports = Inr ()")
      case True
      then obtain ports where p: "for_local_enclave (le_local_cid N) = Inr ports"
        "log_launch_plan (sv_parse_uri (le_services N)) cfg ports = Inr ()" by blast
      obtain st1 r2 where s: "sbind (start_services N cfg ports ?st) (\<lambda>st _. run_entrypoint N args st) = (st1, r2)" by fastforce
      have "st = shutdown st1 \<and> r = r2" using assms b Inr p s by (simp add: launch_def Let_def)
      then show ?thesis using s by (intro disjI2 exI [of _ ports] exI [of _ ?st] exI [of _ st1] exI [of _ r2]) simp
    next
      case False
      then show ?thesis using assms b Inr
        by (cases "for_local_enclave (le_local_cid N)";
            cases "log_launch_plan (sv_parse_uri (le_services N)) cfg (projr (for_local_enclave (le_local_cid N)))")
           (auto simp: launch_def Let_def)
    qed
  qed
qed

lemma shutdown_clean: "consistent st \<Longrightarrow> live (la_trace (shutdown st)) [] = Some []"
proof -
  have "live (map Stop ks) ks = Some []" for ks by (induction ks) simp_all
  then show "consistent st \<Longrightarrow> live (la_trace (shutdown st)) [] = Some []"
    by (simp add: consistent_def shutdown_def live_append)
qed

lemma run_entrypoint_state:
  "run_entrypoint N args st = (st', r) \<Longrightarrow> la_trace st' = la_trace st @ [Entrypoint] \<and> la_services st' = la_services st"
  by (auto simp: run_entrypoint_def split: prod.splits)

lemma launch_outcome:
  assumes "launch N args cfg w = (st, r)"
  shows "live (la_trace st) [] = Some [] \<and> la_services st = no_services \<and>
    (Start SCapsuleApi \<in> set (la_trace st) \<longrightarrow> helios_ready (le_report N) cfg) \<and>
    (Entrypoint \<in> set (la_trace st) \<longrightarrow> la_trace st = full_trace cfg @ [Entrypoint] @
       map Stop [SIngress, SAuxApi, SCapsuleApi, SHelios, SClockSync, SEgress, SHostfs]) \<and>
    (is_ok r \<longrightarrow> Entrypoint \<in> set (la_trace st))"
  using launch_cases [OF assms]
proof (elim disjE exE conjE)
  fix ports st0 st1 r1
  assume st0: "la_trace st0 = []" "la_services st0 = no_services"
    and run: "sbind (start_services N cfg ports st0) (\<lambda>st _. run_entrypoint N args st) = (st1, r1)"
    and st: "st = shutdown st1" "r = r1"
  obtain s2 r2 where s2: "start_services N cfg ports st0 = (s2, r2)" by fastforce
  have out: "start_outcome N cfg (s2, r2)" using start_services_outcome [OF st0, of N cfg ports] s2 by simp
  have stops: "e \<in> set (la_trace (shutdown s)) \<longleftrightarrow> e \<in> set (la_trace s)" if "\<forall>k. e \<noteq> Stop k" for e s
    using that by (auto simp: shutdown_def)
  show ?thesis
  proof (cases r2)
    case (Inl e)
    then have "st1 = s2" "r1 = Inl e" using run s2 by auto
    then show ?thesis using out st stops shutdown_clean [of s2] by (auto simp: start_outcome_def shutdown_def)
  next
    case (Inr u)
    then have e: "run_entrypoint N args s2 = (st1, r1)" using run s2 by simp
    note t = run_entrypoint_state [OF e]
    have full: "la_trace s2 = full_trace cfg" "helios_ready (le_report N) cfg" "consistent s2"
      using out Inr by (simp_all add: start_outcome_def)
    have "live (full_trace cfg) [] = Some [SIngress, SAuxApi, SCapsuleApi, SHelios, SClockSync, SEgress, SHostfs]"
      by (simp add: full_trace_def base_trace_def wait_trace_def)
    then have "running (la_services s2) = [SIngress, SAuxApi, SCapsuleApi, SHelios, SClockSync, SEgress, SHostfs]"
      using full(1,3) by (simp add: consistent_def)
    moreover have "consistent st1" using full(3) t by (simp add: consistent_def live_append)
    ultimately show ?thesis using full t st shutdown_clean [of st1] by (simp add: shutdown_def)
  qed
qed (auto simp: is_ok_def)

text \<open>
  C30. Start-up and shutdown of the runtime: whatever fails, every service that was started is stopped, in
  the reverse order, and none is left. The entrypoint runs only after all services have started, in
  the documented order with ingress last, and it has run whenever an exit status is reported.
\<close>

theorem launch_order:
  assumes "launch N args cfg w = (st, r)"
  shows "live (la_trace st) [] = Some [] \<and> la_services st = no_services \<and>
    (Entrypoint \<in> set (la_trace st) \<longrightarrow>
       starts (la_trace st) = [SHostfs, SEgress, SClockSync, SHelios, SCapsuleApi, SAuxApi, SIngress] \<and>
       (\<exists>before after. la_trace st = before @ [Entrypoint] @ after \<and> stops before = [] \<and> starts after = [])) \<and>
    (\<forall>e. r = Inr e \<longrightarrow> Entrypoint \<in> set (la_trace st))"
proof -
  note out = launch_outcome [OF assms]
  have full: "starts (full_trace cfg) = [SHostfs, SEgress, SClockSync, SHelios, SCapsuleApi, SAuxApi, SIngress]"
    "stops (full_trace cfg) = []"
    by (simp_all add: full_trace_def base_trace_def wait_trace_def)
  have "\<exists>before after. la_trace st = before @ [Entrypoint] @ after \<and> stops before = [] \<and> starts after = []"
    if "Entrypoint \<in> set (la_trace st)"
    using out that full(2)
    by (intro exI [of _ "full_trace cfg"] exI [of _ "map Stop [SIngress, SAuxApi, SCapsuleApi, SHelios, SClockSync, SEgress, SHostfs]"]) simp
  moreover have "starts (la_trace st) = [SHostfs, SEgress, SClockSync, SHelios, SCapsuleApi, SAuxApi, SIngress]"
    if "Entrypoint \<in> set (la_trace st)"
    using out that by (simp add: full)
  ultimately show ?thesis using out by (auto simp: is_ok_def)
qed

lemma helios_ports_distinct:
  "manifest_ok hexd lc (cf_manifest cfg) \<Longrightarrow> distinct (map hrc_listen_port (helios_configs cfg))"
  by (rule helios_configs_distinct [of cfg lc]) (simp add: manifest_ok_def)

lemma registry_chain_configured:
  assumes "manifest_ok hexd lc (cf_manifest cfg)" and "kms_needs_helios cfg"
  shows "\<exists>i < length (helios_configs cfg). hrc_listen_port (helios_configs cfg ! i) = KMS_REGISTRY_HELIOS_PORT"
proof -
  obtain k where "mf_kms_integration (cf_manifest cfg) = Some k" "kms_enabled k" "registry_discovery_configured k"
    using assms(2) by (auto simp: kms_needs_helios_def kms_integration_config_def opt_filter_def split: option.splits if_splits)
  then obtain h cs where h: "mf_helios_rpc (cf_manifest cfg) = Some h" "hr_enabled h" "hr_chains h = Some cs"
    and port: "KMS_REGISTRY_HELIOS_PORT \<in> hc_local_rpc_port ` set cs"
    using assms(1) unfolding manifest_ok_def registry_reachable_def by blast
  then have "helios_configs cfg = map helios_runtime cs" by (simp add: helios_configs_def opt_filter_def)
  moreover obtain i where "i < length cs" "hc_local_rpc_port (cs ! i) = KMS_REGISTRY_HELIOS_PORT"
    using port by (auto simp: in_set_conv_nth)
  ultimately show ?thesis by (auto simp: helios_runtime_def intro!: exI [of _ i])
qed

text \<open>
  C31. The KMS trusts only a verified chain: when the runtime starts from its manifest and the KMS reads the
  registry, the Capsule API is started only after the light client that serves the registry port
  has reported that it is in sync.
\<close>

theorem kms_waits_for_light_client:
  assumes run: "main_runtime N format_fatal_error uri_text args (parse_manifest yaml hexd lc) readf w = Inr (env, st, status)"
    and loaded: "load_blocking (parse_manifest yaml hexd lc) readf (ar_config_dir args) = Inr cfg"
    and kms: "kms_needs_helios cfg" and api: "Start SCapsuleApi \<in> set (la_trace st)"
  shows "\<exists>i < length (helios_configs cfg).
    hrc_listen_port (helios_configs cfg ! i) = KMS_REGISTRY_HELIOS_PORT \<and> le_report N i = Some True"
proof -
  obtain r where launched: "launch N args cfg w = (st, r)"
    using run loaded by (auto simp: main_runtime_def split: sum.splits prod.splits)
  have valid: "manifest_ok hexd lc (cf_manifest cfg)" using load_blocking_cases [OF loaded] by simp
  obtain i where i: "i < length (helios_configs cfg)" "hrc_listen_port (helios_configs cfg ! i) = KMS_REGISTRY_HELIOS_PORT"
    using registry_chain_configured [OF valid kms] by blast
  have "helios_ready (le_report N) cfg" using launch_outcome [OF launched] api by blast
  then have "snd (helios_wait_ready_for_port (le_report N) KMS_REGISTRY_HELIOS_PORT (HeliosRpcService_start cfg))"
    using kms by (simp add: helios_ready_def)
  then have "unwrap_or False (le_report N i)"
    using wait_for_tracked_port [OF started_tracked [OF helios_ports_distinct [OF valid]] started_rx [OF i(1)]] i(2) by simp
  then show ?thesis using i by (cases "le_report N i") auto
qed

subsection \<open>A concrete launch\<close>

text \<open>An application with the KMS and one light client on the registry port, launched without bootstrap.\<close>

definition demo_chain :: helios_rpc_chain where
  "demo_chain = \<lparr>hc_name = ''base'', hc_network_id = None, hc_kind = Opstack, hc_network = ''base'', hc_execution_rpc = ''x'',
     hc_consensus_rpc = None, hc_checkpoint = None, hc_local_rpc_port = KMS_REGISTRY_HELIOS_PORT\<rparr>"

definition demo_launch_manifest :: manifest where
  "demo_launch_manifest = demo_config_manifest\<lparr>mf_kms_integration := Some demo_config,
     mf_helios_rpc := Some \<lparr>hr_enabled = True, hr_chains = Some [demo_chain]\<rparr>\<rparr>"

definition demo_launch_config :: configuration where
  "demo_launch_config = from_manifest ''/etc'' demo_launch_manifest"

definition demo_launch :: "(unit, unit, unit, unit) launch_env" where
  "demo_launch = \<lparr>
     le_enclave = \<lparr>eo_link_up = (\<lambda>_ w. (w, Inl [])), eo_random = (\<lambda>w. (w, Inl [])), eo_write = (\<lambda>_ _ w. (w, Inl []))\<rparr>,
     le_services = \<lparr>sv_parse_uri = (\<lambda>_. None), sv_http_client = (\<lambda>_. Inl []), sv_imds = (\<lambda>_ w. (w, Inl [])),
       sv_aws_config = (\<lambda>w. (w, Inl [])),
       sv_s3_client = (\<lambda>_. \<lparr>sc_get = (\<lambda>_ _ w. (w, Inl NoSuchKey)), sc_put = (\<lambda>_ _ _ _ _ w. (w, Inl [])),
         sc_delete = (\<lambda>_ _ w. (w, Inl [])), sc_list = (\<lambda>_ _ w. (w, Inl []))\<rparr>),
       sv_text = demo_text, sv_kms_clients = Inr (), sv_bind = (\<lambda>_ w. (w, Inr ())), sv_handler = (\<lambda>_ _. Inr ()),
       sv_upstream = (\<lambda>_ _ _. RequestFailed), sv_uri_ok = (\<lambda>_. True)\<rparr>,
     le_start_mount = (\<lambda>_ _ w. (w, Inr ())), le_fuse = Inr (), le_parse_net = (\<lambda>_. None), le_egress_bind = (\<lambda>_. True),
     le_local_cid = Some 16, le_report = (\<lambda>_. Some True), le_child = (\<lambda>_ _ _ w. (w, Inr (Exited 0)))\<rparr>"

definition demo_args :: cli_args where
  "demo_args = \<lparr>ar_no_bootstrap = True, ar_no_console = True, ar_config_dir = ''/etc'', ar_work_dir = None,
     ar_entrypoint = [''app''], ar_verbosity = 0\<rparr>"

lemma demo_launch_manifest_ok: "manifest_ok (\<lambda>_. Some []) id demo_launch_manifest"
proof -
  have "registry_ok (\<lambda>_. Some []) demo_config"
    by (simp add: registry_ok_def demo_config_def trim_demo) (simp add: demo_wallet_def)
  moreover have "helios_ok id \<lparr>hr_enabled = True, hr_chains = Some [demo_chain]\<rparr>"
    by (simp add: helios_ok_def chain_ok_def demo_chain_def trim_visible visible_ascii_def supported_networks_def opstack_networks_def)
  ultimately show ?thesis
    by (simp add: manifest_ok_def demo_launch_manifest_def demo_config_manifest_def kms_ok_def demo_chain_def
        hostfs_mounts_def effective_clock_sync_def default_clock_sync_def api_ports_ok_def effective_aux_api_port_def
        checked_add_def registry_reachable_def demo_config_def)
qed

lemma demo_kms_enabled: "kms_enabled demo_config" "kms_app_id demo_config \<noteq> None"
  by (simp_all add: demo_config_def)

lemma demo_registry_set: "registry_set demo_config"
  by (simp add: registry_set_def demo_config_def trim_demo) (simp add: demo_wallet_def)

lemma demo_launch_config_fields [simp]:
  "api_port demo_launch_config = Some 9000" "s3_config demo_launch_config = None"
  "kms_integration_config demo_launch_config = Some demo_config" "helios_configs demo_launch_config = [helios_runtime demo_chain]"
  "kms_needs_helios demo_launch_config" "cf_listener_ports demo_launch_config = []"
  "hostfs_mounts (cf_manifest demo_launch_config) = None" "egress_proxy_uri parse_uri demo_launch_config = Inr None"
  "aux_api_port demo_launch_config = Some 9001"
  by (simp_all add: demo_launch_config_def demo_launch_manifest_def from_manifest_def demo_config_manifest_def api_port_def s3_config_def
      kms_integration_config_def opt_filter_def demo_kms_enabled helios_configs_def kms_needs_helios_def
      registry_discovery_configured_def demo_registry_set hostfs_mounts_def egress_proxy_uri_def egress_proxy_enabled_def
      aux_api_port_def effective_aux_api_port_def checked_add_def)

lemma demo_wait:
  "helios_wait_ready_for_port (\<lambda>_. Some True) KMS_REGISTRY_HELIOS_PORT (HeliosRpcService_start demo_launch_config) =
     (\<lparr>hs_tasks = [0], hs_ready_rxs = []\<rparr>, True)"
  by (simp add: helios_wait_ready_for_port_def HeliosRpcService_start_def helios_runtime_def demo_chain_def port_position_def
      swap_remove_def)

lemma demo_launch_run:
  "\<exists>st. launch demo_launch demo_args demo_launch_config () = (st, Inr (Exited 0)) \<and> Start SCapsuleApi \<in> set (la_trace st)"
proof -
  obtain ports where ports: "for_local_enclave (Some 16) = Inr ports"
    using for_cid_ok [of 16] by (auto simp: for_local_enclave_def)
  have plan: "log_launch_plan (sv_parse_uri (le_services demo_launch)) demo_launch_config ports = Inr ()"
    by (simp add: log_launch_plan_def)
  obtain api where api: "CapsuleApiService_start (le_services demo_launch) demo_launch_config () = ((), Inr (Some api))"
    by (simp add: CapsuleApiService_start_def make_s3_proxy_def make_nova_kms_def demo_launch_def demo_init_at attach_kms_def
        text_step_def)
  obtain aux where aux: "AuxApiService_start (le_services demo_launch) demo_launch_config () = ((), Inr (Some aux))"
    by (simp add: AuxApiService_start_def demo_launch_def text_step_def)
  have env: "le_report demo_launch = (\<lambda>_. Some True)" "le_local_cid demo_launch = Some 16" "ar_no_bootstrap demo_args"
    "le_child demo_launch = (\<lambda>_ _ _ w. (w, Inr (Exited 0)))" by (simp_all add: demo_launch_def demo_args_def)
  show ?thesis
    by (simp add: launch_def env ports plan start_services_def started_def HostFsMountService_start_def EgressService_start_def
        wait_for_helios_def demo_wait start_capsule_api_stack_def api aux IngressService_start_def run_entrypoint_def
        no_services_def shutdown_def Let_def)
qed

theorem launch_order_witness:
  "\<exists>st. launch demo_launch demo_args demo_launch_config () = (st, Inr (Exited 0)) \<and>
     starts (la_trace st) = [SHostfs, SEgress, SClockSync, SHelios, SCapsuleApi, SAuxApi, SIngress] \<and> live (la_trace st) [] = Some []"
proof -
  obtain st where st: "launch demo_launch demo_args demo_launch_config () = (st, Inr (Exited 0))"
    using demo_launch_run by blast
  from launch_order [OF st] st show ?thesis by blast
qed

lemma demo_launch_loaded:
  "load_blocking (parse_manifest (\<lambda>_. Some demo_launch_manifest) (\<lambda>_. Some []) id) (\<lambda>_. Some []) ''/etc'' = Inr demo_launch_config"
proof -
  have "components (push_name ''/etc'' MANIFEST_FILE_NAME) \<noteq> components ''-''"
    by (simp add: push_name_def MANIFEST_FILE_NAME_def components_def part_component_def starts_with_def Let_def)
  then show ?thesis using demo_launch_manifest_ok
    by (simp add: load_blocking_def load_manifest_sync_def parse_manifest_decides [THEN iffD2] demo_launch_config_def)
qed

theorem kms_waits_for_light_client_witness:
  "\<exists>env st status.
     main_runtime demo_launch (\<lambda>_. []) (\<lambda>_. []) demo_args (parse_manifest (\<lambda>_. Some demo_launch_manifest) (\<lambda>_. Some []) id)
       (\<lambda>_. Some []) () = Inr (env, st, status) \<and> Start SCapsuleApi \<in> set (la_trace st) \<and> le_report demo_launch 0 = Some True"
proof -
  obtain st where st: "launch demo_launch demo_args demo_launch_config () = (st, Inr (Exited 0))"
    "Start SCapsuleApi \<in> set (la_trace st)"
    using demo_launch_run by blast
  have dir: "ar_config_dir demo_args = ''/etc''" by (simp add: demo_args_def)
  have run: "main_runtime demo_launch (\<lambda>_. []) (\<lambda>_. []) demo_args
      (parse_manifest (\<lambda>_. Some demo_launch_manifest) (\<lambda>_. Some []) id) (\<lambda>_. Some []) () = Inr ([], st, StExited (Exited 0))"
    using st(1) by (simp add: main_runtime_def dir demo_launch_loaded egress_proxy_env_vars_def run_status_def)
  from kms_waits_for_light_client [OF run _ _ st(2), unfolded dir, OF demo_launch_loaded] run st(2) show ?thesis by auto
qed

end
