(* ===== verification/Nitro_Cli.thy ===== *)
theory Nitro_Cli
  imports Launcher Vsock_Ports Manifest Hostfs_Service
begin

text \<open>
  The wrapper around the \<open>nitro-cli\<close> command (\<open>nitro_cli.rs\<close>): command lines, running a command and
  reading its JSON answer, and the classification of failures.  Processes, UTF-8 and serde are
  arguments.
\<close>

subsection \<open>Errors of the host side\<close>

record command_output =
  co_success :: bool
  co_status :: string
  co_stdout :: bytes
  co_stderr :: bytes

record nitro_cli_command_failure =
  cf_command :: string
  cf_status :: string
  cf_stderr :: string

text \<open>An \<open>anyhow\<close> error: a cause below any number of contexts.\<close>

datatype host_error =
    HText string
  | HBind bind_error
  | HIo io_error
  | HVsock vsock_error
  | HLoad load_error
  | HCommand nitro_cli_command_failure
  | HContext string host_error

fun chain :: "host_error \<Rightarrow> host_error list" where
  "chain (HContext t e) = HContext t e # chain e"
| "chain e = [e]"

definition stderr_mentions_cid_conflict :: "string \<Rightarrow> bool" where
  "stderr_mentions_cid_conflict stderr =
     (let stderr = to_ascii_lowercase stderr in
      contains_str stderr ''cid'' \<and>
      list_ex (contains_str stderr)
        [''already in use'', ''already used'', ''used by another enclave'', ''in use by another enclave''])"

definition indicates_cid_conflict :: "nitro_cli_command_failure \<Rightarrow> bool" where
  "indicates_cid_conflict f = stderr_mentions_cid_conflict (cf_stderr f)"

definition command_failure_text :: "nitro_cli_command_failure \<Rightarrow> string" where
  "command_failure_text f =
     (let stderr = trim (cf_stderr f);
          head = ''nitro-cli command '' @ [CHR 0x27] @ cf_command f @ [CHR 0x27] @ '' failed ('' @ cf_status f @ '')''
      in if stderr = [] then head else head @ '': '' @ stderr)"

subsection \<open>Command lines\<close>

record enclave_info =
  ei_name :: string
  ei_id :: string
  ei_process_id :: int
  ei_cid :: u32

record eif_measurements =
  em_pcr0 :: string
  em_pcr1 :: string
  em_pcr2 :: string
  em_pcr8 :: "string option"

record run_enclave_args =
  rg_cpu_count :: int
  rg_memory_mb :: int
  rg_eif_path :: string
  rg_cid :: "u32 option"
  rg_debug_mode :: bool

definition run_enclave_to_args :: "run_enclave_args \<Rightarrow> (host_error, string list) result" where
  "run_enclave_to_args a =
     rbind (bail_if (rg_cpu_count a < 1) (HText (''at least 1 CPU is required, got: '' @ show_int (rg_cpu_count a)))) (\<lambda>_.
     rbind (bail_if (rg_memory_mb a < 64)
              (HText (''at least 64MiB of memory are required, got: '' @ show_int (rg_memory_mb a)))) (\<lambda>_.
     Inr ([''run-enclave'', ''--cpu-count'', show_int (rg_cpu_count a), ''--memory'', show_int (rg_memory_mb a),
           ''--eif-path'', rg_eif_path a] @
          (case rg_cid a of Some cid \<Rightarrow> [''--enclave-cid'', show_nat (unat cid)] | None \<Rightarrow> []) @
          (if rg_debug_mode a then [''--debug-mode''] else []))))"

definition describe_enclaves_to_args :: "string list" where
  "describe_enclaves_to_args = [''describe-enclaves'']"

definition terminate_enclave_to_args :: "string \<Rightarrow> string list" where
  "terminate_enclave_to_args enclave_id = [''terminate-enclave'', ''--enclave-id'', enclave_id]"

definition attach_console_to_args :: "string \<Rightarrow> string list" where
  "attach_console_to_args enclave_id = [''console'', ''--enclave-id'', enclave_id]"

definition describe_eif_to_args :: "string \<Rightarrow> string list" where
  "describe_eif_to_args eif_path = [''describe-eif'', ''--eif-path'', eif_path]"

subsection \<open>Running commands\<close>

text \<open>\<open>str::lines\<close>: a carriage return goes only together with the newline after it.\<close>

definition strip_cr :: "string \<Rightarrow> string" where
  "strip_cr l = unwrap_or l (strip_suffix [CHR 0x0D] l)"

definition str_lines :: "string \<Rightarrow> string list" where
  "str_lines s = (let ps = split_on (CHR 0x0A) s in map strip_cr (butlast ps) @ (if last ps = [] then [] else [last ps]))"

record ('c, 'w) nitro_ops =
  no_spawn :: "string list \<Rightarrow> 'w \<Rightarrow> 'w \<times> (string, 'c) result"
  no_wait :: "'c \<Rightarrow> 'w \<Rightarrow> 'w \<times> (string, command_output) result"
  no_utf8 :: "bytes \<Rightarrow> (string, string) result"
  no_read :: "string \<Rightarrow> 'w \<Rightarrow> (string, string) result"
  no_info :: "bytes \<Rightarrow> (string, enclave_info) result"
  no_infos :: "bytes \<Rightarrow> (string, enclave_info list) result"
  no_terminated :: "bytes \<Rightarrow> (string, bool) result"
  no_measurements :: "bytes \<Rightarrow> (string, eif_measurements) result"

type_synonym ('w, 'a) host_step = "'w \<times> (host_error, 'a) result"

definition join_args :: "string list \<Rightarrow> string" where
  "join_args args = concat (map (\<lambda>(i, a). if i = 0 then a else '' '' @ a) (enumerate 0 args))"

definition SUPPORT_TICKET_PREFIX :: string where
  "SUPPORT_TICKET_PREFIX =
     ''If you open a support ticket, please provide the error log found at '' @ [CHR 0x22]"

definition error_log_path :: "string \<Rightarrow> string option" where
  "error_log_path line = Option.bind (strip_prefix SUPPORT_TICKET_PREFIX line) (strip_suffix [CHR 0x22])"

text \<open>The logs that the command names are read for the log; the first that cannot be read ends the call.\<close>

fun read_error_logs :: "('c, 'w) nitro_ops \<Rightarrow> 'w \<Rightarrow> string list \<Rightarrow> (host_error, unit) result" where
  "read_error_logs ops w [] = Inr ()"
| "read_error_logs ops w (path # paths) =
     rbind (map_err HText (no_read ops path w)) (\<lambda>_. read_error_logs ops w paths)"

definition run_and_deserialize_output ::
  "('c, 'w) nitro_ops \<Rightarrow> (bytes \<Rightarrow> (string, 'a) result) \<Rightarrow> (host_error, string list) result \<Rightarrow> 'w \<Rightarrow> ('w, 'a) host_step" where
  "run_and_deserialize_output ops parse args w =
     sbind (w, args) (\<lambda>w cmd_args.
     sbind (case no_spawn ops cmd_args w of (w, r) \<Rightarrow> (w, map_err (\<lambda>e. HText (''failed to execute nitro-cli: '' @ e)) r)) (\<lambda>w child.
     sbind (case no_wait ops child w of (w, r) \<Rightarrow> (w, map_err HText r)) (\<lambda>w output.
     (w, if co_success output then map_err HText (parse (co_stdout output))
         else
           rbind (map_err HText (no_utf8 ops (co_stderr output))) (\<lambda>stderr.
           rbind (read_error_logs ops w (List.map_filter error_log_path (str_lines stderr))) (\<lambda>_.
           Inl (HCommand \<lparr>cf_command = join_args cmd_args, cf_status = co_status output, cf_stderr = stderr\<rparr>)))))))"

definition run_enclave :: "('c, 'w) nitro_ops \<Rightarrow> run_enclave_args \<Rightarrow> 'w \<Rightarrow> ('w, enclave_info) host_step" where
  "run_enclave ops args w = run_and_deserialize_output ops (no_info ops) (run_enclave_to_args args) w"

definition describe_enclaves :: "('c, 'w) nitro_ops \<Rightarrow> 'w \<Rightarrow> ('w, enclave_info list) host_step" where
  "describe_enclaves ops w = run_and_deserialize_output ops (no_infos ops) (Inr describe_enclaves_to_args) w"

definition terminate_enclave :: "('c, 'w) nitro_ops \<Rightarrow> string \<Rightarrow> 'w \<Rightarrow> ('w, unit) host_step" where
  "terminate_enclave ops enclave_id w =
     sbind (run_and_deserialize_output ops (no_terminated ops) (Inr (terminate_enclave_to_args enclave_id)) w) (\<lambda>w terminated.
     (w, if terminated then Inr () else Inl (HText ''nitro-cli failed to terminate enclave'')))"

definition describe_eif :: "('c, 'w) nitro_ops \<Rightarrow> string \<Rightarrow> 'w \<Rightarrow> ('w, eif_measurements) host_step" where
  "describe_eif ops eif_path w = run_and_deserialize_output ops (no_measurements ops) (Inr (describe_eif_to_args eif_path)) w"

text \<open>The console process; its standard output is piped, so \<open>into_parts\<close> does not fail.\<close>

definition nitro_console :: "('c, 'w) nitro_ops \<Rightarrow> string \<Rightarrow> 'w \<Rightarrow> ('w, 'c) host_step" where
  "nitro_console ops enclave_id w =
     (case no_spawn ops (attach_console_to_args enclave_id) w of
        (w, r) \<Rightarrow> (w, map_err (\<lambda>e. HText (''failed to execute nitro-cli: '' @ e)) r))"

subsection \<open>Known issues of the image conversion\<close>

datatype known_issue = ImageTooLargeForRAM | OutOfDiskSpace

text \<open>The raw text holds backslashes and the letter n, not newlines.\<close>

definition RAMFS_TRACE :: string where
  "RAMFS_TRACE = ''rootfs/tmp'' @ [CHR 0x5C] @ ''n  cmd'' @ [CHR 0x5C] @ ''n  env'' @ [CHR 0x5C] @ ''nCreate outputs:'' @
     [CHR 0x5C, CHR ''n'', CHR 0x22]"

definition detect_known_issue :: "string \<Rightarrow> known_issue option" where
  "detect_known_issue line =
     (if contains_str line RAMFS_TRACE then Some ImageTooLargeForRAM
      else if contains_str line ''no space left on device'' then Some OutOfDiskSpace
      else None)"

subsection \<open>Facts\<close>

text \<open>Numbers that are too small never reach the command.\<close>

lemma run_enclave_too_small:
  "rg_cpu_count a < 1 \<or> rg_memory_mb a < 64 \<Longrightarrow> \<exists>e. run_enclave ops a w = (w, Inl e)"
  by (cases "rg_cpu_count a < 1")
     (simp_all add: run_enclave_def run_and_deserialize_output_def run_enclave_to_args_def)

text \<open>
  A conflicting CID is reported as such only if every log that the command names can be read: the
  failure to read one hides it.
\<close>

lemma unreadable_log_hides_conflict:
  assumes "no_spawn ops args w = (w, Inr c)" and "no_wait ops c w = (w, Inr out)" and "\<not> co_success out"
    and "no_utf8 ops (co_stderr out) = Inr stderr" and "List.map_filter error_log_path (str_lines stderr) = [path]"
    and "no_read ops path w = Inl e"
  shows "run_and_deserialize_output ops parse (Inr args) w = (w, Inl (HText e))"
  using assms by (simp add: run_and_deserialize_output_def)

end
