(* ===== verification/Hostfs_Loopback.thy ===== *)
theory Hostfs_Loopback
  imports Manifest Hostfs_Service
begin

text \<open>
  Host-side preparation of hostfs mounts (\<open>hostfs.rs\<close>): parsing \<open>--mount NAME=PATH\<close>, matching the
  bindings with the manifest's mounts, and the life cycle of a loopback image.  The host's commands
  and file calls are a record of functions over a host state \<open>'h\<close>, so that every order of success
  and failure is covered.
\<close>

subsection \<open>Bindings and requests\<close>

definition HOSTFS_META_DIR :: string where "HOSTFS_META_DIR = ''.capsule-hostfs''"
definition CONTAINER_HOSTFS_ROOT :: string where "CONTAINER_HOSTFS_ROOT = ''/mnt/capsule-hostfs-data''"

record runtime_mount_binding =
  rb_name :: string
  rb_host_path :: string

record loopback_mount_request =
  lr_name :: string
  lr_host_state_dir :: path
  lr_container_mount_path :: path
  lr_enclave_mount_path :: string
  lr_size_mb :: u64
  lr_required :: bool

datatype loopback_error =
    BindingSyntax string
  | BindingNameMissing string
  | BindingPathMissing string
  | DuplicateBinding string
  | BindingsWithoutMounts
  | BindingWithoutMount string
  | RequiredMountUnbound string
  | SharedStateDir string string path
  | StateDirNotDirectory string
  | StateDirCreateFailed string
  | MetaDirCreateFailed string
  | LockOpenFailed string
  | LockBusy string
  | SizeOverflow string
  | ImageStatFailed
  | ImageSizeMismatch string u64 u64
  | ImageCreateFailed string
  | ImageSizeFailed string
  | FormatFailed string
  | MountpointCreateFailed string
  | MountFailed string
  | UmountFailed
  | RuntimeDirRemoveFailed

definition parse_runtime_mount_binding :: "string \<Rightarrow> (loopback_error, runtime_mount_binding) result" where
  "parse_runtime_mount_binding spec =
     rbind (ok_or (BindingSyntax spec) (split_once (CHR ''='') spec)) (\<lambda>(name, host_path).
     let name = trim name; host_path = trim host_path in
     rbind (bail_if (name = []) (BindingNameMissing spec)) (\<lambda>_.
     rbind (bail_if (host_path = []) (BindingPathMissing spec)) (\<lambda>_.
     Inr \<lparr>rb_name = name, rb_host_path = host_path\<rparr>)))"

definition binding_key :: "string \<Rightarrow> string" where
  "binding_key name = to_ascii_lowercase (trim name)"

fun index_bindings ::
  "(string \<times> runtime_mount_binding) list \<Rightarrow> runtime_mount_binding list
     \<Rightarrow> (loopback_error, (string \<times> runtime_mount_binding) list) result" where
  "index_bindings acc [] = Inr acc"
| "index_bindings acc (b # bs) =
     (let key = binding_key (rb_name b) in
      if map_of acc key \<noteq> None then Inl (DuplicateBinding (rb_name b))
      else index_bindings ((key, b) # acc) bs)"

definition check_binding ::
  "hostfs_mount_config list \<Rightarrow> runtime_mount_binding \<Rightarrow> (loopback_error, unit) result" where
  "check_binding mounts b =
     bail_if (\<not> list_ex (\<lambda>m. eq_ignore_ascii_case (hm_name m) (trim (rb_name b))) mounts)
       (BindingWithoutMount (rb_name b))"

definition mount_request ::
  "hostfs_mount_config \<Rightarrow> runtime_mount_binding \<Rightarrow> loopback_mount_request" where
  "mount_request m b =
     \<lparr>lr_name = hm_name m, lr_host_state_dir = components (rb_host_path b),
      lr_container_mount_path = path_join (components CONTAINER_HOSTFS_ROOT) (components (hm_name m)),
      lr_enclave_mount_path = hm_mount_path m, lr_size_mb = hm_size_mb m, lr_required = hm_required m\<rparr>"

fun collect_requests ::
  "(string \<times> runtime_mount_binding) list \<Rightarrow> hostfs_mount_config list
     \<Rightarrow> (loopback_error, loopback_mount_request list) result" where
  "collect_requests index [] = Inr []"
| "collect_requests index (m # ms) =
     (case map_of index (binding_key (hm_name m)) of
        None \<Rightarrow>
          if hm_required m then Inl (RequiredMountUnbound (hm_name m)) else collect_requests index ms
      | Some b \<Rightarrow> rbind (collect_requests index ms) (\<lambda>rs. Inr (mount_request m b # rs)))"

definition resolve_loopback_mounts ::
  "manifest \<Rightarrow> runtime_mount_binding list \<Rightarrow> (loopback_error, loopback_mount_request list) result" where
  "resolve_loopback_mounts m bindings =
     rbind (index_bindings [] bindings) (\<lambda>index.
     let mounts = unwrap_or [] (hostfs_mounts m) in
     rbind (bail_if (bindings \<noteq> [] \<and> mounts = []) BindingsWithoutMounts) (\<lambda>_.
     rbind (collect_results (check_binding mounts) bindings) (\<lambda>_.
     collect_requests index mounts)))"

subsection \<open>Preparing and cleaning up\<close>

record 'h loop_ops =
  lo_exists :: "'h \<Rightarrow> path \<Rightarrow> bool"
  lo_is_dir :: "'h \<Rightarrow> path \<Rightarrow> bool"
  lo_create_dir_all :: "'h \<Rightarrow> path \<Rightarrow> 'h \<times> bool"
  lo_open_lock :: "'h \<Rightarrow> path \<Rightarrow> 'h \<times> bool"
  lo_flock :: "'h \<Rightarrow> path \<Rightarrow> 'h \<times> bool"
  lo_len :: "'h \<Rightarrow> path \<Rightarrow> u64 option"
  lo_create_new :: "'h \<Rightarrow> path \<Rightarrow> 'h \<times> bool"
  lo_set_len :: "'h \<Rightarrow> path \<Rightarrow> u64 \<Rightarrow> 'h \<times> bool"
  lo_mkfs :: "'h \<Rightarrow> path \<Rightarrow> 'h \<times> bool"
  lo_mount :: "'h \<Rightarrow> path \<Rightarrow> path \<Rightarrow> 'h \<times> bool"
  lo_umount :: "'h \<Rightarrow> path \<Rightarrow> 'h \<times> bool"
  lo_remove_dir_all :: "'h \<Rightarrow> path \<Rightarrow> 'h \<times> bool"
  lo_uuid :: "'h \<Rightarrow> string"

record prepared_loopback_mount =
  pm_request :: loopback_mount_request
  pm_host_mount_path :: path
  pm_runtime_dir :: path
  pm_lock_path :: path
  pm_mounted :: bool

definition step_ok :: "'h \<times> bool \<Rightarrow> loopback_error \<Rightarrow> 'h \<times> (loopback_error, unit) result" where
  "step_ok r e = (fst r, bail_if (\<not> snd r) e)"

definition prepare_state_dir ::
  "'h loop_ops \<Rightarrow> loopback_mount_request \<Rightarrow> 'h \<Rightarrow> 'h \<times> (loopback_error, unit) result" where
  "prepare_state_dir ops req h =
     (if lo_exists ops h (lr_host_state_dir req) then
        (h, bail_if (\<not> lo_is_dir ops h (lr_host_state_dir req)) (StateDirNotDirectory (lr_name req)))
      else step_ok (lo_create_dir_all ops h (lr_host_state_dir req)) (StateDirCreateFailed (lr_name req)))"

text \<open>The disk image: reused if it has the expected size, else created, sized and formatted.\<close>

definition prepare_image ::
  "'h loop_ops \<Rightarrow> loopback_mount_request \<Rightarrow> path \<Rightarrow> u64 \<Rightarrow> 'h \<Rightarrow> 'h \<times> (loopback_error, unit) result" where
  "prepare_image ops req image_path expected_bytes h =
     (if lo_exists ops h image_path then
        (h, rbind (ok_or ImageStatFailed (lo_len ops h image_path)) (\<lambda>actual_bytes.
            bail_if (actual_bytes \<noteq> expected_bytes)
              (ImageSizeMismatch (lr_name req) actual_bytes expected_bytes)))
      else
        sbind (step_ok (lo_create_new ops h image_path) (ImageCreateFailed (lr_name req))) (\<lambda>h _.
        sbind (step_ok (lo_set_len ops h image_path expected_bytes) (ImageSizeFailed (lr_name req))) (\<lambda>h _.
        step_ok (lo_mkfs ops h image_path) (FormatFailed (lr_name req)))))"

definition prepare_loopback_mount ::
  "'h loop_ops \<Rightarrow> loopback_mount_request \<Rightarrow> 'h \<Rightarrow> 'h \<times> (loopback_error, prepared_loopback_mount) result" where
  "prepare_loopback_mount ops req h =
     (let meta_dir = path_join (lr_host_state_dir req) [Normal HOSTFS_META_DIR];
          lock_path = path_join meta_dir [Normal ''lock''];
          image_path = path_join meta_dir [Normal ''disk.img''] in
      sbind (prepare_state_dir ops req h) (\<lambda>h _.
      sbind (step_ok (lo_create_dir_all ops h meta_dir) (MetaDirCreateFailed (lr_name req))) (\<lambda>h _.
      sbind (step_ok (lo_open_lock ops h lock_path) (LockOpenFailed (lr_name req))) (\<lambda>h _.
      sbind (step_ok (lo_flock ops h lock_path) (LockBusy (lr_name req))) (\<lambda>h _.
      sbind (h, ok_or (SizeOverflow (lr_name req)) (checked_mul (lr_size_mb req) (1024 * 1024))) (\<lambda>h expected.
      sbind (prepare_image ops req image_path expected h) (\<lambda>h _.
      let runtime_dir = path_join meta_dir [Normal (''mnt-'' @ lo_uuid ops h)];
          host_mount_path = path_join runtime_dir [Normal ''data''] in
      sbind (step_ok (lo_create_dir_all ops h host_mount_path) (MountpointCreateFailed (lr_name req))) (\<lambda>h _.
      (case lo_mount ops h image_path host_mount_path of
         (h, False) \<Rightarrow>
           (case lo_remove_dir_all ops h runtime_dir of (h, _) \<Rightarrow> (h, Inl (MountFailed (lr_name req))))
       | (h, True) \<Rightarrow>
           (h, Inr \<lparr>pm_request = req, pm_host_mount_path = host_mount_path, pm_runtime_dir = runtime_dir,
                    pm_lock_path = lock_path, pm_mounted = True\<rparr>))))))))))"

definition cleanup ::
  "'h loop_ops \<Rightarrow> prepared_loopback_mount \<Rightarrow> 'h
     \<Rightarrow> ('h \<times> prepared_loopback_mount) \<times> (loopback_error, unit) result" where
  "cleanup ops pm h =
     (let (h1, pm1, err1) =
            (if pm_mounted pm then
               (case lo_umount ops h (pm_host_mount_path pm) of
                  (h1, False) \<Rightarrow> (h1, pm, Some UmountFailed)
                | (h1, True) \<Rightarrow> (h1, pm\<lparr>pm_mounted := False\<rparr>, None))
             else (h, pm, None));
          (h2, err2) =
            (if lo_exists ops h1 (pm_runtime_dir pm1) then
               (case lo_remove_dir_all ops h1 (pm_runtime_dir pm1) of
                  (h2, True) \<Rightarrow> (h2, err1)
                | (h2, False) \<Rightarrow> (h2, case err1 of None \<Rightarrow> Some RuntimeDirRemoveFailed | Some e \<Rightarrow> Some e))
             else (h1, err1))
      in ((h2, pm1), case err2 of None \<Rightarrow> Inr () | Some e \<Rightarrow> Inl e))"

definition container_bind :: "(path \<Rightarrow> string) \<Rightarrow> prepared_loopback_mount \<Rightarrow> string" where
  "container_bind display pm =
     display (pm_host_mount_path pm) @ '':'' @ display (lr_container_mount_path (pm_request pm)) @ '':rw''"

fun check_state_dirs ::
  "(path \<times> string) list \<Rightarrow> loopback_mount_request list \<Rightarrow> (loopback_error, unit) result" where
  "check_state_dirs seen [] = Inr ()"
| "check_state_dirs seen (r # rs) =
     (case map_of seen (lr_host_state_dir r) of
        Some existing \<Rightarrow> Inl (SharedStateDir existing (lr_name r) (lr_host_state_dir r))
      | None \<Rightarrow> check_state_dirs ((lr_host_state_dir r, lr_name r) # seen) rs)"

text \<open>Dropping a prepared mount cleans it up once more.\<close>

definition drop_mount :: "'h loop_ops \<Rightarrow> prepared_loopback_mount \<Rightarrow> 'h \<Rightarrow> 'h" where
  "drop_mount ops pm h = fst (fst (cleanup ops pm h))"

definition drop_mounts :: "'h loop_ops \<Rightarrow> prepared_loopback_mount list \<Rightarrow> 'h \<Rightarrow> 'h" where
  "drop_mounts ops pms h = foldl (\<lambda>h pm. drop_mount ops pm h) h pms"

text \<open>Cleaning up a list of mounts: the mounts as they are afterwards, and what each call returned.\<close>

fun cleanup_each ::
  "'h loop_ops \<Rightarrow> prepared_loopback_mount list \<Rightarrow> 'h
     \<Rightarrow> 'h \<times> prepared_loopback_mount list \<times> (loopback_error, unit) result list" where
  "cleanup_each ops [] h = (h, [], [])"
| "cleanup_each ops (pm # pms) h =
     (case cleanup ops pm h of
        ((h, pm), r) \<Rightarrow> (case cleanup_each ops pms h of (h, pms, rs) \<Rightarrow> (h, pm # pms, r # rs)))"

definition cleanup_all :: "'h loop_ops \<Rightarrow> prepared_loopback_mount list \<Rightarrow> 'h \<Rightarrow> 'h" where
  "cleanup_all ops pms h = (case cleanup_each ops pms h of (h, pms, _) \<Rightarrow> drop_mounts ops pms h)"

fun prepare_requests ::
  "'h loop_ops \<Rightarrow> prepared_loopback_mount list \<Rightarrow> loopback_mount_request list \<Rightarrow> 'h
     \<Rightarrow> 'h \<times> (loopback_error, prepared_loopback_mount list) result" where
  "prepare_requests ops mounts [] h = (h, Inr mounts)"
| "prepare_requests ops mounts (r # rs) h =
     (case prepare_loopback_mount ops r h of
        (h, Inr pm) \<Rightarrow> prepare_requests ops (mounts @ [pm]) rs h
      | (h, Inl err) \<Rightarrow> (cleanup_all ops mounts h, Inl err))"

definition prepare_loopback_mounts ::
  "'h loop_ops \<Rightarrow> loopback_mount_request list \<Rightarrow> 'h
     \<Rightarrow> 'h \<times> (loopback_error, prepared_loopback_mount list) result" where
  "prepare_loopback_mounts ops requests h =
     sbind (h, check_state_dirs [] requests) (\<lambda>h _. prepare_requests ops [] requests h)"

subsection \<open>Matching bindings and mounts\<close>

lemma index_bindings_ok:
  "index_bindings acc bs = Inr index \<longleftrightarrow>
     distinct (map (\<lambda>b. binding_key (rb_name b)) bs) \<and>
     (\<forall>b \<in> set bs. map_of acc (binding_key (rb_name b)) = None) \<and>
     index = rev (map (\<lambda>b. (binding_key (rb_name b), b)) bs) @ acc"
proof (induction bs arbitrary: acc)
  case Nil
  then show ?case by auto
next
  case (Cons b bs)
  show ?case
  proof (cases "map_of acc (binding_key (rb_name b)) = None")
    case True
    then show ?thesis using Cons [of "(binding_key (rb_name b), b) # acc"]
      by (auto simp: Let_def) (metis rev_image_eqI)+
  next
    case False
    then show ?thesis by (simp add: Let_def)
  qed
qed

definition bound_to :: "runtime_mount_binding list \<Rightarrow> hostfs_mount_config \<Rightarrow> runtime_mount_binding option" where
  "bound_to bs m = find (\<lambda>b. binding_key (rb_name b) = binding_key (hm_name m)) bs"

lemma find_map_of:
  assumes "distinct (map f bs)"
  shows "map_of (rev (map (\<lambda>b. (f b, b)) bs)) k = find (\<lambda>b. f b = k) bs"
proof -
  have "map_of (rev (map (\<lambda>b. (f b, b)) bs)) = map_of (map (\<lambda>b. (f b, b)) bs)"
    using assms by (subst map_of_inject_set) (simp_all add: comp_def rev_map [symmetric])
  moreover have "map_of (map (\<lambda>b. (f b, b)) bs) k = find (\<lambda>b. f b = k) bs"
    by (induction bs) auto
  ultimately show ?thesis by simp
qed

lemma collect_requests_ok:
  "collect_requests index ms = Inr rs \<longleftrightarrow>
     (\<forall>m \<in> set ms. hm_required m \<longrightarrow> map_of index (binding_key (hm_name m)) \<noteq> None) \<and>
     rs = List.map_filter
       (\<lambda>m. map_option (mount_request m) (map_of index (binding_key (hm_name m)))) ms"
proof (induction ms arbitrary: rs)
  case Nil
  then show ?case by auto
next
  case (Cons m ms)
  then show ?case
    by (cases "map_of index (binding_key (hm_name m))") (auto simp: result_elims)
qed

lemma check_state_dirs_ok:
  "distinct (map lr_host_state_dir rs) \<Longrightarrow>
     \<forall>r \<in> set rs. map_of seen (lr_host_state_dir r) = None \<Longrightarrow> check_state_dirs seen rs = Inr ()"
proof (induction rs arbitrary: seen)
  case Nil
  then show ?case by simp
next
  case (Cons a rs)
  have "\<forall>r \<in> set rs. map_of ((lr_host_state_dir a, lr_name a) # seen) (lr_host_state_dir r) = None"
    using Cons.prems by simp (metis image_eqI)
  with Cons show ?case by simp
qed

lemma prepare_requests_rollback:
  assumes "prepare_requests ops acc rs h = (h', Inl err)"
  shows "\<exists>rs1 r rs2 pms h1 h2.
    rs = rs1 @ r # rs2 \<and> prepare_requests ops acc rs1 h = (h1, Inr pms) \<and>
    prepare_loopback_mount ops r h1 = (h2, Inl err) \<and> h' = cleanup_all ops pms h2"
  using assms
proof (induction rs arbitrary: acc h)
  case Nil
  then show ?case by simp
next
  case (Cons r rs)
  obtain h1 x where x: "prepare_loopback_mount ops r h = (h1, x)"
    by (cases "prepare_loopback_mount ops r h")
  show ?case
  proof (cases x)
    case (Inl e)
    with Cons.prems x show ?thesis by (intro exI [of _ "[]"] exI [of _ r] exI [of _ rs]
          exI [of _ acc] exI [of _ h] exI [of _ h1]) simp
  next
    case (Inr pm)
    with Cons.prems x have "prepare_requests ops (acc @ [pm]) rs h1 = (h', Inl err)" by simp
    from Cons.IH [OF this] obtain rs1 q rs2 pms g1 g2 where
      "rs = rs1 @ q # rs2" "prepare_requests ops (acc @ [pm]) rs1 h1 = (g1, Inr pms)"
      "prepare_loopback_mount ops q g1 = (g2, Inl err)" "h' = cleanup_all ops pms g2" by blast
    with x Inr show ?thesis
      by (intro exI [of _ "r # rs1"] exI [of _ q] exI [of _ rs2] exI [of _ pms]) simp
  qed
qed

subsection \<open>Main results\<close>

text \<open>
  Matching succeeds exactly when the bindings have distinct case-folded names, each names a
  mount of the manifest, and every required mount is bound; the requests are then the bound mounts
  in manifest order, each with the path of its binding.
\<close>

lemma resolve_loopback_mounts_iff:
  "resolve_loopback_mounts m bs = Inr rs \<longleftrightarrow>
     distinct (map (\<lambda>b. binding_key (rb_name b)) bs) \<and>
     (\<forall>b \<in> set bs. \<exists>mt \<in> set (unwrap_or [] (hostfs_mounts m)).
        eq_ignore_ascii_case (hm_name mt) (trim (rb_name b))) \<and>
     (\<forall>mt \<in> set (unwrap_or [] (hostfs_mounts m)). hm_required mt \<longrightarrow> bound_to bs mt \<noteq> None) \<and>
     rs = List.map_filter (\<lambda>mt. map_option (mount_request mt) (bound_to bs mt))
            (unwrap_or [] (hostfs_mounts m))"
proof (cases "distinct (map (\<lambda>b. binding_key (rb_name b)) bs)")
  case False
  then show ?thesis by (auto simp: resolve_loopback_mounts_def result_elims index_bindings_ok)
next
  case True
  let ?index = "rev (map (\<lambda>b. (binding_key (rb_name b), b)) bs)"
  have idx: "index_bindings [] bs = Inr ?index"
    using True by (simp add: index_bindings_ok)
  have look: "map_of ?index (binding_key (hm_name mt)) = bound_to bs mt" for mt
    using find_map_of [OF True] by (simp add: bound_to_def)
  have checks: "(\<exists>us. collect_results (check_binding ms) bs = Inr us) \<longleftrightarrow>
      (\<forall>b \<in> set bs. \<exists>mt \<in> set ms. eq_ignore_ascii_case (hm_name mt) (trim (rb_name b)))" for ms
  proof (induction bs)
    case (Cons b bs)
    then show ?case
      by (auto simp: result_elims check_binding_def list_ex_iff)
  qed simp
  show ?thesis
    using True checks [of "unwrap_or [] (hostfs_mounts m)"]
    by (auto simp: resolve_loopback_mounts_def idx result_elims Let_def collect_requests_ok look)
qed

definition demo_manifest :: manifest where
  "demo_manifest = \<lparr>mf_version = ''v1'', mf_name = ''n'', mf_target = ''t'',
     mf_sources = \<lparr>src_app = ''a'', src_capsule_runtime = None, src_capsule_shell = None\<rparr>,
     mf_signature = None, mf_ingress = None, mf_egress = None, mf_defaults = None, mf_api = None,
     mf_aux_api = None,
     mf_storage = Some \<lparr>st_s3 = None, st_mounts = Some
       [\<lparr>hm_name = ''data'', hm_mount_path = ''/mnt/d'', hm_required = True, hm_size_mb = 1\<rparr>,
        \<lparr>hm_name = ''opt'', hm_mount_path = ''/mnt/o'', hm_required = False, hm_size_mb = 1\<rparr>]\<rparr>,
     mf_kms_integration = None, mf_helios_rpc = None, mf_clock_sync = None\<rparr>"


text \<open>A host that records its commands; \<open>failing\<close> lists the commands that fail.\<close>

definition log_step :: "string list \<Rightarrow> string \<Rightarrow> string list \<Rightarrow> string list \<times> bool" where
  "log_step failing cmd log = (log @ [cmd], cmd \<notin> set failing)"

definition log_ops :: "string list \<Rightarrow> string list loop_ops" where
  "log_ops failing =
     \<lparr>lo_exists = (\<lambda>_ _. True), lo_is_dir = (\<lambda>_ _. True),
      lo_create_dir_all = (\<lambda>h _. log_step failing ''mkdir'' h),
      lo_open_lock = (\<lambda>h _. log_step failing ''open'' h),
      lo_flock = (\<lambda>h _. log_step failing ''flock'' h), lo_len = (\<lambda>_ _. Some 1048576),
      lo_create_new = (\<lambda>h _. log_step failing ''create'' h),
      lo_set_len = (\<lambda>h _ _. log_step failing ''set_len'' h),
      lo_mkfs = (\<lambda>h _. log_step failing ''mkfs'' h),
      lo_mount = (\<lambda>h _ _. log_step failing ''mount'' h),
      lo_umount = (\<lambda>h _. log_step failing ''umount'' h),
      lo_remove_dir_all = (\<lambda>h _. log_step failing ''rm -r'' h), lo_uuid = (\<lambda>_. ''u'')\<rparr>"

definition log_request :: loopback_mount_request where
  "log_request = \<lparr>lr_name = ''m'', lr_host_state_dir = [RootDir, Normal ''s''],
     lr_container_mount_path = [], lr_enclave_mount_path = [], lr_size_mb = 1, lr_required = True\<rparr>"


text \<open>
  When unmounting fails, \<open>cleanup\<close> reports the failure but still removes the runtime directory
  recursively, although the image is still mounted below it.
\<close>

lemma cleanup_removes_mounted_tree:
  assumes "pm_mounted pm" and "lo_umount ops h (pm_host_mount_path pm) = (h1, False)"
    and "lo_exists ops h1 (pm_runtime_dir pm)"
  shows "fst (fst (cleanup ops pm h)) = fst (lo_remove_dir_all ops h1 (pm_runtime_dir pm)) \<and>
         pm_mounted (snd (fst (cleanup ops pm h))) \<and> snd (cleanup ops pm h) = Inl UmountFailed"
  using assms
  by (cases "lo_remove_dir_all ops h1 (pm_runtime_dir pm)"; cases "snd (lo_remove_dir_all ops h1 (pm_runtime_dir pm))")
     (auto simp: cleanup_def)

text \<open>A host with one image file: its size, if it exists, and whether it was formatted.\<close>

definition image_ops :: "(u64 \<times> bool) option loop_ops" where
  "image_ops =
     \<lparr>lo_exists = (\<lambda>h _. h \<noteq> None), lo_is_dir = (\<lambda>_ _. True),
      lo_create_dir_all = (\<lambda>h _. (h, True)), lo_open_lock = (\<lambda>h _. (h, True)),
      lo_flock = (\<lambda>h _. (h, True)), lo_len = (\<lambda>h _. map_option fst h),
      lo_create_new = (\<lambda>_ _. (Some (0, False), True)),
      lo_set_len = (\<lambda>_ _ n. (Some (n, False), True)),
      lo_mkfs = (\<lambda>h _. (h, False)),
      lo_mount = (\<lambda>h _ _. (h, True)), lo_umount = (\<lambda>h _. (h, True)),
      lo_remove_dir_all = (\<lambda>h _. (h, True)), lo_uuid = (\<lambda>_. ''u'')\<rparr>"

text \<open>
  An image of the expected size is reused without formatting it, whatever happened before: a first
  attempt whose \<open>mkfs\<close> fails leaves an unformatted image that the next attempt accepts.
\<close>

lemma half_made_image_reused:
  "prepare_image image_ops log_request p 1048576 None =
     (Some (1048576, False), Inl (FormatFailed ''m'')) \<and>
   prepare_image image_ops log_request p 1048576 (Some (1048576, False)) =
     (Some (1048576, False), Inr ())"
  by (auto simp: prepare_image_def image_ops_def step_ok_def log_request_def)

end
