(* ===== verification/Host_Run.thy ===== *)
theory Host_Run
  imports Nitro_Cli Hostfs_Loopback Console Runtime_Config Kms_Client Rust_Num
begin

text \<open>
  The host side of a running enclave (\<open>run.rs\<close>, and \<open>HostFsProxy::bind\<close> of \<open>proxy/fs_host.rs\<close>): choosing
  a managed CID, binding the host services, starting the enclave, waiting for its end and cleaning
  up.  Tasks are named by what they serve; the state keeps a trace of the enclaves that were started
  and terminated.
\<close>

definition EIF_FILE_NAME :: string where "EIF_FILE_NAME = ''application.eif''"
definition RELEASE_BUNDLE_DIR :: string where "RELEASE_BUNDLE_DIR = ''/enclave''"

definition LOG_VSOCK_INITIAL_RETRY_INTERVAL :: nat where "LOG_VSOCK_INITIAL_RETRY_INTERVAL = 250"
definition LOG_VSOCK_MAX_RETRY_INTERVAL :: nat where "LOG_VSOCK_MAX_RETRY_INTERVAL = 5000"
definition LOG_VSOCK_RETRY_LIMIT :: nat where "LOG_VSOCK_RETRY_LIMIT = 16"
definition STATUS_VSOCK_RETRY_LIMIT :: int where "STATUS_VSOCK_RETRY_LIMIT = 100"
definition DEFAULT_CPU_COUNT :: int where "DEFAULT_CPU_COUNT = 2"
definition DEFAULT_MEMORY_MB :: int where "DEFAULT_MEMORY_MB = 4096"
definition HOST_RUNTIME_BIND_RETRY_LIMIT :: nat where "HOST_RUNTIME_BIND_RETRY_LIMIT = 16"
definition MANAGED_CID_CONFLICT_RETRY_LIMIT :: nat where "MANAGED_CID_CONFLICT_RETRY_LIMIT = 8"

record enclave_opts =
  eo_eif_path :: "string option"
  eo_manifest_path :: "string option"
  eo_cpu_count :: "int option"
  eo_memory_mb :: "int option"
  eo_debug_mode :: bool

datatype host_task =
    EgressTask u32
  | HostfsTask string u32
  | ClockSyncTask u32
  | LogTask u32
  | IngressTask u16 u32
  | ConsoleTask string

datatype host_event = Launched u32 "enclave_info option" | TerminateAsked string bool

record ('c, 'w) enclave =
  en_world :: 'w
  en_eif_path :: string
  en_manifest :: manifest
  en_cpu_count :: int
  en_memory_mb :: int
  en_debug_mode :: bool
  en_info :: "enclave_info option"
  en_vsock :: "runtime_host_vsock_ports option"
  en_console :: "'c option"
  en_tasks :: "host_task list"
  en_trace :: "host_event list"

text \<open>The outside: \<open>nitro-cli\<close>, the host file system, the binding of ports and child processes.\<close>

record ('c, 'w) run_env =
  rx_cli :: "('c, 'w) nitro_ops"
  rx_fs :: "'w \<Rightarrow> host_fs"
  rx_open :: "string \<Rightarrow> (string, unit) result"
  rx_load :: "string \<Rightarrow> (load_error, manifest) result"
  rx_bind_vsock :: "u32 \<Rightarrow> 'w \<Rightarrow> 'w \<times> (bind_error, unit) result"
  rx_bind_tcp :: "u16 \<Rightarrow> 'w \<Rightarrow> 'w \<times> (bind_error, unit) result"
  rx_try_wait :: "'c \<Rightarrow> 'w \<Rightarrow> 'w \<times> (string, bool) result"
  rx_kill :: "'c \<Rightarrow> 'w \<Rightarrow> 'w \<times> (string, unit) result"

type_synonym ('c, 'w, 'a) running = "('c, 'w) enclave \<times> (host_error, 'a) result"

definition in_world :: "('w \<Rightarrow> 'w \<times> 'r) \<Rightarrow> ('c, 'w) enclave \<Rightarrow> ('c, 'w) enclave \<times> 'r" where
  "in_world f st = (case f (en_world st) of (w, r) \<Rightarrow> (st\<lparr>en_world := w\<rparr>, r))"

definition push_task :: "host_task \<Rightarrow> ('c, 'w) enclave \<Rightarrow> ('c, 'w) enclave" where
  "push_task t st = st\<lparr>en_tasks := en_tasks st @ [t]\<rparr>"

definition abort_tasks :: "('c, 'w) enclave \<Rightarrow> ('c, 'w) enclave" where
  "abort_tasks st = st\<lparr>en_tasks := []\<rparr>"

subsection \<open>Construction\<close>

definition chosen :: "int option \<Rightarrow> 32 word option \<Rightarrow> int \<Rightarrow> int" where
  "chosen given preset fallback =
     (case given of Some n \<Rightarrow> n | None \<Rightarrow> (case preset of Some n \<Rightarrow> sint n | None \<Rightarrow> fallback))"

definition Enclave_new :: "('c, 'w) run_env \<Rightarrow> enclave_opts \<Rightarrow> 'w \<Rightarrow> (host_error, ('c, 'w) enclave) result" where
  "Enclave_new X opts w =
     (let eif_path = unwrap_or (push_name RELEASE_BUNDLE_DIR EIF_FILE_NAME) (eo_eif_path opts);
          manifest_path = unwrap_or (push_name RELEASE_BUNDLE_DIR MANIFEST_FILE_NAME) (eo_manifest_path opts) in
      rbind (map_err (\<lambda>e. HText (''failed to open EIF file at '' @ eif_path @ '': '' @ e)) (rx_open X eif_path)) (\<lambda>_.
      rbind (map_err HLoad (rx_load X manifest_path)) (\<lambda>m.
      Inr \<lparr>en_world = w, en_eif_path = eif_path, en_manifest = m,
           en_cpu_count = chosen (eo_cpu_count opts) (Option.bind (mf_defaults m) def_cpu_count) DEFAULT_CPU_COUNT,
           en_memory_mb = chosen (eo_memory_mb opts) (Option.bind (mf_defaults m) def_memory_mb) DEFAULT_MEMORY_MB,
           en_debug_mode = eo_debug_mode opts, en_info = None, en_vsock = None, en_console = None, en_tasks = [],
           en_trace = []\<rparr>)))"

subsection \<open>Errors\<close>

definition is_addr_in_use_error :: "host_error \<Rightarrow> bool" where
  "is_addr_in_use_error err = list_ex (\<lambda>c. c = HBind AddrInUse) (chain err)"

definition is_managed_cid_conflict_error :: "host_error \<Rightarrow> bool" where
  "is_managed_cid_conflict_error err =
     list_ex (\<lambda>c. case c of HCommand f \<Rightarrow> indicates_cid_conflict f | _ \<Rightarrow> False) (chain err)"

definition annotate_host_vsock_bind_error :: "host_error \<Rightarrow> string \<Rightarrow> host_error" where
  "annotate_host_vsock_bind_error err binding =
     (if is_addr_in_use_error err
      then HContext (''failed to bind '' @ binding @ '': the derived host-side VSOCK port is already in use'') err
      else HContext (''failed to bind '' @ binding) err)"

definition handle_clock_sync_bind_error :: "host_error \<Rightarrow> bool \<Rightarrow> (host_error, unit) result" where
  "handle_clock_sync_bind_error err allow_degraded_addr_in_use =
     (if is_addr_in_use_error err then (if \<not> allow_degraded_addr_in_use then Inl err else Inr ()) else Inl err)"

text \<open>The set of rejected CIDs as a list without repetitions; its text in the error is left out.\<close>

definition ensure_managed_cid_retry_budget :: "u32 list \<Rightarrow> (host_error, unit) result" where
  "ensure_managed_cid_retry_budget rejected =
     bail_if (length rejected \<ge> MANAGED_CID_CONFLICT_RETRY_LIMIT)
       (HText (''failed to start enclave after '' @ show_nat MANAGED_CID_CONFLICT_RETRY_LIMIT @ '' managed CID conflict retries''))"

subsection \<open>Host services\<close>

definition for_managed_cid :: "string \<Rightarrow> u32 \<Rightarrow> u32 \<Rightarrow> string" where
  "for_managed_cid what port cid =
     what @ '' vsock port '' @ show_nat (unat port) @ '' for managed CID '' @ show_nat (unat cid)"

definition bind_vsock :: "('c, 'w) run_env \<Rightarrow> u32 \<Rightarrow> string \<Rightarrow> ('c, 'w) enclave \<Rightarrow> ('c, 'w, unit) running" where
  "bind_vsock X port binding st =
     (case in_world (rx_bind_vsock X port) st of
        (st, r) \<Rightarrow> (st, map_err (\<lambda>e. annotate_host_vsock_bind_error (HBind e) binding) r))"

definition start_egress_proxy ::
  "('c, 'w) run_env \<Rightarrow> runtime_host_vsock_ports \<Rightarrow> ('c, 'w) enclave \<Rightarrow> ('c, 'w, unit) running" where
  "start_egress_proxy X ports st =
     (if \<not> egress_proxy_enabled (en_manifest st) then (st, Inr ())
      else
        sbind (bind_vsock X (vp_egress_port ports)
                 (for_managed_cid ''host egress proxy'' (vp_egress_port ports) (vp_enclave_cid ports)) st) (\<lambda>st _.
        (push_task (EgressTask (vp_egress_port ports)) st, Inr ())))"

definition HostFsProxy_bind ::
  "('c, 'w) run_env \<Rightarrow> string \<Rightarrow> path \<Rightarrow> bool \<Rightarrow> u32 \<Rightarrow> ('c, 'w) enclave \<Rightarrow> ('c, 'w, host_fs_service) running" where
  "HostFsProxy_bind X mount_name root read_only port st =
     sbind (st, map_err HIo (HostFsService_new (rx_fs X (en_world st)) mount_name root read_only)) (\<lambda>st service.
     sbind (case in_world (rx_bind_vsock X port) st of (st, r) \<Rightarrow> (st, map_err HBind r)) (\<lambda>st _. (st, Inr service)))"

fun start_hostfs_mounts ::
  "('c, 'w) run_env \<Rightarrow> runtime_host_vsock_ports \<Rightarrow> nat \<Rightarrow> hostfs_mount_config list \<Rightarrow> ('c, 'w) enclave
     \<Rightarrow> ('c, 'w, unit) running" where
  "start_hostfs_mounts X ports index [] st = (st, Inr ())"
| "start_hostfs_mounts X ports index (mount # mounts) st =
     sbind (st, map_err (\<lambda>err. HContext (''hostfs mount '' @ [CHR 0x27] @ hm_name mount @ [CHR 0x27] @
                                         '' cannot be assigned a vsock port'') (HVsock err))
              (hostfs_mount_port ports index)) (\<lambda>st port.
     let root = path_join (components CONTAINER_HOSTFS_ROOT) (components (hm_name mount)) in
     if \<not> path_exists (rx_fs X (en_world st)) root then
       (if hm_required mount
        then (st, Inl (HText (''required hostfs mount '' @ [CHR 0x27] @ hm_name mount @ [CHR 0x27] @
                              '' is missing its runtime bind'')))
        else start_hostfs_mounts X ports (Suc index) mounts st)
     else
       sbind (case HostFsProxy_bind X (hm_name mount) root False port st of
                (st, r) \<Rightarrow> (st, map_err (\<lambda>err. annotate_host_vsock_bind_error err
                   (for_managed_cid (''hostfs mount '' @ [CHR 0x27] @ hm_name mount @ [CHR 0x27] @ '' host-side'')
                      port (vp_enclave_cid ports))) r)) (\<lambda>st _.
       start_hostfs_mounts X ports (Suc index) mounts (push_task (HostfsTask (hm_name mount) port) st)))"

definition start_hostfs_proxies ::
  "('c, 'w) run_env \<Rightarrow> runtime_host_vsock_ports \<Rightarrow> ('c, 'w) enclave \<Rightarrow> ('c, 'w, unit) running" where
  "start_hostfs_proxies X ports st =
     (case hostfs_mounts (en_manifest st) of
        None \<Rightarrow> (st, Inr ())
      | Some mounts \<Rightarrow> start_hostfs_mounts X ports 0 mounts st)"

definition start_clock_sync_server ::
  "('c, 'w) run_env \<Rightarrow> runtime_host_vsock_ports \<Rightarrow> bool \<Rightarrow> ('c, 'w) enclave \<Rightarrow> ('c, 'w, unit) running" where
  "start_clock_sync_server X ports allow_degraded st =
     (if \<not> cs_enabled (effective_clock_sync (en_manifest st)) then (st, Inr ())
      else
        (case bind_vsock X (vp_clock_sync_port ports)
                (for_managed_cid ''clock sync host time server'' (vp_clock_sync_port ports) (vp_enclave_cid ports)) st of
           (st, Inl err) \<Rightarrow> (st, handle_clock_sync_bind_error err allow_degraded)
         | (st, Inr _) \<Rightarrow> (push_task (ClockSyncTask (vp_clock_sync_port ports)) st, Inr ())))"

definition start_host_services ::
  "('c, 'w) run_env \<Rightarrow> runtime_host_vsock_ports \<Rightarrow> bool \<Rightarrow> ('c, 'w) enclave \<Rightarrow> ('c, 'w, unit) running" where
  "start_host_services X ports allow_degraded st =
     sbind (start_egress_proxy X ports st) (\<lambda>st _.
     sbind (start_hostfs_proxies X ports st) (\<lambda>st _.
     start_clock_sync_server X ports allow_degraded st))"

subsection \<open>Choosing a CID\<close>

definition select_runtime_vsock_ports ::
  "('c, 'w) run_env \<Rightarrow> u32 list \<Rightarrow> ('c, 'w) enclave \<Rightarrow> ('c, 'w, runtime_host_vsock_ports) running" where
  "select_runtime_vsock_ports X excluded st =
     sbind (in_world (describe_enclaves (rx_cli X)) st) (\<lambda>st enclaves.
     (st, map_err HVsock
            (rbind (allocate_managed_enclave_cid (set (map ei_cid enclaves) \<union> set excluded)) for_cid)))"

text \<open>The remaining attempts are counted down; \<open>attempt\<close> counts up from 1.\<close>

fun prepare_attempts ::
  "('c, 'w) run_env \<Rightarrow> nat \<Rightarrow> nat \<Rightarrow> u32 list \<Rightarrow> ('c, 'w) enclave \<Rightarrow> ('c, 'w, runtime_host_vsock_ports) running" where
  "prepare_attempts X attempt 0 unavailable st =
     (st, Inl (HText (''failed to reserve host-side runtime VSOCK ports after '' @ show_nat HOST_RUNTIME_BIND_RETRY_LIMIT @
                      '' attempts'')))"
| "prepare_attempts X attempt (Suc n) unavailable st =
     sbind (select_runtime_vsock_ports X unavailable st) (\<lambda>st ports.
     case start_host_services X ports (attempt = HOST_RUNTIME_BIND_RETRY_LIMIT) st of
       (st, Inr _) \<Rightarrow> (st, Inr ports)
     | (st, Inl err) \<Rightarrow>
         if is_addr_in_use_error err
         then prepare_attempts X (Suc attempt) n (List.insert (vp_enclave_cid ports) unavailable) (abort_tasks st)
         else (abort_tasks st, Inl err))"

definition prepare_host_runtime ::
  "('c, 'w) run_env \<Rightarrow> u32 list \<Rightarrow> ('c, 'w) enclave \<Rightarrow> ('c, 'w, runtime_host_vsock_ports) running" where
  "prepare_host_runtime X conflict_rejected st =
     prepare_attempts X 1 HOST_RUNTIME_BIND_RETRY_LIMIT conflict_rejected st"

subsection \<open>After the start\<close>

definition stop_child_process :: "('c, 'w) run_env \<Rightarrow> 'c \<Rightarrow> 'w \<Rightarrow> ('w, unit) host_step" where
  "stop_child_process X child w =
     sbind (case rx_try_wait X child w of (w, r) \<Rightarrow> (w, map_err HText r)) (\<lambda>w exited.
     if exited then (w, Inr ())
     else (case rx_kill X child w of
             (w, r) \<Rightarrow> (w, map_err (\<lambda>e. HText (''failed to terminate nitro-cli debug console: '' @ e)) r)))"

definition stop_debug_console :: "('c, 'w) run_env \<Rightarrow> ('c, 'w) enclave \<Rightarrow> ('c, 'w) enclave" where
  "stop_debug_console X st =
     (case en_console st of
        Some console \<Rightarrow> (fst (in_world (stop_child_process X console) st))\<lparr>en_console := None\<rparr>
      | None \<Rightarrow> st)"

definition cleanup_running_state :: "('c, 'w) run_env \<Rightarrow> ('c, 'w) enclave \<Rightarrow> ('c, 'w, unit) running" where
  "cleanup_running_state X st =
     (let (st, terminate_result) =
        (case en_info st of
           Some info \<Rightarrow>
             (case in_world (terminate_enclave (rx_cli X) (ei_id info)) st of
                (st, r) \<Rightarrow>
                  (st\<lparr>en_trace := en_trace st @ [TerminateAsked (ei_id info) (is_ok r)]\<rparr>,
                   map_err (HContext (''failed to terminate enclave '' @ ei_id info)) r))
         | None \<Rightarrow> (st, Inr ()));
        st = abort_tasks ((stop_debug_console X st)\<lparr>en_vsock := None\<rparr>)
      in (if is_ok terminate_result then st\<lparr>en_info := None\<rparr> else st, terminate_result))"

definition attach_debug_console :: "('c, 'w) run_env \<Rightarrow> string \<Rightarrow> ('c, 'w) enclave \<Rightarrow> ('c, 'w, unit) running" where
  "attach_debug_console X enclave_id st =
     sbind (in_world (nitro_console (rx_cli X) enclave_id) st) (\<lambda>st child.
     (push_task (ConsoleTask enclave_id) (st\<lparr>en_console := Some child\<rparr>), Inr ()))"

fun start_ingress_items ::
  "('c, 'w) run_env \<Rightarrow> u32 \<Rightarrow> ingress_cfg list \<Rightarrow> ('c, 'w) enclave \<Rightarrow> ('c, 'w, unit) running" where
  "start_ingress_items X cid [] st = (st, Inr ())"
| "start_ingress_items X cid (item # items) st =
     sbind (case in_world (rx_bind_tcp X (ing_listen_port item)) st of (st, r) \<Rightarrow> (st, map_err HBind r)) (\<lambda>st _.
     start_ingress_items X cid items (push_task (IngressTask (ing_listen_port item) cid) st))"

definition start_ingress_proxies :: "('c, 'w) run_env \<Rightarrow> u32 \<Rightarrow> ('c, 'w) enclave \<Rightarrow> ('c, 'w, unit) running" where
  "start_ingress_proxies X cid st =
     (case mf_ingress (en_manifest st) of None \<Rightarrow> (st, Inr ()) | Some items \<Rightarrow> start_ingress_items X cid items st)"

definition complete_post_start_setup ::
  "('c, 'w) run_env \<Rightarrow> enclave_info \<Rightarrow> ('c, 'w) enclave \<Rightarrow> ('c, 'w, unit) running" where
  "complete_post_start_setup X info st =
     sbind (if en_debug_mode st then attach_debug_console X (ei_id info) st else (st, Inr ())) (\<lambda>st _.
     start_ingress_proxies X (ei_cid info) (push_task (LogTask (ei_cid info)) st))"

definition complete_post_start_setup_or_cleanup ::
  "('c, 'w) run_env \<Rightarrow> enclave_info \<Rightarrow> ('c, 'w) enclave \<Rightarrow> ('c, 'w, unit) running" where
  "complete_post_start_setup_or_cleanup X info st =
     (case complete_post_start_setup X info st of
        (st, Inr _) \<Rightarrow> (st, Inr ())
      | (st, Inl err) \<Rightarrow>
          (let setup_err = HContext (''failed to finish post-start host setup for enclave '' @ ei_id info) err in
           case cleanup_running_state X st of
             (st, Inr _) \<Rightarrow> (st, Inl setup_err)
           | (st, Inl cleanup_err) \<Rightarrow>
               (st, Inl (HContext (''failed to clean up after post-start setup failure for enclave '' @ ei_id info) cleanup_err))))"

subsection \<open>The end of the enclave\<close>

datatype enclave_process_status = PsRunning | PsExited int | PsSignaled int | PsFatal string

datatype enclave_exit_status = EsCancelled | EsExited int | EsSignaled int | EsFatal string

text \<open>An integer token of JSON that fits 32 bits; minus zero is read as a floating-point number.\<close>

definition json_i32 :: "json_value \<Rightarrow> int option" where
  "json_i32 v =
     (case v of
        JNumber (c # cs) \<Rightarrow>
          if c = CHR ''-'' then
            (case read_decimal (2 ^ 31 + 1) 0 cs of Inr n \<Rightarrow> if cs = [] \<or> n = 0 then None else Some (- int n) | Inl _ \<Rightarrow> None)
          else (case read_decimal (2 ^ 31) 0 (c # cs) of Inr n \<Rightarrow> Some (int n) | Inl _ \<Rightarrow> None)
      | _ \<Rightarrow> None)"

text \<open>The derived deserialisation: the tag \<open>status\<close> selects the fields.\<close>

definition process_status_of :: "json_value \<Rightarrow> enclave_process_status option" where
  "process_status_of v =
     (case json_str ''status'' v of
        Some tag \<Rightarrow>
          if tag = ''running'' then Some PsRunning
          else if tag = ''exited'' then map_option PsExited (Option.bind (json_get ''code'' v) json_i32)
          else if tag = ''signaled'' then map_option PsSignaled (Option.bind (json_get ''signal'' v) json_i32)
          else if tag = ''fatal'' then map_option PsFatal (json_str ''error'' v)
          else None
      | None \<Rightarrow> None)"

definition status_of_line :: "json_codec \<Rightarrow> string \<Rightarrow> enclave_process_status option" where
  "status_of_line J line =
     (case js_parse J (str_bytes line) of Inr v \<Rightarrow> process_status_of v | Inl _ \<Rightarrow> None)"

text \<open>The lines of one connection, each read or failed; \<open>None\<close> when it closes without an end.\<close>

fun await_lines :: "json_codec \<Rightarrow> (string, string) result list \<Rightarrow> enclave_exit_status option" where
  "await_lines J [] = None"
| "await_lines J (Inl _ # ls) = await_lines J ls"
| "await_lines J (Inr line # ls) =
     (case status_of_line J line of
        Some (PsExited code) \<Rightarrow> Some (EsExited code)
      | Some (PsSignaled sig) \<Rightarrow> Some (EsSignaled sig)
      | Some (PsFatal err) \<Rightarrow> Some (EsFatal err)
      | _ \<Rightarrow> await_lines J ls)"

text \<open>
  The successive outcomes of connecting are a list, as in the launcher: an exhausted list means that
  the call has not returned.
\<close>

datatype status_conn = StatusConnectFailed | StatusLines "(string, string) result list"

fun await_exit ::
  "json_codec \<Rightarrow> int \<Rightarrow> status_conn list \<Rightarrow> (host_error, enclave_exit_status) result option" where
  "await_exit J failed_attempts [] = None"
| "await_exit J failed_attempts (StatusConnectFailed # cs) =
     (if failed_attempts + 1 \<ge> STATUS_VSOCK_RETRY_LIMIT
      then Some (Inl (HText (''failed to connect to enclave status port after '' @ show_int STATUS_VSOCK_RETRY_LIMIT @ '' attempts'')))
      else await_exit J (failed_attempts + 1) cs)"
| "await_exit J failed_attempts (StatusLines ls # cs) =
     (case await_lines J ls of Some status \<Rightarrow> Some (Inr status) | None \<Rightarrow> await_exit J failed_attempts cs)"

definition describe_enclave_exit_status :: "enclave_exit_status \<Rightarrow> string" where
  "describe_enclave_exit_status status =
     (case status of
        EsExited code \<Rightarrow> ''exited with code '' @ show_int code
      | EsSignaled sig \<Rightarrow> ''stopped due to signal '' @ show_int sig
      | EsFatal err \<Rightarrow> ''exited due to fatal error: '' @ err
      | EsCancelled \<Rightarrow> ''was cancelled'')"

definition finalize_exit_and_cleanup ::
  "('c, 'w) run_env \<Rightarrow> (host_error, enclave_exit_status) result \<Rightarrow> ('c, 'w) enclave
     \<Rightarrow> ('c, 'w, enclave_exit_status) running" where
  "finalize_exit_and_cleanup X exit_res st =
     (case cleanup_running_state X st of
        (st, cleanup_result) \<Rightarrow>
          (st, case (exit_res, cleanup_result) of
                 (Inr status, Inr _) \<Rightarrow> Inr status
               | (Inl err, Inr _) \<Rightarrow> Inl err
               | (Inr status, Inl cleanup_err) \<Rightarrow>
                   Inl (HContext (''enclave '' @ describe_enclave_exit_status status @ '' but cleanup failed'') cleanup_err)
               | (Inl err, Inl cleanup_err) \<Rightarrow>
                   Inl (HContext ''cleanup failed after waiting for enclave exit also failed'' cleanup_err)))"

subsection \<open>Running an enclave\<close>

text \<open>
  One round of the start loop: it ends with the enclave, with an error, or with a CID that was taken
  by another enclave in the meantime.
\<close>

definition try_start ::
  "('c, 'w) run_env \<Rightarrow> u32 list \<Rightarrow> ('c, 'w) enclave \<Rightarrow> ('c, 'w, enclave_info + u32) running" where
  "try_start X rejected st =
     sbind (st, ensure_managed_cid_retry_budget rejected) (\<lambda>st _.
     sbind (prepare_host_runtime X rejected st) (\<lambda>st ports.
     let cid = vp_enclave_cid ports in
     case in_world (run_enclave (rx_cli X)
            \<lparr>rg_cpu_count = en_cpu_count st, rg_memory_mb = en_memory_mb st, rg_eif_path = en_eif_path st,
             rg_cid = Some cid, rg_debug_mode = en_debug_mode st\<rparr>) (st\<lparr>en_vsock := Some ports\<rparr>) of
       (st, Inr info) \<Rightarrow> (st\<lparr>en_trace := en_trace st @ [Launched cid (Some info)]\<rparr>, Inr (Inl info))
     | (st, Inl err) \<Rightarrow>
         (let st = st\<lparr>en_trace := en_trace st @ [Launched cid None]\<rparr> in
          if is_managed_cid_conflict_error err then
            sbind (case cleanup_running_state X st of
                     (st, r) \<Rightarrow> (st, map_err (HContext (''failed to clean up after managed CID '' @ show_nat (unat cid) @
                                                        '' start collision'')) r)) (\<lambda>st _.
            (st, Inr (Inr cid)))
          else
            (fst (cleanup_running_state X st),
             Inl (HContext (''failed to start enclave with managed CID '' @ show_nat (unat cid)) err)))))"

lemma selected_cid:
  assumes "select_runtime_vsock_ports X excluded st = (st', Inr ports)"
  shows "vp_enclave_cid ports \<notin> set excluded \<and> 16 \<le> unat (vp_enclave_cid ports) \<and> unat (vp_enclave_cid ports) \<le> 4096 \<and>
    for_cid (vp_enclave_cid ports) = Inr ports"
proof -
  obtain w r where d: "describe_enclaves (rx_cli X) (en_world st) = (w, r)" by fastforce
  obtain es cid where "r = Inr es" "allocate_managed_enclave_cid (set (map ei_cid es) \<union> set excluded) = Inr cid" "for_cid cid = Inr ports"
    using assms d by (cases r) (auto simp: select_runtime_vsock_ports_def in_world_def result_elims)
  moreover from this have "vp_enclave_cid ports = cid" by (auto simp: for_cid_def result_elims)
  ultimately show ?thesis by (auto simp: managed_cid_iff)
qed

lemma prepared_cid:
  assumes "prepare_attempts X attempt n unavailable st = (st', Inr ports)"
  shows "vp_enclave_cid ports \<notin> set unavailable \<and> 16 \<le> unat (vp_enclave_cid ports) \<and> unat (vp_enclave_cid ports) \<le> 4096 \<and>
    for_cid (vp_enclave_cid ports) = Inr ports"
  using assms
proof (induction X attempt n unavailable st arbitrary: st' ports rule: prepare_attempts.induct)
  case (2 X attempt n unavailable st)
  obtain s1 r1 where sel: "select_runtime_vsock_ports X unavailable st = (s1, r1)" by fastforce
  obtain p where p: "r1 = Inr p" using 2(2) sel by (cases r1) auto
  obtain s2 r2 where start: "start_host_services X p (attempt = HOST_RUNTIME_BIND_RETRY_LIMIT) s1 = (s2, r2)" by fastforce
  show ?case
  proof (cases r2)
    case (Inl err)
    have taken: "is_addr_in_use_error err"
      and rest: "prepare_attempts X (Suc attempt) n (List.insert (vp_enclave_cid p) unavailable) (abort_tasks s2) = (st', Inr ports)"
      using 2(2) sel p start Inl by (auto split: if_splits)
    from 2(1) [OF start [symmetric] Inl taken rest] show ?thesis by simp
  next
    case (Inr u)
    then have "ports = p" using 2(2) sel p start by simp
    then show ?thesis using selected_cid sel p by metis
  qed
qed simp

lemma try_start_conflict:
  assumes "try_start X rejected st = (st', Inr (Inr cid))"
  shows "cid \<notin> set rejected \<and> length rejected < MANAGED_CID_CONFLICT_RETRY_LIMIT"
proof -
  have "length rejected < MANAGED_CID_CONFLICT_RETRY_LIMIT"
    using assms by (auto simp: try_start_def ensure_managed_cid_retry_budget_def bail_if_def split: if_splits)
  moreover obtain s1 r1 where prep: "prepare_host_runtime X rejected st = (s1, r1)" by fastforce
  moreover obtain ports where "r1 = Inr ports" "cid = vp_enclave_cid ports"
    using assms prep calculation(1)
    by (cases r1) (auto simp: try_start_def ensure_managed_cid_retry_budget_def Let_def sbind_def split: prod.splits sum.splits if_splits)
  ultimately show ?thesis using prepared_cid [of X 1 HOST_RUNTIME_BIND_RETRY_LIMIT rejected st s1 ports]
    by (simp add: prepare_host_runtime_def)
qed

text \<open>The loop ends: every round that goes on adds a CID to a set of bounded size.\<close>

function start_loop :: "('c, 'w) run_env \<Rightarrow> u32 list \<Rightarrow> ('c, 'w) enclave \<Rightarrow> ('c, 'w, enclave_info) running" where
  "start_loop X rejected st =
     (case try_start X rejected st of
        (st, Inl e) \<Rightarrow> (st, Inl e)
      | (st, Inr (Inl info)) \<Rightarrow> (st, Inr info)
      | (st, Inr (Inr cid)) \<Rightarrow> start_loop X (List.insert cid rejected) st)"
  by pat_completeness auto
termination
proof (relation "measure (\<lambda>(X, rejected, st). MANAGED_CID_CONFLICT_RETRY_LIMIT - length rejected)")
  fix X :: "('c, 'w) run_env" and rejected st st' r y cid
  assume "(st', r) = try_start X rejected st" "r = Inr y" "y = Inr cid"
  then have "try_start X rejected st = (st', Inr (Inr cid))" by simp
  from try_start_conflict [OF this] have "cid \<notin> set rejected" "length rejected < MANAGED_CID_CONFLICT_RETRY_LIMIT" by auto
  then show "((X, List.insert cid rejected, st'), (X, rejected, st)) \<in> measure (\<lambda>(X, rejected, st). MANAGED_CID_CONFLICT_RETRY_LIMIT - length rejected)"
    by simp
qed simp

declare start_loop.simps [simp del]

text \<open>\<open>run\<close>: \<open>None\<close> when it is still waiting.  Cancellation wins the race or it does not.\<close>

definition Enclave_run ::
  "('c, 'w) run_env \<Rightarrow> json_codec \<Rightarrow> status_conn list \<Rightarrow> bool \<Rightarrow> ('c, 'w) enclave
     \<Rightarrow> ('c, 'w, enclave_exit_status) running option" where
  "Enclave_run X J conns cancelled st =
     (if en_info st \<noteq> None then Some (st, Inl (HText ''Enclave already started''))
      else
        (case start_loop X [] st of
           (st, Inl e) \<Rightarrow> Some (st, Inl e)
         | (st, Inr info) \<Rightarrow>
             (case complete_post_start_setup_or_cleanup X info (st\<lparr>en_info := Some info\<rparr>) of
                (st, Inl e) \<Rightarrow> Some (st, Inl e)
              | (st, Inr _) \<Rightarrow>
                  map_option (\<lambda>exit_res. finalize_exit_and_cleanup X exit_res st)
                    (if cancelled then Some (Inr EsCancelled) else await_exit J 0 conns))))"

subsection \<open>The log stream and the time server\<close>

text \<open>Connecting to the log port with growing delays (in milliseconds): the delays slept and the outcome.\<close>

definition next_log_vsock_retry_delay :: "nat \<Rightarrow> nat" where
  "next_log_vsock_retry_delay current = min (current * 2) LOG_VSOCK_MAX_RETRY_INTERVAL"

fun log_stream_attempts ::
  "nat \<Rightarrow> nat \<Rightarrow> nat \<Rightarrow> (nat \<Rightarrow> (string, 's) result) \<Rightarrow> nat list \<times> (host_error, 's) result option" where
  "log_stream_attempts attempt 0 delay connect = ([], None)"
| "log_stream_attempts attempt (Suc n) delay connect =
     (case connect attempt of
        Inr conn \<Rightarrow> ([], Some (Inr conn))
      | Inl err \<Rightarrow>
          if attempt = LOG_VSOCK_RETRY_LIMIT
          then ([], Some (Inl (HText (''failed to connect to enclave log port after '' @ show_nat LOG_VSOCK_RETRY_LIMIT @
                                      '' attempts: '' @ err))))
          else (case log_stream_attempts (Suc attempt) n (next_log_vsock_retry_delay delay) connect of
                  (slept, r) \<Rightarrow> (delay # slept, r)))"

definition connect_to_capsule_runtime_log_stream ::
  "(nat \<Rightarrow> (string, 's) result) \<Rightarrow> nat list \<times> (host_error, 's) result option" where
  "connect_to_capsule_runtime_log_stream connect =
     log_stream_attempts 1 LOG_VSOCK_RETRY_LIMIT LOG_VSOCK_INITIAL_RETRY_INTERVAL connect"

text \<open>One request to the time server: what arrives, the clock at both readings, and the line sent back.\<close>

datatype time_request = RequestTimeout | RequestClosed | RequestBroken string | RequestLine string

definition host_unix_timestamp :: "(nat \<times> nat) option \<Rightarrow> (host_error, int \<times> nat) result" where
  "host_unix_timestamp now =
     rbind (ok_or (HText ''system time error'') now) (\<lambda>(secs, nanos).
     rbind (bail_if (secs \<ge> 2 ^ 63) (HText ''system time seconds do not fit into i64'')) (\<lambda>_.
     Inr (int secs, nanos)))"

definition handle_time_request ::
  "time_request \<Rightarrow> (nat \<times> nat) option \<Rightarrow> (nat \<times> nat) option \<Rightarrow> (host_error, string) result" where
  "handle_time_request req clock2 clock3 =
     rbind (case req of
              RequestTimeout \<Rightarrow> Inl (HText ''clock sync request timed out'')
            | RequestClosed \<Rightarrow> Inl (HText ''clock sync client closed connection before sending a request'')
            | RequestBroken e \<Rightarrow> Inl (HText e)
            | RequestLine line \<Rightarrow> Inr line) (\<lambda>line.
     rbind (bail_if (line \<noteq> ''time'') (HText ''invalid clock sync request: expected time'')) (\<lambda>_.
     rbind (host_unix_timestamp clock2) (\<lambda>(secs2, nanos2).
     rbind (host_unix_timestamp clock3) (\<lambda>(secs3, nanos3).
     Inr (''{'' @ quoted ''server_receive_secs'' @ '':'' @ show_int secs2 @ '','' @
          quoted ''server_receive_nanos'' @ '':'' @ show_nat nanos2 @ '','' @
          quoted ''server_transmit_secs'' @ '':'' @ show_int secs3 @ '','' @
          quoted ''server_transmit_nanos'' @ '':'' @ show_nat nanos3 @ ''}'' @ newline)))))"

end
