(* ===== verification/Host_Run_Safety.thy ===== *)
theory Host_Run_Safety
  imports Host_Run Fs_Mount
begin

text \<open>
  What the host guarantees about a run: fresh CIDs, a bounded number of attempts, nothing left behind;
  which ports its services are bound to; and how the end of the entrypoint reaches the host.
\<close>

subsection \<open>What the start of the services changes\<close>

text \<open>Starting services changes only the world and the tasks.\<close>

definition frame :: "('c, 'w) enclave \<Rightarrow> ('c, 'w) enclave \<Rightarrow> bool" where
  "frame st st' \<longleftrightarrow> (\<exists>w ts. st' = st\<lparr>en_world := w, en_tasks := ts\<rparr>)"

definition framed :: "('c, 'w) enclave \<Rightarrow> ('c, 'w) enclave \<times> 'r \<Rightarrow> bool" where
  "framed st out \<longleftrightarrow> frame st (fst out)"

named_theorems framing \<open>the operations that change only the world and the tasks\<close>

lemma frame_fields:
  assumes "frame st st'"
  shows "en_info st' = en_info st" "en_trace st' = en_trace st" "en_console st' = en_console st" "en_vsock st' = en_vsock st"
    "en_manifest st' = en_manifest st"
  using assms by (auto simp: frame_def)

lemma frame_refl [framing]: "frame st st"
  by (cases st) (auto simp: frame_def)

lemma frame_updates [framing]:
  "frame st s \<Longrightarrow> frame st (push_task t s)" "frame st s \<Longrightarrow> frame st (abort_tasks s)" "frame st s \<Longrightarrow> frame st (s\<lparr>en_world := w\<rparr>)"
  by (cases st; auto simp: frame_def push_task_def abort_tasks_def)+

lemma frame_trans: "frame st s \<Longrightarrow> frame s s' \<Longrightarrow> frame st s'"
  by (cases st; auto simp: frame_def)

lemma framed_pair [framing]: "frame st s \<Longrightarrow> framed st (s, r)"
  by (simp add: framed_def)

lemma framed_sbind [framing]:
  assumes "framed st r" and "\<And>s y. frame st s \<Longrightarrow> framed st (f s y)"
  shows "framed st (sbind r f)"
  using assms by (cases r; cases "snd r") (auto simp: framed_def)

lemma framed_in_world [framing]: "frame st s \<Longrightarrow> framed st (in_world f s)"
  by (simp add: framed_def in_world_def frame_updates split: prod.splits)

lemma framed_case [framing]:
  "framed st r \<Longrightarrow> (\<And>s x. frame st s \<Longrightarrow> framed st (g s x)) \<Longrightarrow> framed st (case r of (s, x) \<Rightarrow> g s x)"
  by (cases r) (simp add: framed_def)

lemma framed_bind_vsock [framing]: "frame st s \<Longrightarrow> framed st (bind_vsock X port binding s)"
  unfolding bind_vsock_def by (intro framing)

lemma framed_egress [framing]: "frame st s \<Longrightarrow> framed st (start_egress_proxy X ports s)"
  unfolding start_egress_proxy_def by (auto intro!: framing)

lemma framed_hostfs_bind [framing]: "frame st s \<Longrightarrow> framed st (HostFsProxy_bind X name root ro port s)"
  unfolding HostFsProxy_bind_def by (intro framing)

lemma framed_hostfs_mounts: "frame st s \<Longrightarrow> framed st (start_hostfs_mounts X ports i ms s)"
proof (induction ms arbitrary: i s)
  case (Cons m ms)
  show ?case unfolding start_hostfs_mounts.simps
  proof (rule framed_sbind, goal_cases)
    case 1
    then show ?case by (rule framed_pair [OF Cons.prems])
  next
    case (2 s1 port)
    then show ?case unfolding Let_def using Cons.IH
      by (auto intro!: framed_sbind framed_case framed_hostfs_bind framed_pair frame_updates)
  qed
qed (auto intro: framing)

lemma framed_hostfs [framing]: "frame st s \<Longrightarrow> framed st (start_hostfs_proxies X ports s)"
  unfolding start_hostfs_proxies_def by (auto intro!: framing framed_hostfs_mounts split: option.splits)

lemma framed_clock [framing]: "frame st s \<Longrightarrow> framed st (start_clock_sync_server X ports b s)"
  unfolding start_clock_sync_server_def by (auto intro!: framing split: sum.splits)

lemma framed_services [framing]: "frame st s \<Longrightarrow> framed st (start_host_services X ports b s)"
  unfolding start_host_services_def by (intro framing)

lemma framed_select [framing]: "frame st s \<Longrightarrow> framed st (select_runtime_vsock_ports X excluded s)"
  unfolding select_runtime_vsock_ports_def by (intro framing)

lemma framed_prepare: "frame st s \<Longrightarrow> framed st (prepare_attempts X attempt n unavailable s)"
proof (induction X attempt n unavailable s rule: prepare_attempts.induct)
  case (2 X attempt n unavailable s)
  show ?case unfolding prepare_attempts.simps
  proof (rule framed_sbind, goal_cases)
    case 1
    then show ?case by (rule framed_select [OF 2(2)])
  next
    case s1: (2 s1 p)
    obtain s2 r2 where s2: "start_host_services X p (attempt = HOST_RUNTIME_BIND_RETRY_LIMIT) s1 = (s2, r2)" by fastforce
    have "frame st s2" using framed_services [OF s1, of X p] s2 by (metis framed_def fst_conv)
    then show ?case using 2(1) [OF s2 [symmetric]] s2 by (auto intro!: framed_pair frame_updates split: sum.splits)
  qed
qed (auto intro: framing)

text \<open>A failed preparation leaves no task.\<close>

lemma select_tasks: "en_tasks (fst (select_runtime_vsock_ports X excluded st)) = en_tasks st"
  unfolding select_runtime_vsock_ports_def in_world_def sbind_def by (auto split: prod.splits sum.splits)

lemma failed_prepare:
  assumes "prepare_attempts X attempt n unavailable st = (st', Inl e)" and "en_tasks st = []"
  shows "en_tasks st' = []"
  using assms
proof (induction X attempt n unavailable st arbitrary: st' rule: prepare_attempts.induct)
  case (2 X attempt n unavailable st)
  obtain s1 r1 where sel: "select_runtime_vsock_ports X unavailable st = (s1, r1)" by fastforce
  have s1: "en_tasks s1 = []" using select_tasks [of X unavailable st] sel 2(3) by simp
  show ?case
  proof (cases r1)
    case (Inl e')
    then show ?thesis using 2(2) sel s1 by simp
  next
    case (Inr p)
    obtain s2 r2 where start: "start_host_services X p (attempt = HOST_RUNTIME_BIND_RETRY_LIMIT) s1 = (s2, r2)" by fastforce
    obtain err where err: "r2 = Inl err" using 2(2) sel Inr start by (cases r2) auto
    show ?thesis
    proof (cases "is_addr_in_use_error err")
      case True
      then show ?thesis using 2(1) [OF start [symmetric] err True, of st'] 2(2) sel Inr start err
        by (simp add: abort_tasks_def)
    next
      case False
      then show ?thesis using 2(2) sel Inr start err by (auto simp: abort_tasks_def)
    qed
  qed
qed simp

subsection \<open>Cleaning up\<close>

definition idle :: "('c, 'w) enclave \<Rightarrow> bool" where
  "idle st \<longleftrightarrow> en_tasks st = [] \<and> en_console st = None \<and> en_vsock st = None \<and> en_info st = None"

lemma stop_console_fields:
  "en_console (stop_debug_console X st) = None" "en_info (stop_debug_console X st) = en_info st"
  "en_trace (stop_debug_console X st) = en_trace st"
  by (simp_all add: stop_debug_console_def in_world_def split: option.splits prod.splits)

lemma cleanup_spec:
  assumes "cleanup_running_state X st = (st', r)"
  shows "en_tasks st' = [] \<and> en_console st' = None \<and> en_vsock st' = None \<and>
    en_info st' = (if is_ok r then None else en_info st) \<and>
    en_trace st' = en_trace st @ (case en_info st of None \<Rightarrow> [] | Some i \<Rightarrow> [TerminateAsked (ei_id i) (is_ok r)]) \<and>
    (en_info st = None \<longrightarrow> r = Inr ())"
proof (cases "en_info st")
  case None
  then show ?thesis using assms by (auto simp: cleanup_running_state_def Let_def abort_tasks_def stop_console_fields)
next
  case (Some i)
  obtain w r0 where t: "terminate_enclave (rx_cli X) (ei_id i) (en_world st) = (w, r0)" by fastforce
  show ?thesis
    using assms Some t
    by (cases r0) (auto simp: cleanup_running_state_def Let_def in_world_def abort_tasks_def stop_console_fields)
qed

text \<open>What one round of the start loop leaves.\<close>

lemma prepare_spec:
  assumes "prepare_host_runtime X rejected st = (st', r)" and "idle st"
  shows "en_console st' = None \<and> en_vsock st' = None \<and> en_info st' = None \<and> en_trace st' = en_trace st \<and>
    (case r of Inl e \<Rightarrow> idle st' | Inr ports \<Rightarrow> vp_enclave_cid ports \<notin> set rejected \<and>
       16 \<le> unat (vp_enclave_cid ports) \<and> unat (vp_enclave_cid ports) \<le> 4096)"
proof -
  have p: "prepare_attempts X 1 HOST_RUNTIME_BIND_RETRY_LIMIT rejected st = (st', r)"
    using assms(1) by (simp add: prepare_host_runtime_def)
  have "frame st st'"
    using framed_prepare [OF frame_refl, of st X 1 HOST_RUNTIME_BIND_RETRY_LIMIT rejected] p by (simp add: framed_def)
  from frame_fields [OF this] show ?thesis using assms(2) p prepared_cid failed_prepare
    by (auto simp: idle_def split: sum.splits) blast+
qed

lemma try_start_spec:
  assumes "try_start X rejected st = (st', r)" and "idle st"
  shows "case r of
      Inl e \<Rightarrow> idle st' \<and> (en_trace st' = en_trace st \<or>
        (\<exists>cid. en_trace st' = en_trace st @ [Launched cid None] \<and> cid \<notin> set rejected \<and> 16 \<le> unat cid \<and> unat cid \<le> 4096 \<and>
           length rejected < MANAGED_CID_CONFLICT_RETRY_LIMIT))
    | Inr (Inr cid) \<Rightarrow> idle st' \<and> en_trace st' = en_trace st @ [Launched cid None] \<and> 16 \<le> unat cid \<and> unat cid \<le> 4096
    | Inr (Inl info) \<Rightarrow> en_console st' = None \<and> en_info st' = None \<and> length rejected < MANAGED_CID_CONFLICT_RETRY_LIMIT \<and>
        (\<exists>cid. en_trace st' = en_trace st @ [Launched cid (Some info)] \<and> cid \<notin> set rejected \<and> 16 \<le> unat cid \<and> unat cid \<le> 4096)"
proof (cases "length rejected < MANAGED_CID_CONFLICT_RETRY_LIMIT")
  case False
  then show ?thesis using assms by (auto simp: try_start_def ensure_managed_cid_retry_budget_def)
next
  case budget: True
  obtain s1 r1 where prep: "prepare_host_runtime X rejected st = (s1, r1)" by fastforce
  note s1 = prepare_spec [OF prep assms(2)]
  show ?thesis
  proof (cases r1)
    case (Inl e)
    then show ?thesis using assms budget prep s1 by (auto simp: try_start_def ensure_managed_cid_retry_budget_def)
  next
    case (Inr ports)
    let ?cid = "vp_enclave_cid ports"
    obtain w r2 where run: "run_enclave (rx_cli X) \<lparr>rg_cpu_count = en_cpu_count s1, rg_memory_mb = en_memory_mb s1,
        rg_eif_path = en_eif_path s1, rg_cid = Some ?cid, rg_debug_mode = en_debug_mode s1\<rparr> (en_world s1) = (w, r2)" by fastforce
    show ?thesis
    proof (cases r2)
      case info: (Inr info)
      then show ?thesis using assms budget prep s1 Inr run
        by (auto simp: try_start_def ensure_managed_cid_retry_budget_def in_world_def)
    next
      case err: (Inl err)
      define s2 where "s2 = s1\<lparr>en_vsock := Some ports, en_world := w, en_trace := en_trace s1 @ [Launched ?cid None]\<rparr>"
      obtain s3 r3 where clean: "cleanup_running_state X s2 = (s3, r3)" by fastforce
      have "idle s3 \<and> en_trace s3 = en_trace st @ [Launched ?cid None] \<and> r3 = Inr ()"
        using cleanup_spec [OF clean] s1 by (simp add: s2_def idle_def)
      moreover have "(st', r) = (s3, if is_managed_cid_conflict_error err then Inr (Inr ?cid)
          else Inl (HContext (''failed to start enclave with managed CID '' @ show_nat (unat ?cid)) err))"
        using assms(1) budget prep Inr run err clean calculation
        by (cases "is_managed_cid_conflict_error err")
           (simp_all add: try_start_def ensure_managed_cid_retry_budget_def in_world_def s2_def)
      ultimately show ?thesis using s1 Inr budget by auto
    qed
  qed
qed

text \<open>The launches of a run: all fail but possibly the last.\<close>

definition launches :: "u32 list \<Rightarrow> enclave_info option \<Rightarrow> host_event list" where
  "launches cs i =
     (case i of None \<Rightarrow> map (\<lambda>c. Launched c None) cs
      | Some info \<Rightarrow> map (\<lambda>c. Launched c None) (butlast cs) @ [Launched (last cs) (Some info)])"

definition fresh_cids :: "u32 list \<Rightarrow> u32 list \<Rightarrow> bool" where
  "fresh_cids rejected cs \<longleftrightarrow> distinct cs \<and> set cs \<inter> set rejected = {} \<and> (\<forall>c \<in> set cs. 16 \<le> unat c \<and> unat c \<le> 4096) \<and>
     length rejected + length cs \<le> MANAGED_CID_CONFLICT_RETRY_LIMIT"

lemma fresh_cids_Cons:
  "cid \<notin> set rejected \<Longrightarrow> 16 \<le> unat cid \<Longrightarrow> unat cid \<le> 4096 \<Longrightarrow> fresh_cids (List.insert cid rejected) cs \<Longrightarrow>
     fresh_cids rejected (cid # cs)"
  by (auto simp: fresh_cids_def)

lemma start_loop_spec:
  assumes "start_loop X rejected st = (st', r)" and "idle st" and "length rejected \<le> MANAGED_CID_CONFLICT_RETRY_LIMIT"
  shows "\<exists>cs. fresh_cids rejected cs \<and>
    (case r of
       Inl e \<Rightarrow> idle st' \<and> en_trace st' = en_trace st @ launches cs None
     | Inr info \<Rightarrow> en_console st' = None \<and> en_info st' = None \<and> cs \<noteq> [] \<and> en_trace st' = en_trace st @ launches cs (Some info))"
  using assms
proof (induction X rejected st arbitrary: st' r rule: start_loop.induct)
  case (1 X rejected st)
  obtain s1 r1 where t: "try_start X rejected st = (s1, r1)" by fastforce
  note spec = try_start_spec [OF t 1(3)] and IH = 1(1) and run = 1(2) [unfolded start_loop.simps [of X rejected st] t]
  have none: "fresh_cids rejected []" using 1(4) by (simp add: fresh_cids_def)
  have one: "fresh_cids rejected [cid]" if "cid \<notin> set rejected" "16 \<le> unat cid" "unat cid \<le> 4096"
      "length rejected < MANAGED_CID_CONFLICT_RETRY_LIMIT" for cid
    using that by (simp add: fresh_cids_def)
  consider e where "r1 = Inl e" | info where "r1 = Inr (Inl info)" | cid where "r1 = Inr (Inr cid)"
    by (metis sum.exhaust)
  then show ?case
  proof cases
    case 1
    then have out: "st' = s1" "r = Inl e" using run by simp_all
    show ?thesis
    proof (cases "en_trace s1 = en_trace st")
      case True
      then show ?thesis using none out spec 1 by (auto intro!: exI [of _ "[]"] simp: launches_def)
    next
      case False
      then obtain cid where "en_trace s1 = en_trace st @ [Launched cid None]" "fresh_cids rejected [cid]"
        using spec 1 one by auto
      then show ?thesis using out spec 1 by (auto intro!: exI [of _ "[cid]"] simp: launches_def)
    qed
  next
    case 2
    then have out: "st' = s1" "r = Inr info" using run by simp_all
    obtain cid where "en_trace s1 = en_trace st @ [Launched cid (Some info)]" "fresh_cids rejected [cid]"
      using spec 2 one by auto
    then show ?thesis using out spec 2 by (auto intro!: exI [of _ "[cid]"] simp: launches_def)
  next
    case 3
    then have rest: "start_loop X (List.insert cid rejected) s1 = (st', r)" using run by simp
    have s1: "idle s1" "en_trace s1 = en_trace st @ [Launched cid None]" "16 \<le> unat cid" "unat cid \<le> 4096" using spec 3 by auto
    have cid: "cid \<notin> set rejected" "length rejected < MANAGED_CID_CONFLICT_RETRY_LIMIT"
      using try_start_conflict [of X rejected st s1 cid] t 3 by simp_all
    then have "length (List.insert cid rejected) \<le> MANAGED_CID_CONFLICT_RETRY_LIMIT" by simp
    from IH [OF t [symmetric] 3 refl rest s1(1) this] obtain cs where cs: "fresh_cids (List.insert cid rejected) cs"
      "case r of Inl e \<Rightarrow> idle st' \<and> en_trace st' = en_trace s1 @ launches cs None
       | Inr info \<Rightarrow> en_console st' = None \<and> en_info st' = None \<and> cs \<noteq> [] \<and> en_trace st' = en_trace s1 @ launches cs (Some info)"
      by blast
    have "fresh_cids rejected (cid # cs)" using fresh_cids_Cons [OF cid(1) s1(3,4) cs(1)] .
    then show ?thesis using cs(2) s1(2) by (auto intro!: exI [of _ "cid # cs"] simp: launches_def split: sum.splits)
  qed
qed

text \<open>The setup after the start keeps the enclave and the trace.\<close>

lemma setup_spec:
  assumes "complete_post_start_setup X info st = (st', r)"
  shows "en_info st' = en_info st \<and> en_trace st' = en_trace st"
proof -
  have items: "en_info (fst (start_ingress_items X cid items s)) = en_info s \<and> en_trace (fst (start_ingress_items X cid items s)) = en_trace s"
    for cid items and s :: "('a, 'b) enclave"
    by (induction items arbitrary: s) (auto simp: in_world_def push_task_def sbind_def split: prod.splits sum.splits)
  obtain s1 r1 where c: "(if en_debug_mode st then attach_debug_console X (ei_id info) st else (st, Inr ())) = (s1, r1)" by fastforce
  have s1: "en_info s1 = en_info st \<and> en_trace s1 = en_trace st"
    using c by (auto simp: attach_debug_console_def in_world_def push_task_def sbind_def split: if_splits prod.splits sum.splits)
  show ?thesis
  proof (cases r1)
    case (Inl e)
    then show ?thesis using assms c s1 by (simp add: complete_post_start_setup_def)
  next
    case (Inr u)
    have "(st', r) = start_ingress_proxies X (ei_cid info) (push_task (LogTask (ei_cid info)) s1)"
      using assms c Inr by (simp add: complete_post_start_setup_def)
    then show ?thesis using s1 items by (auto simp: start_ingress_proxies_def push_task_def split: option.splits dest!: arg_cong [of _ _ fst])
  qed
qed

subsection \<open>Main results\<close>

text \<open>What is left of the enclave when a run returns.\<close>

definition wound_up :: "('c, 'w) enclave \<Rightarrow> ('c, 'w) enclave \<Rightarrow> (host_error, 'a) result \<Rightarrow> bool" where
  "wound_up st0 st r \<longleftrightarrow>
     (\<exists>cs i b. fresh_cids [] cs \<and> en_tasks st = [] \<and> en_console st = None \<and> en_vsock st = None \<and>
        (i \<noteq> None \<longrightarrow> cs \<noteq> []) \<and> (is_ok r \<longrightarrow> i \<noteq> None \<and> b) \<and>
        en_trace st = en_trace st0 @ launches cs i @ (case i of None \<Rightarrow> [] | Some info \<Rightarrow> [TerminateAsked (ei_id info) b]) \<and>
        en_info st = (if b then None else i))"

lemma cleanup_winds_up:
  assumes clean: "cleanup_running_state X s = (st, r)" and "en_info s = Some info" and "en_trace s = en_trace st0 @ launches cs (Some info)"
    and "fresh_cids [] cs" "cs \<noteq> []" and "is_ok r' \<longrightarrow> is_ok r"
  shows "wound_up st0 st r'"
  unfolding wound_up_def
  using cleanup_spec [OF clean] assms(2-) by (intro exI [of _ cs] exI [of _ "Some info"] exI [of _ "is_ok r"]) auto

lemma finalize_spec:
  assumes "finalize_exit_and_cleanup X exit_res s = (st, r)" and "cleanup_running_state X s = (s3, r3)"
  shows "st = s3 \<and> (is_ok r \<longrightarrow> is_ok r3)"
  using assms by (cases exit_res; cases r3) (auto simp: finalize_exit_and_cleanup_def)

lemma run_winds_up:
  assumes "idle st0" and run: "Enclave_run X J conns cancelled st0 = Some (st, r)"
  shows "wound_up st0 st r"
proof -
  obtain s1 r1 where start: "start_loop X [] st0 = (s1, r1)" by fastforce
  obtain cs where cs: "fresh_cids [] cs" and s1: "case r1 of
      Inl e \<Rightarrow> idle s1 \<and> en_trace s1 = en_trace st0 @ launches cs None
    | Inr info \<Rightarrow> en_console s1 = None \<and> en_info s1 = None \<and> cs \<noteq> [] \<and> en_trace s1 = en_trace st0 @ launches cs (Some info)"
    using start_loop_spec [OF start assms(1)] by auto
  show ?thesis
  proof (cases r1)
    case (Inl e)
    then show ?thesis using run assms(1) start s1 cs
      by (auto simp: Enclave_run_def idle_def wound_up_def intro!: exI [of _ cs] exI [of _ None] exI [of _ True])
  next
    case (Inr info)
    obtain s2 r2 where post: "complete_post_start_setup X info (s1\<lparr>en_info := Some info\<rparr>) = (s2, r2)" by fastforce
    have s2: "en_info s2 = Some info" "en_trace s2 = en_trace st0 @ launches cs (Some info)"
      using setup_spec [OF post] s1 Inr by auto
    obtain s3 r3 where clean: "cleanup_running_state X s2 = (s3, r3)" by fastforce
    have out: "st = s3 \<and> (is_ok r \<longrightarrow> is_ok r3)"
    proof (cases r2)
      case (Inl e)
      then show ?thesis using run assms(1) start Inr post clean
        by (auto simp: Enclave_run_def idle_def complete_post_start_setup_or_cleanup_def Let_def split: sum.splits)
    next
      case ok: (Inr u)
      obtain exit_res where "finalize_exit_and_cleanup X exit_res s2 = (st, r)"
        using run assms(1) start Inr post ok
        by (auto simp: Enclave_run_def idle_def complete_post_start_setup_or_cleanup_def)
      then show ?thesis using finalize_spec clean by blast
    qed
    then show ?thesis using cleanup_winds_up [OF clean s2 cs, of r] s1 Inr by simp
  qed
qed


text \<open>
  C33. The CIDs that are tried: a run makes at most eight attempts to start the enclave, each with a different
  managed CID between 16 and 4096, all but the last of which failed.
\<close>

theorem host_run_cids:
  assumes "Enclave_new X opts w = Inr st0" and "Enclave_run X J conns cancelled st0 = Some (st, r)"
  shows "\<exists>cs. distinct cs \<and> length cs \<le> 8 \<and> (\<forall>c \<in> set cs. 16 \<le> unat c \<and> unat c \<le> 4096) \<and>
    List.map_filter (\<lambda>e. case e of Launched c _ \<Rightarrow> Some c | _ \<Rightarrow> None) (en_trace st) = cs \<and>
    (\<forall>c info. Launched c (Some info) \<in> set (en_trace st) \<longrightarrow> c = last cs)"
proof -
  have new: "idle st0" "en_trace st0 = []" using assms(1) by (auto simp: Enclave_new_def Let_def idle_def result_elims)
  obtain cs i b where cs: "fresh_cids [] cs" "i \<noteq> None \<longrightarrow> cs \<noteq> []"
    and t: "en_trace st = launches cs i @ (case i of None \<Rightarrow> [] | Some info \<Rightarrow> [TerminateAsked (ei_id info) b])"
    using run_winds_up [OF new(1) assms(2)] new(2) by (auto simp: wound_up_def)
  have "List.map_filter (\<lambda>e. case e of Launched c _ \<Rightarrow> Some c | _ \<Rightarrow> None) (map (\<lambda>c. Launched c None) xs) = xs" for xs
    by (induction xs) (simp_all add: List.map_filter_def)
  then have "List.map_filter (\<lambda>e. case e of Launched c _ \<Rightarrow> Some c | _ \<Rightarrow> None) (en_trace st) = cs"
    using t cs(2) by (cases i) (auto simp: launches_def List.map_filter_def)
  moreover have "c = last cs" if "Launched c (Some info) \<in> set (en_trace st)" for c info
    using that t by (cases i) (auto simp: launches_def)
  ultimately show ?thesis using cs(1) by (auto simp: fresh_cids_def MANAGED_CID_CONFLICT_RETRY_LIMIT_def)
qed

subsection \<open>The ports of both sides\<close>

lemma successful_prepare:
  assumes "prepare_attempts X attempt n unavailable st = (st', Inr ports)" and "en_tasks st = []"
  shows "\<exists>s b u. en_tasks s = [] \<and> frame st s \<and> start_host_services X ports b s = (st', Inr u)"
  using assms
proof (induction X attempt n unavailable st arbitrary: st' rule: prepare_attempts.induct)
  case (2 X attempt n unavailable st)
  obtain s1 r1 where sel: "select_runtime_vsock_ports X unavailable st = (s1, r1)" by fastforce
  obtain p where p: "r1 = Inr p" using 2(2) sel by (cases r1) auto
  have s1: "en_tasks s1 = []" "frame st s1"
    using select_tasks [of X unavailable st] framed_select [OF frame_refl, of st X unavailable] sel 2(3) by (simp_all add: framed_def)
  obtain s2 r2 where start: "start_host_services X p (attempt = HOST_RUNTIME_BIND_RETRY_LIMIT) s1 = (s2, r2)" by fastforce
  show ?case
  proof (cases r2)
    case (Inl err)
    then have taken: "is_addr_in_use_error err"
      and rest: "prepare_attempts X (Suc attempt) n (List.insert (vp_enclave_cid p) unavailable) (abort_tasks s2) = (st', Inr ports)"
      using 2(2) sel p start by (auto split: if_splits)
    from 2(1) [OF start [symmetric] Inl taken rest] obtain s b u where s: "en_tasks s = []" "frame (abort_tasks s2) s"
      "start_host_services X ports b s = (st', Inr u)" by (auto simp: abort_tasks_def)
    have "frame s1 s2" using framed_services [OF frame_refl, of s1 X p] start by (metis framed_def fst_conv)
    then have "frame st s" using s1(2) s(2) frame_updates(2) [OF frame_trans] frame_trans by blast
    then show ?thesis using s by blast
  next
    case (Inr u)
    then show ?thesis using 2(2) sel p start s1 by auto
  qed
qed simp

text \<open>The mounts that the enclave asks for, with the ports it asks on.\<close>

definition record_mount :: "hostfs_mount_config \<Rightarrow> u32 \<Rightarrow> (string \<times> u32) list \<Rightarrow> (string \<times> u32) list \<times> (mount_error, unit) result" where
  "record_mount m port log = (log @ [(hm_name m, port)], Inr ())"

lemma hostfs_tasks_recorded:
  assumes "start_hostfs_mounts X ports i ms st = (st', Inr u)"
  shows "\<exists>log' r. start_mounts record_mount ports i ms log = (log', Inr r) \<and> set log \<subseteq> set log' \<and>
    (\<forall>t \<in> set (en_tasks st') - set (en_tasks st). \<exists>name port. t = HostfsTask name port \<and> (name, port) \<in> set log')"
  using assms
proof (induction ms arbitrary: i st log)
  case (Cons m ms)
  let ?root = "path_join (components CONTAINER_HOSTFS_ROOT) (components (hm_name m))"
  obtain port where port: "hostfs_mount_port ports i = Inr port"
    using Cons.prems by (cases "hostfs_mount_port ports i") auto
  let ?log = "log @ [(hm_name m, port)]"
  have step: "start_mounts record_mount ports i (m # ms) log =
      sbind (start_mounts record_mount ports (Suc i) ms ?log) (\<lambda>st rest. (st, Inr (() # rest)))"
    by (simp add: port record_mount_def)
  show ?case
  proof (cases "path_exists (rx_fs X (en_world st)) ?root")
    case False
    then have "start_hostfs_mounts X ports (Suc i) ms st = (st', Inr u)" using Cons.prems port by (auto split: if_splits)
    from Cons.IH [OF this, of ?log] show ?thesis unfolding step by auto
  next
    case True
    obtain s1 r1 where bnd: "HostFsProxy_bind X (hm_name m) ?root False port st = (s1, r1)" by fastforce
    have "en_tasks s1 = en_tasks st"
      using bnd by (auto simp: HostFsProxy_bind_def in_world_def sbind_def split: prod.splits sum.splits)
    moreover have "start_hostfs_mounts X ports (Suc i) ms (push_task (HostfsTask (hm_name m) port) s1) = (st', Inr u)"
      using Cons.prems port True bnd by (cases r1) (auto simp: Let_def)
    ultimately show ?thesis using Cons.IH [of "Suc i" "push_task (HostfsTask (hm_name m) port) s1" ?log] unfolding step
      by (auto simp: push_task_def) blast
  qed
qed auto

text \<open>
  C34. Host and enclave agree on the ports without talking to each other: when the host has prepared the services
  of an enclave, every one of its listeners is on the port that the runtime computes from its own CID
  and the same manifest: the egress proxy, the time server, and the file service of every mount
  that the runtime asks for.
\<close>

theorem host_and_enclave_ports_agree:
  assumes prep: "prepare_host_runtime X rejected st = (st', Inr ports)" and idle: "en_tasks st = []"
  shows "for_local_enclave (Some (vp_enclave_cid ports)) = Inr ports \<and>
    (\<exists>log r. HostFsMountService_start record_mount (Inr ()) (en_manifest st) ports [] = (log, Inr r) \<and>
       (\<forall>t \<in> set (en_tasks st'). t = EgressTask (vp_egress_port ports) \<or> t = ClockSyncTask (vp_clock_sync_port ports) \<or>
          (\<exists>name port. t = HostfsTask name port \<and> (name, port) \<in> set log)))"
proof -
  have p: "prepare_attempts X 1 HOST_RUNTIME_BIND_RETRY_LIMIT rejected st = (st', Inr ports)"
    using prep by (simp add: prepare_host_runtime_def)
  obtain s b u where s: "en_tasks s = []" "frame st s" "start_host_services X ports b s = (st', Inr u)"
    using successful_prepare [OF p idle] by blast
  note manifest = frame_fields(5) [OF s(2)]
  obtain s1 r1 where e: "start_egress_proxy X ports s = (s1, r1)" by fastforce
  have s1: "set (en_tasks s1) \<subseteq> {EgressTask (vp_egress_port ports)}" "en_manifest s1 = en_manifest s"
    using e s(1) by (auto simp: start_egress_proxy_def bind_vsock_def in_world_def push_task_def sbind_def
        split: if_splits prod.splits sum.splits)
  obtain v where v: "r1 = Inr v" using s(3) e by (cases r1) (auto simp: start_host_services_def)
  obtain s2 r2 where h: "start_hostfs_proxies X ports s1 = (s2, r2)" by fastforce
  obtain v2 where v2: "r2 = Inr v2" using s(3) e v h by (cases r2) (auto simp: start_host_services_def)
  have clock: "set (en_tasks st') \<subseteq> insert (ClockSyncTask (vp_clock_sync_port ports)) (set (en_tasks s2))"
    using s(3) e v h v2 by (auto simp: start_host_services_def start_clock_sync_server_def bind_vsock_def in_world_def push_task_def
        split: if_splits prod.splits sum.splits)
  have "\<exists>log r. HostFsMountService_start record_mount (Inr ()) (en_manifest st) ports [] = (log, Inr r) \<and>
      (\<forall>t \<in> set (en_tasks s2) - set (en_tasks s1). \<exists>name port. t = HostfsTask name port \<and> (name, port) \<in> set log)"
  proof (cases "hostfs_mounts (en_manifest st)")
    case None
    then show ?thesis using h s1(2) manifest by (simp add: start_hostfs_proxies_def HostFsMountService_start_def)
  next
    case (Some ms)
    then have "start_hostfs_mounts X ports 0 ms s1 = (s2, Inr v2)" using h v2 s1(2) manifest by (simp add: start_hostfs_proxies_def)
    from hostfs_tasks_recorded [OF this, of "[]"] show ?thesis using Some by (auto simp: HostFsMountService_start_def)
  qed
  then show ?thesis using clock s1(1) prepared_cid [OF p] by (auto simp: for_local_enclave_def) blast
qed

subsection \<open>The end of the entrypoint\<close>

text \<open>The line of a status without its newline, and the JSON value it stands for.\<close>

definition status_line :: "entrypoint_status \<Rightarrow> string" where
  "status_line st = butlast (as_json st)"

definition status_json :: "entrypoint_status \<Rightarrow> json_value" where
  "status_json st =
     (case st of
        StRunning \<Rightarrow> JObject [(''status'', JString ''running'')]
      | StExited (Exited code) \<Rightarrow> JObject [(''status'', JString ''exited''), (''code'', JNumber (show_int code))]
      | StExited (Signaled sig) \<Rightarrow> JObject [(''status'', JString ''signaled''), (''signal'', JString sig)]
      | StFatal err \<Rightarrow> JObject [(''status'', JString ''fatal''), (''error'', JString err)])"

text \<open>What the host makes of a status: nothing of a signal, which it expects as a number.\<close>

definition understood :: "entrypoint_status \<Rightarrow> enclave_exit_status option" where
  "understood st =
     (case st of
        StRunning \<Rightarrow> None
      | StExited (Exited code) \<Rightarrow> Some (EsExited code)
      | StExited (Signaled sig) \<Rightarrow> None
      | StFatal err \<Rightarrow> Some (EsFatal err))"

definition i32_status :: "entrypoint_status \<Rightarrow> bool" where
  "i32_status st \<longleftrightarrow> (\<forall>code. st = StExited (Exited code) \<longrightarrow> - (2 ^ 31) \<le> code \<and> code < 2 ^ 31)"

lemma digits_value_append: "digits_value acc (xs @ ys) = Option.bind (digits_value acc xs) (\<lambda>a. digits_value a ys)"
  by (induction acc xs rule: digits_value.induct) (auto split: option.splits)

lemma digit_value_char: "d < 10 \<Longrightarrow> digit_value (char_of (48 + d)) = Some d"
  by (simp add: digit_value_def Let_def)

lemma digits_value_show: "digits_value 0 (show_nat n) = Some n"
proof (induction n rule: show_nat.induct)
  case (1 n)
  then show ?case
    by (subst show_nat.simps) (auto simp: digits_value_append digit_value_char)
qed

lemma digit_value_minus: "digit_value (CHR ''-'') = None"
  by (simp add: digit_value_def)

lemma show_nat_head: "show_nat n \<noteq> [] \<and> hd (show_nat n) \<noteq> CHR ''-''"
proof (induction n rule: show_nat.induct)
  case (1 n)
  have "char_of (48 + n) \<noteq> CHR ''-''" if "n < 10"
    using that digit_value_char [of n] by (metis digit_value_minus option.distinct(1))
  with 1 show ?case by (simp add: show_nat.simps [of n] hd_append)
qed

lemma read_decimal_show: "n < limit \<Longrightarrow> read_decimal limit 0 (show_nat n) = Inr n"
  using read_decimal_value [of 0 limit "show_nat n" n] digits_value_show [of n] by simp

lemma json_i32_show: "- (2 ^ 31) \<le> code \<Longrightarrow> code < 2 ^ 31 \<Longrightarrow> json_i32 (JNumber (show_int code)) = Some code"
proof (cases "code < 0")
  case True
  assume "- (2 ^ 31) \<le> code"
  then have "nat (- code) < 2 ^ 31 + 1" using True by (subst nat_less_iff) simp_all
  then show ?thesis using True show_nat_head by (simp add: json_i32_def show_int_def read_decimal_show)
next
  case False
  assume "code < 2 ^ 31"
  then have "nat code < 2 ^ 31" using False by (subst nat_less_iff) simp_all
  then show ?thesis using False show_nat_head [of "nat code"]
    by (cases "show_nat (nat code)") (auto simp: json_i32_def show_int_def dest: read_decimal_show)
qed

lemma await_lines_append:
  "await_lines J (ls @ ls') = (case await_lines J ls of None \<Rightarrow> await_lines J ls' | Some s \<Rightarrow> Some s)"
  by (induction J ls rule: await_lines.induct) (auto split: option.splits enclave_process_status.splits)

definition reads_status :: "json_codec \<Rightarrow> entrypoint_status \<Rightarrow> bool" where
  "reads_status J st \<longleftrightarrow> js_parse J (str_bytes (status_line st)) = Inr (status_json st)"

lemma await_status_line:
  assumes "reads_status J st" and "i32_status st"
  shows "await_lines J [Inr (status_line st)] = understood st"
  using assms json_i32_show
  by (auto simp: status_of_line_def process_status_of_def reads_status_def status_json_def understood_def i32_status_def
      json_str_def json_get_def json_i32_def [of "JString s" for s] split: entrypoint_status.splits exit_status.splits)

text \<open>Connections that bring nothing: failures, broken lines and lines that say that the entrypoint runs.\<close>

definition quiet_line :: "(string, string) result \<Rightarrow> bool" where
  "quiet_line l \<longleftrightarrow> (\<forall>t. l = Inr t \<longrightarrow> t = status_line StRunning)"

definition quiet_conn :: "status_conn \<Rightarrow> bool" where
  "quiet_conn c \<longleftrightarrow> (case c of StatusConnectFailed \<Rightarrow> True | StatusLines ls \<Rightarrow> list_all quiet_line ls)"

lemma await_quiet_lines:
  assumes "reads_status J StRunning" and "list_all quiet_line ls"
  shows "await_lines J ls = None"
  using assms(2)
proof (induction ls)
  case (Cons l ls)
  have "await_lines J [l] = None"
    using Cons.prems await_status_line [OF assms(1)] by (cases l) (auto simp: quiet_line_def i32_status_def understood_def)
  then show ?case using Cons await_lines_append [of J "[l]" ls] by simp
qed simp

lemma await_quiet_conns:
  assumes "reads_status J StRunning" and "list_all quiet_conn pre"
    and "failed + int (length (filter (\<lambda>c. c = StatusConnectFailed) pre)) < STATUS_VSOCK_RETRY_LIMIT"
  shows "\<exists>failed'. await_exit J failed (pre @ cs) = await_exit J failed' cs"
  using assms(2,3)
proof (induction pre arbitrary: failed)
  case (Cons c pre)
  then show ?case using await_quiet_lines [OF assms(1)]
    by (cases c) (auto simp: quiet_conn_def)
qed auto

lemma await_final_line:
  assumes "reads_status J StRunning" "reads_status J final" and "i32_status final"
    and "list_all quiet_conn pre" "list_all quiet_line ls"
    and "failed + int (length (filter (\<lambda>c. c = StatusConnectFailed) pre)) < STATUS_VSOCK_RETRY_LIMIT"
  shows "await_exit J failed (pre @ [StatusLines (ls @ [Inr (status_line final)])]) = map_option Inr (understood final)"
proof -
  obtain failed' where "await_exit J failed (pre @ [StatusLines (ls @ [Inr (status_line final)])]) =
      await_exit J failed' [StatusLines (ls @ [Inr (status_line final)])]"
    using await_quiet_conns [OF assms(1,4,6)] by blast
  also have "\<dots> = map_option Inr (understood final)"
    using await_lines_append [of J ls "[Inr (status_line final)]"] await_quiet_lines [OF assms(1,5)] await_status_line [OF assms(2,3)]
    by (auto split: option.splits)
  finally show ?thesis .
qed


text \<open>Connecting to the log port always returns, after at most fifteen delays of at most five seconds.\<close>

lemma log_stream_delays:
  "attempt + n = Suc LOG_VSOCK_RETRY_LIMIT \<Longrightarrow> 0 < n \<Longrightarrow> delay \<le> LOG_VSOCK_MAX_RETRY_INTERVAL \<Longrightarrow>
     length (fst (log_stream_attempts attempt n delay dial)) < n \<and>
     (\<forall>d \<in> set (fst (log_stream_attempts attempt n delay dial)). d \<le> LOG_VSOCK_MAX_RETRY_INTERVAL) \<and>
     snd (log_stream_attempts attempt n delay dial) \<noteq> None"
proof (induction attempt n delay dial rule: log_stream_attempts.induct)
  case (2 attempt n delay dial)
  show ?case
  proof (cases "dial attempt")
    case (Inl err)
    show ?thesis
    proof (cases "attempt = LOG_VSOCK_RETRY_LIMIT")
      case True
      then show ?thesis using Inl by simp
    next
      case False
      then have "Suc attempt + n = Suc LOG_VSOCK_RETRY_LIMIT" "0 < n" using 2(2) by linarith+
      moreover have "next_log_vsock_retry_delay delay \<le> LOG_VSOCK_MAX_RETRY_INTERVAL" by (simp add: next_log_vsock_retry_delay_def)
      moreover obtain slept r where rest: "log_stream_attempts (Suc attempt) n (next_log_vsock_retry_delay delay) dial = (slept, r)"
        by fastforce
      ultimately have "length slept < n \<and> (\<forall>d \<in> set slept. d \<le> LOG_VSOCK_MAX_RETRY_INTERVAL) \<and> r \<noteq> None"
        using 2(1) [OF Inl False] by simp
      moreover have "log_stream_attempts attempt (Suc n) delay dial = (delay # slept, r)" using Inl False rest by simp
      ultimately show ?thesis using 2(4) by simp
    qed
  qed simp
qed simp

lemma log_stream_connect_returns:
  "\<exists>slept r. connect_to_capsule_runtime_log_stream dial = (slept, Some r) \<and> length slept < 16 \<and> (\<forall>d \<in> set slept. d \<le> 5000)"
  using log_stream_delays [of 1 LOG_VSOCK_RETRY_LIMIT LOG_VSOCK_INITIAL_RETRY_INTERVAL dial]
  by (cases "connect_to_capsule_runtime_log_stream dial")
     (auto simp: connect_to_capsule_runtime_log_stream_def LOG_VSOCK_RETRY_LIMIT_def LOG_VSOCK_INITIAL_RETRY_INTERVAL_def
        LOG_VSOCK_MAX_RETRY_INTERVAL_def)

subsection \<open>A concrete run\<close>

definition demo_info :: enclave_info where
  "demo_info = \<lparr>ei_name = ''e'', ei_id = ''i-1'', ei_process_id = 7, ei_cid = 16\<rparr>"

definition demo_nitro :: "(unit, unit) nitro_ops" where
  "demo_nitro = \<lparr>no_spawn = (\<lambda>_ w. (w, Inr ())),
     no_wait = (\<lambda>_ w. (w, Inr \<lparr>co_success = True, co_status = [], co_stdout = [], co_stderr = []\<rparr>)),
     no_utf8 = (\<lambda>_. Inr []), no_read = (\<lambda>_ _. Inr []), no_info = (\<lambda>_. Inr demo_info), no_infos = (\<lambda>_. Inr []),
     no_terminated = (\<lambda>_. Inr True), no_measurements = (\<lambda>_. Inl [])\<rparr>"

definition demo_run_env :: "(unit, unit) run_env" where
  "demo_run_env = \<lparr>rx_cli = demo_nitro, rx_fs = (\<lambda>_. \<lparr>hf_nodes = [], hf_cwd = []\<rparr>), rx_open = (\<lambda>_. Inr ()), rx_load = (\<lambda>_. Inr demo_config_manifest),
     rx_bind_vsock = (\<lambda>_ w. (w, Inr ())), rx_bind_tcp = (\<lambda>_ w. (w, Inr ())), rx_try_wait = (\<lambda>_ w. (w, Inr False)),
     rx_kill = (\<lambda>_ w. (w, Inr ()))\<rparr>"

definition demo_opts :: enclave_opts where
  "demo_opts = \<lparr>eo_eif_path = None, eo_manifest_path = None, eo_cpu_count = None, eo_memory_mb = None, eo_debug_mode = True\<rparr>"

definition demo_enclave :: "(unit, unit) enclave" where
  "demo_enclave = \<lparr>en_world = (), en_eif_path = push_name RELEASE_BUNDLE_DIR EIF_FILE_NAME, en_manifest = demo_config_manifest,
     en_cpu_count = 2, en_memory_mb = 4096, en_debug_mode = True, en_info = None, en_vsock = None, en_console = None,
     en_tasks = [], en_trace = []\<rparr>"

lemma demo_new: "Enclave_new demo_run_env demo_opts () = Inr demo_enclave"
  by (simp add: Enclave_new_def demo_run_env_def demo_opts_def demo_enclave_def chosen_def demo_config_manifest_def
      DEFAULT_CPU_COUNT_def DEFAULT_MEMORY_MB_def)

lemma demo_commands:
  "describe_enclaves demo_nitro w = (w, Inr [])" "terminate_enclave demo_nitro i w = (w, Inr ())"
  "nitro_console demo_nitro i w = (w, Inr ())"
  "1 \<le> rg_cpu_count a \<Longrightarrow> 64 \<le> rg_memory_mb a \<Longrightarrow> run_enclave demo_nitro a w = (w, Inr demo_info)"
  by (simp_all add: describe_enclaves_def terminate_enclave_def nitro_console_def run_enclave_def run_enclave_to_args_def
      run_and_deserialize_output_def demo_nitro_def)

lemma demo_prepare:
  "\<exists>ports. vp_enclave_cid ports = 16 \<and> prepare_host_runtime demo_run_env [] demo_enclave =
     (demo_enclave\<lparr>en_tasks := [ClockSyncTask (vp_clock_sync_port ports)]\<rparr>, Inr ports)"
proof -
  have "allocate_managed_enclave_cid {} = Inr 16" by (simp add: managed_cid_iff word_less_nat_alt)
  moreover obtain ports where ports: "for_cid 16 = Inr ports" using for_cid_ok [of 16] by auto
  ultimately have "select_runtime_vsock_ports demo_run_env [] demo_enclave = (demo_enclave, Inr ports)"
    by (simp add: select_runtime_vsock_ports_def in_world_def demo_run_env_def demo_commands demo_enclave_def)
  moreover have "start_host_services demo_run_env ports b demo_enclave =
      (demo_enclave\<lparr>en_tasks := [ClockSyncTask (vp_clock_sync_port ports)]\<rparr>, Inr ())" for b
    by (simp add: start_host_services_def start_egress_proxy_def start_hostfs_proxies_def start_clock_sync_server_def
        bind_vsock_def in_world_def push_task_def demo_run_env_def demo_enclave_def demo_config_manifest_def
        egress_proxy_enabled_def hostfs_mounts_def effective_clock_sync_def default_clock_sync_def)
  moreover have "vp_enclave_cid ports = 16" using ports by (auto simp: for_cid_def result_elims)
  ultimately show ?thesis
    by (intro exI [of _ ports]) (simp add: prepare_host_runtime_def HOST_RUNTIME_BIND_RETRY_LIMIT_def numeral_eq_Suc)
qed

lemma demo_run:
  "\<exists>st. Enclave_run demo_run_env J conns True demo_enclave = Some (st, Inr EsCancelled)"
proof -
  obtain ports where p: "vp_enclave_cid ports = 16" "prepare_host_runtime demo_run_env [] demo_enclave =
     (demo_enclave\<lparr>en_tasks := [ClockSyncTask (vp_clock_sync_port ports)]\<rparr>, Inr ports)" using demo_prepare by blast
  have cli: "rx_cli demo_run_env = demo_nitro" by (simp add: demo_run_env_def)
  obtain s1 where s1: "start_loop demo_run_env [] demo_enclave = (s1, Inr demo_info)" "en_debug_mode s1" "en_manifest s1 = demo_config_manifest"
    using p by (simp add: start_loop.simps [of demo_run_env "[]"] try_start_def ensure_managed_cid_retry_budget_def
        MANAGED_CID_CONFLICT_RETRY_LIMIT_def in_world_def cli demo_commands demo_enclave_def)
  have "complete_post_start_setup_or_cleanup demo_run_env demo_info (s1\<lparr>en_info := Some demo_info\<rparr>) =
     (push_task (LogTask 16) (push_task (ConsoleTask ''i-1'') (s1\<lparr>en_info := Some demo_info, en_console := Some ()\<rparr>)), Inr ())"
    using s1(2,3) by (simp add: complete_post_start_setup_or_cleanup_def complete_post_start_setup_def attach_debug_console_def in_world_def
        cli demo_commands start_ingress_proxies_def push_task_def demo_info_def demo_config_manifest_def)
  then show ?thesis using s1(1)
    by (simp add: Enclave_run_def finalize_exit_and_cleanup_def cleanup_running_state_def Let_def in_world_def cli demo_commands
        push_task_def) (simp add: demo_enclave_def)
qed

definition demo_status_codec :: json_codec where
  "demo_status_codec = \<lparr>js_parse = (\<lambda>b. if b = str_bytes (status_line StRunning) then Inr (status_json StRunning)
     else Inr (status_json (StExited (Exited 3)))), js_bytes = (\<lambda>_. [])\<rparr>"


theorem host_run_cids_witness:
  "\<exists>st. Enclave_run demo_run_env demo_status_codec [] True demo_enclave = Some (st, Inr EsCancelled) \<and>
     distinct (List.map_filter (\<lambda>e. case e of Launched c _ \<Rightarrow> Some c | _ \<Rightarrow> None) (en_trace st))"
proof -
  obtain st where st: "Enclave_run demo_run_env demo_status_codec [] True demo_enclave = Some (st, Inr EsCancelled)"
    using demo_run by blast
  from host_run_cids [OF demo_new st] st show ?thesis by blast
qed

theorem host_and_enclave_ports_agree_witness:
  "\<exists>ports. for_local_enclave (Some 16) = Inr ports \<and>
     prepare_host_runtime demo_run_env [] demo_enclave =
       (demo_enclave\<lparr>en_tasks := [ClockSyncTask (vp_clock_sync_port ports)]\<rparr>, Inr ports)"
proof -
  obtain ports where p: "vp_enclave_cid ports = 16" "prepare_host_runtime demo_run_env [] demo_enclave =
     (demo_enclave\<lparr>en_tasks := [ClockSyncTask (vp_clock_sync_port ports)]\<rparr>, Inr ports)" using demo_prepare by blast
  have "en_tasks demo_enclave = []" by (simp add: demo_enclave_def)
  from host_and_enclave_ports_agree [OF p(2) this] p show ?thesis by (intro exI [of _ ports]) simp
qed

lemma demo_codec_reads: "reads_status demo_status_codec StRunning" "reads_status demo_status_codec (StExited (Exited 3))"
  by (simp_all add: reads_status_def demo_status_codec_def status_line_def as_json_def quoted_def newline_def str_bytes_def butlast_append)


end
