(* ===== verification/Listeners.thy ===== *)
theory Listeners
  imports Host_Run_Safety Runtime_Services
begin

text \<open>
  The loops that accept connections: the ingress proxies (\<open>proxy/ingress.rs\<close>), the listeners of the egress
  and file proxies (\<open>proxy/egress_http.rs\<close>, \<open>proxy/fs_host.rs\<close>), the HTTP server (\<open>http_util.rs\<close>), the log and
  status servers (\<open>console.rs\<close>) and the streams of \<open>vsock.rs\<close>.  A loop is a function of the outcomes of
  accepting, in their order: it returns the connections handed to tasks and whether it has ended.
\<close>

datatype serve_state = Accepting | Stopped "(string, unit) result"

subsection \<open>Listening on vsock\<close>

text \<open>The stream of a vsock listener yields the accepted connections; it would yield \<open>None\<close> only at its end.\<close>

definition vsock_stream :: "(string, 'c) result list \<Rightarrow> 'c option list" where
  "vsock_stream outcomes = map Some (accepted outcomes)"

subsection \<open>Accept loops\<close>

fun HostProxy_serve :: "(string, 'c) result list \<Rightarrow> 'c list \<times> serve_state" where
  "HostProxy_serve [] = ([], Accepting)"
| "HostProxy_serve (Inr sock # rs) = (case HostProxy_serve rs of (socks, s) \<Rightarrow> (sock # socks, s))"
| "HostProxy_serve (Inl _ # rs) = ([], Stopped (Inr ()))"

fun HttpServer_serve :: "(string, 'c) result list \<Rightarrow> 'c list \<times> serve_state" where
  "HttpServer_serve [] = ([], Accepting)"
| "HttpServer_serve (Inr stream # rs) = (case HttpServer_serve rs of (streams, s) \<Rightarrow> (stream # streams, s))"
| "HttpServer_serve (Inl e # rs) = ([], Stopped (Inl e))"

fun EnclaveHttpProxy_serve :: "(string, 'c) result list \<Rightarrow> 'c list \<times> serve_state" where
  "EnclaveHttpProxy_serve [] = ([], Accepting)"
| "EnclaveHttpProxy_serve (Inr sock # rs) = (case EnclaveHttpProxy_serve rs of (socks, s) \<Rightarrow> (sock # socks, s))"
| "EnclaveHttpProxy_serve (Inl _ # rs) = EnclaveHttpProxy_serve rs"

fun HostHttpProxy_serve :: "'c option list \<Rightarrow> 'c list \<times> serve_state" where
  "HostHttpProxy_serve [] = ([], Accepting)"
| "HostHttpProxy_serve (Some stream # rs) = (case HostHttpProxy_serve rs of (streams, s) \<Rightarrow> (stream # streams, s))"
| "HostHttpProxy_serve (None # rs) = ([], Stopped (Inr ()))"

fun HostFsProxy_serve :: "'c option list \<Rightarrow> 'c list \<times> serve_state" where
  "HostFsProxy_serve [] = ([], Accepting)"
| "HostFsProxy_serve (Some stream # rs) = (case HostFsProxy_serve rs of (streams, s) \<Rightarrow> (stream # streams, s))"
| "HostFsProxy_serve (None # rs) = ([], Stopped (Inr ()))"

fun serve_log :: "'c option list \<Rightarrow> 'c list \<times> serve_state" where
  "serve_log [] = ([], Accepting)"
| "serve_log (Some sock # rs) = (case serve_log rs of (socks, s) \<Rightarrow> (sock # socks, s))"
| "serve_log (None # rs) = ([], Stopped (Inr ()))"

text \<open>The status server: the task ends at once if the port cannot be bound.\<close>

fun serve_status :: "'c option list \<Rightarrow> 'c list \<times> serve_state" where
  "serve_status [] = ([], Accepting)"
| "serve_status (Some sock # rs) = (case serve_status rs of (socks, s) \<Rightarrow> (sock # socks, s))"
| "serve_status (None # rs) = ([], Stopped (Inr ()))"

definition AppStatus_start_serving :: "(string, 'c option list) result \<Rightarrow> 'c list \<times> serve_state" where
  "AppStatus_start_serving incoming =
     (case incoming of Inr rs \<Rightarrow> serve_status rs | Inl e \<Rightarrow> ([], Stopped (Inl e)))"

subsection \<open>The ingress proxy of the enclave\<close>

text \<open>
  The select of the loop: a branch whose pattern does not match is disabled until the next round, and
  with both branches disabled the select panics.
\<close>

datatype 's ingress_poll = Incoming 's | IncomingEnded | ShutdownSent | ShutdownGone

datatype select_branches = BothBranches | OnlyShutdown | OnlyIncoming

datatype ingress_end = StillSelecting | Joining | SelectPanic

fun EnclaveProxy_serve :: "select_branches \<Rightarrow> 's ingress_poll list \<Rightarrow> 's list \<times> ingress_end" where
  "EnclaveProxy_serve b [] = ([], StillSelecting)"
| "EnclaveProxy_serve b (Incoming stream # ps) =
     (if b = OnlyShutdown then EnclaveProxy_serve b ps
      else (case EnclaveProxy_serve BothBranches ps of (proxies, e) \<Rightarrow> (stream # proxies, e)))"
| "EnclaveProxy_serve b (IncomingEnded # ps) =
     (if b = OnlyIncoming then ([], SelectPanic) else EnclaveProxy_serve OnlyShutdown ps)"
| "EnclaveProxy_serve b (ShutdownSent # ps) =
     (if b = OnlyIncoming then EnclaveProxy_serve b ps else ([], Joining))"
| "EnclaveProxy_serve b (ShutdownGone # ps) =
     (if b = OnlyShutdown then ([], SelectPanic) else EnclaveProxy_serve OnlyIncoming ps)"

subsection \<open>Ingress connections\<close>

datatype endpoint = TcpEndpoint string u16 | VsockEndpoint u32 u32

text \<open>Accepting one connection: the other end is connected, then bytes are copied both ways.\<close>

definition EnclaveProxy_service_conn ::
  "(endpoint \<Rightarrow> 'w \<Rightarrow> 'w \<times> (string, 'k) result) \<Rightarrow> ('c \<Rightarrow> 'k \<Rightarrow> 'w \<Rightarrow> 'w) \<Rightarrow> u16 \<Rightarrow> 'c \<Rightarrow> 'w \<Rightarrow> 'w" where
  "EnclaveProxy_service_conn dial copy_bidirectional port vsock w =
     (case dial (TcpEndpoint ''127.0.0.1'' port) w of
        (w, Inr tcp) \<Rightarrow> copy_bidirectional vsock tcp w
      | (w, Inl _) \<Rightarrow> w)"

definition HostProxy_service_conn ::
  "(endpoint \<Rightarrow> 'w \<Rightarrow> 'w \<times> (string, 'k) result) \<Rightarrow> ('c \<Rightarrow> 'k \<Rightarrow> 'w \<Rightarrow> 'w) \<Rightarrow> u32 \<Rightarrow> u32 \<Rightarrow> 'c \<Rightarrow> 'w \<Rightarrow> 'w" where
  "HostProxy_service_conn dial copy_bidirectional cid enclave_port tcp w =
     (case dial (VsockEndpoint cid enclave_port) w of
        (w, Inr vsock) \<Rightarrow> copy_bidirectional tcp vsock w
      | (w, Inl _) \<Rightarrow> w)"

text \<open>The host's task for an ingress port serves the enclave's vsock port of the same number.\<close>

definition serve_ingress_task ::
  "(endpoint \<Rightarrow> 'w \<Rightarrow> 'w \<times> (string, 'k) result) \<Rightarrow> ('c \<Rightarrow> 'k \<Rightarrow> 'w \<Rightarrow> 'w) \<Rightarrow> host_task \<Rightarrow> 'c \<Rightarrow> 'w \<Rightarrow> 'w" where
  "serve_ingress_task dial copy_bidirectional task tcp w =
     (case task of IngressTask port cid \<Rightarrow> HostProxy_service_conn dial copy_bidirectional cid (ucast port) tcp w | _ \<Rightarrow> w)"

definition EnclaveProxy_port :: "u16 \<Rightarrow> u32" where
  "EnclaveProxy_port port = ucast port"

definition EnclaveProxy_bind :: "(u32 \<Rightarrow> 'w \<Rightarrow> 'w \<times> (string, unit) result) \<Rightarrow> u16 \<Rightarrow> 'w \<Rightarrow> 'w \<times> (string, unit) result" where
  "EnclaveProxy_bind bind port w = bind (EnclaveProxy_port port) w"

subsection \<open>What an accept loop promises\<close>

text \<open>
  The contract of an accept loop: every accepted connection is served, a fatal outcome ends the loop,
  and any other outcome is passed over.
\<close>

locale accept_loop =
  fixes serve :: "'e list \<Rightarrow> 'c list \<times> serve_state" and conn :: "'e \<Rightarrow> 'c option" and fatal :: "'e \<Rightarrow> bool"
  assumes serve_Nil: "serve [] = ([], Accepting)"
    and serve_conn: "conn e = Some c \<Longrightarrow> serve (e # es) = (c # fst (serve es), snd (serve es))"
    and serve_fatal: "fatal e \<Longrightarrow> fst (serve (e # es)) = [] \<and> snd (serve (e # es)) \<noteq> Accepting"
    and serve_skip: "conn e = None \<Longrightarrow> \<not> fatal e \<Longrightarrow> serve (e # es) = serve es"
    and conn_not_fatal: "conn e = Some c \<Longrightarrow> \<not> fatal e"
begin

lemma served: "fst (serve es) = List.map_filter conn (takeWhile (\<lambda>e. \<not> fatal e) es)"
proof (induction es)
  case (Cons e es)
  then show ?case
    using serve_conn [of e _ es] serve_fatal [of e es] serve_skip [of e es] conn_not_fatal [of e]
    by (cases "conn e"; cases "fatal e") (auto simp: map_filter_simps)
qed (simp add: serve_Nil map_filter_simps)

lemma serving_iff: "snd (serve es) = Accepting \<longleftrightarrow> (\<forall>e \<in> set es. \<not> fatal e)"
proof (induction es)
  case (Cons e es)
  then show ?case
    using serve_conn [of e _ es] serve_fatal [of e es] serve_skip [of e es] conn_not_fatal [of e]
    by (cases "conn e"; cases "fatal e") auto
qed (simp add: serve_Nil)

lemma all_served: "\<forall>e \<in> set es. \<not> fatal e \<Longrightarrow> serve es = (List.map_filter conn es, Accepting)"
  using served [of es] serving_iff [of es] by (metis prod.collapse takeWhile_eq_all_conv)

end

text \<open>A loop that no outcome ends.\<close>

locale tireless_loop = accept_loop +
  assumes never_fatal: "\<not> fatal e"
begin

lemma serves_everything: "serve es = (List.map_filter conn es, Accepting)"
  by (simp add: all_served never_fatal)

end

definition accepted_of :: "(string, 'c) result \<Rightarrow> 'c option" where
  "accepted_of r = (case r of Inr c \<Rightarrow> Some c | Inl _ \<Rightarrow> None)"

interpretation host_ingress: accept_loop HostProxy_serve accepted_of isl
  by unfold_locales (auto simp: accepted_of_def isl_def split: sum.splits prod.splits)

interpretation http_server: accept_loop HttpServer_serve accepted_of isl
  by unfold_locales (auto simp: accepted_of_def isl_def split: sum.splits prod.splits)

interpretation egress_listener: tireless_loop EnclaveHttpProxy_serve accepted_of "\<lambda>_. False"
  by unfold_locales (auto simp: accepted_of_def split: sum.splits prod.splits)

interpretation egress_host: accept_loop HostHttpProxy_serve "\<lambda>x. x" "\<lambda>x. x = None"
  by unfold_locales (auto split: prod.splits)

interpretation hostfs_host: accept_loop HostFsProxy_serve "\<lambda>x. x" "\<lambda>x. x = None"
  by unfold_locales (auto split: prod.splits)

interpretation log_server: accept_loop serve_log "\<lambda>x. x" "\<lambda>x. x = None"
  by unfold_locales (auto split: prod.splits)

interpretation status_server: accept_loop serve_status "\<lambda>x. x" "\<lambda>x. x = None"
  by unfold_locales (auto split: prod.splits)

lemma accepted_filter: "List.map_filter accepted_of outcomes = accepted outcomes"
  by (induction outcomes rule: accepted.induct) (simp_all add: map_filter_simps accepted_of_def)

lemma vsock_stream_open: "\<forall>x \<in> set (vsock_stream outcomes). x \<noteq> None"
  by (simp add: vsock_stream_def)

lemma vsock_stream_accepted: "List.map_filter (\<lambda>x. x) (vsock_stream outcomes) = accepted outcomes"
  by (simp add: vsock_stream_def List.map_filter_def comp_def)

text \<open>
  C40. Which listeners survive a failed accept. The listeners on vsock (egress, files, log, status) and the
  egress proxy inside the enclave serve every connection that was accepted, whatever fails in between,
  and keep serving. The host's ingress proxies and the HTTP servers of the APIs serve exactly the
  connections before the first failure, and stop for good there.
\<close>

theorem listeners_and_accept_failures:
  "HostHttpProxy_serve (vsock_stream outcomes) = (accepted outcomes, Accepting) \<and>
   HostFsProxy_serve (vsock_stream outcomes) = (accepted outcomes, Accepting) \<and>
   serve_log (vsock_stream outcomes) = (accepted outcomes, Accepting) \<and>
   AppStatus_start_serving (Inr (vsock_stream outcomes)) = (accepted outcomes, Accepting) \<and>
   EnclaveHttpProxy_serve outcomes = (accepted outcomes, Accepting) \<and>
   (\<forall>serve \<in> {HostProxy_serve, HttpServer_serve}.
      fst (serve outcomes) = accepted (takeWhile (\<lambda>r. \<not> isl r) outcomes) \<and>
      (snd (serve outcomes) = Accepting \<longleftrightarrow> (\<forall>r \<in> set outcomes. \<not> isl r)))"
  using egress_host.all_served [OF vsock_stream_open, of outcomes] hostfs_host.all_served [OF vsock_stream_open, of outcomes]
    log_server.all_served [OF vsock_stream_open, of outcomes] status_server.all_served [OF vsock_stream_open, of outcomes]
    egress_listener.serves_everything [of outcomes] host_ingress.served [of outcomes] host_ingress.serving_iff [of outcomes]
    http_server.served [of outcomes] http_server.serving_iff [of outcomes]
  by (simp add: vsock_stream_accepted AppStatus_start_serving_def accepted_filter)

theorem listeners_and_accept_failures_witness:
  "EnclaveHttpProxy_serve [Inr 1, Inl ''EMFILE'', Inr (2 :: nat)] = ([1, 2], Accepting) \<and>
   fst (HostProxy_serve [Inr 1, Inl ''EMFILE'', Inr (2 :: nat)]) = [1]"
  using listeners_and_accept_failures [of "[Inr 1, Inl ''EMFILE'', Inr (2 :: nat)]"]
  by simp

subsection \<open>The way of an ingress connection\<close>

lemma start_ingress_tasks:
  "start_ingress_items X cid items st = (st', Inr ()) \<Longrightarrow>
     en_tasks st' = en_tasks st @ map (\<lambda>i. IngressTask (ing_listen_port i) cid) items"
proof (induction items arbitrary: st)
  case (Cons i items)
  obtain s r where s: "in_world (rx_bind_tcp X (ing_listen_port i)) st = (s, r)" by fastforce
  then have "en_tasks s = en_tasks st" by (auto simp: in_world_def split: prod.splits)
  then show ?case using Cons s by (cases r) (auto simp: push_task_def)
qed simp

text \<open>
  The proxy of the enclave serves what comes before the shutdown and then waits for it; with a stream
  that never ends, as a vsock listener's, the select always has a branch.
\<close>

lemma ingress_until_shutdown: "EnclaveProxy_serve BothBranches (map Incoming streams @ ShutdownSent # ps) = (streams, Joining)"
  by (induction streams) auto

lemma ingress_never_panics: "IncomingEnded \<notin> set ps \<Longrightarrow> b \<noteq> OnlyShutdown \<Longrightarrow> snd (EnclaveProxy_serve b ps) \<noteq> SelectPanic"
  by (induction b ps rule: EnclaveProxy_serve.induct) (auto split: prod.splits)

lemma EnclaveProxy_port_inj: "EnclaveProxy_port p = EnclaveProxy_port p' \<longleftrightarrow> p = p'"
proof -
  have "uint (EnclaveProxy_port q) = uint q" for q
    using uint_lt2p [of q] by (simp add: EnclaveProxy_port_def unsigned_ucast_eq take_bit_int_eq_self)
  then show ?thesis by (metis word_uint_eqI)
qed

lemma port_owner: "p \<in> set ports \<Longrightarrow> find (\<lambda>p'. EnclaveProxy_port p' = EnclaveProxy_port p) ports = Some p"
  by (induction ports) (auto simp: EnclaveProxy_port_inj)



end
