(* ===== verification/Images.thy ===== *)
theory Images
  imports Nitro_Cli Http_Util
begin

text \<open>
  Docker images (\<open>images.rs\<close>) and the container that runs \<open>nitro-cli\<close> (\<open>nitro_cli_container.rs\<close>).  The
  Docker daemon is a set of functions on a world; its streams are the lists of their items.  The
  state keeps a trace of the calls that change something or may.
\<close>

datatype docker_error = DockerResponse nat string | DockerOther string

datatype build_error =
    BDocker docker_error
  | BLoad load_error
  | BText string
  | BContext string build_error

text \<open>\<open>downcast_ref\<close> finds the cause below a context.\<close>

fun docker_cause :: "build_error \<Rightarrow> docker_error option" where
  "docker_cause (BDocker e) = Some e"
| "docker_cause (BContext _ e) = docker_cause e"
| "docker_cause _ = None"

record image_config =
  ic_cmd :: "string list option"
  ic_entrypoint :: "string list option"
  ic_working_dir :: "string option"

record image_inspect =
  ii_id :: "string option"
  ii_repo_digests :: "string list option"
  ii_config :: "image_config option"

record image_ref =
  im_id :: string
  im_name :: "string option"
  im_repo_digest :: "string option"

record build_info =
  bi_aux_id :: "string option"
  bi_error :: "string option"

record container_spec =
  sp_image :: string
  sp_cmd :: "string list option"
  sp_mounts :: "(string \<times> string) list"
  sp_binds :: "string list option"
  sp_exposed :: "string list"
  sp_ports :: "(string \<times> string) list"
  sp_devices :: "(string \<times> string \<times> string) list"
  sp_privileged :: bool

text \<open>A build context: the Dockerfile and the files copied beside it.\<close>

record build_context =
  bc_dockerfile :: string
  bc_files :: "(string \<times> bytes) list"

text \<open>The output of a container, its messages already decoded.\<close>

datatype log_output = StdOut string | StdErr string | OtherLog

record 'w docker_ops =
  dk_inspect :: "string \<Rightarrow> 'w \<Rightarrow> 'w \<times> (docker_error, image_inspect) result"
  dk_create_image :: "string \<Rightarrow> 'w \<Rightarrow> 'w \<times> (docker_error, unit) result list"
  dk_build :: "(build_error, build_context) result \<Rightarrow> 'w \<Rightarrow> 'w \<times> (docker_error, build_info) result list"
  dk_tag :: "string \<Rightarrow> string \<Rightarrow> 'w \<Rightarrow> 'w \<times> (docker_error, unit) result"
  dk_remove_image :: "string \<Rightarrow> 'w \<Rightarrow> 'w \<times> (docker_error, unit) result"
  dk_create_container :: "container_spec \<Rightarrow> 'w \<Rightarrow> 'w \<times> (docker_error, string) result"
  dk_start_container :: "string \<Rightarrow> 'w \<Rightarrow> 'w \<times> (docker_error, unit) result"
  dk_wait_container :: "string \<Rightarrow> 'w \<Rightarrow> 'w \<times> (docker_error, int) result list"
  dk_stop_container :: "string \<Rightarrow> 'w \<Rightarrow> 'w \<times> (docker_error, unit) result"
  dk_remove_container :: "string \<Rightarrow> 'w \<Rightarrow> 'w \<times> (docker_error, unit) result"
  dk_logs :: "string \<Rightarrow> 'w \<Rightarrow> (docker_error, log_output) result list"

datatype docker_event =
    Pulled string
  | BuiltImage
  | Tagged string string
  | CreatedContainer container_spec "string option"
  | StartedContainer string
  | AwaitedContainer string "int option"
  | StoppedContainer string
  | RemovedContainer string
  | RemovedImage string

record 'w build_state =
  bs_world :: 'w
  bs_trace :: "docker_event list"

type_synonym ('w, 'a) building = "'w build_state \<times> (build_error, 'a) result"

definition on_docker :: "('w \<Rightarrow> 'w \<times> 'r) \<Rightarrow> 'w build_state \<Rightarrow> 'w build_state \<times> 'r" where
  "on_docker f st = (case f (bs_world st) of (w, r) \<Rightarrow> (st\<lparr>bs_world := w\<rparr>, r))"

definition noting :: "('r \<Rightarrow> docker_event) \<Rightarrow> ('w \<Rightarrow> 'w \<times> 'r) \<Rightarrow> 'w build_state \<Rightarrow> 'w build_state \<times> 'r" where
  "noting ev f st =
     (case f (bs_world st) of (w, r) \<Rightarrow> (st\<lparr>bs_world := w, bs_trace := bs_trace st @ [ev r]\<rparr>, r))"

definition docker_step :: "'w build_state \<times> (docker_error, 'a) result \<Rightarrow> ('w, 'a) building" where
  "docker_step r = (case r of (st, x) \<Rightarrow> (st, map_err BDocker x))"

text \<open>\<open>try_collect\<close> of a stream: the first error ends it.\<close>

definition try_collect :: "('e, 'a) result list \<Rightarrow> ('e, 'a list) result" where
  "try_collect items = collect_results (\<lambda>x. x) items"

subsection \<open>Images\<close>

definition ImageManager_image :: "'w docker_ops \<Rightarrow> string \<Rightarrow> 'w build_state \<Rightarrow> ('w, image_ref) building" where
  "ImageManager_image D name st =
     (case on_docker (dk_inspect D name) st of
        (st, Inl e) \<Rightarrow> (st, Inl (BContext (''inspecting image '' @ name) (BDocker e)))
      | (st, Inr img) \<Rightarrow>
          (st, case ii_id img of
                 Some iid \<Rightarrow> Inr \<lparr>im_id = iid, im_name = None,
                   im_repo_digest = (case unwrap_or [] (ii_repo_digests img) of [] \<Rightarrow> None | d # _ \<Rightarrow> Some d)\<rparr>
               | None \<Rightarrow> Inl (BText ''missing image ID in image_inspect result'')))"

definition pull_image :: "'w docker_ops \<Rightarrow> string \<Rightarrow> 'w build_state \<Rightarrow> ('w, image_ref) building" where
  "pull_image D image_name st =
     (case noting (\<lambda>_. Pulled image_name) (dk_create_image D image_name) st of
        (st, items) \<Rightarrow>
          sbind (st, map_err BDocker (try_collect items)) (\<lambda>st _. ImageManager_image D image_name st))"

definition find_or_pull :: "'w docker_ops \<Rightarrow> string \<Rightarrow> 'w build_state \<Rightarrow> ('w, image_ref) building" where
  "find_or_pull D image_name st =
     (case ImageManager_image D image_name st of
        (st, Inr img) \<Rightarrow> (st, Inr img)
      | (st, Inl e) \<Rightarrow>
          (case docker_cause e of
             Some (DockerResponse code _) \<Rightarrow> if code = 404 then pull_image D image_name st else (st, Inl e)
           | _ \<Rightarrow> (st, Inl e)))"

definition ImageManager_tag_image :: "'w docker_ops \<Rightarrow> image_ref \<Rightarrow> string \<Rightarrow> 'w build_state \<Rightarrow> ('w, unit) building" where
  "ImageManager_tag_image D img tag st = docker_step (noting (\<lambda>_. Tagged (im_id img) tag) (dk_tag D (im_id img) tag) st)"

subsection \<open>Layers\<close>

datatype file_source = LocalFile string | ImageFile string string

record file_builder =
  fb_path :: string
  fb_source :: file_source
  fb_chown :: string

record layer_builder =
  ly_files :: "file_builder list"
  ly_entrypoint :: "string list option"

definition LayerBuilder_new :: layer_builder where
  "LayerBuilder_new = \<lparr>ly_files = [], ly_entrypoint = None\<rparr>"

definition append_file :: "file_builder \<Rightarrow> layer_builder \<Rightarrow> layer_builder" where
  "append_file f l = l\<lparr>ly_files := ly_files l @ [f]\<rparr>"

definition set_entrypoint :: "string list \<Rightarrow> layer_builder \<Rightarrow> layer_builder" where
  "set_entrypoint e l = l\<lparr>ly_entrypoint := Some e\<rparr>"

text \<open>The \<open>COPY\<close> line of a file.  Paths are texts, so \<open>must_to_str\<close> does not fail.\<close>

definition FileBuilder_realize :: "file_builder \<Rightarrow> string" where
  "FileBuilder_realize f =
     ''COPY --chown='' @ fb_chown f @
     (case fb_source f of
        LocalFile _ \<Rightarrow> '' files/'' @ fb_path f
      | ImageFile image_name path \<Rightarrow> '' --from='' @ image_name @ '' '' @ path) @
     '' '' @ fb_path f @ [CHR 0x0A]"

text \<open>A local file is copied into the context at its path without the leading slash.\<close>

fun realize_files :: "(string \<Rightarrow> (string, bytes) result) \<Rightarrow> file_builder list \<Rightarrow> (build_error, build_context) result" where
  "realize_files read [] = Inr \<lparr>bc_dockerfile = [], bc_files = []\<rparr>"
| "realize_files read (f # fs) =
     rbind (case fb_source f of
              LocalFile source_path \<Rightarrow>
                rbind (ok_or (BText ''prefix not found'') (strip_prefix ''/'' (fb_path f))) (\<lambda>target.
                rbind (map_err BText (read source_path)) (\<lambda>content.
                Inr [(target, content)]))
            | ImageFile _ _ \<Rightarrow> Inr []) (\<lambda>copied.
     rbind (realize_files read fs) (\<lambda>rest.
     Inr \<lparr>bc_dockerfile = FileBuilder_realize f @ bc_dockerfile rest, bc_files = copied @ bc_files rest\<rparr>))"

definition LayerBuilder_realize ::
  "json_codec \<Rightarrow> (string \<Rightarrow> (string, bytes) result) \<Rightarrow> string \<Rightarrow> layer_builder \<Rightarrow> (build_error, build_context) result" where
  "LayerBuilder_realize J read source_image_name l =
     rbind (realize_files read (ly_files l)) (\<lambda>ctx.
     Inr (ctx\<lparr>bc_dockerfile := ''FROM '' @ source_image_name @ [CHR 0x0A, CHR 0x0A] @ bc_dockerfile ctx @
       (case ly_entrypoint l of
          Some e \<Rightarrow> ''ENTRYPOINT '' @ bytes_str (js_bytes J (JArray (map JString e))) @ [CHR 0x0A]
        | None \<Rightarrow> [])\<rparr>))"

fun find_image_id :: "build_info list \<Rightarrow> (build_error, string option) result" where
  "find_image_id [] = Inr None"
| "find_image_id (info # infos) =
     (case bi_aux_id info of
        Some iid \<Rightarrow> Inr (Some iid)
      | None \<Rightarrow>
          (case bi_error info of
             Some msg \<Rightarrow> Inl (BText (''build error appending layer: '' @ msg))
           | None \<Rightarrow> find_image_id infos))"

text \<open>The context is made while the daemon reads it, so a failed context still reaches the daemon.\<close>

definition append_layer ::
  "'w docker_ops \<Rightarrow> json_codec \<Rightarrow> ('w \<Rightarrow> string \<Rightarrow> (string, bytes) result) \<Rightarrow> image_ref \<Rightarrow> layer_builder \<Rightarrow> 'w build_state
     \<Rightarrow> ('w, image_ref) building" where
  "append_layer D J read img layer st =
     (let realize_res = LayerBuilder_realize J (read (bs_world st)) (im_id img) layer in
      case noting (\<lambda>_. BuiltImage) (dk_build D realize_res) st of
        (st, infos) \<Rightarrow>
          sbind (st, realize_res) (\<lambda>st _.
          sbind (st, map_err BDocker (try_collect infos)) (\<lambda>st build_infos.
          sbind (st, find_image_id build_infos) (\<lambda>st maybe_id.
          case maybe_id of
            Some image_id \<Rightarrow> ImageManager_image D image_id st
          | None \<Rightarrow> (st, Inl (BText ''missing image ID''))))))"

subsection \<open>The container of nitro-cli\<close>

record signing_info =
  si_key :: string
  si_certificate :: string

definition build_enclave_spec ::
  "image_ref \<Rightarrow> string \<Rightarrow> string \<Rightarrow> string \<Rightarrow> string \<Rightarrow> signing_info option \<Rightarrow> container_spec" where
  "build_enclave_spec img eif_name docker_uri docker_dir build_dir_path sign =
     \<lparr>sp_image = im_id img,
      sp_cmd = Some ([''build-enclave'', ''--docker-uri'', docker_uri, ''--docker-dir'', docker_dir, ''--output-file'', eif_name] @
        (if sign \<noteq> None then [''--signing-certificate'', ''/var/run/certificate'', ''--private-key'', ''/var/run/key''] else [])),
      sp_mounts = [(''/var/run/docker.sock'', ''/var/run/docker.sock''), (build_dir_path, ''/build'')] @
        (case sign of Some s \<Rightarrow> [(si_key s, ''/var/run/key''), (si_certificate s, ''/var/run/certificate'')] | None \<Rightarrow> []),
      sp_binds = None, sp_exposed = [], sp_ports = [], sp_devices = [], sp_privileged = False\<rparr>"

definition create_container :: "'w docker_ops \<Rightarrow> container_spec \<Rightarrow> 'w build_state \<Rightarrow> ('w, string) building" where
  "create_container D spec st =
     docker_step (noting (\<lambda>r. CreatedContainer spec (case r of Inr iid \<Rightarrow> Some iid | Inl _ \<Rightarrow> None)) (dk_create_container D spec) st)"

definition start_container :: "'w docker_ops \<Rightarrow> string \<Rightarrow> 'w build_state \<Rightarrow> ('w, unit) building" where
  "start_container D iid st = docker_step (noting (\<lambda>_. StartedContainer iid) (dk_start_container D iid) st)"

definition build_enclave ::
  "'w docker_ops \<Rightarrow> image_ref \<Rightarrow> string \<Rightarrow> string \<Rightarrow> string \<Rightarrow> string \<Rightarrow> signing_info option \<Rightarrow> 'w build_state
     \<Rightarrow> ('w, string) building" where
  "build_enclave D img eif_name docker_uri docker_dir build_dir_path sign st =
     sbind (create_container D (build_enclave_spec img eif_name docker_uri docker_dir build_dir_path sign) st) (\<lambda>st iid.
     sbind (start_container D iid st) (\<lambda>st _. (st, Inr iid)))"

definition container_stderr :: "'w docker_ops \<Rightarrow> string \<Rightarrow> 'w \<Rightarrow> string list" where
  "container_stderr D iid w =
     List.map_filter (\<lambda>out. case out of Inr (StdErr message) \<Rightarrow> Some message | _ \<Rightarrow> None) (dk_logs D iid w)"

definition container_stdout :: "'w docker_ops \<Rightarrow> string \<Rightarrow> 'w \<Rightarrow> string list" where
  "container_stdout D iid w =
     List.map_filter (\<lambda>out. case out of Inr (StdOut message) \<Rightarrow> Some message | _ \<Rightarrow> None) (dk_logs D iid w)"

definition wait_answer :: "(docker_error, int) result list \<Rightarrow> (build_error, int) result" where
  "wait_answer items =
     rbind (map_err BDocker (try_collect items)) (\<lambda>codes.
     ok_or (BText ''missing wait response from daemon'') (case codes of [] \<Rightarrow> None | c # _ \<Rightarrow> Some c))"

definition wait_container :: "'w docker_ops \<Rightarrow> string \<Rightarrow> 'w build_state \<Rightarrow> ('w, int) building" where
  "wait_container D iid st =
     (case noting (\<lambda>items. AwaitedContainer iid (case wait_answer items of Inr c \<Rightarrow> Some c | Inl _ \<Rightarrow> None))
             (dk_wait_container D iid) st of
        (st, items) \<Rightarrow> (st, wait_answer items))"

definition remove_container :: "'w docker_ops \<Rightarrow> string \<Rightarrow> 'w build_state \<Rightarrow> ('w, unit) building" where
  "remove_container D iid st = docker_step (noting (\<lambda>_. RemovedContainer iid) (dk_remove_container D iid) st)"

definition remove_image :: "'w docker_ops \<Rightarrow> string \<Rightarrow> 'w build_state \<Rightarrow> ('w, unit) building" where
  "remove_image D name st = docker_step (noting (\<lambda>_. RemovedImage name) (dk_remove_image D name) st)"

end
