(* ===== verification/Build.thy ===== *)
theory Build
  imports Images Runtime_Config Host_Run
begin

text \<open>
  Building a release image from a manifest (\<open>build.rs\<close>): resolving the source images, adding the runtime
  and the manifest to the application image, converting it to an enclave image and packaging that.
\<close>

definition ENCLAVE_CONFIG_DIR :: string where "ENCLAVE_CONFIG_DIR = ''/etc/capsule''"
definition ENCLAVE_CAPSULE_RUNTIME_PATH :: string where "ENCLAVE_CAPSULE_RUNTIME_PATH = ''/sbin/capsule-runtime''"
definition ENCLAVE_OVERLAY_CHOWN :: string where "ENCLAVE_OVERLAY_CHOWN = ''0:0''"
definition RELEASE_OVERLAY_CHOWN :: string where "RELEASE_OVERLAY_CHOWN = ''0:0''"
definition NITRO_CLI_IMAGE :: string where "NITRO_CLI_IMAGE = ''public.ecr.aws/d4t4u8d2/sparsity-ai/nitro-cli:latest''"
definition CAPSULE_RUNTIME_IMAGE :: string where
  "CAPSULE_RUNTIME_IMAGE = ''public.ecr.aws/d4t4u8d2/sparsity-ai/capsule-runtime:latest''"
definition CAPSULE_RUNTIME_IMAGE_BINARY_PATH :: string where
  "CAPSULE_RUNTIME_IMAGE_BINARY_PATH = ''/usr/local/bin/capsule-runtime''"
definition CAPSULE_SHELL_IMAGE :: string where
  "CAPSULE_SHELL_IMAGE = ''public.ecr.aws/d4t4u8d2/sparsity-ai/capsule-shell:latest''"

text \<open>The build: the daemon, and the file system of the machine that builds.\<close>

record 'w builder =
  bu_docker :: "'w docker_ops"
  bu_pull_tags :: bool
  bu_json :: json_codec
  bu_load :: "string \<Rightarrow> 'w \<Rightarrow> (load_error, manifest) result"
  bu_read :: "'w \<Rightarrow> string \<Rightarrow> (string, bytes) result"
  bu_canonicalize :: "path \<Rightarrow> 'w \<Rightarrow> (string, string) result"
  bu_tempdir :: "'w \<Rightarrow> 'w \<times> (string, string) result"
  bu_uuid :: "'w \<Rightarrow> 'w \<times> string"
  bu_write_context :: "string \<Rightarrow> string \<Rightarrow> 'w \<Rightarrow> 'w \<times> (string, unit) result"
  bu_rename :: "string \<Rightarrow> string \<Rightarrow> 'w \<Rightarrow> 'w \<times> (string, unit) result"
  bu_eif_info :: "string \<Rightarrow> (string, eif_measurements) result"

record resolved_sources =
  rs_app :: image_ref
  rs_capsule_runtime :: image_ref
  rs_nitro_cli :: image_ref
  rs_capsule_shell :: image_ref

record intermediate_build =
  ib_manifest :: manifest
  ib_sources :: resolved_sources
  ib_build_dir :: string
  ib_eif_info :: eif_measurements

definition text_do :: "('w \<Rightarrow> 'w \<times> (string, 'a) result) \<Rightarrow> 'w build_state \<Rightarrow> ('w, 'a) building" where
  "text_do f st = (case on_docker f st of (st, r) \<Rightarrow> (st, map_err BText r))"

subsection \<open>Sources\<close>

definition resolve_external_source_image :: "'w builder \<Rightarrow> string \<Rightarrow> 'w build_state \<Rightarrow> ('w, image_ref) building" where
  "resolve_external_source_image B image_name st =
     (if bu_pull_tags B then pull_image (bu_docker B) image_name st else find_or_pull (bu_docker B) image_name st)"

definition resolve_internal_source_image ::
  "'w builder \<Rightarrow> string option \<Rightarrow> string \<Rightarrow> 'w build_state \<Rightarrow> ('w, image_ref) building" where
  "resolve_internal_source_image B name_override default_name st =
     (case name_override of
        Some image_name \<Rightarrow>
          sbind (find_or_pull (bu_docker B) image_name st) (\<lambda>st img. (st, Inr (img\<lparr>im_name := Some image_name\<rparr>)))
      | None \<Rightarrow>
          sbind (if bu_pull_tags B then pull_image (bu_docker B) default_name st
                 else find_or_pull (bu_docker B) default_name st) (\<lambda>st img.
          (st, Inr (img\<lparr>im_name := Some default_name\<rparr>))))"

definition resolve_sources :: "'w builder \<Rightarrow> manifest \<Rightarrow> 'w build_state \<Rightarrow> ('w, resolved_sources) building" where
  "resolve_sources B m st =
     sbind (resolve_external_source_image B (src_app (mf_sources m)) st) (\<lambda>st app.
     sbind (resolve_internal_source_image B (src_capsule_runtime (mf_sources m)) CAPSULE_RUNTIME_IMAGE st) (\<lambda>st capsule_runtime.
     sbind (resolve_internal_source_image B (src_capsule_shell (mf_sources m)) CAPSULE_SHELL_IMAGE st) (\<lambda>st release_base.
     sbind (resolve_internal_source_image B None NITRO_CLI_IMAGE st) (\<lambda>st nitro_cli.
     (st, Inr \<lparr>rs_app = app, rs_capsule_runtime = capsule_runtime, rs_nitro_cli = nitro_cli, rs_capsule_shell = release_base\<rparr>)))))"

subsection \<open>Layers\<close>

definition capsule_runtime_command :: "image_config option \<Rightarrow> string list" where
  "capsule_runtime_command cfg =
     (let cmd = unwrap_or [] (Option.bind cfg ic_cmd);
          entrypoint = unwrap_or [] (Option.bind cfg ic_entrypoint);
          working_dir = Option.bind cfg ic_working_dir
      in [ENCLAVE_CAPSULE_RUNTIME_PATH, ''--config-dir'', ''/etc/capsule''] @
         (case working_dir of Some wd \<Rightarrow> [''--work-dir'', wd] | None \<Rightarrow> []) @ [''--''] @ entrypoint @ cmd)"

definition enclave_layer :: "resolved_sources \<Rightarrow> string \<Rightarrow> image_config option \<Rightarrow> layer_builder" where
  "enclave_layer sources manifest_path cfg =
     set_entrypoint (capsule_runtime_command cfg)
       (append_file \<lparr>fb_path = ENCLAVE_CAPSULE_RUNTIME_PATH,
                     fb_source = ImageFile (im_id (rs_capsule_runtime sources)) CAPSULE_RUNTIME_IMAGE_BINARY_PATH,
                     fb_chown = ENCLAVE_OVERLAY_CHOWN\<rparr>
         (append_file \<lparr>fb_path = push_name ENCLAVE_CONFIG_DIR MANIFEST_FILE_NAME, fb_source = LocalFile manifest_path,
                       fb_chown = ENCLAVE_OVERLAY_CHOWN\<rparr> LayerBuilder_new))"

definition amend_source_image :: "'w builder \<Rightarrow> resolved_sources \<Rightarrow> string \<Rightarrow> 'w build_state \<Rightarrow> ('w, image_ref) building" where
  "amend_source_image B sources manifest_path st =
     sbind (docker_step (on_docker (dk_inspect (bu_docker B) (im_id (rs_app sources))) st)) (\<lambda>st img.
     append_layer (bu_docker B) (bu_json B) (bu_read B) (rs_app sources)
       (enclave_layer sources manifest_path (ii_config img)) st)"

definition release_layer :: "string \<Rightarrow> string \<Rightarrow> layer_builder" where
  "release_layer eif_path manifest_path =
     append_file \<lparr>fb_path = push_name RELEASE_BUNDLE_DIR EIF_FILE_NAME, fb_source = LocalFile eif_path,
                  fb_chown = RELEASE_OVERLAY_CHOWN\<rparr>
       (append_file \<lparr>fb_path = push_name RELEASE_BUNDLE_DIR MANIFEST_FILE_NAME, fb_source = LocalFile manifest_path,
                     fb_chown = RELEASE_OVERLAY_CHOWN\<rparr> LayerBuilder_new)"

definition package_eif ::
  "'w builder \<Rightarrow> string \<Rightarrow> string \<Rightarrow> resolved_sources \<Rightarrow> 'w build_state \<Rightarrow> ('w, image_ref) building" where
  "package_eif B eif_path manifest_path sources st =
     append_layer (bu_docker B) (bu_json B) (bu_read B) (rs_capsule_shell sources) (release_layer eif_path manifest_path) st"

subsection \<open>The enclave image\<close>

text \<open>The first known issue among the lines of the log; it only leads to a warning.\<close>

fun first_known_issue :: "string list \<Rightarrow> known_issue option" where
  "first_known_issue [] = None"
| "first_known_issue (line # ls) =
     (case detect_known_issue line of Some issue \<Rightarrow> Some issue | None \<Rightarrow> first_known_issue ls)"

definition build_warning :: "'w docker_ops \<Rightarrow> string \<Rightarrow> 'w \<Rightarrow> known_issue option" where
  "build_warning D container_id w = first_known_issue (container_stderr D container_id w)"

definition write_nitro_cli_docker_context ::
  "'w builder \<Rightarrow> string \<Rightarrow> string \<Rightarrow> 'w build_state \<Rightarrow> ('w, unit) building" where
  "write_nitro_cli_docker_context B build_dir source_image_ref st =
     text_do (bu_write_context B (push_name (push_name build_dir ''docker-context'') ''Dockerfile'')
       (''FROM '' @ source_image_ref @ [CHR 0x0A])) st"

text \<open>After the container has ended: everything temporary is removed, then the outcome is looked at.\<close>

definition finish_eif_build ::
  "'w builder \<Rightarrow> string \<Rightarrow> string \<Rightarrow> string \<Rightarrow> int \<Rightarrow> 'w build_state \<Rightarrow> ('w, eif_measurements) building" where
  "finish_eif_build B docker_uri source_image_ref container_id status_code st =
     (let D = bu_docker B;
          json_buf = (if status_code = 0 then concat (container_stdout D container_id (bs_world st)) else []);
          (st, remove_container_result) = remove_container D container_id st;
          st = fst (remove_image D docker_uri st);
          st = fst (remove_image D source_image_ref st)
      in sbind (st, remove_container_result) (\<lambda>st _.
         (st, if status_code \<noteq> 0 then Inl (BText ''non-zero exit code from nitro-cli'')
              else map_err BText (bu_eif_info B json_buf))))"

definition image_to_eif ::
  "'w builder \<Rightarrow> image_ref \<Rightarrow> image_ref \<Rightarrow> string \<Rightarrow> string \<Rightarrow> signing_info option \<Rightarrow> 'w build_state
     \<Rightarrow> ('w, eif_measurements) building" where
  "image_to_eif B source_img nitro_cli_img build_dir eif_name sign st =
     (case on_docker (bu_uuid B) st of
        (st, uuid) \<Rightarrow>
          (let source_tag = ''capsule-intermediate-'' @ uuid; source_image_ref = source_tag @ '':latest'' in
           sbind (ImageManager_tag_image (bu_docker B) source_img source_tag st) (\<lambda>st _.
           sbind (write_nitro_cli_docker_context B build_dir source_image_ref st) (\<lambda>st _.
           case on_docker (bu_uuid B) st of
             (st, uuid) \<Rightarrow>
               (let docker_uri = ''capsule-eif-build-'' @ uuid @ '':latest'' in
                sbind (build_enclave (bu_docker B) nitro_cli_img eif_name docker_uri ''/build/docker-context'' build_dir sign st)
                  (\<lambda>st container_id.
                sbind (wait_container (bu_docker B) container_id st) (\<lambda>st status_code.
                finish_eif_build B docker_uri source_image_ref container_id status_code st)))))))"

subsection \<open>Builds\<close>

definition signing_of :: "'w builder \<Rightarrow> string \<Rightarrow> manifest \<Rightarrow> 'w \<Rightarrow> (build_error, signing_info option) result" where
  "signing_of B manifest_path m w =
     (case mf_signature m of
        None \<Rightarrow> Inr None
      | Some sig \<Rightarrow>
          (case path_parent (components manifest_path) of
             None \<Rightarrow> Inl (BText ''Failed to get parent path of manifest'')
           | Some parent_path \<Rightarrow>
               rbind (map_err BText (bu_canonicalize B (path_join parent_path (components (sig_certificate sig))) w)) (\<lambda>certificate.
               rbind (map_err BText (bu_canonicalize B (path_join parent_path (components (sig_key sig))) w)) (\<lambda>key.
               Inr (Some \<lparr>si_key = key, si_certificate = certificate\<rparr>)))))"

definition common_build :: "'w builder \<Rightarrow> string \<Rightarrow> 'w build_state \<Rightarrow> ('w, intermediate_build) building" where
  "common_build B manifest_path st =
     sbind (st, map_err BLoad (bu_load B manifest_path (bs_world st))) (\<lambda>st m.
     sbind (resolve_sources B m st) (\<lambda>st sources.
     sbind (amend_source_image B sources manifest_path st) (\<lambda>st amended_img.
     sbind (text_do (bu_tempdir B) st) (\<lambda>st build_dir.
     sbind (st, signing_of B manifest_path m (bs_world st)) (\<lambda>st sign.
     sbind (image_to_eif B amended_img (rs_nitro_cli sources) build_dir EIF_FILE_NAME sign st) (\<lambda>st eif_info.
     (st, Inr \<lparr>ib_manifest = m, ib_sources = sources, ib_build_dir = build_dir, ib_eif_info = eif_info\<rparr>)))))))"

definition build_release ::
  "'w builder \<Rightarrow> string \<Rightarrow> 'w build_state \<Rightarrow> ('w, eif_measurements \<times> resolved_sources \<times> image_ref) building" where
  "build_release B manifest_path st =
     sbind (common_build B manifest_path st) (\<lambda>st ibr.
     sbind (package_eif B (push_name (ib_build_dir ibr) EIF_FILE_NAME) manifest_path (ib_sources ibr) st) (\<lambda>st release_img.
     let release_tag = mf_target (ib_manifest ibr); release_img = release_img\<lparr>im_name := Some release_tag\<rparr> in
     sbind (ImageManager_tag_image (bu_docker B) release_img release_tag st) (\<lambda>st _.
     (st, Inr (ib_eif_info ibr, ib_sources ibr, release_img)))))"

definition build_eif_only :: "'w builder \<Rightarrow> string \<Rightarrow> string \<Rightarrow> 'w build_state \<Rightarrow> ('w, eif_measurements \<times> string) building" where
  "build_eif_only B manifest_path dst_path st =
     sbind (common_build B manifest_path st) (\<lambda>st ibr.
     sbind (text_do (bu_rename B (push_name (ib_build_dir ibr) EIF_FILE_NAME) dst_path) st) (\<lambda>st _.
     sbind (st, map_err BText (bu_canonicalize B (components dst_path) (bs_world st))) (\<lambda>st p.
     (st, Inr (ib_eif_info ibr, p)))))"

end
