(* ===== verification/Capsule_Shell.thy ===== *)
theory Capsule_Shell
  imports Build "HOL-Library.AList"
begin

text \<open>
  Running a release image (\<open>run_container.rs\<close>), the commands of the command-line tool
  (\<open>bin/capsule-cli/main.rs\<close>) and the program inside a release image (\<open>bin/capsule-shell/main.rs\<close>).
  A signal may interrupt the run while it waits: the interruption is named by the call that is pending
  and by whether that call still takes effect.
\<close>

datatype shell_error =
    ShText string
  | ShBuild build_error
  | ShMount loopback_error
  | ShLoad load_error
  | ShInterrupted

datatype mount_event = MountPrepared prepared_loopback_mount | MountCleaned prepared_loopback_mount

record 'w capsule_shell =
  cs_state :: "'w build_state"
  cs_container_id :: "string option"
  cs_stream_task :: "string option"
  cs_hostfs_mounts :: "prepared_loopback_mount list"
  cs_mount_trace :: "mount_event list"

text \<open>
  The outside: the Docker daemon, the commands on loopback images, how the task that follows a
  container's log ends, what \<open>\d+\<close> matches in the regular expressions, and the loading of manifests.
\<close>

record 'w shell_env =
  se_docker :: "'w docker_ops"
  se_loop :: "'w loop_ops"
  se_display :: "path \<Rightarrow> string"
  se_digits :: "string \<Rightarrow> bool"
  se_stream_end :: "string \<Rightarrow> 'w \<Rightarrow> 'w \<times> (string, unit) result"
  se_connect :: "(string, unit) result"
  se_signals :: "(string, unit) result"
  se_load :: "string \<Rightarrow> 'w \<Rightarrow> (load_error, manifest) result"

type_synonym ('w, 'a) shelling = "'w capsule_shell \<times> (shell_error, 'a) result"

definition CapsuleShell_new :: "'w \<Rightarrow> 'w capsule_shell" where
  "CapsuleShell_new w =
     \<lparr>cs_state = \<lparr>bs_world = w, bs_trace = []\<rparr>, cs_container_id = None, cs_stream_task = None,
      cs_hostfs_mounts = [], cs_mount_trace = []\<rparr>"

definition on_state :: "('w build_state \<Rightarrow> ('w, 'a) building) \<Rightarrow> 'w capsule_shell \<Rightarrow> ('w, 'a) shelling" where
  "on_state f st = (case f (cs_state st) of (b, r) \<Rightarrow> (st\<lparr>cs_state := b\<rparr>, map_err ShBuild r))"

definition set_host :: "'w \<Rightarrow> 'w capsule_shell \<Rightarrow> 'w capsule_shell" where
  "set_host w st = st\<lparr>cs_state := (cs_state st)\<lparr>bs_world := w\<rparr>\<rparr>"

subsection \<open>Interruptions\<close>

datatype shell_await = AtPrepare | AtCreate | AtStart | AtWait | AtRemove

type_synonym interrupt = "(shell_await \<times> bool) option"

definition awaiting ::
  "interrupt \<Rightarrow> shell_await \<Rightarrow> ('w capsule_shell \<Rightarrow> ('w, 'a) shelling) \<Rightarrow> 'w capsule_shell \<Rightarrow> ('w, 'a) shelling" where
  "awaiting i point act st =
     (case i of
        Some (p, takes_effect) \<Rightarrow>
          if p = point then (if takes_effect then fst (act st) else st, Inl ShInterrupted) else act st
      | None \<Rightarrow> act st)"

subsection \<open>Starting the container\<close>

definition port_forward :: "'w shell_env \<Rightarrow> string \<Rightarrow> (shell_error, string \<times> string) result" where
  "port_forward E spec =
     (case split_once (CHR '':'') spec of
        Some (host_port, container_port) \<Rightarrow>
          if se_digits E host_port \<and> se_digits E container_port then Inr (host_port, container_port)
          else Inl (ShText (''port forward specification '' @ spec @ '' does not match the format host_port:container_port''))
      | None \<Rightarrow> Inl (ShText (''port forward specification '' @ spec @ '' does not match the format host_port:container_port'')))"

text \<open>The bindings are a map from the container's port: a later one replaces an earlier one.\<close>

fun port_forwards :: "'w shell_env \<Rightarrow> (string \<times> string) list \<Rightarrow> string list \<Rightarrow> (shell_error, (string \<times> string) list) result" where
  "port_forwards E bindings [] = Inr bindings"
| "port_forwards E bindings (spec # specs) =
     rbind (port_forward E spec) (\<lambda>(host_port, container_port).
     port_forwards E (AList.update (container_port @ ''/tcp'') host_port bindings) specs)"

text \<open>
  The mounts are prepared on a thread of their own.  If the run is interrupted meanwhile, the thread
  still ends and the mounts it returns are dropped.
\<close>

definition prepare_hostfs_mounts ::
  "'w shell_env \<Rightarrow> loopback_mount_request list \<Rightarrow> interrupt \<Rightarrow> 'w capsule_shell \<Rightarrow> ('w, unit) shelling" where
  "prepare_hostfs_mounts E requests i st =
     (case i of
        Some (AtPrepare, False) \<Rightarrow> (st, Inl ShInterrupted)
      | _ \<Rightarrow>
          (case prepare_loopback_mounts (se_loop E) requests (bs_world (cs_state st)) of
             (w, Inl e) \<Rightarrow> (set_host w st, Inl (if i = Some (AtPrepare, True) then ShInterrupted else ShMount e))
           | (w, Inr pms) \<Rightarrow>
               (let st = (set_host w st)\<lparr>cs_mount_trace := cs_mount_trace st @ map MountPrepared pms\<rparr> in
                if i = Some (AtPrepare, True)
                then (set_host (drop_mounts (se_loop E) pms w) st\<lparr>cs_mount_trace := cs_mount_trace st @ map MountCleaned pms\<rparr>,
                      Inl ShInterrupted)
                else (st\<lparr>cs_hostfs_mounts := pms\<rparr>, Inr ()))))"

definition shell_container ::
  "'w shell_env \<Rightarrow> string \<Rightarrow> (string \<times> string) list \<Rightarrow> bool \<Rightarrow> int option \<Rightarrow> int option \<Rightarrow> prepared_loopback_mount list
     \<Rightarrow> container_spec" where
  "shell_container E image_name bindings debug_mode cpu_count memory_mb mounts =
     (let cmd = (if debug_mode then [''--debug-mode''] else []) @
            (case cpu_count of Some n \<Rightarrow> [''--cpu-count'', show_int n] | None \<Rightarrow> []) @
            (case memory_mb of Some n \<Rightarrow> [''--memory-mb'', show_int n] | None \<Rightarrow> [])
      in \<lparr>sp_image = image_name, sp_cmd = (if cmd = [] then None else Some cmd), sp_mounts = [],
          sp_binds = (if mounts = [] then None else Some (map (container_bind (se_display E)) mounts)),
          sp_exposed = map fst bindings, sp_ports = bindings,
          sp_devices = [(''/dev/nitro_enclaves'', ''/dev/nitro_enclaves'', ''rwm'')], sp_privileged = True\<rparr>)"

text \<open>
  The task that follows the log: what it writes, item by item; an error of the log or a failed write ends it.
\<close>

fun output_stream :: "(log_output \<Rightarrow> bool) \<Rightarrow> (docker_error, log_output) result list \<Rightarrow> log_output list" where
  "output_stream written [] = []"
| "output_stream written (Inl _ # items) = []"
| "output_stream written (Inr item # items) =
     (case item of
        OtherLog \<Rightarrow> output_stream written items
      | _ \<Rightarrow> if written item then item # output_stream written items else [])"

text \<open>Starting the created container, following its log, waiting for its end and removing it.\<close>

definition follow_container :: "'w shell_env \<Rightarrow> interrupt \<Rightarrow> string \<Rightarrow> 'w capsule_shell \<Rightarrow> ('w, unit) shelling" where
  "follow_container E i container_id st =
     (let D = se_docker E in
      sbind (awaiting i AtStart (on_state (start_container D container_id)) st) (\<lambda>st _.
      sbind (awaiting i AtWait (on_state (wait_container D container_id)) (st\<lparr>cs_stream_task := Some container_id\<rparr>)) (\<lambda>st status_code.
      if status_code \<noteq> 0 then (st, Inl (ShText ''non-zero exit code from container''))
      else
        sbind (awaiting i AtRemove (on_state (remove_container D container_id)) st) (\<lambda>st _.
        (st\<lparr>cs_container_id := None\<rparr>, Inr ())))))"

definition run_capsule_image ::
  "'w shell_env \<Rightarrow> string \<Rightarrow> string list \<Rightarrow> bool \<Rightarrow> int option \<Rightarrow> int option \<Rightarrow> loopback_mount_request list \<Rightarrow> interrupt
     \<Rightarrow> 'w capsule_shell \<Rightarrow> ('w, unit) shelling" where
  "run_capsule_image E image_name forwards debug_mode cpu_count memory_mb requests i st =
     (if cs_container_id st \<noteq> None then (st, Inl (ShText ''container already running''))
      else if cs_hostfs_mounts st \<noteq> [] then (st, Inl (ShText ''hostfs mounts already prepared''))
      else
        sbind (st, port_forwards E [] forwards) (\<lambda>st bindings.
        sbind (if requests = [] then (st, Inr ()) else prepare_hostfs_mounts E requests i st) (\<lambda>st _.
        sbind (awaiting i AtCreate (on_state (create_container (se_docker E)
                 (shell_container E image_name bindings debug_mode cpu_count memory_mb (cs_hostfs_mounts st)))) st) (\<lambda>st container_id.
        follow_container E i container_id (st\<lparr>cs_container_id := Some container_id\<rparr>)))))"

subsection \<open>Cleaning up\<close>

definition stop_container :: "'w docker_ops \<Rightarrow> string \<Rightarrow> 'w build_state \<Rightarrow> ('w, unit) building" where
  "stop_container D iid st = docker_step (noting (\<lambda>_. StoppedContainer iid) (dk_stop_container D iid) st)"

definition note_error :: "'e option \<Rightarrow> ('e, 'a) result \<Rightarrow> 'e option" where
  "note_error first_error r = (case (first_error, r) of (None, Inl e) \<Rightarrow> Some e | _ \<Rightarrow> first_error)"

definition cleanup_container :: "'w shell_env \<Rightarrow> 'w capsule_shell \<Rightarrow> 'w capsule_shell \<times> shell_error option" where
  "cleanup_container E st =
     (case cs_container_id st of
        None \<Rightarrow> (st, None)
      | Some container_id \<Rightarrow>
          (case on_state (stop_container (se_docker E) container_id) (st\<lparr>cs_container_id := None\<rparr>) of
             (st, stopped) \<Rightarrow>
               (case on_state (remove_container (se_docker E) container_id) st of
                  (st, removed) \<Rightarrow> (st, note_error (note_error None stopped) removed))))"

definition cleanup_stream :: "'w shell_env \<Rightarrow> shell_error option \<Rightarrow> 'w capsule_shell \<Rightarrow> 'w capsule_shell \<times> shell_error option" where
  "cleanup_stream E first_error st =
     (case cs_stream_task st of
        None \<Rightarrow> (st, first_error)
      | Some container_id \<Rightarrow>
          (case se_stream_end E container_id (bs_world (cs_state st)) of
             (w, r) \<Rightarrow> ((set_host w st)\<lparr>cs_stream_task := None\<rparr>, note_error first_error (map_err ShText r))))"

text \<open>The mounts are cleaned up in reverse order; clearing the list drops them in order.\<close>

definition cleanup_mounts :: "'w shell_env \<Rightarrow> shell_error option \<Rightarrow> 'w capsule_shell \<Rightarrow> 'w capsule_shell \<times> shell_error option" where
  "cleanup_mounts E first_error st =
     (case cleanup_each (se_loop E) (rev (cs_hostfs_mounts st)) (bs_world (cs_state st)) of
        (w, pms, rs) \<Rightarrow>
          ((set_host (drop_mounts (se_loop E) (rev pms) w) st)
             \<lparr>cs_hostfs_mounts := [],
              cs_mount_trace := cs_mount_trace st @ map MountCleaned (rev (cs_hostfs_mounts st))\<rparr>,
           foldl note_error first_error (map (map_err ShMount) rs)))"

definition CapsuleShell_cleanup :: "'w shell_env \<Rightarrow> 'w capsule_shell \<Rightarrow> ('w, unit) shelling" where
  "CapsuleShell_cleanup E st =
     (case cleanup_container E st of
        (st, err) \<Rightarrow>
          (case cleanup_stream E err st of
             (st, err) \<Rightarrow>
               (case cleanup_mounts E err st of
                  (st, err) \<Rightarrow> (st, case err of Some e \<Rightarrow> Inl e | None \<Rightarrow> Inr ()))))"

subsection \<open>The command-line tool\<close>

record run_args =
  ra_manifest_file :: "string option"
  ra_image_name :: "string option"
  ra_port_forwards :: "string list"
  ra_debug_mode :: bool
  ra_cpu_count :: "int option"
  ra_memory_mb :: "int option"
  ra_mounts :: "string list"

definition MOUNT_REQUIRES_MANIFEST :: string where
  "MOUNT_REQUIRES_MANIFEST = ''--mount requires loading a manifest via --file or the default capsule.yaml''"

definition run_target :: "'w shell_env \<Rightarrow> run_args \<Rightarrow> 'w \<Rightarrow> (shell_error, string \<times> manifest option) result" where
  "run_target E args w =
     (case (ra_manifest_file args, ra_image_name args) of
        (None, Some image_name) \<Rightarrow>
          if ra_mounts args \<noteq> [] then Inl (ShText MOUNT_REQUIRES_MANIFEST) else Inr (image_name, None)
      | (manifest_file, None) \<Rightarrow>
          rbind (map_err ShLoad (se_load E (unwrap_or MANIFEST_FILE_NAME manifest_file) w)) (\<lambda>m.
          Inr (mf_target m, Some m))
      | (Some _, Some _) \<Rightarrow> Inl (ShText ''both an image name and a manifest file were specified''))"

definition run_mounts :: "run_args \<Rightarrow> manifest option \<Rightarrow> (shell_error, loopback_mount_request list) result" where
  "run_mounts args m =
     (if ra_mounts args = [] then Inr []
      else
        rbind (ok_or (ShText MOUNT_REQUIRES_MANIFEST) m) (\<lambda>m.
        rbind (map_err ShMount (collect_results parse_runtime_mount_binding (ra_mounts args))) (\<lambda>bindings.
        map_err ShMount (resolve_loopback_mounts m bindings))))"

definition run_plan :: "'w shell_env \<Rightarrow> run_args \<Rightarrow> 'w \<Rightarrow> (shell_error, string \<times> loopback_mount_request list) result" where
  "run_plan E args w =
     rbind (run_target E args w) (\<lambda>(image_name, m).
     rbind (run_mounts args m) (\<lambda>requests.
     rbind (map_err ShText (se_connect E)) (\<lambda>_.
     rbind (map_err ShText (se_signals E)) (\<lambda>_.
     Inr (image_name, requests)))))"

text \<open>The outcome of the run is only logged; the command's own outcome is that of the cleanup.\<close>

definition cli_run :: "'w shell_env \<Rightarrow> run_args \<Rightarrow> interrupt \<Rightarrow> 'w \<Rightarrow> ('w, unit) shelling" where
  "cli_run E args i w =
     (case run_plan E args w of
        Inl e \<Rightarrow> (CapsuleShell_new w, Inl e)
      | Inr (image_name, requests) \<Rightarrow>
          CapsuleShell_cleanup E (fst (run_capsule_image E image_name (ra_port_forwards args) (ra_debug_mode args)
            (ra_cpu_count args) (ra_memory_mb args) requests i (CapsuleShell_new w))))"

datatype build_output = BuildSummary resolved_sources eif_measurements image_ref | BuiltEif string eif_measurements

definition cli_build ::
  "'w builder \<Rightarrow> (string, unit) result \<Rightarrow> string \<Rightarrow> string option \<Rightarrow> bool \<Rightarrow> 'w build_state \<Rightarrow> ('w, build_output) building" where
  "cli_build B connected manifest_file eif_file force_pull st =
     (let B = B\<lparr>bu_pull_tags := force_pull\<rparr> in
      sbind (st, map_err BText connected) (\<lambda>st _.
      case eif_file of
        None \<Rightarrow> sbind (build_release B manifest_file st) (\<lambda>st (eif_info, sources, img). (st, Inr (BuildSummary sources eif_info img)))
      | Some dst \<Rightarrow> sbind (build_eif_only B manifest_file dst st) (\<lambda>st (eif_info, eif_path). (st, Inr (BuiltEif eif_path eif_info)))))"

subsection \<open>The program of a release image\<close>

definition ENCLAVE_SIGNALED_EXIT_CODE :: "8 word" where "ENCLAVE_SIGNALED_EXIT_CODE = 107"
definition ENCLAVE_FATAL :: "8 word" where "ENCLAVE_FATAL = 108"
definition CAPSULE_SHELL_INTERRUPTED :: "8 word" where "CAPSULE_SHELL_INTERRUPTED = 109"

datatype cli_success = EnclaveStatus enclave_exit_status | CliOk

definition report :: "cli_success \<Rightarrow> 8 word" where
  "report s =
     (case s of
        EnclaveStatus (EsExited code) \<Rightarrow> word_of_int code
      | EnclaveStatus (EsSignaled _) \<Rightarrow> ENCLAVE_SIGNALED_EXIT_CODE
      | EnclaveStatus (EsFatal _) \<Rightarrow> ENCLAVE_FATAL
      | EnclaveStatus EsCancelled \<Rightarrow> CAPSULE_SHELL_INTERRUPTED
      | CliOk \<Rightarrow> 0)"

text \<open>An error that reaches the end of \<open>main\<close> is the exit code one.\<close>

definition main_exit_code :: "('e, cli_success) result \<Rightarrow> 8 word" where
  "main_exit_code r = (case r of Inr s \<Rightarrow> report s | Inl _ \<Rightarrow> 1)"

definition shell_run ::
  "('c, 'w) run_env \<Rightarrow> json_codec \<Rightarrow> (string, unit) result \<Rightarrow> enclave_opts \<Rightarrow> status_conn list \<Rightarrow> bool \<Rightarrow> 'w
     \<Rightarrow> (host_error, cli_success) result option" where
  "shell_run X J signals opts conns cancelled w =
     (case rbind (map_err HText signals) (\<lambda>_. Enclave_new X opts w) of
        Inl e \<Rightarrow> Some (Inl e)
      | Inr enclave \<Rightarrow>
          map_option (\<lambda>(_, r). rbind r (\<lambda>status. Inr (EnclaveStatus status))) (Enclave_run X J conns cancelled enclave))"

definition dump_manifest ::
  "(string \<Rightarrow> (load_error, bytes \<times> manifest) result) \<Rightarrow> (bytes \<Rightarrow> 'w \<Rightarrow> 'w \<times> (string, unit) result) \<Rightarrow> 'w
     \<Rightarrow> 'w \<times> (shell_error, cli_success) result" where
  "dump_manifest load_raw write_stdout w =
     sbind (w, map_err ShLoad (load_raw (push_name RELEASE_BUNDLE_DIR MANIFEST_FILE_NAME))) (\<lambda>w (raw_manifest, _).
     sbind (case write_stdout raw_manifest w of (w, r) \<Rightarrow> (w, map_err ShText r)) (\<lambda>w _. (w, Inr CliOk)))"

definition describe_release_eif ::
  "('c, 'w) nitro_ops \<Rightarrow> (eif_measurements \<Rightarrow> bytes) \<Rightarrow> (bytes \<Rightarrow> 'w \<Rightarrow> 'w \<times> (string, unit) result) \<Rightarrow> 'w
     \<Rightarrow> 'w \<times> (host_error, cli_success) result" where
  "describe_release_eif ops to_vec_pretty write_stdout w =
     sbind (describe_eif ops (push_name RELEASE_BUNDLE_DIR EIF_FILE_NAME) w) (\<lambda>w eif_info.
     sbind (case write_stdout (to_vec_pretty eif_info) w of (w, r) \<Rightarrow> (w, map_err HText r)) (\<lambda>w _. (w, Inr CliOk)))"

end
