(* ===== verification/Build_Safety.thy ===== *)
theory Build_Safety
  imports Build
begin

text \<open>What a build guarantees: images that hold what the programs in them look for, no needless pulls, and no
  temporary state left by the conversion.\<close>

subsection \<open>Traces\<close>

lemma on_docker_trace: "on_docker f st = (st', r) \<Longrightarrow> bs_trace st' = bs_trace st"
  by (auto simp: on_docker_def split: prod.splits)

lemma text_do_trace: "text_do f st = (st', r) \<Longrightarrow> bs_trace st' = bs_trace st"
  by (auto simp: text_do_def on_docker_def split: prod.splits)

lemma noting_trace: "noting ev f st = (st', r) \<Longrightarrow> bs_trace st' = bs_trace st @ [ev r]"
  by (auto simp: noting_def split: prod.splits)

lemma docker_step_noting:
  "docker_step (noting ev f st) = (st', r) \<Longrightarrow> \<exists>x. bs_trace st' = bs_trace st @ [ev x] \<and> r = map_err BDocker x"
  by (auto simp: docker_step_def noting_def split: prod.splits)

lemma finish_trace:
  assumes "finish_eif_build B uri src iid code st = (st', r)"
  shows "bs_trace st' = bs_trace st @ [RemovedContainer iid, RemovedImage uri, RemovedImage src] \<and> (is_ok r \<longrightarrow> code = 0)"
proof -
  obtain s1 r1 where s1: "remove_container (bu_docker B) iid st = (s1, r1)" by fastforce
  obtain s2 r2 where s2: "remove_image (bu_docker B) uri s1 = (s2, r2)" by fastforce
  obtain s3 r3 where s3: "remove_image (bu_docker B) src s2 = (s3, r3)" by fastforce
  have "bs_trace s3 = bs_trace st @ [RemovedContainer iid, RemovedImage uri, RemovedImage src]"
    using s1 s2 s3 by (auto simp: remove_container_def remove_image_def dest!: docker_step_noting)
  moreover have "st' = s3 \<and> (is_ok r \<longrightarrow> code = 0)"
    using assms s1 s2 s3 by (cases r1) (auto simp: finish_eif_build_def Let_def split: if_splits)
  ultimately show ?thesis by simp
qed

text \<open>The part of a conversion that runs the container.\<close>

definition eif_events :: "image_ref \<Rightarrow> string \<Rightarrow> string \<Rightarrow> container_spec \<Rightarrow> docker_event list \<Rightarrow> bool \<Rightarrow> bool" where
  "eif_events source_img tag uri spec es ok \<longleftrightarrow>
     (\<exists>x. es = [Tagged (im_id source_img) tag] @ x \<and>
        ((\<forall>iid code. AwaitedContainer iid (Some code) \<notin> set x) \<and> \<not> ok \<or>
         (\<exists>iid code. x = [CreatedContainer spec (Some iid), StartedContainer iid, AwaitedContainer iid (Some code),
            RemovedContainer iid, RemovedImage uri, RemovedImage (tag @ '':latest'')] \<and> (ok \<longrightarrow> code = 0))))"

lemma container_part:
  assumes run: "sbind (build_enclave D nitro_cli_img eif_name uri docker_dir build_dir sign s4) (\<lambda>st container_id.
      sbind (wait_container D container_id st) (\<lambda>st status_code. finish_eif_build B uri (tag @ '':latest'') container_id status_code st)) = (st', r)"
    and t4: "bs_trace s4 = bs_trace st @ [Tagged (im_id source_img) tag]" and D: "D = bu_docker B"
  shows "\<exists>es. bs_trace st' = bs_trace st @ es \<and>
    eif_events source_img tag uri (build_enclave_spec nitro_cli_img eif_name uri docker_dir build_dir sign) es (is_ok r)"
proof -
  define spec where "spec = build_enclave_spec nitro_cli_img eif_name uri docker_dir build_dir sign"
  obtain s5 r5 where s5: "create_container D spec s4 = (s5, r5)" by fastforce
  obtain x where t5: "bs_trace s5 = bs_trace s4 @ [CreatedContainer spec (case x of Inr iid \<Rightarrow> Some iid | Inl _ \<Rightarrow> None)]"
    "r5 = map_err BDocker x" using s5 by (auto simp: create_container_def dest!: docker_step_noting)
  show ?thesis
  proof (cases r5)
    case (Inl e)
    then have "st' = s5 \<and> \<not> is_ok r" using run s5 by (auto simp: build_enclave_def spec_def)
    then show ?thesis using t4 t5 by (auto simp: eif_events_def spec_def)
  next
    case (Inr iid)
    obtain s6 r6 where s6: "start_container D iid s5 = (s6, r6)" by fastforce
    have t6: "bs_trace s6 = bs_trace st @ [Tagged (im_id source_img) tag, CreatedContainer spec (Some iid), StartedContainer iid]"
      using t4 t5 s6 Inr by (cases x) (auto simp: start_container_def dest!: docker_step_noting)
    obtain s7 r7 where s7: "wait_container D iid s6 = (s7, r7)" by fastforce
    have t7: "bs_trace s7 = bs_trace s6 @ [AwaitedContainer iid (case r7 of Inr c \<Rightarrow> Some c | Inl _ \<Rightarrow> None)]"
      using s7 by (auto simp: wait_container_def dest!: noting_trace split: prod.splits)
    show ?thesis
    proof (cases "\<exists>u code. r6 = Inr u \<and> r7 = Inr code")
      case False
      then have "(st' = s6 \<or> st' = s7 \<and> (\<exists>e. r7 = Inl e)) \<and> \<not> is_ok r"
        using run s5 s6 s7 Inr by (cases r6; cases r7) (auto simp: build_enclave_def spec_def)
      then show ?thesis using t6 t7 by (auto simp: eif_events_def spec_def)
    next
      case True
      then obtain code where code: "r7 = Inr code" by blast
      have "finish_eif_build B uri (tag @ '':latest'') iid code s7 = (st', r)"
        using run s5 s6 s7 Inr True code by (auto simp: build_enclave_def spec_def)
      from finish_trace [OF this] show ?thesis using t6 t7 code
        by (auto simp: eif_events_def spec_def)
    qed
  qed
qed

text \<open>A daemon on which every call succeeds and the container exits with the given status.\<close>

definition demo_docker :: "int \<Rightarrow> unit docker_ops" where
  "demo_docker code =
     \<lparr>dk_inspect = (\<lambda>name w. (w, Inr \<lparr>ii_id = Some name, ii_repo_digests = None, ii_config = None\<rparr>)),
      dk_create_image = (\<lambda>_ w. (w, [])), dk_build = (\<lambda>_ w. (w, [])), dk_tag = (\<lambda>_ _ w. (w, Inr ())),
      dk_remove_image = (\<lambda>_ w. (w, Inr ())), dk_create_container = (\<lambda>_ w. (w, Inr ''c1'')),
      dk_start_container = (\<lambda>_ w. (w, Inr ())), dk_wait_container = (\<lambda>_ w. (w, [Inr code])),
      dk_stop_container = (\<lambda>_ w. (w, Inr ())), dk_remove_container = (\<lambda>_ w. (w, Inr ())),
      dk_logs = (\<lambda>_ _. [])\<rparr>"

definition demo_builder :: "int \<Rightarrow> unit builder" where
  "demo_builder code =
     \<lparr>bu_docker = demo_docker code, bu_pull_tags = False, bu_json = \<lparr>js_parse = (\<lambda>_. Inl []), js_bytes = (\<lambda>_. [])\<rparr>,
      bu_load = (\<lambda>_ _. Inl ReadFailed), bu_read = (\<lambda>_ _. Inl []), bu_canonicalize = (\<lambda>_ _. Inl []),
      bu_tempdir = (\<lambda>w. (w, Inr ''/tmp/b'')), bu_uuid = (\<lambda>w. (w, ''u'')), bu_write_context = (\<lambda>_ _ w. (w, Inr ())),
      bu_rename = (\<lambda>_ _ w. (w, Inr ())), bu_eif_info = (\<lambda>_. Inl ''no measurements'')\<rparr>"



subsection \<open>What the images hold\<close>

lemma image_paths:
  "push_name ENCLAVE_CONFIG_DIR MANIFEST_FILE_NAME = ''/etc/capsule/capsule.yaml''"
  "push_name RELEASE_BUNDLE_DIR MANIFEST_FILE_NAME = ''/enclave/capsule.yaml''"
  "push_name RELEASE_BUNDLE_DIR EIF_FILE_NAME = ''/enclave/application.eif''"
  by (simp_all add: push_name_def ENCLAVE_CONFIG_DIR_def MANIFEST_FILE_NAME_def RELEASE_BUNDLE_DIR_def EIF_FILE_NAME_def)

lemma strip_slash: "strip_prefix ''/'' (CHR ''/'' # p) = Some p"
  using strip_prefix_append [of "''/''" p] by simp

lemma enclave_context:
  "read manifest_path = Inr bs \<Longrightarrow>
     \<exists>df. LayerBuilder_realize J read src (enclave_layer sources manifest_path cfg) =
       Inr \<lparr>bc_dockerfile = df, bc_files = [(''etc/capsule/capsule.yaml'', bs)]\<rparr>"
  by (simp add: LayerBuilder_realize_def enclave_layer_def set_entrypoint_def append_file_def LayerBuilder_new_def image_paths strip_slash)

lemma release_context:
  "read manifest_path = Inr bs \<Longrightarrow> read eif_path = Inr eif \<Longrightarrow>
     \<exists>df. LayerBuilder_realize J read src (release_layer eif_path manifest_path) =
       Inr \<lparr>bc_dockerfile = df, bc_files = [(''enclave/capsule.yaml'', bs), (''enclave/application.eif'', eif)]\<rparr>"
  by (simp add: LayerBuilder_realize_def release_layer_def append_file_def LayerBuilder_new_def image_paths strip_slash)

lemma runtime_command:
  "\<exists>args. capsule_runtime_command cfg = ENCLAVE_CAPSULE_RUNTIME_PATH # ''--config-dir'' # ''/etc/capsule'' # args @
     [''--''] @ unwrap_or [] (Option.bind cfg ic_entrypoint) @ unwrap_or [] (Option.bind cfg ic_cmd)"
  by (simp add: capsule_runtime_command_def Let_def)

lemma default_eif_path:
  "Enclave_new X (opts\<lparr>eo_eif_path := None, eo_manifest_path := None\<rparr>) w = Inr st \<Longrightarrow> en_eif_path st = ''/enclave/application.eif''"
  by (auto simp: Enclave_new_def Let_def result_elims image_paths)



subsection \<open>Pulling\<close>

definition not_found :: "(docker_error, 'a) result \<Rightarrow> bool" where
  "not_found r \<longleftrightarrow> (\<exists>msg. r = Inl (DockerResponse 404 msg))"

lemma image_trace: "bs_trace (fst (ImageManager_image D name st)) = bs_trace st"
  by (auto simp: ImageManager_image_def on_docker_def split: prod.splits sum.splits option.splits)

lemma find_local:
  assumes "\<forall>w. \<not> not_found (snd (dk_inspect D name w))"
  shows "bs_trace (fst (find_or_pull D name st)) = bs_trace st"
proof -
  obtain s1 r1 where r1: "ImageManager_image D name st = (s1, r1)" by fastforce
  have t: "bs_trace s1 = bs_trace st" using image_trace [of D name st] r1 by simp
  have "docker_cause e \<noteq> Some (DockerResponse 404 msg)" if "r1 = Inl e" for e msg
    using r1 that assms by (auto simp: ImageManager_image_def on_docker_def not_found_def split: prod.splits sum.splits option.splits)
       (metis snd_conv)
  then show ?thesis using r1 t by (auto simp: find_or_pull_def split: sum.splits option.splits docker_error.splits)
qed

text \<open>Without \<open>--pull\<close> no tag of the user is overwritten: images that the daemon has are used as they are.\<close>

lemma local_images_not_pulled:
  assumes "\<not> bu_pull_tags B" and have_all: "\<forall>name w. \<not> not_found (snd (dk_inspect (bu_docker B) name w))"
  shows "bs_trace (fst (resolve_sources B m st)) = bs_trace st"
proof -
  have keep: "bs_trace (fst (sbind r f)) = t" if "bs_trace (fst r) = t" "\<And>s x. bs_trace s = t \<Longrightarrow> bs_trace (fst (f s x)) = t"
    for r :: "('a, 'x) building" and f :: "'a build_state \<Rightarrow> 'x \<Rightarrow> ('a, 'y) building" and t
    using that by (cases r; cases "snd r") auto
  have ext: "bs_trace (fst (resolve_external_source_image B n s)) = bs_trace s" for n s
    using assms find_local [of "bu_docker B" n s] by (simp add: resolve_external_source_image_def)
  have int: "bs_trace (fst (resolve_internal_source_image B ov n s)) = bs_trace s" for ov n s
    using assms find_local [of "bu_docker B" _ s] by (cases ov) (auto simp: resolve_internal_source_image_def intro!: keep)
  show ?thesis unfolding resolve_sources_def by (intro keep) (simp_all add: ext int)
qed

text \<open>
  A manifest from standard input can be loaded but not built: the layer copies the file by its name, and
  there is no file named by a dash.
\<close>

lemma stdin_manifest_not_built:
  assumes "bu_read B (bs_world st) ''-'' = Inl e"
  shows "\<exists>e'. snd (append_layer (bu_docker B) (bu_json B) (bu_read B) img (enclave_layer sources ''-'' cfg) st) = Inl e'"
proof -
  have "LayerBuilder_realize (bu_json B) (bu_read B (bs_world st)) (im_id img) (enclave_layer sources ''-'' cfg) = Inl (BText e)"
    using assms by (simp add: LayerBuilder_realize_def enclave_layer_def set_entrypoint_def append_file_def LayerBuilder_new_def
        image_paths strip_slash)
  then show ?thesis by (auto simp: append_layer_def Let_def split: prod.splits)
qed

end
