(* ===== verification/Capsule_Shell_Safety.thy ===== *)
theory Capsule_Shell_Safety
  imports Capsule_Shell Build_Safety Host_Run_Safety
begin

text \<open>What running a release image leaves behind, and the exit codes that its program returns.\<close>

subsection \<open>Steps\<close>

lemma awaiting_fst: "fst (awaiting i p act st) = st \<or> fst (awaiting i p act st) = fst (act st)"
  by (auto simp: awaiting_def split: option.splits)

lemma awaiting_Inr: "snd (awaiting i p act st) = Inr x \<Longrightarrow> awaiting i p act st = act st"
  by (auto simp: awaiting_def split: option.splits if_splits)

lemma awaiting_not_sent:
  "i \<noteq> Some (p, True) \<Longrightarrow> fst (awaiting i p act st) = st \<or> awaiting i p act st = act st"
  by (auto simp: awaiting_def split: option.splits)

lemma on_state_docker_step:
  "on_state (\<lambda>b. docker_step (noting ev f b)) st =
     (st\<lparr>cs_state := \<lparr>bs_world = fst (f (bs_world (cs_state st))), bs_trace = bs_trace (cs_state st) @ [ev (snd (f (bs_world (cs_state st))))],
        \<dots> = build_state.more (cs_state st)\<rparr>\<rparr>,
      map_err ShBuild (map_err BDocker (snd (f (bs_world (cs_state st))))))"
  by (cases "cs_state st") (simp add: on_state_def docker_step_def noting_def split: prod.splits)

text \<open>What a state accounts for: its container and its mounts, or their removal.\<close>

definition container_known :: "'w capsule_shell \<Rightarrow> bool" where
  "container_known st \<longleftrightarrow> (\<forall>spec cid. CreatedContainer spec (Some cid) \<in> set (bs_trace (cs_state st)) \<longrightarrow>
     cs_container_id st = Some cid \<or> cs_container_id st = None \<and> last (bs_trace (cs_state st)) = RemovedContainer cid)"

definition mounts_known :: "'w capsule_shell \<Rightarrow> bool" where
  "mounts_known st \<longleftrightarrow> (\<forall>pm. MountPrepared pm \<in> set (cs_mount_trace st) \<longrightarrow>
     pm \<in> set (cs_hostfs_mounts st) \<or> MountCleaned pm \<in> set (cs_mount_trace st))"

definition accounted :: "'w capsule_shell \<Rightarrow> bool" where
  "accounted st \<longleftrightarrow> container_known st \<and> mounts_known st"

text \<open>The rule for sequences.\<close>

lemma sbind_accounted:
  assumes "\<And>e. snd r = Inl e \<Longrightarrow> accounted (fst r)" and "\<And>x. snd r = Inr x \<Longrightarrow> accounted (fst (f (fst r) x))"
  shows "accounted (fst (sbind r f))"
  using assms by (cases r; cases "snd r") auto

text \<open>A call on a container other than its creation.\<close>

definition plain_event :: "docker_event \<Rightarrow> bool" where
  "plain_event ev \<longleftrightarrow> (\<forall>spec cid. ev \<noteq> CreatedContainer spec cid)"

definition holds_container :: "string \<Rightarrow> 'w capsule_shell \<Rightarrow> bool" where
  "holds_container cid st \<longleftrightarrow> cs_container_id st = Some cid \<and> mounts_known st \<and>
     (\<forall>spec c. CreatedContainer spec (Some c) \<in> set (bs_trace (cs_state st)) \<longrightarrow> c = cid)"

lemma holds_accounted: "holds_container cid st \<Longrightarrow> accounted st"
  by (auto simp: holds_container_def accounted_def container_known_def)

lemma holds_step:
  "holds_container cid st \<Longrightarrow> bs_trace b = bs_trace (cs_state st) @ [ev] \<Longrightarrow> plain_event ev \<Longrightarrow> holds_container cid (st\<lparr>cs_state := b\<rparr>)"
  by (auto simp: holds_container_def mounts_known_def plain_event_def)

lemma holds_awaiting:
  assumes "holds_container cid st" and step: "\<And>b. \<exists>ev. plain_event ev \<and> bs_trace (fst (f b)) = bs_trace b @ [ev]"
  shows "holds_container cid (fst (awaiting i p (on_state f) st))"
proof -
  obtain ev where "plain_event ev" "bs_trace (fst (f (cs_state st))) = bs_trace (cs_state st) @ [ev]" using step by blast
  then have "holds_container cid (fst (on_state f st))"
    using holds_step [OF assms(1)] by (auto simp: on_state_def split: prod.splits)
  then show ?thesis using awaiting_fst [of i p "on_state f" st] assms(1) by auto
qed

lemma container_calls:
  "\<exists>ev. plain_event ev \<and> bs_trace (fst (start_container D cid b)) = bs_trace b @ [ev]"
  "\<exists>ev. plain_event ev \<and> bs_trace (fst (wait_container D cid b)) = bs_trace b @ [ev]"
  "bs_trace (fst (remove_container D cid b)) = bs_trace b @ [RemovedContainer cid]"
  "bs_trace (fst (stop_container D cid b)) = bs_trace b @ [StoppedContainer cid]"
  by (auto simp: start_container_def wait_container_def remove_container_def stop_container_def docker_step_def noting_def
      plain_event_def split: prod.splits)

lemma remove_call: "\<exists>ev. plain_event ev \<and> bs_trace (fst (remove_container D cid b)) = bs_trace b @ [ev]"
  by (simp add: container_calls plain_event_def)

subsection \<open>The run\<close>

lemma prepare_known:
  assumes "cs_mount_trace st = []" and "cs_hostfs_mounts st = []"
  shows "mounts_known (fst (prepare_hostfs_mounts E reqs i st)) \<and>
    cs_container_id (fst (prepare_hostfs_mounts E reqs i st)) = cs_container_id st \<and>
    bs_trace (cs_state (fst (prepare_hostfs_mounts E reqs i st))) = bs_trace (cs_state st)"
  using assms
  by (auto simp: prepare_hostfs_mounts_def mounts_known_def set_host_def Let_def
      split: option.splits prod.splits sum.splits shell_await.splits bool.splits if_splits)

lemma create_known:
  assumes "mounts_known st" and "cs_container_id st = None" and "bs_trace (cs_state st) = []" and "i \<noteq> Some (AtCreate, True)"
  shows "snd (awaiting i AtCreate (on_state (create_container D spec)) st) = Inl e \<Longrightarrow>
      accounted (fst (awaiting i AtCreate (on_state (create_container D spec)) st))" (is "_ \<Longrightarrow> ?fail")
    and "snd (awaiting i AtCreate (on_state (create_container D spec)) st) = Inr cid \<Longrightarrow>
      holds_container cid ((fst (awaiting i AtCreate (on_state (create_container D spec)) st))\<lparr>cs_container_id := Some cid\<rparr>)" (is "_ \<Longrightarrow> ?made")
proof -
  obtain w r where c: "dk_create_container D spec (bs_world (cs_state st)) = (w, r)" by fastforce
  have act: "on_state (create_container D spec) st =
      (st\<lparr>cs_state := \<lparr>bs_world = w, bs_trace = [CreatedContainer spec (case r of Inr iid \<Rightarrow> Some iid | Inl _ \<Rightarrow> None)]\<rparr>\<rparr>,
       map_err ShBuild (map_err BDocker r))"
    using c assms(3) by (simp add: on_state_def create_container_def docker_step_def noting_def)
  have base: "accounted st" using assms by (simp add: accounted_def container_known_def)
  have kept: "mounts_known (st\<lparr>cs_state := b\<rparr>)" for b using assms(1) by (simp add: mounts_known_def)
  show ?fail if "snd (awaiting i AtCreate (on_state (create_container D spec)) st) = Inl e"
  proof (rule disjE [OF awaiting_not_sent [OF assms(4), of "on_state (create_container D spec)" st]])
    assume "awaiting i AtCreate (on_state (create_container D spec)) st = on_state (create_container D spec) st"
    then show ?thesis using that kept by (cases r) (auto simp: act accounted_def container_known_def)
  qed (simp add: base)
  show ?made if "snd (awaiting i AtCreate (on_state (create_container D spec)) st) = Inr cid"
    using awaiting_Inr [OF that] that assms(1) by (cases r) (auto simp: act holds_container_def mounts_known_def)
qed

lemma holds_stream: "holds_container cid st \<Longrightarrow> holds_container cid (st\<lparr>cs_stream_task := t\<rparr>)"
  by (auto simp: holds_container_def mounts_known_def)

lemma remove_accounted:
  assumes "holds_container cid st"
  shows "accounted ((fst (on_state (remove_container D cid) st))\<lparr>cs_container_id := None\<rparr>)"
  using assms container_calls(3) [of D cid "cs_state st"]
  by (auto simp: on_state_def accounted_def container_known_def holds_container_def mounts_known_def split: prod.splits)

lemma follow_accounted:
  assumes "holds_container cid st"
  shows "accounted (fst (follow_container E i cid st))"
proof -
  let ?D = "se_docker E"
  have finish: "accounted (fst (sbind (awaiting i AtRemove (on_state (remove_container ?D cid)) s)
      (\<lambda>s _. (s\<lparr>cs_container_id := None\<rparr>, Inr ()))))" if "holds_container cid s" for s
  proof (rule sbind_accounted)
    show "accounted (fst (awaiting i AtRemove (on_state (remove_container ?D cid)) s))"
      using that by (intro holds_accounted holds_awaiting remove_call)
    fix u assume "snd (awaiting i AtRemove (on_state (remove_container ?D cid)) s) = Inr u"
    from awaiting_Inr [OF this] remove_accounted [OF that]
    show "accounted (fst ((fst (awaiting i AtRemove (on_state (remove_container ?D cid)) s))\<lparr>cs_container_id := None\<rparr>, Inr ()))" by simp
  qed
  have "holds_container cid (fst (awaiting i AtStart (on_state (start_container ?D cid)) st))" (is "holds_container cid ?s")
    by (rule holds_awaiting [OF assms container_calls(1)])
  moreover have "holds_container cid (fst (awaiting i AtWait (on_state (wait_container ?D cid)) (?s\<lparr>cs_stream_task := Some cid\<rparr>)))"
    by (intro holds_awaiting holds_stream container_calls(2) calculation)
  ultimately show ?thesis unfolding follow_container_def Let_def
    by (intro sbind_accounted) (simp_all add: holds_accounted finish)
qed

lemma run_accounted:
  assumes "i \<noteq> Some (AtCreate, True)"
  shows "accounted (fst (run_capsule_image E img forwards dbg cpu mem reqs i (CapsuleShell_new w)))"
proof -
  let ?new = "CapsuleShell_new w"
  let ?P = "if reqs = [] then (?new, Inr ()) else prepare_hostfs_mounts E reqs i ?new"
  have new: "cs_container_id ?new = None" "cs_hostfs_mounts ?new = []" "cs_mount_trace ?new = []" "bs_trace (cs_state ?new) = []"
    by (simp_all add: CapsuleShell_new_def)
  then have prep: "mounts_known (fst ?P)" "cs_container_id (fst ?P) = None" "bs_trace (cs_state (fst ?P)) = []"
    using prepare_known [of ?new E reqs i] by (auto simp: mounts_known_def)
  then have acc: "accounted ?new" "accounted (fst ?P)" using new by (simp_all add: accounted_def container_known_def mounts_known_def)
  have create: "accounted (fst (sbind (awaiting i AtCreate (on_state (create_container (se_docker E) spec)) (fst ?P)) (\<lambda>st cid.
      follow_container E i cid (st\<lparr>cs_container_id := Some cid\<rparr>))))" for spec
    by (rule sbind_accounted) (use create_known [OF prep assms] follow_accounted in blast)+
  have "run_capsule_image E img forwards dbg cpu mem reqs i ?new =
      sbind (?new, port_forwards E [] forwards) (\<lambda>st bindings.
      sbind (if reqs = [] then (st, Inr ()) else prepare_hostfs_mounts E reqs i st) (\<lambda>st _.
      sbind (awaiting i AtCreate (on_state (create_container (se_docker E) (shell_container E img bindings dbg cpu mem (cs_hostfs_mounts st)))) st)
        (\<lambda>st cid. follow_container E i cid (st\<lparr>cs_container_id := Some cid\<rparr>))))"
    by (simp add: run_capsule_image_def new)
  then show ?thesis
    by (simp only:) (rule sbind_accounted, simp only: fst_conv acc, simp only: fst_conv, rule sbind_accounted, rule acc, rule create)
qed

subsection \<open>The cleanup\<close>

lemma cleanup_container_spec:
  assumes "container_known st" and "cleanup_container E st = (st', err)"
  shows "cs_container_id st' = None \<and> cs_mount_trace st' = cs_mount_trace st \<and> cs_hostfs_mounts st' = cs_hostfs_mounts st \<and>
    (\<forall>spec cid. CreatedContainer spec (Some cid) \<in> set (bs_trace (cs_state st')) \<longrightarrow> last (bs_trace (cs_state st')) = RemovedContainer cid)"
proof (cases "cs_container_id st")
  case None
  then show ?thesis using assms by (auto simp: cleanup_container_def container_known_def)
next
  case (Some cid)
  obtain s1 r1 where s1: "on_state (stop_container (se_docker E) cid) (st\<lparr>cs_container_id := None\<rparr>) = (s1, r1)" by fastforce
  obtain s2 r2 where s2: "on_state (remove_container (se_docker E) cid) s1 = (s2, r2)" by fastforce
  have "cs_container_id s2 = None" "cs_mount_trace s2 = cs_mount_trace st" "cs_hostfs_mounts s2 = cs_hostfs_mounts st"
    "bs_trace (cs_state s2) = bs_trace (cs_state st) @ [StoppedContainer cid, RemovedContainer cid]"
    using s1 s2 container_calls(4) [of "se_docker E" cid "cs_state st"] container_calls(3) [of "se_docker E" cid "cs_state s1"]
    by (auto simp: on_state_def split: prod.splits)
  moreover have "st' = s2" using assms(2) Some s1 s2 by (simp add: cleanup_container_def)
  ultimately show ?thesis using assms(1) Some by (auto simp: container_known_def)
qed

lemma cleanup_stream_spec:
  "cleanup_stream E err st = (st', err') \<Longrightarrow> cs_stream_task st' = None \<and> cs_container_id st' = cs_container_id st \<and>
     cs_mount_trace st' = cs_mount_trace st \<and> cs_hostfs_mounts st' = cs_hostfs_mounts st \<and>
     bs_trace (cs_state st') = bs_trace (cs_state st)"
  by (auto simp: cleanup_stream_def set_host_def split: option.splits prod.splits)

lemma cleanup_mounts_spec:
  "cleanup_mounts E err st = (st', err') \<Longrightarrow> cs_hostfs_mounts st' = [] \<and> cs_stream_task st' = cs_stream_task st \<and>
     cs_container_id st' = cs_container_id st \<and> bs_trace (cs_state st') = bs_trace (cs_state st) \<and>
     cs_mount_trace st' = cs_mount_trace st @ map MountCleaned (rev (cs_hostfs_mounts st))"
  by (auto simp: cleanup_mounts_def set_host_def split: prod.splits)


text \<open>A machine whose loopback commands succeed, on the daemon whose containers exit with the given status.\<close>

definition demo_loop :: "unit loop_ops" where
  "demo_loop =
     \<lparr>lo_exists = (\<lambda>_ _. True), lo_is_dir = (\<lambda>_ _. True), lo_create_dir_all = (\<lambda>h _. (h, True)), lo_open_lock = (\<lambda>h _. (h, True)),
      lo_flock = (\<lambda>h _. (h, True)), lo_len = (\<lambda>_ _. Some 1048576), lo_create_new = (\<lambda>h _. (h, True)), lo_set_len = (\<lambda>h _ _. (h, True)),
      lo_mkfs = (\<lambda>h _. (h, True)), lo_mount = (\<lambda>h _ _. (h, True)), lo_umount = (\<lambda>h _. (h, True)),
      lo_remove_dir_all = (\<lambda>h _. (h, True)), lo_uuid = (\<lambda>_. ''u'')\<rparr>"

definition demo_shell :: "int \<Rightarrow> unit shell_env" where
  "demo_shell code =
     \<lparr>se_docker = demo_docker code, se_loop = demo_loop, se_display = (\<lambda>_. []), se_digits = (\<lambda>s. s \<noteq> [] \<and> list_all (\<lambda>c. c \<in> set ''0123456789'') s),
      se_stream_end = (\<lambda>_ w. (w, Inr ())), se_connect = Inr (), se_signals = Inr (), se_load = (\<lambda>_ _. Inl ReadFailed)\<rparr>"

definition demo_run_args :: run_args where
  "demo_run_args = \<lparr>ra_manifest_file = None, ra_image_name = Some ''app'', ra_port_forwards = [''1:2''], ra_debug_mode = False,
     ra_cpu_count = Some 2, ra_memory_mb = None, ra_mounts = []\<rparr>"

lemmas demo_shell_defs = demo_run_args_def demo_shell_def demo_docker_def cli_run_def run_plan_def run_target_def run_mounts_def
  run_capsule_image_def follow_container_def port_forward_def CapsuleShell_new_def awaiting_def on_state_def shell_container_def
  create_container_def start_container_def wait_container_def wait_answer_def try_collect_def remove_container_def stop_container_def
  docker_step_def noting_def CapsuleShell_cleanup_def cleanup_container_def cleanup_stream_def cleanup_mounts_def drop_mounts_def
  set_host_def note_error_def


text \<open>
  The exception is real: a signal during the creation leaves the container, and the command still
  succeeds.  It also succeeds when the container failed.
\<close>

lemma interrupted_creation_leaks:
  "\<exists>st spec. cli_run (demo_shell 0) demo_run_args (Some (AtCreate, True)) () = (st, Inr ()) \<and>
     bs_trace (cs_state st) = [CreatedContainer spec (Some ''c1'')]"
  by (simp add: demo_shell_defs)

lemma failed_run_succeeds:
  "snd (run_capsule_image (demo_shell 3) ''app'' [''1:2''] False (Some 2) None [] None (CapsuleShell_new ())) =
      Inl (ShText ''non-zero exit code from container'') \<and>
   snd (cli_run (demo_shell 3) demo_run_args None ()) = Inr ()"
  by (simp add: demo_shell_defs)

subsection \<open>Ports\<close>

text \<open>The last forward to a port of the container is the one that is published; the earlier ones are lost.\<close>

lemma port_forwards_last:
  "port_forwards E bs specs = Inr bindings \<Longrightarrow>
     map_of bindings = map_of bs ++ (\<lambda>k. map_of (rev (map (\<lambda>s. case port_forward E s of Inr (h, c) \<Rightarrow> (c @ ''/tcp'', h)) specs)) k)"
proof (induction specs arbitrary: bs)
  case (Cons s specs)
  then obtain h c where s: "port_forward E s = Inr (h, c)" by (cases "port_forward E s") auto
  then have "port_forwards E (AList.update (c @ ''/tcp'') h bs) specs = Inr bindings" using Cons.prems by simp
  from Cons.IH [OF this] show ?case
    by (simp add: s update_conv' map_add_def fun_eq_iff split: option.splits)
qed (simp add: map_add_def)

subsection \<open>Exit codes\<close>

text \<open>
  The program of the release image ends with the exit code of the entrypoint, unless starting,
  waiting or cleaning up failed, which is the exit code one.
\<close>

lemma finalize_status: "finalize_exit_and_cleanup X exit_res st = (st', Inr status) \<Longrightarrow> exit_res = Inr status"
  by (cases exit_res) (auto simp: finalize_exit_and_cleanup_def split: prod.splits sum.splits)

lemma run_status_from_lines:
  assumes "Enclave_run X J conns False st = Some (st', Inr status)"
  shows "await_exit J 0 conns = Some (Inr status)"
  using assms by (auto simp: Enclave_run_def dest: finalize_status split: if_splits prod.splits sum.splits)

lemma shell_exit_code:
  assumes "reads_status J StRunning" "reads_status J (StExited (Exited code))" "i32_status (StExited (Exited code))"
    and "list_all quiet_conn pre" "list_all quiet_line ls" "length (filter (\<lambda>c. c = StatusConnectFailed) pre) < 100"
    and "shell_run X J signals opts (pre @ [StatusLines (ls @ [Inr (status_line (StExited (Exited code)))])]) False w = Some r"
  shows "main_exit_code r = 1 \<or> main_exit_code r = word_of_int code"
proof -
  let ?conns = "pre @ [StatusLines (ls @ [Inr (status_line (StExited (Exited code)))])]"
  have "await_exit J 0 ?conns = Some (Inr (EsExited code))"
    using await_final_line [OF assms(1-5), of 0] assms(6) by (simp add: STATUS_VSOCK_RETRY_LIMIT_def understood_def)
  then have "Enclave_run X J ?conns False st = Some (st', Inr status) \<Longrightarrow> status = EsExited code" for st st' status
    using run_status_from_lines by fastforce
  then show ?thesis using assms(7)
    by (auto simp: shell_run_def main_exit_code_def report_def rbind_def map_err_def split: sum.splits) fastforce+
qed

end
