(* ===== verification/Api_Safety.thy ===== *)
theory Api_Safety
  imports Aux_Api
begin

text \<open>
  What the two APIs guarantee: replays of encrypted requests are refused within the window of the
  nonce cache, keys are seeded from the security module, and an attestation obtained through the
  auxiliary API speaks for the enclave's own keys.
\<close>

subsection \<open>The nonce cache\<close>

definition cache_ok :: "nonce_replay_cache \<Rightarrow> bool" where
  "cache_ok c \<longleftrightarrow> distinct (nc_order c) \<and> set (nc_order c) = nc_seen c \<and> length (nc_order c) \<le> nc_capacity c"

lemma evict_drop:
  "distinct order \<Longrightarrow> set order = seen \<Longrightarrow>
   evict capacity order seen = (let rest = drop (length order - capacity) order in (rest, set rest))"
proof (induction order arbitrary: seen)
  case Nil
  then show ?case by (simp add: evict.simps)
next
  case (Cons x xs)
  show ?case
  proof (cases "length (x # xs) > capacity")
    case True
    moreover have "set xs = seen - {x}" using Cons.prems by auto
    ultimately show ?thesis using Cons.IH [of "seen - {x}"] Cons.prems
      by (subst evict.simps) (simp add: Suc_diff_le Let_def)
  next
    case False
    then show ?thesis using Cons.prems by (subst evict.simps) (auto simp: Let_def)
  qed
qed

text \<open>Abstractly the cache is the list of the last \<open>capacity\<close> fresh fingerprints.\<close>

lemma insert_if_new_spec:
  assumes "cache_ok c"
  shows "insert_if_new c f =
    (if f \<in> set (nc_order c) then (c, False)
     else (let order = drop (Suc (length (nc_order c)) - nc_capacity c) (nc_order c @ [f])
           in (c\<lparr>nc_order := order, nc_seen := set order\<rparr>, True)))"
proof (cases "f \<in> set (nc_order c)")
  case True
  then show ?thesis using assms by (auto simp: insert_if_new_def cache_ok_def)
next
  case False
  have "evict (nc_capacity c) (nc_order c @ [f]) (insert f (nc_seen c)) =
      (let rest = drop (length (nc_order c @ [f]) - nc_capacity c) (nc_order c @ [f]) in (rest, set rest))"
    using assms False by (intro evict_drop) (auto simp: cache_ok_def)
  then show ?thesis using assms False by (simp add: insert_if_new_def cache_ok_def Let_def)
qed

lemma insert_if_new_ok:
  assumes ok: "cache_ok c" and ins: "insert_if_new c f = (c', b)"
  shows "cache_ok c' \<and> nc_capacity c' = nc_capacity c \<and>
    (nc_order c' = nc_order c \<or> nc_order c' = drop (Suc (length (nc_order c)) - nc_capacity c) (nc_order c @ [f]))"
proof (cases "f \<in> set (nc_order c)")
  case True
  then have "c' = c" using ins unfolding insert_if_new_spec [OF ok] by simp
  then show ?thesis using ok by simp
next
  case False
  define order where "order = drop (Suc (length (nc_order c)) - nc_capacity c) (nc_order c @ [f])"
  have "distinct order" using ok False by (simp add: order_def cache_ok_def del: drop_append)
  moreover have "length order \<le> nc_capacity c" by (simp add: order_def del: drop_append)
  moreover have "c' = c\<lparr>nc_order := order, nc_seen := set order\<rparr>"
    using ins False unfolding insert_if_new_spec [OF ok] by (simp add: order_def Let_def del: drop_append)
  ultimately show ?thesis by (simp add: cache_ok_def del: drop_append flip: order_def)
qed

text \<open>\<open>recent k f c\<close>: fingerprint \<open>f\<close> is in the cache with at most \<open>k\<close> newer ones.\<close>

definition recent :: "nat \<Rightarrow> bytes \<Rightarrow> nonce_replay_cache \<Rightarrow> bool" where
  "recent k f c \<longleftrightarrow> (\<exists>xs ys. nc_order c = xs @ f # ys \<and> length ys \<le> k)"

lemma recent_insert:
  assumes ok: "cache_ok c" and ins: "insert_if_new c g = (c', b)"
    and rec: "recent k f c" and k: "k + 1 < nc_capacity c"
  shows "recent (Suc k) f c'"
proof -
  obtain xs ys where o: "nc_order c = xs @ f # ys" "length ys \<le> k" using rec by (auto simp: recent_def)
  consider "nc_order c' = nc_order c"
    | "nc_order c' = drop (Suc (length (nc_order c)) - nc_capacity c) (nc_order c @ [g])"
    using insert_if_new_ok [OF ok ins] by blast
  then show ?thesis
  proof cases
    case 1
    then have "nc_order c' = xs @ f # ys \<and> length ys \<le> Suc k" using o by simp
    then show ?thesis unfolding recent_def by blast
  next
    case 2
    let ?n = "Suc (length (nc_order c)) - nc_capacity c"
    have "?n \<le> length xs" using o k by simp
    then have "nc_order c' = drop ?n xs @ f # (ys @ [g]) \<and> length (ys @ [g]) \<le> Suc k"
      using 2 o by simp
    then show ?thesis unfolding recent_def by blast
  qed
qed

lemma recent_registered:
  assumes "cache_ok c" and "insert_if_new c f = (c', True)" and "0 < nc_capacity c"
  shows "recent 0 f c'"
proof -
  let ?n = "Suc (length (nc_order c)) - nc_capacity c"
  have "nc_order c' = drop ?n (nc_order c @ [f])"
    using assms(2) unfolding insert_if_new_spec [OF assms(1)] by (auto simp: Let_def split: if_splits)
  moreover have "?n \<le> length (nc_order c)" using assms(3) by simp
  ultimately have "nc_order c' = drop ?n (nc_order c) @ f # []" by simp
  then show ?thesis unfolding recent_def by fastforce
qed

subsection \<open>Requests and the cache\<close>

lemma decrypt_cache:
  assumes "handle_encryption_decrypt A api c body = (c', r)"
  shows "c' = c \<or> (\<exists>f b. insert_if_new c f = (c', b))"
  using assms
  by (auto simp: handle_encryption_decrypt_def register_client_nonce_def split: sum.splits prod.splits bool.splits)

lemma api_handle_cache:
  assumes "api_handle A api c m p body = (c', r)"
  shows "c' = c \<or> (\<exists>f b. insert_if_new c f = (c', b))"
proof (cases "m = POST \<and> p = ''/v1/encryption/decrypt'' \<and> \<not> length body > MAX_API_REQUEST_BODY_BYTES")
  case True
  then have "handle_encryption_decrypt A api c body = (c', r)"
    using assms by (simp add: api_handle_def api_handle_request_def on_method_def)
  then show ?thesis by (rule decrypt_cache)
next
  case False
  then have "c' = c" using assms
    by (auto simp: api_handle_def api_handle_request_def on_method_def split: if_splits)
  then show ?thesis by simp
qed

fun serve_api ::
  "('k, 'sk, 'pk, 'v) api_env \<Rightarrow> ('k, 'sk, 'pk) capsule_api \<Rightarrow> nonce_replay_cache
     \<Rightarrow> (http_method \<times> string \<times> bytes) list \<Rightarrow> nonce_replay_cache" where
  "serve_api A api c [] = c"
| "serve_api A api c ((m, p, body) # rs) = serve_api A api (fst (api_handle A api c m p body)) rs"

lemma serve_api_recent:
  assumes "cache_ok c" "recent k f c" "k + length rs < nc_capacity c"
  shows "cache_ok (serve_api A api c rs) \<and> recent (k + length rs) f (serve_api A api c rs)"
  using assms
proof (induction rs arbitrary: c k)
  case Nil
  then show ?case by simp
next
  case (Cons r rs)
  obtain m p body where r: "r = (m, p, body)" by (cases r) auto
  define c' where "c' = fst (api_handle A api c m p body)"
  have "cache_ok c' \<and> nc_capacity c' = nc_capacity c \<and> recent (Suc k) f c'"
  proof -
    consider "c' = c" | g b where "insert_if_new c g = (c', b)"
      using api_handle_cache [of A api c m p body c' "snd (api_handle A api c m p body)"]
      by (auto simp: c'_def)
    then show ?thesis
    proof cases
      case 1
      have "recent (Suc k) f c" using Cons.prems(2) unfolding recent_def by (meson le_SucI)
      then show ?thesis using 1 Cons.prems(1) by simp
    next
      case 2
      then show ?thesis
        using insert_if_new_ok [OF Cons.prems(1) 2] recent_insert [OF Cons.prems(1) 2 Cons.prems(2)] Cons.prems(3)
        by simp
    qed
  qed
  with Cons.IH [of c' "Suc k"] Cons.prems(3) show ?case by (simp add: r c'_def)
qed


lemma cache_ok_new: "cache_ok (NonceReplayCache_new n)"
  by (simp add: cache_ok_def NonceReplayCache_new_def)

lemma serve_api_ok:
  "cache_ok c \<Longrightarrow> cache_ok (serve_api A api c rs) \<and> nc_capacity (serve_api A api c rs) = nc_capacity c"
proof (induction rs arbitrary: c)
  case Nil
  then show ?case by simp
next
  case (Cons r rs)
  obtain m p body where r: "r = (m, p, body)" by (cases r) auto
  obtain c' resp where h: "api_handle A api c m p body = (c', resp)" by fastforce
  then have "cache_ok c' \<and> nc_capacity c' = nc_capacity c"
    using api_handle_cache [OF h] insert_if_new_ok [OF Cons.prems] Cons.prems by blast
  then show ?case using Cons.IH [of c'] h r by simp
qed

lemma serve_api_append: "serve_api A api c (xs @ ys) = serve_api A api (serve_api A api c xs) ys"
  by (induction A api c xs rule: serve_api.induct) auto

lemma recent_refused:
  assumes "cache_ok c" and "recent k f c"
  shows "insert_if_new c f = (c, False)"
  using assms(2) unfolding insert_if_new_spec [OF assms(1)] by (auto simp: recent_def)

lemma api_handle_decrypt:
  assumes "length body \<le> MAX_API_REQUEST_BODY_BYTES"
  shows "api_handle A api c POST ''/v1/encryption/decrypt'' body = handle_encryption_decrypt A api c body"
  using assms by (simp add: api_handle_def api_handle_request_def on_method_def)

subsection \<open>Collecting random bytes\<close>

text \<open>
  The bytes collected so far, after \<open>i\<close> calls of which the last \<open>e\<close> were empty, are the first bytes of
  the answers.
\<close>

lemma concat_answers_Suc:
  assumes "src i = Inr chunk"
  shows "concat (map (\<lambda>j. projr (src j)) [0..<Suc i]) = concat (map (\<lambda>j. projr (src j)) [0..<i]) @ chunk"
  using assms by simp

lemma collect_random_prefix:
  assumes "collect_random src len i e buf = Inr bs"
    and "buf = take len (concat (map (\<lambda>j. projr (src j)) [0..<i]))"
    and "\<forall>j < i. \<exists>chunk. src j = Inr chunk" and "length buf \<le> len"
  shows "length bs = len \<and>
    (\<exists>n. (\<forall>j < n. \<exists>chunk. src j = Inr chunk) \<and> bs = take len (concat (map (\<lambda>j. projr (src j)) [0..<n])))"
  using assms
proof (induction src len i e buf rule: collect_random.induct)
  case (1 src len i e buf)
  show ?case
  proof (cases "length buf < len")
    case False
    then have "bs = buf" using 1(4) by (simp add: collect_random.simps [of src len])
    with False 1(5-7) show ?thesis by (auto intro!: exI [of _ i])
  next
    case True
    let ?all = "concat (map (\<lambda>j. projr (src j)) [0..<i])"
    have buf: "buf = ?all" using 1(5) True by (auto simp: min_def split: if_splits)
    obtain chunk where c: "src i = Inr chunk"
      using 1(4) True by (cases "src i") (simp_all add: collect_random.simps [of src len i])
    have before: "\<forall>j < Suc i. \<exists>chunk. src j = Inr chunk" using 1(6) c by (auto simp: less_Suc_eq)
    note step = 1(4) [unfolded collect_random.simps [of src len i]]
    show ?thesis
    proof (cases "chunk = []")
      case empty: True
      show ?thesis using 1(1) [OF True c empty] step True c empty 1(5-7) before
        by (auto split: if_splits)
    next
      case nonempty: False
      show ?thesis
      proof (cases "length chunk \<ge> len - length buf")
        case full: True
        have "buf @ take (len - length buf) chunk = take len (concat (map (\<lambda>j. projr (src j)) [0..<Suc i]))"
          using True buf unfolding concat_answers_Suc [of src i, OF c] by simp
        then show ?thesis using 1(2) [OF True c nonempty refl full] step True c nonempty full before
          by simp
      next
        case part: False
        have "buf @ chunk = take len (concat (map (\<lambda>j. projr (src j)) [0..<Suc i]))"
          using True buf part unfolding concat_answers_Suc [of src i, OF c] by simp
        then show ?thesis using 1(3) [OF True c nonempty refl part] step True c nonempty part before
          by simp
      qed
    qed
  qed
qed

lemma collect_random_total:
  assumes "\<And>j. \<exists>chunk. src j = Inr chunk"
    and "\<And>i. \<exists>j < MAX_EMPTY_RANDOM_CHUNKS. src (i + j) \<noteq> Inr []"
    and "e \<le> i" and "\<forall>j < e. src (i - Suc j) = Inr []" and "e < MAX_EMPTY_RANDOM_CHUNKS"
  shows "\<exists>bs. collect_random src len i e buf = Inr bs"
  using assms
proof (induction src len i e buf rule: collect_random.induct)
  case (1 src len i e buf)
  obtain chunk where c: "src i = Inr chunk" using 1(4) by blast
  have zero: "\<exists>bs. collect_random src len (i + 1) 0 b = Inr bs"
    if "length buf < len" "chunk \<noteq> []" "b = buf @ take (len - length buf) chunk" for b
  proof (cases "length chunk \<ge> len - length buf")
    case True
    show ?thesis using 1(2) [OF that(1) c that(2) refl True] 1(4,5) that(3) by (simp add: MAX_EMPTY_RANDOM_CHUNKS_def)
  next
    case False
    show ?thesis using 1(3) [OF that(1) c that(2) refl False] 1(4,5) that(3) False
      by (simp add: MAX_EMPTY_RANDOM_CHUNKS_def)
  qed
  show ?case
  proof (cases "length buf < len \<and> chunk = []")
    case True
    have "e + 1 < MAX_EMPTY_RANDOM_CHUNKS"
    proof (rule ccontr)
      assume "\<not> e + 1 < MAX_EMPTY_RANDOM_CHUNKS"
      then have m: "MAX_EMPTY_RANDOM_CHUNKS = Suc e" using 1(8) by simp
      have "src (i - e + j) = Inr []" if "j < Suc e" for j
      proof (cases "j = e")
        case True
        then show ?thesis using 1(6) c \<open>length buf < len \<and> chunk = []\<close> by simp
      next
        case False
        then have "e - Suc j < e" "i - Suc (e - Suc j) = i - e + j" using that 1(6) by auto
        then show ?thesis using 1(7) by metis
      qed
      then show False using 1(5) [of "i - e"] m by auto
    qed
    moreover have "\<forall>j < e + 1. src (i + 1 - Suc j) = Inr []"
    proof (intro allI impI)
      fix j assume "j < e + 1"
      then show "src (i + 1 - Suc j) = Inr []" using 1(7) c True by (cases j) auto
    qed
    ultimately show ?thesis using 1(1) [OF _ c] True 1(4-6) c by (subst collect_random.simps) auto
  next
    case False
    then show ?thesis using zero c by (subst collect_random.simps) (auto simp: Let_def)
  qed
qed


subsection \<open>Attestation through the auxiliary API\<close>

lemma request_fields_no_key:
  "request_fields n None u = Inr req \<Longrightarrow> ar_public_key req = None \<and> ar_user_data req = opt_value u"
  by (auto simp: request_fields_def opt_string_def result_elims)

lemma build_user_data_address:
  assumes "build_user_data J u addr w = Inr bs"
  shows "\<exists>m. bs = js_bytes J (JObject m) \<and> map_of m ''eth_addr'' = Some (JString addr) \<and>
    (\<forall>a. w = Some a \<longrightarrow> map_of m ''app_wallet'' = Some (JString a))"
proof -
  obtain m where bs: "bs = js_bytes J (JObject (case w of
        Some a \<Rightarrow> json_insert ''app_wallet'' (JString a) (json_insert ''eth_addr'' (JString addr) m)
      | None \<Rightarrow> json_insert ''eth_addr'' (JString addr) m))"
    using assms by (auto simp: build_user_data_def Let_def result_elims)
  show ?thesis unfolding bs by (intro exI conjI, rule refl) (simp_all split: option.splits)
qed

text \<open>
  An attestation whose request names no key: the document the module signs carries the enclave's
  encryption key and its address.
\<close>

definition speaks_for_enclave ::
  "('k, 'sk, 'pk, 'v) api_env \<Rightarrow> ('k, 'sk, 'pk) capsule_api \<Rightarrow> attestation_params \<Rightarrow> bool" where
  "speaks_for_enclave A api params \<longleftrightarrow>
     att_public_key params = Some (public_key_as_der (ae_p384 A) (ca_encryption_key api)) \<and>
     (\<exists>m. att_user_data params = Some (js_bytes (ae_json A) (JObject m)) \<and>
          map_of m ''eth_addr'' = Some (JString (address (ae_eth A) (ca_eth_key api))) \<and>
          (\<forall>a. attestation_app_wallet api = Some a \<longrightarrow> map_of m ''app_wallet'' = Some (JString a)))"

lemma handle_attestation_own_key:
  assumes parse: "js_parse (ae_json A) body = Inr (JObject m)" and key: "map_of m ''public_key'' = None"
    and resp: "handle_attestation A api body = Inr r" and ok: "rs_status r = 200"
  shows "\<exists>params. speaks_for_enclave A api params \<and> ca_attester api params = Inr (rs_body r)"
proof -
  have bad: "rs_status (resp_bad_request e) \<noteq> 200" for e by (simp add: resp_bad_request_def plain_response_def)
  obtain req where req: "request_fields (map_of m ''nonce'') None (map_of m ''user_data'') = Inr req"
    using resp ok parse key bad by (auto simp: handle_attestation_def attestation_request_of_def split: sum.splits)
  obtain params where params: "into_params A (ca_eth_key api) (ca_encryption_key api) (attestation_app_wallet api) req = Inr params"
    using resp ok parse key req bad
    by (auto simp: handle_attestation_def attestation_request_of_def split: sum.splits)
  then obtain u where u: "build_user_data (ae_json A) (ar_user_data req) (address (ae_eth A) (ca_eth_key api))
        (attestation_app_wallet api) = Inr u"
    and p: "att_user_data params = Some u" "att_public_key params = Some (public_key_as_der (ae_p384 A) (ca_encryption_key api))"
    using request_fields_no_key [OF req] by (auto simp: into_params_def result_elims)
  have "ca_attester api params = Inr (rs_body r)"
    using resp parse key req params by (auto simp: handle_attestation_def attestation_request_of_def result_elims)
  with p build_user_data_address [OF u] show ?thesis unfolding speaks_for_enclave_def by blast
qed

text \<open>
  Only the object form of a request is sanitised: an array of the three fields is forwarded as it
  is, and the caller's key takes the place of the enclave's.
\<close>

lemma array_request_overrides_key:
  assumes parse: "js_parse (ae_json A) body = Inr (JArray [JNull, JString pem, JNull])"
    and read_back: "js_parse (ae_json A) (js_bytes (ae_json A) (JArray [JNull, JString pem, JNull])) =
          Inr (JArray [JNull, JString pem, JNull])"
    and size: "length (js_bytes (ae_json A) (JArray [JNull, JString pem, JNull])) \<le> MAX_API_REQUEST_BODY_BYTES"
    and pem: "ae_pem_decode A pem = Inr foreign_der"
    and attest: "\<And>params. \<exists>doc. ca_attester api params = Inr doc"
    and aux: "ax_client x = api_upstream A api c" "ax_json x = ae_json A" "ax_uri_ok x (ax_url x @ ''/v1/attestation'')"
  shows "\<exists>params r. att_public_key params = Some foreign_der \<and> rs_status r = 200 \<and>
    ca_attester api params = Inr (rs_body r) \<and> aux_handle_request x POST ''/v1/attestation'' body = Inr r"
proof -
  let ?sent = "js_bytes (ae_json A) (JArray [JNull, JString pem, JNull])"
  obtain u where u: "build_user_data (ae_json A) None (address (ae_eth A) (ca_eth_key api)) (attestation_app_wallet api) = Inr u"
    by (auto simp: build_user_data_def Let_def)
  let ?params = "\<lparr>att_nonce = None, att_user_data = Some u, att_public_key = Some foreign_der\<rparr>"
  obtain doc where doc: "ca_attester api ?params = Inr doc" using attest by blast
  have "handle_attestation A api ?sent =
      Inr \<lparr>rs_status = 200, rs_headers = [(''content-type'', ''application/cbor'')], rs_body = doc\<rparr>"
    using read_back pem u doc
    by (simp add: handle_attestation_def attestation_request_of_def request_fields_def opt_string_def opt_value_def into_params_def)
  then have "api_upstream A api c POST ''/v1/attestation'' ?sent =
      Answer \<lparr>rs_status = 200, rs_headers = [(''content-type'', ''application/cbor'')], rs_body = doc\<rparr>"
    using size by (simp add: api_upstream_def api_handle_def api_handle_request_def on_method_def)
  then have "aux_handle_request x POST ''/v1/attestation'' body =
      Inr (add_cors_headers \<lparr>rs_status = 200, rs_headers = [(''content-type'', ''application/cbor'')], rs_body = doc\<rparr>)"
    using parse aux by (simp add: aux_handle_request_def aux_handle_attestation_with_cors_def
        aux_handle_attestation_def sanitize_attestation_body_def proxy_request_def)
  with doc show ?thesis by (intro exI [of _ ?params] exI conjI) (simp_all add: add_cors_headers_def)
qed

text \<open>Without a resolved app wallet the caller's own \<open>app_wallet\<close> field is attested.\<close>

lemma caller_app_wallet_attested:
  assumes "map_of m ''app_wallet'' = Some v"
  shows "\<exists>m'. build_user_data J (Some (JObject m)) addr None = Inr (js_bytes J (JObject m')) \<and>
    map_of m' ''app_wallet'' = Some v"
  using assms by (auto simp: build_user_data_def Let_def intro!: exI [of _ "json_insert ''eth_addr'' (JString addr) m"])


subsection \<open>Main results\<close>

text \<open>
  C10. A replayed decryption request is refused: once a request for a client key and nonce has been
  accepted by a freshly started API, after any other requests, fewer than the 4096 entries of the
  cache, a request that decodes to the same key and nonce, whatever ciphertext it carries, is
  answered with the reuse error, is not decrypted and leaves the cache as it was.
\<close>

theorem decrypt_replay_refused:
  assumes first: "rbind (ae_decrypt_request A b1) (decode_decrypt_request A) = Inr (nonce, client_der, ct1)"
    and second: "rbind (ae_decrypt_request A b2) (decode_decrypt_request A) = Inr (nonce, client_der, ct2)"
    and sizes: "length b1 \<le> MAX_API_REQUEST_BODY_BYTES" "length b2 \<le> MAX_API_REQUEST_BODY_BYTES"
    and c0: "c0 = serve_api A api (NonceReplayCache_new NONCE_REPLAY_CACHE_CAPACITY) before"
    and accepted: "snd (api_handle A api c0 POST ''/v1/encryption/decrypt'' b1) \<noteq>
        Inr (resp_bad_request ''Nonce reuse detected for client_public_key'')"
    and c1: "c1 = serve_api A api c0 ((POST, ''/v1/encryption/decrypt'', b1) # between)"
    and window: "length between < NONCE_REPLAY_CACHE_CAPACITY"
  shows "api_handle A api c1 POST ''/v1/encryption/decrypt'' b2 =
    (c1, Inr (resp_bad_request ''Nonce reuse detected for client_public_key''))"
proof -
  let ?f = "nonce_fingerprint A client_der nonce"
  have ok0: "cache_ok c0" and cap0: "nc_capacity c0 = NONCE_REPLAY_CACHE_CAPACITY"
    using serve_api_ok [OF cache_ok_new, of A api NONCE_REPLAY_CACHE_CAPACITY before] unfolding c0
    by (simp_all add: NonceReplayCache_new_def)
  obtain c' where ins: "insert_if_new c0 ?f = (c', True)"
    using accepted first sizes(1)
    by (cases "insert_if_new c0 ?f"; cases "snd (insert_if_new c0 ?f)")
       (auto simp: api_handle_decrypt handle_encryption_decrypt_def register_client_nonce_def)
  have c1': "c1 = serve_api A api c' between"
    using first sizes(1) ins unfolding c1
    by (simp add: api_handle_decrypt handle_encryption_decrypt_def register_client_nonce_def)
  have "cache_ok c'" "nc_capacity c' = NONCE_REPLAY_CACHE_CAPACITY"
    using insert_if_new_ok [OF ok0 ins] cap0 by simp_all
  moreover have "recent 0 ?f c'"
    using recent_registered [OF ok0 ins] cap0 by (simp add: NONCE_REPLAY_CACHE_CAPACITY_def)
  ultimately have "insert_if_new c1 ?f = (c1, False)"
    using serve_api_recent [of c' 0 ?f between A api] window unfolding c1' by (auto intro: recent_refused)
  then show ?thesis using second sizes(2)
    by (simp add: api_handle_decrypt handle_encryption_decrypt_def register_client_nonce_def)
qed

text \<open>An environment for the witnesses: hexadecimal and UTF-8 are identities, JSON knows one value.\<close>

definition demo_eth :: "u8 eth_ops" where
  "demo_eth = \<lparr>et_from_bytes = (\<lambda>bs. Some (hd bs)), et_to_bytes = (\<lambda>k. [k]), et_public_point = (\<lambda>k. [4, k]),
     et_sign_recoverable = (\<lambda>k m. (replicate 64 k, 0)), et_recover = (\<lambda>m s r. Some [4, hd s]),
     et_keccak = (\<lambda>bs. replicate 12 0 @ bs), et_hex = bytes_str, et_unhex = (\<lambda>t. Some (str_bytes t)),
     et_lowercase = (\<lambda>t. t)\<rparr>"

definition demo_env :: "json_value \<Rightarrow> (u8, u8, u8, rlp_item) api_env" where
  "demo_env v = \<lparr>ae_eth = demo_eth, ae_p384 = toy_curve, ae_rlp = tree_rlp (RStr []),
     ae_json = \<lparr>js_parse = (\<lambda>_. Inr v), js_bytes = (\<lambda>_. [123, 125])\<rparr>,
     ae_os_random = (\<lambda>n. replicate n 0), ae_base64 = bytes_str, ae_unbase64 = (\<lambda>t. Inr (str_bytes t)),
     ae_pem_decode = (\<lambda>t. Inr (str_bytes t)), ae_sha256 = (\<lambda>bs. bs), ae_utf8 = (\<lambda>bs. Inr (bytes_str bs)),
     ae_unhex = (\<lambda>t. Inr (str_bytes t)), ae_tx_text = (\<lambda>_. ''transaction''), ae_key_text = (\<lambda>_. ''key''),
     ae_sign_request = (\<lambda>_. Inr \<lparr>sr_message = ''hi'', sr_include_attestation = False\<rparr>),
     ae_sign_tx_request = (\<lambda>_. Inl ''none''),
     ae_decrypt_request = (\<lambda>b. Inr \<lparr>dr_nonce = ''abcdefghijkl'', dr_client_public_key = ''k'',
        dr_encrypted_data = (if b = [1] then ''u'' else ''v'')\<rparr>),
     ae_encrypt_request = (\<lambda>_. Inl ''none'')\<rparr>"

definition demo_api :: "(u8, u8, u8) capsule_api" where
  "demo_api = \<lparr>ca_attester = (\<lambda>p. Inr [1]), ca_eth_key = 7, ca_encryption_key = encryption_key_of toy_curve 3,
     ca_nsm = None, ca_s3 = None, ca_kms = None\<rparr>"

lemma demo_decode:
  "rbind (ae_decrypt_request (demo_env v) b) (decode_decrypt_request (demo_env v)) =
     Inr (str_bytes ''abcdefghijkl'', str_bytes ''k'', str_bytes (if b = [1] then ''u'' else ''v''))"
  by (simp add: demo_env_def decode_decrypt_request_def unhex_field_def normalize_decrypt_nonce_def str_bytes_def
      strip_prefix_def starts_with_def AES_GCM_NONCE_LEN_def)

theorem decrypt_replay_refused_witness:
  "let c1 = serve_api (demo_env JNull) demo_api (NonceReplayCache_new NONCE_REPLAY_CACHE_CAPACITY)
         [(POST, ''/v1/encryption/decrypt'', [1]), (GET, ''/v1/random'', [])]
   in api_handle (demo_env JNull) demo_api c1 POST ''/v1/encryption/decrypt'' [2] =
     (c1, Inr (resp_bad_request ''Nonce reuse detected for client_public_key''))"
  unfolding Let_def
proof (rule decrypt_replay_refused [OF demo_decode [of JNull "[1]"] demo_decode [of JNull "[2]"],
      where before = "[]" and between = "[(GET, ''/v1/random'', [])]"])
  show "snd (api_handle (demo_env JNull) demo_api
      (serve_api (demo_env JNull) demo_api (NonceReplayCache_new NONCE_REPLAY_CACHE_CAPACITY) [])
      POST ''/v1/encryption/decrypt'' [1]) \<noteq> Inr (resp_bad_request ''Nonce reuse detected for client_public_key'')"
    by (simp add: api_handle_decrypt MAX_API_REQUEST_BODY_BYTES_def handle_encryption_decrypt_def demo_decode
        register_client_nonce_def insert_if_new_def NonceReplayCache_new_def key_failure_def resp_bad_request_def
        plain_response_def str_bytes_def split: prod.splits sum.splits)
      (simp add: demo_env_def ok_json_def json_response_def)
qed (simp_all add: MAX_API_REQUEST_BODY_BYTES_def NONCE_REPLAY_CACHE_CAPACITY_def)


text \<open>
  C26. Random bytes are the security module's, nothing else: as long as the module does not fail and does
  not answer 128 times in a row with nothing, the loop returns, and what it returns has exactly the
  requested length and is the beginning of the module's answers put together, each used once, in
  order.
\<close>

theorem collect_random_bytes_total:
  assumes "\<And>i. \<exists>chunk. src i = Inr chunk"
    and "\<And>i. \<exists>j < MAX_EMPTY_RANDOM_CHUNKS. src (i + j) \<noteq> Inr []"
  shows "\<exists>bs n. collect_random_bytes src len = Inr bs \<and> length bs = len \<and>
    bs = take len (concat (map (\<lambda>j. projr (src j)) [0..<n]))"
proof -
  obtain bs where bs: "collect_random src len 0 0 [] = Inr bs"
    using collect_random_total [of src 0 0 len "[]", OF assms] by (auto simp: MAX_EMPTY_RANDOM_CHUNKS_def)
  with collect_random_prefix [OF bs] show ?thesis by (auto simp: collect_random_bytes_def)
qed

theorem collect_random_bytes_total_witness:
  "\<exists>bs. collect_random_bytes (\<lambda>i. Inr (if even i then [] else [1, 2, 3])) 32 = Inr bs \<and> length bs = 32"
proof -
  have "\<exists>j < MAX_EMPTY_RANDOM_CHUNKS. Inr (if even (i + j) then [] else [1, 2, 3]) \<noteq> (Inr [] :: string + bytes)" for i :: nat
    by (rule exI [of _ "if even i then 1 else 0"]) (simp add: MAX_EMPTY_RANDOM_CHUNKS_def)
  from collect_random_bytes_total [OF _ this, of 32] show ?thesis by blast
qed

text \<open>
  C15. With a security module and without the fallback variable, both keys of the API come from 32
  bytes of the module each: the keys of the system generator are never used, and a failing module
  stops the start instead.
\<close>

theorem keys_from_security_module:
  assumes start: "with_integrations A var os_eth os_p384 attester (Some src) (Some src') s3 kms = Inr (api, c)"
    and strict: "\<not> weak_rng_fallback_enabled var"
  shows "\<exists>e1 e2. collect_random_bytes src 32 = Inr e1 \<and> length e1 = 32 \<and>
      et_from_bytes (ae_eth A) e1 = Some (ca_eth_key api) \<and>
      collect_random_bytes src' 32 = Inr e2 \<and> length e2 = 32 \<and>
      ca_encryption_key api = encryption_key_of (ae_p384 A) (pc_from_seed (ae_p384 A) e2) \<and>
      c = NonceReplayCache_new NONCE_REPLAY_CACHE_CAPACITY"
proof -
  have len: "length e = 32" if "collect_random_bytes s 32 = Inr e" for s e
    using that collect_random_prefix [of s 32 0 0 "[]" e] by (simp add: collect_random_bytes_def)
  from start strict obtain e1 e2 where "collect_random_bytes src 32 = Inr e1"
    "from_entropy_eth (ae_eth A) e1 = Inr (ca_eth_key api)"
    "collect_random_bytes src' 32 = Inr e2" "from_entropy_p384 (ae_p384 A) e2 = Inr (ca_encryption_key api)"
    "c = NonceReplayCache_new NONCE_REPLAY_CACHE_CAPACITY"
    by (auto simp: with_integrations_def seeded_key_def result_elims split: sum.splits if_splits)
  moreover from this len have "length e1 = 32" "length e2 = 32" by blast+
  moreover from calculation have "et_from_bytes (ae_eth A) e1 = Some (ca_eth_key api)"
    "ca_encryption_key api = encryption_key_of (ae_p384 A) (pc_from_seed (ae_p384 A) e2)"
    by (simp_all add: from_entropy_eth_def from_entropy_p384_def result_elims)
  ultimately show ?thesis by blast
qed

lemma collect_random_one:
  assumes "length chunk = len" "0 < len" "src 0 = Inr chunk"
  shows "collect_random_bytes src len = Inr chunk"
proof -
  have "chunk \<noteq> []" using assms by auto
  then show ?thesis using assms
    by (simp add: collect_random_bytes_def collect_random.simps [of src len 0] collect_random.simps [of src len "Suc 0"])
qed

theorem keys_from_security_module_witness:
  "\<exists>api c. with_integrations (demo_env JNull) (Some ''no'') 9 9 (\<lambda>p. Inr []) (Some (\<lambda>i. Inr (replicate 32 5)))
      (Some (\<lambda>i. Inr (replicate 32 6))) None None = Inr (api, c) \<and>
    ca_eth_key api = 5 \<and> ca_encryption_key api = encryption_key_of toy_curve 6"
proof -
  have r: "collect_random_bytes (\<lambda>i. Inr (replicate 32 b)) 32 = Inr (replicate 32 b)" for b :: u8
    by (rule collect_random_one) simp_all
  have strict: "\<not> weak_rng_fallback_enabled (Some ''no'')" by code_simp
  obtain api c where start: "with_integrations (demo_env JNull) (Some ''no'') 9 9 (\<lambda>p. Inr [])
      (Some (\<lambda>i. Inr (replicate 32 5))) (Some (\<lambda>i. Inr (replicate 32 6))) None None = Inr (api, c)"
    by (simp add: with_integrations_def seeded_key_def r from_entropy_eth_def from_entropy_p384_def demo_env_def demo_eth_def)
  show ?thesis
    using start keys_from_security_module [OF start strict]
    by (auto simp: r demo_env_def demo_eth_def toy_curve_def)
qed

text \<open>
  C11. An attestation obtained through the auxiliary API with an object as the request body speaks for
  the enclave: whatever fields the caller sent, the document the security module signs carries the
  enclave's own encryption key, its own address, and its own app wallet when there is one.
\<close>

theorem aux_attestation_speaks_for_enclave:
  assumes parse: "js_parse (ae_json A) body = Inr (JObject m)"
    and read_back: "js_parse (ae_json A) (js_bytes (ae_json A) (JObject (json_remove ''public_key'' m))) =
          Inr (JObject (json_remove ''public_key'' m))"
    and aux: "ax_client x = api_upstream A api c" "ax_json x = ae_json A"
    and resp: "aux_handle_request x POST ''/v1/attestation'' body = Inr r" and ok: "rs_status r = 200"
  shows "\<exists>params. speaks_for_enclave A api params \<and> ca_attester api params = Inr (rs_body r)"
proof -
  let ?sent = "js_bytes (ae_json A) (JObject (json_remove ''public_key'' m))"
  obtain r0 where r0: "proxy_request x POST ''/v1/attestation'' (Some ?sent) = Inr r0" and r: "r = add_cors_headers r0"
    using resp parse aux(2) by (auto simp: aux_handle_request_def aux_handle_attestation_with_cors_def
        aux_handle_attestation_def sanitize_attestation_body_def result_elims)
  have ok0: "rs_status r0 = 200" and body: "rs_body r = rs_body r0" using ok r by (simp_all add: add_cors_headers_def)
  have "api_upstream A api c POST ''/v1/attestation'' ?sent = Answer r0"
    using r0 ok0 aux(1) by (auto simp: proxy_request_def split: if_splits upstream_answer.splits)
  then have "snd (api_handle A api c POST ''/v1/attestation'' ?sent) = Inr r0"
    by (auto simp: api_upstream_def split: sum.splits)
  then have "handle_attestation A api ?sent = Inr r0"
    using ok0 by (auto simp: api_handle_def api_handle_request_def on_method_def resp_payload_too_large_def
        plain_response_def split: if_splits)
  from handle_attestation_own_key [OF read_back _ this ok0] body show ?thesis by simp
qed

definition demo_aux :: "json_value \<Rightarrow> aux_api" where
  "demo_aux v = AuxApiHandler_new 8080 (api_upstream (demo_env v) demo_api (NonceReplayCache_new NONCE_REPLAY_CACHE_CAPACITY))
     (\<lambda>_. True) (ae_json (demo_env v))"

theorem aux_attestation_speaks_for_enclave_witness:
  "\<exists>r params. aux_handle_request (demo_aux (JObject [])) POST ''/v1/attestation'' [123, 125] = Inr r \<and>
     rs_status r = 200 \<and> speaks_for_enclave (demo_env (JObject [])) demo_api params \<and>
     ca_attester demo_api params = Inr (rs_body r)"
proof -
  have "aux_handle_request (demo_aux (JObject [])) POST ''/v1/attestation'' [123, 125] =
      Inr (add_cors_headers \<lparr>rs_status = 200, rs_headers = [(''content-type'', ''application/cbor'')], rs_body = [1]\<rparr>)"
    by (simp add: aux_handle_request_def aux_handle_attestation_with_cors_def aux_handle_attestation_def demo_aux_def
        AuxApiHandler_new_def sanitize_attestation_body_def json_remove_def proxy_request_def api_upstream_def
        api_handle_def MAX_API_REQUEST_BODY_BYTES_def api_handle_request_def on_method_def handle_attestation_def
        attestation_request_of_def request_fields_def opt_string_def opt_value_def into_params_def
        build_user_data_def attestation_app_wallet_def demo_env_def demo_api_def Let_def)
  moreover from this have "\<exists>params. speaks_for_enclave (demo_env (JObject [])) demo_api params \<and>
      ca_attester demo_api params = Inr (rs_body (add_cors_headers
        \<lparr>rs_status = 200, rs_headers = [(''content-type'', ''application/cbor'')], rs_body = [1]\<rparr>))"
    by (rule aux_attestation_speaks_for_enclave [of _ _ "[]", rotated 4])
       (simp_all add: demo_env_def demo_aux_def AuxApiHandler_new_def json_remove_def add_cors_headers_def)
  ultimately show ?thesis by (auto simp: add_cors_headers_def)
qed


text \<open>
  C25. The message signer cannot be made to sign a transaction: a successful answer of the signing
  handler carries a signature of a personal message of non-zero length, and no personal message is
  the signing payload of a transaction; an attestation in the answer is bound to that very message
  by its hash and speaks for the signing key.
\<close>

theorem eth_sign_never_signs_transaction:
  assumes resp: "handle_eth_sign A api body = Inr r" and ok: "rs_status r = 200"
  shows "\<exists>msg att. msg \<noteq> [] \<and> (\<forall>tx. personal_message msg \<noteq> signing_payload R tx) \<and>
    r = ok_json (ae_json A) (JObject
      [(''signature'', hex_text A (sign_message (ae_eth A) (ca_eth_key api) (personal_message msg))),
       (''address'', JString (address (ae_eth A) (ca_eth_key api))), (''attestation'', att)]) \<and>
    (att = JNull \<or> (\<exists>params doc. ca_attester api params = Inr doc \<and> att = JString (ae_base64 A doc) \<and>
       att_nonce params = Some (et_keccak (ae_eth A) (personal_message msg)) \<and>
       att_public_key params = Some (eth_key_as_der (ae_eth A) (ca_eth_key api))))"
proof -
  have bad: "rs_status (resp_bad_request e) \<noteq> 200" for e by (simp add: resp_bad_request_def plain_response_def)
  obtain req where req: "ae_sign_request A body = Inr req" "sr_message req \<noteq> []"
    using resp ok bad by (auto simp: handle_eth_sign_def split: sum.splits if_splits)
  obtain att where att: "signing_attestation A api (sr_include_attestation req)
        (et_keccak (ae_eth A) (personal_message (sr_message req))) = Inr att"
    and r: "r = ok_json (ae_json A) (JObject
      [(''signature'', hex_text A (sign_message (ae_eth A) (ca_eth_key api) (personal_message (sr_message req)))),
       (''address'', JString (address (ae_eth A) (ca_eth_key api))), (''attestation'', att)])"
    using resp req by (auto simp: handle_eth_sign_def Let_def result_elims)
  have "personal_message msg \<noteq> signing_payload R tx" for msg tx
    by (simp add: personal_message_def signing_payload_def prepend_type_prefix_def EIP1559_TX_TYPE_def str_bytes_def)
  moreover have "att = JNull \<or> (\<exists>params doc. ca_attester api params = Inr doc \<and> att = JString (ae_base64 A doc) \<and>
       att_nonce params = Some (et_keccak (ae_eth A) (personal_message (sr_message req))) \<and>
       att_public_key params = Some (eth_key_as_der (ae_eth A) (ca_eth_key api)))"
  proof (cases "sr_include_attestation req")
    case True
    then obtain u doc where "ca_attester api
          \<lparr>att_nonce = Some (et_keccak (ae_eth A) (personal_message (sr_message req))), att_user_data = Some u,
           att_public_key = Some (eth_key_as_der (ae_eth A) (ca_eth_key api))\<rparr> = Inr doc"
      and "att = JString (ae_base64 A doc)"
      using att by (auto simp: signing_attestation_def result_elims)
    then show ?thesis by (metis attestation_params.select_convs(1,3))
  qed (use att in \<open>simp add: signing_attestation_def\<close>)
  ultimately show ?thesis using r req(2) by blast
qed

theorem eth_sign_never_signs_transaction_witness:
  "\<exists>r. handle_eth_sign (demo_env JNull) demo_api [] = Inr r \<and> rs_status r = 200 \<and>
     (\<exists>msg. msg \<noteq> [] \<and> (\<forall>tx. personal_message msg \<noteq> signing_payload (tree_rlp (RStr [])) tx))"
proof -
  obtain r where r: "handle_eth_sign (demo_env JNull) demo_api [] = Inr r" "rs_status r = 200"
    by (simp add: handle_eth_sign_def demo_env_def signing_attestation_def ok_json_def json_response_def Let_def)
  from eth_sign_never_signs_transaction [OF r, of "tree_rlp (RStr [])"] r show ?thesis by blast
qed

end
