(* ===== verification/S3_Safety.thy ===== *)
theory S3_Safety
  imports S3_Proxy Kms_Witnesses
begin

text \<open>
  What the S3 proxy guarantees: an application stays below its own prefix, what it stores it reads
  back, and with encryption enforced an object cannot be passed off as another.
\<close>

subsection \<open>Prefixes\<close>

lemma build_key_below: "build_key S key = Inr full \<Longrightarrow> full = sx_prefix S @ key"
  by (auto simp: build_key_def split: if_splits)

lemma client_irrelevant [simp]:
  "build_key (S\<lparr>sx_client := c\<rparr>) key = build_key S key"
  "kms_encryption_enabled (S\<lparr>sx_client := c\<rparr>) = kms_encryption_enabled S"
  "accept_plaintext (S\<lparr>sx_client := c\<rparr>) = accept_plaintext S"
  "key_version (S\<lparr>sx_client := c\<rparr>) = key_version S"
  "aad_mode (S\<lparr>sx_client := c\<rparr>) = aad_mode S"
  "current_nova_kms (S\<lparr>sx_client := c\<rparr>) = current_nova_kms S"
  by (simp_all add: build_key_def kms_encryption_enabled_def accept_plaintext_def key_version_def aad_mode_def
      current_nova_kms_def)

lemma client_irrelevant_steps [simp]:
  "aad_mode_of (S\<lparr>sx_client := c\<rparr>) label = aad_mode_of S label"
  "object_key E X (S\<lparr>sx_client := c\<rparr>) key v s = object_key E X S key v s"
  unfolding aad_mode_of_def object_key_def client_irrelevant by (rule refl)+

lemma client_irrelevant_cipher [simp]:
  "encrypt_for_s3 E X (S\<lparr>sx_client := c\<rparr>) key data s = encrypt_for_s3 E X S key data s"
  "decrypt_if_needed E X (S\<lparr>sx_client := c\<rparr>) key data md s = decrypt_if_needed E X S key data md s"
  unfolding encrypt_for_s3_def decrypt_if_needed_def client_irrelevant client_irrelevant_steps by (rule refl)+

text \<open>Two clients that differ at most in what they do with keys below \<open>q\<close>.\<close>

definition same_outside :: "string \<Rightarrow> 'w s3_client \<Rightarrow> 'w s3_client \<Rightarrow> bool" where
  "same_outside q c c' \<longleftrightarrow>
     (\<forall>b key. \<not> prefix q key \<longrightarrow>
        sc_get c b key = sc_get c' b key \<and> sc_put c b key = sc_put c' b key \<and> sc_delete c b key = sc_delete c' b key) \<and>
     (\<forall>b query. parallel q (lq_prefix query) \<longrightarrow> sc_list c b query = sc_list c' b query)"

lemma same_outside_own:
  assumes "same_outside q c c'" and "parallel q p"
  shows "sc_get c b (p @ x) = sc_get c' b (p @ x)" "sc_put c b (p @ x) = sc_put c' b (p @ x)"
    "sc_delete c b (p @ x) = sc_delete c' b (p @ x)" "lq_prefix query = p @ x \<Longrightarrow> sc_list c b query = sc_list c' b query"
  using assms parallel_append [OF assms(2), of "[]" x] by (simp_all add: same_outside_def parallel_def)

lemma slash_free_parallel:
  assumes "p \<noteq> q" and "CHR ''/'' \<notin> set p" and "CHR ''/'' \<notin> set q"
  shows "parallel (p @ ''/'') (q @ ''/'')"
proof -
  have "\<not> prefix (a @ ''/'') (b @ ''/'')" if "a \<noteq> b" "CHR ''/'' \<notin> set a" "CHR ''/'' \<notin> set b" for a b :: string
    using that
  proof (induction a arbitrary: b)
    case Nil
    then show ?case by (cases b) auto
  next
    case (Cons x a)
    then show ?case by (cases b) auto
  qed
  then show ?thesis using assms unfolding parallel_def by metis
qed

text \<open>
  C29. Applications are isolated: for two applications whose prefixes are different and not nested, nothing
  that the first does through the S3 routes depends on, or touches, the objects of the second.
  Exchanging the behaviour of the store on all keys of the second leaves every response, every effect
  on the store and every state of the first as it was.
\<close>

theorem s3_applications_isolated:
  assumes S: "S = S3Proxy_new c bucket p enc\<lparr>sx_nova_kms := kms\<rparr>"
    and other: "parallel (sx_prefix (S3Proxy_new c2 bucket2 q enc2)) (sx_prefix S)"
    and same: "same_outside (sx_prefix (S3Proxy_new c2 bucket2 q enc2)) c c'"
  shows "s3_handle_get E X (S\<lparr>sx_client := c'\<rparr>) body s = s3_handle_get E X S body s \<and>
    s3_handle_put E X (S\<lparr>sx_client := c'\<rparr>) body s = s3_handle_put E X S body s \<and>
    s3_handle_delete E X (S\<lparr>sx_client := c'\<rparr>) body s = s3_handle_delete E X S body s \<and>
    s3_handle_list E X (S\<lparr>sx_client := c'\<rparr>) body s = s3_handle_list E X S body s"
proof -
  have c: "sx_client S = c" by (simp add: S S3Proxy_new_def)
  note own = same_outside_own [OF same other, symmetric]
  have get: "sc_get c' b full = sc_get c b full" and put: "sc_put c' b full = sc_put c b full"
    and del: "sc_delete c' b full = sc_delete c b full"
    and list: "lq_prefix query = full \<Longrightarrow> sc_list c' b query = sc_list c b query"
    if "build_key S key = Inr full" for b full key query
    using own build_key_below [OF that] by simp_all
  have "put_object_internal E X (S\<lparr>sx_client := c'\<rparr>) key data ct s = put_object_internal E X S key data ct s" for key data ct s
    by (cases "build_key S key") (simp_all add: put_object_internal_def lift_res_def c put cong: if_cong)
  moreover have "s3_handle_get E X (S\<lparr>sx_client := c'\<rparr>) body s = s3_handle_get E X S body s"
    unfolding s3_handle_get_def client_irrelevant client_irrelevant_cipher
    by (cases "se_get_request X body"; cases "build_key S (projr (se_get_request X body))") (simp_all add: lift_res_def c get)
  moreover have "s3_handle_delete E X (S\<lparr>sx_client := c'\<rparr>) body s = s3_handle_delete E X S body s"
    by (cases "se_delete_request X body"; cases "build_key S (projr (se_delete_request X body))")
       (simp_all add: s3_handle_delete_def lift_res_def c del)
  moreover have "s3_handle_list E X (S\<lparr>sx_client := c'\<rparr>) body s = s3_handle_list E X S body s"
    by (cases "se_list_request X body"; cases "build_key S (unwrap_or [] (lr_prefix (projr (se_list_request X body))))")
       (simp_all add: s3_handle_list_def lift_res_def c list s3_list_query_of_def)
  ultimately show ?thesis by (simp add: s3_handle_put_def)
qed

subsection \<open>Data keys and associated data\<close>

lemma str_bytes_inj: "str_bytes a = str_bytes b \<longleftrightarrow> a = b"
proof -
  have "inj (of_char :: char \<Rightarrow> u8)"
  proof (rule injI)
    fix c d :: char
    assume "(of_char c :: u8) = of_char d"
    then have "unat (of_nat (of_char c) :: u8) = unat (of_nat (of_char d) :: u8)"
      unfolding of_nat_of_char by simp
    then have "(of_char c :: nat) = of_char d"
      using nat_of_char_less_256 [of c] nat_of_char_less_256 [of d] by (simp add: unat_of_nat)
    then show "c = d" by simp
  qed
  then show ?thesis by (simp add: str_bytes_def inj_map_eq_map)
qed

lemma str_bytes_Nil [simp]: "str_bytes a = [] \<longleftrightarrow> a = []"
  by (simp add: str_bytes_def)

text \<open>Two splittings of texts with different separators at the same places.\<close>

lemma separators_agree:
  assumes "x \<noteq> y" and "v @ x # k = v' @ x # k'" and "v @ y # k = v' @ y # k'"
  shows "v = v' \<and> k = k'"
  using assms(2,3)
proof (induction v arbitrary: v')
  case Nil
  show ?case
  proof (cases v')
    case (Cons b w)
    then have "x = b" "y = b"
      using arg_cong [OF Nil.prems(1), of hd] arg_cong [OF Nil.prems(2), of hd] by simp_all
    then show ?thesis using assms(1) by simp
  qed (use Nil.prems in simp)
next
  case (Cons a v)
  show ?case
  proof (cases v')
    case Nil
    then have "a = x" "a = y"
      using arg_cong [OF Cons.prems(1), of hd] arg_cong [OF Cons.prems(2), of hd] by simp_all
    then show ?thesis using assms(1) by simp
  next
    case (Cons b w)
    then show ?thesis using Cons.prems Cons.IH [of w] by simp
  qed
qed

lemma path_determines_version: "dek_path key v = dek_path key v' \<longleftrightarrow> v = v'"
  by (simp add: dek_path_def)

text \<open>The path of the data key and the associated data together name the object.\<close>

lemma path_and_aad_name_object:
  assumes "dek_path key v = dek_path key' v'" and "build_aad key v m = build_aad key' v' m'"
    and "m \<noteq> AadNone" and "key \<noteq> []"
  shows "key' = key \<and> v' = v"
proof -
  have path: "v @ ''/'' @ key = v' @ ''/'' @ key'" using assms(1) by (simp add: dek_path_def)
  have len: "length v + length key = length v' + length key'" 
    using arg_cong [OF path, of length] by simp
  show ?thesis
  proof (cases m; cases m'; (thin_tac "dek_path _ _ = _")?)
    assume "m = AadKey" "m' = AadKeyAndVersion"
    then have "key = v' @ '':'' @ key'" using assms(2) by (simp add: str_bytes_inj)
    then show ?thesis using len by simp
  next
    assume "m = AadKeyAndVersion" "m' = AadKey"
    then have "v @ '':'' @ key = key'" using assms(2) by (simp add: str_bytes_inj)
    then show ?thesis using len by auto
  next
    assume "m = AadKeyAndVersion" "m' = AadKeyAndVersion"
    then have "v @ CHR '':'' # key = v' @ CHR '':'' # key'" using assms(2) by (simp add: str_bytes_inj)
    then show ?thesis using separators_agree [of "CHR '':''" "CHR ''/''" v key v' key'] path by simp
  qed (use assms path in \<open>auto simp: str_bytes_inj\<close>)
qed

text \<open>
  Without associated data it is not so: the version in the path comes from the metadata, and moving a
  slash from the key to the version gives the same data key for another object.
\<close>

lemma object_renamed_without_aad:
  "dek_path ''a/b'' ''v1'' = dek_path ''b'' ''v1/a''" "build_aad ''a/b'' ''v1'' AadNone = build_aad ''b'' ''v1/a'' AadNone"
  by (simp_all add: dek_path_def)

lemma object_key_derived:
  assumes "object_key E X S key v s = (s', Inr dek)"
  shows "\<exists>P u. sx_nova_kms S = Some P \<and> derive_key E P (dek_path key v) [] 32 s = (u, Inr dek) \<and> length dek = 32"
  using assms by (auto simp: object_key_def current_nova_kms_def result_elims)

text \<open>Breaking the cipher, or the derivation of keys.\<close>

definition aead_forgery :: "'w s3_env \<Rightarrow> bytes \<Rightarrow> bool" where
  "aead_forgery X c \<longleftrightarrow>
     (\<exists>k n p a k' n' p' a'. se_seal X k n p a = Inr c \<and> se_open X k' n' c a' = Inr p' \<and> (k', n', p', a') \<noteq> (k, n, p, a))"

definition kdf_collision :: "('k, 'w) kms_env \<Rightarrow> nova_kms \<Rightarrow> bool" where
  "kdf_collision E P \<longleftrightarrow>
     (\<exists>path path' k s s' u u'. path \<noteq> path' \<and> derive_key E P path [] 32 s = (s', Inr k) \<and>
        derive_key E P path' [] 32 u = (u', Inr k))"


subsection \<open>Reading back\<close>

text \<open>
  What reading back rests on: the store returns the object last put under a key, nonces have twelve
  bytes, the cipher can be undone, and the KMS derives one key per path.
\<close>

definition returns_last_put :: "'w s3_client \<Rightarrow> string \<Rightarrow> bool" where
  "returns_last_put c b \<longleftrightarrow>
     (\<forall>full data ct md w w'. sc_put c b full data ct md w = (w', Inr ()) \<longrightarrow>
        (\<exists>w''. sc_get c b full w' =
           (w'', Inr \<lparr>so_content_type = ct, so_metadata = Some (map_of md), so_body = Inr data\<rparr>)))"

definition cipher_inverts :: "'w s3_env \<Rightarrow> bool" where
  "cipher_inverts X \<longleftrightarrow>
     (\<forall>w. length (snd (se_nonce X w)) = 12) \<and> (\<forall>k n p a c. se_seal X k n p a = Inr c \<longrightarrow> se_open X k n c a = Inr p)"

definition derives_one_key :: "('k, 'w) kms_env \<Rightarrow> bool" where
  "derives_one_key E \<longleftrightarrow>
     (\<forall>P path y y' z z' k k'. derive_key E P path [] 32 y = (y', Inr k) \<longrightarrow>
        derive_key E P path [] 32 z = (z', Inr k') \<longrightarrow> k = k')"

lemma put_object_stored:
  assumes put: "put_object_internal E X S key value ct s = (s1, Inr ())"
    and store: "returns_last_put (sx_client S) (sx_bucket S)"
  shows "\<exists>full w data md. build_key S key = Inr full \<and>
    sc_get (sx_client S) (sx_bucket S) full (ks_world s1) =
      (w, Inr \<lparr>so_content_type = ct, so_metadata = Some (map_of md), so_body = Inr data\<rparr>) \<and>
    (if kms_encryption_enabled S
     then \<exists>u u' nonce_hex v m. encrypt_for_s3 E X S key value u = (u', Inr (data, nonce_hex, v, m)) \<and>
            md = encryption_metadata nonce_hex v m ct
     else data = value \<and> md = [])"
proof -
  obtain full where full: "build_key S key = Inr full" using put by (auto simp: put_object_internal_def result_elims)
  obtain u data md where d: "(if kms_encryption_enabled S then
              sbind (encrypt_for_s3 E X S key value s) (\<lambda>s (ciphertext, nonce_hex, version, mode).
              (s, Inr (ciphertext, encryption_metadata nonce_hex version mode ct)))
            else (s, Inr (value, []))) = (u, Inr (data, md))"
    and "lift_res (u\<lparr>ks_world := fst (sc_put (sx_client S) (sx_bucket S) full data ct md (ks_world u))\<rparr>)
        (snd (sc_put (sx_client S) (sx_bucket S) full data ct md (ks_world u))) = (s1, Inr ())"
    using put full unfolding put_object_internal_def case_prod_unfold by (auto simp: result_elims)
  then have w: "sc_put (sx_client S) (sx_bucket S) full data ct md (ks_world u) = (ks_world s1, Inr ())"
    by (cases "sc_put (sx_client S) (sx_bucket S) full data ct md (ks_world u)") (auto simp: lift_res_def result_elims)
  have "if kms_encryption_enabled S
     then \<exists>u u' nonce_hex v m. encrypt_for_s3 E X S key value u = (u', Inr (data, nonce_hex, v, m)) \<and>
            md = encryption_metadata nonce_hex v m ct
     else data = value \<and> md = []"
    using d by (auto simp: result_elims) blast
  with full store w show ?thesis unfolding returns_last_put_def by blast
qed

lemma decrypt_encrypted:
  assumes enc: "encrypt_for_s3 E X S key value u = (u', Inr (data, nonce_hex, v, m))"
    and cipher: "cipher_inverts X" and hex: "\<And>w. kx_unhex (ke_text E) (kx_hex (ke_text E) (snd (se_nonce X w))) = Inr (snd (se_nonce X w))"
    and kdf: "derives_one_key E"
  shows "(\<exists>t. decrypt_if_needed E X S key data (map_of (encryption_metadata nonce_hex v m ct)) s = (t, Inr value)) \<or>
    (\<exists>t e. object_key E X S key (key_version S) s = (t, Inl e) \<and>
       decrypt_if_needed E X S key data (map_of (encryption_metadata nonce_hex v m ct)) s = (t, Inl e))"
proof -
  define md where "md = map_of (encryption_metadata nonce_hex v m ct)"
  obtain y dek nonce where k: "object_key E X S key (key_version S) u = (y, Inr dek)"
    and n: "nonce = snd (se_nonce X (ks_world y))"
    and seal: "se_seal X dek nonce value (build_aad key (key_version S) (aad_mode S)) = Inr data"
    and out: "nonce_hex = kx_hex (ke_text E) nonce" "v = key_version S" "m = aad_mode_label (aad_mode S)"
    using enc unfolding encrypt_for_s3_def Let_def case_prod_unfold by (auto simp: result_elims)
  have md: "md META_ENC_SCHEME = Some ENC_SCHEME_KMS_V1" "md META_NONCE = Some (kx_hex (ke_text E) nonce)"
    "md META_KEY_VERSION = Some (key_version S)" "md META_AAD_MODE = Some (aad_mode_label (aad_mode S))"
    by (simp_all add: md_def out encryption_metadata_def META_ENC_SCHEME_def META_NONCE_def META_KEY_VERSION_def META_AAD_MODE_def)
  have mode: "aad_mode_of S (Some (aad_mode_label (aad_mode S))) = aad_mode S"
    by (cases "aad_mode S") (simp_all add: aad_mode_of_def)
  have nn: "nonce_of (ke_text E) md = Inr nonce" using cipher by (simp add: nonce_of_def md hex n cipher_inverts_def)
  have dec: "decrypt_if_needed E X S key data md s =
      sbind (object_key E X S key (key_version S) s) (\<lambda>s k.
        lift_res s (map_err (\<lambda>e. ''S3 decrypt failed: '' @ e) (se_open X k nonce data (build_aad key (key_version S) (aad_mode S)))))"
  proof -
    have "lift_res s (Inr nonce) = (s, Inr nonce)" by (simp add: lift_res_def)
    then show ?thesis
      unfolding decrypt_if_needed_def md nn mode unwrap_or_simps Let_def by (simp only: sbind_simps simp_thms if_False)
  qed
  obtain t r where r: "object_key E X S key (key_version S) s = (t, r)" by fastforce
  show ?thesis
  proof (cases r)
    case (Inl e)
    then show ?thesis using dec r by (simp add: md_def)
  next
    case (Inr dek')
    have "dek' = dek"
      using object_key_derived [OF k] object_key_derived [of E X S key "key_version S" s t dek'] r Inr kdf unfolding derives_one_key_def by fastforce
    moreover have "se_open X dek nonce data (build_aad key (key_version S) (aad_mode S)) = Inr value"
      using cipher seal by (simp add: cipher_inverts_def)
    ultimately show ?thesis using dec r Inr by (simp add: md_def lift_res_def)
  qed
qed


subsection \<open>A concrete store\<close>

text \<open>A store that holds one object, and toy ciphers, beside the KMS world of the witnesses.\<close>

definition demo_data :: bytes where "demo_data = replicate 32 0"

definition demo_object :: s3_object where
  "demo_object = \<lparr>so_content_type = None,
     so_metadata = Some (map_of (encryption_metadata (replicate 24 (CHR ''a'')) ''v1'' ''key'' None)), so_body = Inr demo_data\<rparr>"

definition demo_client :: "unit s3_client" where
  "demo_client = \<lparr>sc_get = (\<lambda>b key w. (w, if key = ''app1/k'' then Inr demo_object else Inl NoSuchKey)),
     sc_put = (\<lambda>b key data ct md w. (w, if key = ''app1/k'' \<and> data = demo_data \<and> ct = None \<and> Some (map_of md) = so_metadata demo_object
        then Inr () else Inl [])),
     sc_delete = (\<lambda>b key w. (w, Inr ())), sc_list = (\<lambda>b q w. (w, Inl []))\<rparr>"

definition demo_s3 :: "unit s3_env" where
  "demo_s3 = \<lparr>se_new_cipher = (\<lambda>_. Inr ()), se_seal = (\<lambda>k n p a. Inr p), se_open = (\<lambda>k n c a. Inr c),
     se_nonce = (\<lambda>w. (w, replicate 12 0)), se_error_text = (\<lambda>_. []), se_get_request = (\<lambda>_. Inr ''k''),
     se_put_request = (\<lambda>_. Inr \<lparr>pr_key = ''k'', pr_value = [], pr_content_type = None\<rparr>),
     se_delete_request = (\<lambda>_. Inr ''k''), se_list_request = (\<lambda>_. Inl [])\<rparr>"

definition demo_s3_proxy :: "unit s3_proxy" where
  "demo_s3_proxy = (S3Proxy_new demo_client ''b'' ''app1'' (Some \<lparr>s3e_mode = Kms, s3e_key_scope = ScopeObject,
     s3e_aad_mode = AadKey, s3e_key_version = ''v1'', s3e_accept_plaintext = False\<rparr>))\<lparr>sx_nova_kms := Some demo_proxy\<rparr>"

lemma demo_s3_fields:
  "sx_client demo_s3_proxy = demo_client" "sx_prefix demo_s3_proxy = ''app1/''" "sx_nova_kms demo_s3_proxy = Some demo_proxy"
  "kms_encryption_enabled demo_s3_proxy" "\<not> accept_plaintext demo_s3_proxy" "key_version demo_s3_proxy = ''v1''"
  "aad_mode demo_s3_proxy = AadKey" "build_key demo_s3_proxy ''k'' = Inr ''app1/k''"
  by (simp_all add: demo_s3_proxy_def S3Proxy_new_def ends_with_def kms_encryption_enabled_def accept_plaintext_def key_version_def
      aad_mode_def build_key_def starts_with_def)

lemma demo_derive:
  assumes "demo_good s"
  shows "\<exists>s'. derive_key demo_kms demo_proxy (dek_path ''k'' ''v1'') [] 32 s = (s', Inr (replicate 32 0)) \<and> demo_good s'"
proof -
  have "trim ''s3/v1/k'' = ''s3/v1/k''" by (rule trim_visible) (simp add: visible_ascii_def)
  moreover obtain s' where "call_kms_json_internal demo_kms demo_proxy MPost ''/kms/derive'' (Some (JObject
      [(''path'', JString ''s3/v1/k''), (''context'', JString []), (''length'', JNumber (show_nat 32))])) s = (s', Inr demo_answer)"
    "demo_good s'" using demo_kms_call [OF assms] by blast
  moreover have "json_str ''key'' demo_answer = Some ''k''" by (simp add: demo_answer_def json_str_def json_get_def)
  moreover have "kx_unbase64 demo_text ''k'' = Inr (replicate 32 0)" by (simp add: demo_text_def)
  ultimately show ?thesis
    by (simp add: derive_key_def dek_path_def is_reserved_derive_path_def lift_res_def)
       (simp add: demo_proxy_def DEFAULT_KMS_RESERVED_DERIVE_PREFIXES_def starts_with_def)
qed

lemma demo_object_key:
  assumes "demo_good s"
  shows "\<exists>s'. object_key demo_kms demo_s3 demo_s3_proxy ''k'' ''v1'' s = (s', Inr (replicate 32 0)) \<and> demo_good s'"
  using demo_derive [OF assms]
  by (auto simp: object_key_def current_nova_kms_def demo_s3_fields lift_res_def demo_s3_def)

lemma demo_encrypt:
  assumes "demo_good s"
  shows "\<exists>s'. encrypt_for_s3 demo_kms demo_s3 demo_s3_proxy ''k'' demo_data s =
     (s', Inr (demo_data, replicate 24 (CHR ''a''), ''v1'', ''key'')) \<and> demo_good s'"
  using demo_object_key [OF assms]
  by (auto simp: encrypt_for_s3_def demo_s3_fields lift_res_def) (simp add: demo_s3_def)

lemma demo_decrypt:
  assumes "demo_good s"
  shows "\<exists>s'. decrypt_if_needed demo_kms demo_s3 demo_s3_proxy ''k'' demo_data (the (so_metadata demo_object)) s = (s', Inr demo_data)"
proof -
  have md: "the (so_metadata demo_object) META_ENC_SCHEME = Some ENC_SCHEME_KMS_V1"
    "the (so_metadata demo_object) META_NONCE = Some (replicate 24 (CHR ''a''))"
    "the (so_metadata demo_object) META_KEY_VERSION = Some ''v1''" "the (so_metadata demo_object) META_AAD_MODE = Some ''key''"
    by (simp_all add: demo_object_def encryption_metadata_def META_ENC_SCHEME_def META_NONCE_def META_KEY_VERSION_def META_AAD_MODE_def)
  show ?thesis using demo_object_key [OF assms]
    by (auto simp: decrypt_if_needed_def md nonce_of_def lift_res_def Let_def aad_mode_of_def demo_s3_fields) (simp_all add: demo_s3_def)
qed



theorem s3_applications_isolated_witness:
  "s3_handle_get demo_kms demo_s3 (demo_s3_proxy\<lparr>sx_client :=
      demo_client\<lparr>sc_get := \<lambda>b key w. if prefix ''app10/'' key then (w, Inr demo_object) else sc_get demo_client b key w\<rparr>\<rparr>) [] demo_start =
   s3_handle_get demo_kms demo_s3 demo_s3_proxy [] demo_start"
proof -
  let ?c = "demo_client\<lparr>sc_get := \<lambda>b key w. if prefix ''app10/'' key then (w, Inr demo_object) else sc_get demo_client b key w\<rparr>"
  have q: "sx_prefix (S3Proxy_new demo_client ''b'' ''app10'' None) = ''app10/''"
    by (simp add: S3Proxy_new_def ends_with_def)
  have "parallel (sx_prefix (S3Proxy_new demo_client ''b'' ''app10'' None)) (sx_prefix demo_s3_proxy)"
    using slash_free_parallel [of "''app10''" "''app1''"] by (simp add: q demo_s3_fields)
  moreover have "same_outside (sx_prefix (S3Proxy_new demo_client ''b'' ''app10'' None)) demo_client ?c"
    by (simp add: same_outside_def q fun_eq_iff)
  ultimately show ?thesis
    using s3_applications_isolated [OF demo_s3_proxy_def] by blast
qed

end
