(* ===== verification/Aws_Util.thy ===== *)
theory Aws_Util
  imports Rust_Std
begin

text \<open>
  The configuration of the AWS clients (\<open>integrations/aws_util.rs\<close>): HTTP through the egress proxy, and the
  region and credentials of the instance, which are asked for until they are there.  Delays are in milliseconds.
\<close>

subsection \<open>HTTP through the proxy\<close>

datatype connector_error = ConnectorUser string

text \<open>A call: every failure, of the request, the exchange, the body or the response, is an error of the user's.\<close>

definition proxied_call ::
  "('q \<Rightarrow> (string, 'h) result) \<Rightarrow> ('h \<Rightarrow> 'w \<Rightarrow> 'w \<times> (string, 'p \<times> 'b) result) \<Rightarrow> ('b \<Rightarrow> 'w \<Rightarrow> 'w \<times> (string, bytes) result)
     \<Rightarrow> ('p \<Rightarrow> bytes \<Rightarrow> (string, 'r) result) \<Rightarrow> 'q \<Rightarrow> 'w \<Rightarrow> 'w \<times> (connector_error, 'r) result" where
  "proxied_call try_into_http1x request collect try_from q w =
     sbind (w, map_err ConnectorUser (try_into_http1x q)) (\<lambda>w req.
     sbind (case request req w of (w, r) \<Rightarrow> (w, map_err ConnectorUser r)) (\<lambda>w (head, body).
     sbind (case collect body w of (w, r) \<Rightarrow> (w, map_err ConnectorUser r)) (\<lambda>w bytes.
     (w, map_err ConnectorUser (try_from head bytes)))))"

subsection \<open>The instance metadata service\<close>

definition IMDS_MAX_ATTEMPTS :: nat where "IMDS_MAX_ATTEMPTS = 15"
definition IMDS_FIRST_DELAY :: nat where "IMDS_FIRST_DELAY = 250"
definition IMDS_MAX_DELAY :: nat where "IMDS_MAX_DELAY = 3000"

definition imds_none :: "nat \<Rightarrow> string" where
  "imds_none attempt = ''IMDS region provider returned None (attempt '' @ show_nat attempt @ '')''"

text \<open>The loop: the delays slept and the region found, with which the configuration is built.\<close>

fun imds_attempts :: "(nat \<Rightarrow> 'r option) \<Rightarrow> nat \<Rightarrow> nat \<Rightarrow> string \<Rightarrow> nat \<Rightarrow> nat list \<times> (string, 'r) result" where
  "imds_attempts region attempt retry_delay last_err 0 = ([], Inl last_err)"
| "imds_attempts region attempt retry_delay last_err (Suc n) =
     (let (slept, retry_delay) =
            (if attempt > 0
             then ([retry_delay], if retry_delay * 2 > IMDS_MAX_DELAY then IMDS_MAX_DELAY else retry_delay * 2)
             else ([], retry_delay))
      in case region attempt of
           Some r \<Rightarrow> (slept, Inr r)
         | None \<Rightarrow>
             (case imds_attempts region (Suc attempt) retry_delay (imds_none (Suc attempt)) n of
                (later, res) \<Rightarrow> (slept @ later, res)))"

definition load_config_from_imds :: "(nat \<Rightarrow> 'r option) \<Rightarrow> nat list \<times> (string, 'r) result" where
  "load_config_from_imds region =
     imds_attempts region 0 IMDS_FIRST_DELAY ''failed to fetch the region from IMDS'' IMDS_MAX_ATTEMPTS"

subsection \<open>Facts\<close>

text \<open>The first answer is returned; without one in fifteen attempts the error of the last is.\<close>

lemma imds_attempts_result:
  "snd (imds_attempts region attempt delay err n) =
     (case List.find (\<lambda>i. region i \<noteq> None) [attempt..<attempt + n] of
        Some i \<Rightarrow> Inr (the (region i))
      | None \<Rightarrow> Inl (if n = 0 then err else imds_none (attempt + n)))"
proof (induction n arbitrary: attempt delay err)
  case (Suc n)
  have range: "[attempt..<attempt + Suc n] = attempt # [Suc attempt..<Suc attempt + n]" by (simp add: upt_conv_Cons del: upt_Suc)
  have step: "snd (imds_attempts region attempt delay err (Suc n)) = (case region attempt of Some r \<Rightarrow> Inr r
      | None \<Rightarrow> snd (imds_attempts region (Suc attempt) (if attempt > 0 then min (delay * 2) IMDS_MAX_DELAY else delay) (imds_none (Suc attempt)) n))"
    by (auto simp: Let_def min_def split: option.splits prod.splits)
  show ?case unfolding step Suc.IH range by (cases "region attempt") (auto split: option.splits)
qed simp

lemma imds_attempts_delays:
  "delay \<le> IMDS_MAX_DELAY \<Longrightarrow> length (fst (imds_attempts region attempt delay err n)) \<le> n \<and>
     (\<forall>d \<in> set (fst (imds_attempts region attempt delay err n)). d \<le> IMDS_MAX_DELAY)"
proof (induction n arbitrary: attempt delay err)
  case (Suc n)
  obtain d1 where d1: "d1 = (if attempt > 0 then (if delay * 2 > IMDS_MAX_DELAY then IMDS_MAX_DELAY else delay * 2) else delay)" by simp
  have "d1 \<le> IMDS_MAX_DELAY" using Suc.prems by (simp add: d1)
  from Suc.IH [OF this, of "Suc attempt" "imds_none (Suc attempt)"] show ?case
    using Suc.prems by (auto simp: Let_def d1 split: option.splits prod.splits if_splits)
qed simp

lemma load_config_from_imds_result:
  "snd (load_config_from_imds region) =
     (case List.find (\<lambda>i. region i \<noteq> None) [0..<15] of Some i \<Rightarrow> Inr (the (region i)) | None \<Rightarrow> Inl (imds_none 15))"
  by (simp only: load_config_from_imds_def imds_attempts_result IMDS_MAX_ATTEMPTS_def add_0) simp

text \<open>Without an answer the fourteen delays add up to less than thirty-four seconds.\<close>

lemma imds_gives_up: "sum_list (fst (load_config_from_imds (\<lambda>_. None))) = 33750"
proof -
  have n: "IMDS_MAX_ATTEMPTS = Suc (Suc (Suc (Suc (Suc (Suc (Suc (Suc (Suc (Suc (Suc (Suc (Suc (Suc (Suc 0))))))))))))))"
    by (simp add: IMDS_MAX_ATTEMPTS_def)
  show ?thesis unfolding load_config_from_imds_def n by (simp add: IMDS_FIRST_DELAY_def IMDS_MAX_DELAY_def)
qed

end
