(* ===== verification/Spec2Isabelle.thy ===== *)
theory Spec2Isabelle
  imports Runtime_Launch Listeners Capsule_Shell_Safety Api_Safety S3_Safety Aws_Util
begin

text \<open>
  A verification of Nova Enclave Capsule, the tool that packages an application image as an AWS Nitro
  enclave and runs it.  The sources are the Rust crate \<open>capsule-cli\<close>; file names below are relative to
  \<open>src/capsule-cli/src\<close>.

  \<^bold>\<open>The program.\<close>  \<open>capsule-cli build\<close> turns a manifest into an enclave image (the application image, the
  runtime and the manifest) and wraps it into a release image.  \<open>capsule-cli run\<close> starts the release image as
  a container with its ports and loopback mounts.  Inside that container \<open>capsule-shell\<close> chooses a managed CID,
  binds the host services (egress proxy, file proxies, time server), starts the enclave with \<open>nitro-cli\<close> and
  waits for its end.  Inside the enclave \<open>capsule-runtime\<close> starts its services (file mounts, egress, clock
  synchronisation, light clients, the Capsule API with the KMS and S3 integrations, the auxiliary API,
  ingress), runs the entrypoint and reports its end and its log over vsock.

  \<^bold>\<open>Conventions.\<close>  \<open>Result<T, E>\<close> is a sum with the error on the left, \<open>rbind\<close> is the question-mark operator and
  \<open>sbind\<close> the same for code that changes a state before it may fail (\<^verbatim>\<open>Capsule_Prelude\<close>).  Machine integers
  are words where they can overflow (ports, CIDs, lengths, sizes); texts are lists of characters that stand
  for UTF-8 bytes.  Code of other crates (curves, hashes and ciphers, serde, hyper, reqwest, bollard, the AWS
  SDK, Helios, the NSM driver, the operating system) is an argument: a field of a record of functions, most of
  them on a world that they may change.  What a property needs of it is a named hypothesis of that property,
  and its witness instantiates the argument by concrete functions.  A panic is a value of its own where it
  can happen.  Concurrency is an explicit sequence of steps, of events or of outcomes; a call that never
  returns is \<open>None\<close>.

  \<^bold>\<open>Shared theories.\<close>
  \<^item> \<^verbatim>\<open>Capsule_Prelude\<close>: results, fact collections, lists and words.
  \<^item> \<^verbatim>\<open>Rust_Std\<close>, \<^verbatim>\<open>Rust_Num\<close>, \<^verbatim>\<open>Rust_Net\<close>: what the code uses of Rust's \<open>str\<close>, \<open>Path\<close>, integer parsing and \<open>IpAddr\<close>.
  \<^item> \<^verbatim>\<open>Wire_Framing\<close>: length-prefixed frames, with the locale \<open>frame_codec\<close> that the file protocol and the egress
    handshake instantiate.
  \<^item> \<^verbatim>\<open>Watch_Stream\<close>: tasks that wait on a watch channel, with the locale \<open>watched_stream\<close> that the log and the
    status stream instantiate; no update is lost between a read and the wait.

  \<^bold>\<open>Manifest and policy.\<close>
  \<^item> \<^verbatim>\<open>Manifest\<close> (\<open>manifest.rs\<close>): the structures and every validation; parsing accepts exactly the manifests
    that satisfy a declarative predicate.
  \<^item> \<^verbatim>\<open>Policy\<close> (\<open>policy/\<close>): domain and address filters against their declarative meaning.
  \<^item> \<^verbatim>\<open>Runtime_Config\<close> (\<open>bin/capsule-runtime/config.rs\<close>, \<open>egress.rs\<close>), \<^verbatim>\<open>Vsock_Ports\<close> (\<open>runtime_vsock.rs\<close>,
    \<open>vsock.rs\<close>): accessors of the configuration; port blocks of enclaves that never overlap.

  \<^bold>\<open>Files of the host.\<close>
  \<^item> \<^verbatim>\<open>Host_Fs\<close>: the host's file system as a tree with symbolic links and the calls that the service makes.
  \<^item> \<^verbatim>\<open>Fs_Protocol\<close> (\<open>fs_protocol.rs\<close>), \<^verbatim>\<open>Hostfs_Service\<close> and \<^verbatim>\<open>Hostfs_Confinement\<close> (\<open>hostfs_service.rs\<close>): messages and
    their round trips; every request leaves what is outside the mount root as it was, and a read-only
    service changes nothing.
  \<^item> \<^verbatim>\<open>Hostfs_Client\<close> (\<open>hostfs_client.rs\<close>), \<^verbatim>\<open>Fs_Mount\<close> (\<open>bin/capsule-runtime/fs_mount.rs\<close>): the client refines direct
    calls of the service; the FUSE layer is proved against the locale \<open>fs_backend\<close>, interpreted by the service.
  \<^item> \<^verbatim>\<open>Hostfs_Loopback\<close> (\<open>hostfs.rs\<close>): bindings of mounts, preparation with roll-back, cleanup.

  \<^bold>\<open>Network.\<close>
  \<^item> \<^verbatim>\<open>Egress_Proxy\<close> (\<open>proxy/egress_http.rs\<close>): only hosts that the policy allows are dialled.
  \<^item> \<^verbatim>\<open>Listeners\<close> (\<open>proxy/ingress.rs\<close> and the accept loops of all servers): the locale \<open>accept_loop\<close>, its extension
    \<open>tireless_loop\<close> and their interpretations; the way of an ingress connection from host to application.
  \<^item> \<^verbatim>\<open>Http_Util\<close> (\<open>http_util.rs\<close>): requests with a bounded body.

  \<^bold>\<open>Keys and the APIs.\<close>
  \<^item> \<^verbatim>\<open>Spki_Der\<close>, \<^verbatim>\<open>Enclave_Keys\<close> (\<open>encryption_key.rs\<close>, \<open>eth_key.rs\<close>, \<open>nsm.rs\<close>): DER of P-384 keys, encryption between client
    and enclave, the security module.
  \<^item> \<^verbatim>\<open>Eth_Tx\<close> (\<open>eth_tx.rs\<close>): RLP and EIP-1559 transactions.
  \<^item> \<^verbatim>\<open>Capsule_Api\<close>, \<^verbatim>\<open>Aux_Api\<close>, \<^verbatim>\<open>Api_Safety\<close> (\<open>capsule_api.rs\<close>, \<open>aux_api.rs\<close>): every route; replays are refused,
    attestations speak for the enclave's key, keys come from the security module.

  \<^bold>\<open>KMS, storage and light clients.\<close>
  \<^item> \<^verbatim>\<open>Kms_Text\<close>, \<^verbatim>\<open>Kms_Nodes\<close>, \<^verbatim>\<open>Kms_Client\<close>, \<^verbatim>\<open>Kms_Registry\<close>, \<^verbatim>\<open>Kms_Calls\<close>, \<^verbatim>\<open>Kms_Wallet\<close> (\<open>integrations/nova_kms.rs\<close>,
    \<open>nova_kms/app_wallet.rs\<close>): the client of the distributed KMS, in the order of the file.
  \<^item> \<^verbatim>\<open>Kms_Frames\<close>, \<^verbatim>\<open>Kms_Safety\<close>, \<^verbatim>\<open>Kms_Witnesses\<close>: the locales \<open>kms_world\<close>, \<open>kms_identity\<close>, \<open>kms_node_cache\<close> and their
    extensions carry a state invariant through every operation; they are interpreted for three invariants
    (trusted nodes, authorisation, the app wallet) and give the properties for all reachable states.
  \<^item> \<^verbatim>\<open>S3_Proxy\<close>, \<^verbatim>\<open>S3_Safety\<close> (\<open>integrations/s3.rs\<close>): objects are bound to their keys, are read back, and
    applications are isolated; \<^verbatim>\<open>Aws_Util\<close> (\<open>integrations/aws_util.rs\<close>): the bounded wait for the region.
  \<^item> \<^verbatim>\<open>Helios_Rpc\<close>, \<^verbatim>\<open>Helios_Safety\<close> (\<open>bin/capsule-runtime/helios_rpc.rs\<close>): checkpoints, RPC selection, readiness.

  \<^bold>\<open>The runtime in the enclave.\<close>
  \<^item> \<^verbatim>\<open>Launcher\<close> (\<open>launcher.rs\<close>), \<^verbatim>\<open>Console\<close> (\<open>console.rs\<close>), \<^verbatim>\<open>Clock_Sync\<close> (\<open>clock_sync.rs\<close>): reaping, log and status
    streams, the accuracy of a synchronisation.
  \<^item> \<^verbatim>\<open>Runtime_Services\<close>, \<^verbatim>\<open>Runtime_Launch\<close> (\<open>capsule_api.rs\<close>, \<open>aux_api.rs\<close>, \<open>ingress.rs\<close>, \<open>enclave.rs\<close>, \<open>main.rs\<close> of the runtime):
    the services start in their order, stop in reverse, and the KMS waits for its light client.

  \<^bold>\<open>The host.\<close>
  \<^item> \<^verbatim>\<open>Nitro_Cli\<close> (\<open>nitro_cli.rs\<close>), \<^verbatim>\<open>Host_Run\<close>, \<^verbatim>\<open>Host_Run_Safety\<close> (\<open>run.rs\<close>, \<open>proxy/fs_host.rs\<close>): starting with retries over CIDs,
    waiting for the end, cleanup; the ports of host and enclave agree, and the end of the entrypoint is reported.
  \<^item> \<^verbatim>\<open>Images\<close> (\<open>images.rs\<close>, \<open>nitro_cli_container.rs\<close>), \<^verbatim>\<open>Build\<close>, \<^verbatim>\<open>Build_Safety\<close> (\<open>build.rs\<close>): the images hold what the
    programs in them load, and a conversion leaves nothing in the daemon.
  \<^item> \<^verbatim>\<open>Capsule_Shell\<close>, \<^verbatim>\<open>Capsule_Shell_Safety\<close> (\<open>run_container.rs\<close>, \<open>bin/capsule-cli/main.rs\<close>, \<open>bin/capsule-shell/main.rs\<close>): running
    a release image, its interruption by a signal at any point where it waits, cleanup and exit codes.

  \<^bold>\<open>Bounds and fuel.\<close>  Loops with a limit in the code recurse over what is left of it (retries of CIDs, of bindings,
    of the registry, of checkpoints, of IMDS).  The start loop of the host terminates by the number of rejected
    CIDs; draining the log is a \<open>partial_function\<close> and is proved to return.  Reads of streams and
    successive connections are lists of their outcomes: an exhausted list means that the call is still waiting,
    so that results are stated for every list.  Path resolution on the host's file system counts symbolic links
    as the kernel does (40), after which it fails with \<open>ELOOP\<close>.

  \<^bold>\<open>Not modelled.\<close>  Logging, argument parsing, task spawning and signal registration (\<open>utils.rs\<close>); the wrappers
    around crates in \<open>keypair.rs\<close>, \<open>crypto.rs\<close> and \<open>http_client.rs\<close>; the build script; the unit tests; container images,
    scripts and examples.  Bytes inside proxied connections are copied by \<open>tokio\<close> and are not followed.
    Cryptography is an argument: properties that need it state the property of the primitive, or name its
    breach as an alternative of the conclusion.
\<close>

end
